(* ===== verification/Prelude.thy ===== *)
theory Prelude
  imports Complex_Main "HOL-Library.List_Lexorder" "HOL-Library.Char_ord" "HOL-Library.Multiset"
    "HOL-Library.Sublist"
begin

text \<open>
  Shared vocabulary of the development. The program talks to its store through the
  PostgREST query builder of the Supabase client (\<open>.eq\<close>, \<open>.in\<close>, \<open>.not(..,'in',..)\<close>,
  \<open>.order\<close>, \<open>.limit\<close>, \<open>.single\<close>, \<open>.maybeSingle\<close>); this theory gives each builder
  call a list function over the rows of a table, the JavaScript truthiness tests the
  code applies to form fields and query results, and the lemmas on these functions
  that the component theories share. Identifiers are strings (UUIDs in the store).
\<close>

named_theorems query_simps "rewrite rules of the query combinators"

type_synonym uuid = string

text \<open>The placeholder UUID the home page puts in an empty exclusion list.\<close>

definition nil_uuid :: uuid where
  "nil_uuid = ''00000000-0000-0000-0000-000000000000''"

subsection \<open>JavaScript truthiness\<close>

text \<open>
  \<open>FormData.get\<close> returns a string or \<open>null\<close>; \<open>x || d\<close> picks \<open>d\<close> when \<open>x\<close> is
  \<open>null\<close> or the empty string. \<open>Array.filter(Boolean)\<close> on optional ids keeps the
  non-null, non-empty ones.
\<close>

fun js_truthy_str :: "string option \<Rightarrow> bool" where
  "js_truthy_str None = False"
| "js_truthy_str (Some s) = (s \<noteq> [])"

definition or_null :: "string option \<Rightarrow> string option" where
  "or_null s = (if js_truthy_str s then s else None)"

definition or_default :: "string option \<Rightarrow> string \<Rightarrow> string" where
  "or_default s d = (case s of Some v \<Rightarrow> if v \<noteq> [] then v else d | None \<Rightarrow> d)"

fun truthy_ids :: "uuid option list \<Rightarrow> uuid list" where
  "truthy_ids [] = []"
| "truthy_ids (None # xs) = truthy_ids xs"
| "truthy_ids (Some x # xs) = (if x = [] then truthy_ids xs else x # truthy_ids xs)"

subsection \<open>Query results\<close>

text \<open>
  A Supabase call resolves to \<open>{data, error}\<close>; on failure \<open>data\<close> is \<open>null\<close>. A call
  that may fail is modelled by a flag: \<open>run_query True rows = None\<close>. The code reads
  \<open>data || []\<close> or \<open>if (data)\<close>, written \<open>data_or_empty\<close>.
\<close>

definition run_query :: "bool \<Rightarrow> 'a list \<Rightarrow> 'a list option" where
  "run_query fails rows = (if fails then None else Some rows)"

definition data_or_empty :: "'a list option \<Rightarrow> 'a list" where
  "data_or_empty d = (case d of None \<Rightarrow> [] | Some xs \<Rightarrow> xs)"

text \<open>
  \<open>.single()\<close> and \<open>.maybeSingle()\<close> return the row as \<open>data\<close> when exactly one row
  matches and \<open>null\<close> otherwise; \<open>.single()\<close> reports an error unless one row matches,
  \<open>.maybeSingle()\<close> only when more than one does.
\<close>

definition single_data :: "'a list \<Rightarrow> 'a option" where
  "single_data xs = (case xs of [x] \<Rightarrow> Some x | _ \<Rightarrow> None)"

definition maybe_single_error :: "'a list \<Rightarrow> bool" where
  "maybe_single_error xs = (1 < length xs)"

subsection \<open>Query builder combinators\<close>

definition where_in :: "('r \<Rightarrow> 'a) \<Rightarrow> 'a list \<Rightarrow> 'r list \<Rightarrow> 'r list" where
  "where_in col vs rs = filter (\<lambda>r. col r \<in> set vs) rs"

definition where_not_in :: "('r \<Rightarrow> 'a) \<Rightarrow> 'a list \<Rightarrow> 'r list \<Rightarrow> 'r list" where
  "where_not_in col vs rs = filter (\<lambda>r. col r \<notin> set vs) rs"

text \<open>
  \<open>.order(col, {ascending})\<close>. The store does not fix the order of rows with equal
  keys; the model keeps them in table order (a stable sort in both directions).
\<close>

definition order_by :: "('r \<Rightarrow> 'k::linorder) \<Rightarrow> bool \<Rightarrow> 'r list \<Rightarrow> 'r list" where
  "order_by key asc rs = (if asc then sort_key key rs else rev (sort_key key (rev rs)))"

subsection \<open>Shared lemmas\<close>

lemma run_query_simps [simp, query_simps]:
  "run_query False rows = Some rows"
  "run_query True rows = None"
  by (simp_all add: run_query_def)

lemma data_or_empty_simps [simp, query_simps]:
  "data_or_empty None = []"
  "data_or_empty (Some xs) = xs"
  by (simp_all add: data_or_empty_def)

lemma data_or_empty_run_query [simp, query_simps]:
  "data_or_empty (run_query b xs) = (if b then [] else xs)"
  by (simp add: run_query_def)

lemma or_null_Some [simp]: "s \<noteq> [] \<Longrightarrow> or_null (Some s) = Some s"
  by (simp add: or_null_def)

lemma or_null_None [simp]: "or_null None = None"
  by (simp add: or_null_def)

lemma or_null_truthy [simp]: "or_null (if js_truthy_str v then v else None) = or_null v"
  by (cases v) (auto simp: or_null_def)

lemma or_null_id [simp]: "v \<noteq> Some [] \<Longrightarrow> or_null v = v"
  by (cases v) (auto simp: or_null_def)

lemma find_SomeD: "find P xs = Some x \<Longrightarrow> x \<in> set xs \<and> P x"
  by (induction xs) (auto split: if_splits)

lemma single_data_map: "single_data (map g xs) = map_option g (single_data xs)"
  by (cases xs rule: remdups_adj.cases) (auto simp: single_data_def)

lemma filter_key_single:
  "distinct (map h xs) \<Longrightarrow> x \<in> set xs \<Longrightarrow> filter (\<lambda>y. h y = h x) xs = [x]"
proof (induction xs)
  case Nil
  then show ?case by simp
next
  case (Cons y xs)
  then show ?case
    by (auto simp: filter_empty_conv) (metis imageI)
qed

lemma filter_map_update_key:
  "(\<And>x. key x = v \<Longrightarrow> key (g x) = v) \<Longrightarrow>
   filter (\<lambda>x. key x = v) (map (\<lambda>x. if key x = v then g x else x) xs) = map g (filter (\<lambda>x. key x = v) xs)"
  by (induction xs) auto

lemma single_data_Some_iff: "single_data xs = Some x \<longleftrightarrow> xs = [x]"
  by (auto simp: single_data_def split: list.splits)

lemma filter_eq_singleD: "filter P xs = [y] \<Longrightarrow> y \<in> set xs \<and> P y"
proof -
  assume "filter P xs = [y]"
  then have "y \<in> set (filter P xs)" by simp
  then show ?thesis by simp
qed

lemma single_data_filter_SomeD:
  "single_data (filter (\<lambda>x. h x = k) xs) = Some x \<Longrightarrow> x \<in> set xs \<and> h x = k"
proof -
  assume "single_data (filter (\<lambda>x. h x = k) xs) = Some x"
  then have "x \<in> set (filter (\<lambda>x. h x = k) xs)" by (simp add: single_data_Some_iff)
  then show ?thesis by simp
qed

lemma single_data_filter_key:
  "distinct (map h xs) \<Longrightarrow> x \<in> set xs \<Longrightarrow> single_data (filter (\<lambda>y. h y = h x) xs) = Some x"
  by (simp add: filter_key_single single_data_def)

lemma single_data_filter_absent:
  "distinct (map h xs) \<Longrightarrow> single_data (filter (\<lambda>y. h y = k) xs) = None \<Longrightarrow> x \<in> set xs \<Longrightarrow> h x \<noteq> k"
  using single_data_filter_key by fastforce

lemma set_truthy_ids [simp]: "set (truthy_ids xs) = {x. Some x \<in> set xs \<and> x \<noteq> []}"
  by (induction xs rule: truthy_ids.induct) auto

lemma length_truthy_ids: "length (truthy_ids xs) \<le> length xs"
  by (induction xs rule: truthy_ids.induct) auto

lemma set_where_in [simp]: "set (where_in col vs rs) = {r \<in> set rs. col r \<in> set vs}"
  by (auto simp: where_in_def)

lemma set_where_not_in [simp]: "set (where_not_in col vs rs) = {r \<in> set rs. col r \<notin> set vs}"
  by (auto simp: where_not_in_def)

lemma where_not_in_Nil [simp, query_simps]: "where_not_in col [] rs = rs"
  by (simp add: where_not_in_def)

lemma distinct_map_filter [intro]: "distinct (map f xs) \<Longrightarrow> distinct (map f (filter P xs))"
  by (induction xs) auto

lemma distinct_map_where_in [intro]: "distinct (map f rs) \<Longrightarrow> distinct (map f (where_in col vs rs))"
  by (auto simp: where_in_def)

lemma distinct_map_where_not_in [intro]:
  "distinct (map f rs) \<Longrightarrow> distinct (map f (where_not_in col vs rs))"
  by (auto simp: where_not_in_def)

lemma set_order_by [simp]: "set (order_by key asc rs) = set rs"
  by (simp add: order_by_def)

lemma length_order_by [simp]: "length (order_by key asc rs) = length rs"
  by (simp add: order_by_def)

lemma mset_order_by [simp]: "mset (order_by key asc rs) = mset rs"
  by (simp add: order_by_def)

lemma distinct_map_sort_key [simp]: "distinct (map f (sort_key k xs)) = distinct (map f xs)"
  by (rule mset_eq_imp_distinct_iff) simp

lemma distinct_map_order_by [simp]: "distinct (map f (order_by key asc rs)) = distinct (map f rs)"
  by (simp add: order_by_def flip: rev_map)

lemma sorted_order_by_asc: "sorted (map key (order_by key True rs))"
  by (simp add: order_by_def)

lemma sorted_order_by_desc: "sorted (rev (map key (order_by key False rs)))"
  by (simp add: order_by_def flip: rev_map)

lemma distinct_take_map [intro]: "distinct (map f xs) \<Longrightarrow> distinct (map f (take n xs))"
  by (simp flip: take_map)

lemma sort_key_cong:
  "(\<And>x. x \<in> set xs \<Longrightarrow> f x = g x) \<Longrightarrow> sort_key f xs = sort_key g xs"
proof (induction xs)
  case Nil
  then show ?case by simp
next
  case (Cons x xs)
  have "\<And>ys. set ys \<subseteq> set (x # xs) \<Longrightarrow> insort_key f x ys = insort_key g x ys"
  proof -
    fix ys :: "'a list"
    show "set ys \<subseteq> set (x # xs) \<Longrightarrow> insort_key f x ys = insort_key g x ys"
      using Cons.prems by (induction ys) auto
  qed
  moreover have "sort_key f xs = sort_key g xs"
    using Cons by simp
  ultimately show ?case by (metis set_sort set_subset_Cons sort_key_simps(2))
qed

lemma length_distinct_le_card:
  "distinct (map f xs) \<Longrightarrow> f ` set xs \<subseteq> set ys \<Longrightarrow> length xs \<le> length ys"
  by (metis card_mono distinct_card length_map list.set_map card_length finite_set order_trans)

lemma set_take_subset_elem: "x \<in> set (take n xs) \<Longrightarrow> x \<in> set xs"
  by (rule set_mp [OF set_take_subset])

lemma sorted_last_Max:
  "sorted (map g xs) \<Longrightarrow> xs \<noteq> [] \<Longrightarrow> g (last xs) = Max (g ` set xs)"
proof (induction xs rule: rev_induct)
  case (snoc x ys)
  then have "\<forall>y\<in>set ys. g y \<le> g x" by (simp add: sorted_append)
  then show ?case by (intro Max_eqI [symmetric]) auto
qed simp

lemma filter_map_update_other:
  "(\<And>x. key (g x) = key x) \<Longrightarrow> v \<noteq> u \<Longrightarrow>
   filter (\<lambda>x. key x = v) (map (\<lambda>x. if key x = u then g x else x) xs) = filter (\<lambda>x. key x = v) xs"
  by (induction xs) auto

lemma or_default_or_null [simp]: "or_default (or_null (Some s)) [] = s"
  by (simp add: or_null_def or_default_def)

lemma or_default_Some [simp]: "or_default (Some s) [] = s"
  by (simp add: or_default_def)

lemma foldl_invariant: "P s \<Longrightarrow> (\<And>s e. P s \<Longrightarrow> P (f s e)) \<Longrightarrow> P (foldl f s xs)"
  by (induction xs arbitrary: s) simp_all

lemma or_null_or_default: "x \<noteq> Some [] \<Longrightarrow> or_null (Some (or_default x [])) = x"
  by (cases x) (simp_all add: or_null_def or_default_def)

end
