(* ===== verification/Schema.thy ===== *)
theory Schema
  imports Prelude
begin

text \<open>
  The rows of the store, after \<open>src/types/database.ts\<close>: one record per table
  interface, with the columns the modelled code reads or writes (timestamps, image URLs
  and free-text columns the code only displays are left out), string unions as
  datatypes, nullable columns as options. Integer columns are \<open>int\<close>, the course
  rating (a JavaScript float) is \<open>real\<close>, ISO dates are strings compared
  lexicographically as the store compares them. The record \<open>db\<close> holds the tables;
  each table is a list of rows in the order the store returns them.
\<close>

datatype admin_role = Pending | Approved | Rejected | Super

record profile =
  pf_id :: uuid
  pf_email :: string
  pf_name :: "string option"
  pf_target_job :: "string option"
  pf_preparation_stage :: "string option"
  pf_interests :: "string list"
  pf_is_admin :: bool
  pf_admin_role :: "admin_role option"

datatype course_status = Recruiting | Closed | Ongoing | Finished

text \<open>
  A course's curriculum as the admin form stores it: the editor's HTML, or a value
  \<open>JSON.parse\<close> produced (named by the text it was parsed from).
\<close>

datatype syllabus = SylText string | SylJson string

record course =
  c_id :: uuid
  c_title :: string
  c_description :: string
  c_instructor_name :: string
  c_instructor_title :: "string option"
  c_category :: string
  c_thumbnail_url :: "string option"
  c_max_students :: int
  c_current_students :: int
  c_start_date :: string
  c_end_date :: string
  c_duration_weeks :: int
  c_price :: int
  c_is_live :: bool
  c_syllabus :: syllabus
  c_rating :: real
  c_review_count :: int
  c_status :: course_status

datatype enrollment_status = Applied | EnApproved | Completed | Canceled

record enrollment =
  en_id :: uuid
  en_user_id :: uuid
  en_course_id :: uuid
  en_status :: enrollment_status

record content =
  ct_id :: uuid
  ct_title :: string
  ct_summary :: string
  ct_body :: string
  ct_author_name :: string
  ct_author_title :: "string option"
  ct_thumbnail_url :: "string option"
  ct_category :: string
  ct_tags :: "string list"
  ct_view_count :: int
  ct_like_count :: int
  ct_is_featured :: bool

record like =
  lk_id :: uuid
  lk_user_id :: uuid
  lk_content_id :: uuid

datatype bookmark_type = BmContent | BmCourse

record bookmark =
  bm_id :: uuid
  bm_user_id :: uuid
  bm_content_id :: "uuid option"
  bm_course_id :: "uuid option"
  bm_content_type :: bookmark_type

datatype job_type = Newgrad | Intern | Experienced

record job_posting =
  j_id :: uuid
  j_company_name :: string
  j_title :: string
  j_description :: "string option"
  j_job_type :: job_type
  j_location :: "string option"
  j_deadline :: string
  j_url :: "string option"
  j_thumbnail_url :: "string option"
  j_tags :: "string list"
  j_source :: "string option"
  j_is_active :: bool

record tag =
  tg_id :: uuid
  tg_name :: string

record content_tag =
  cg_id :: uuid
  cg_content_id :: "uuid option"
  cg_course_id :: "uuid option"
  cg_job_id :: "uuid option"
  cg_tag_id :: uuid

record featured_item =
  fi_id :: uuid
  fi_section :: string
  fi_course_id :: "uuid option"
  fi_content_id :: "uuid option"
  fi_job_id :: "uuid option"
  fi_display_order :: int
  fi_is_active :: bool

datatype link_type = LinkCourse | LinkContent | LinkJob | LinkCustom

record hero_banner =
  hb_id :: uuid
  hb_title :: string
  hb_subtitle :: "string option"
  hb_image_url :: "string option"
  hb_link_type :: link_type
  hb_course_id :: "uuid option"
  hb_content_id :: "uuid option"
  hb_job_id :: "uuid option"
  hb_custom_url :: "string option"
  hb_bg_color :: string
  hb_text_color :: string
  hb_focal_x :: int
  hb_focal_y :: int
  hb_display_order :: int
  hb_is_active :: bool

datatype room_type = RoomDm | RoomGroup

text \<open>Chat rows; \<open>created_at\<close> is kept as a number, the order of the ISO timestamps.\<close>

record chat_room =
  cr_id :: uuid
  cr_type :: room_type
  cr_name :: "string option"
  cr_created_by :: uuid
  cr_created_at :: nat

record chat_participant =
  cp_id :: uuid
  cp_room_id :: uuid
  cp_user_id :: uuid

datatype message_type = MsgText | MsgFile | MsgImage

record message =
  ms_id :: uuid
  ms_room_id :: uuid
  ms_sender_id :: uuid
  ms_content :: string
  ms_type :: message_type
  ms_file_url :: "string option"
  ms_created_at :: nat

record db =
  profiles :: "profile list"
  courses :: "course list"
  enrollments :: "enrollment list"
  contents :: "content list"
  likes :: "like list"
  bookmarks :: "bookmark list"
  job_postings :: "job_posting list"
  tags :: "tag list"
  content_tags :: "content_tag list"
  featured_items :: "featured_item list"
  hero_banners :: "hero_banner list"
  chat_rooms :: "chat_room list"
  chat_participants :: "chat_participant list"
  messages :: "message list"

definition empty_db :: db where
  "empty_db = \<lparr>profiles = [], courses = [], enrollments = [], contents = [], likes = [],
     bookmarks = [], job_postings = [], tags = [], content_tags = [], featured_items = [],
     hero_banners = [], chat_rooms = [], chat_participants = [], messages = []\<rparr>"

end
