(* ===== verification/Resolver.thy ===== *)
theory Resolver
  imports Schema
begin

text \<open>
  The featured-section resolver of the home page, \<open>loadFeaturedSection\<close> in
  \<open>src/app/(main)/page.tsx\<close>, and the home page that calls it for three sections.
  A call issues up to three queries: the active featured rows of the section, the
  referenced entities (\<open>.in('id', ids)\<close>), and a fallback ranking query. Each query
  may fail (the flag \<open>qf q\<close>); the code then reads \<open>data\<close> as \<open>null\<close>. The model
  returns the rows and the list of queries issued, in order.
\<close>

datatype id_field = CourseIdField | ContentIdField | JobIdField

text \<open>\<open>f[idField]\<close>: the reference column of a featured row named by \<open>idField\<close>.\<close>

fun fi_ref :: "id_field \<Rightarrow> featured_item \<Rightarrow> uuid option" where
  "fi_ref CourseIdField f = fi_course_id f"
| "fi_ref ContentIdField f = fi_content_id f"
| "fi_ref JobIdField f = fi_job_id f"

datatype query_step = QFeatured | QFetch | QFallback

type_synonym faults = "query_step \<Rightarrow> bool"

definition no_faults :: faults where
  "no_faults = (\<lambda>_. False)"

text \<open>
  The parameters of \<open>loadFeaturedSection\<close>: the section name, the entity table, the
  \<open>idField\<close>, the sort column (\<open>fallbackOrder\<close>) and direction (\<open>fallbackAsc\<close>), and
  the optional equality filter (\<open>extraFilter\<close>), here a predicate on rows.
\<close>

record ('r, 'k) section_cfg =
  sc_section :: string
  sc_table :: "db \<Rightarrow> 'r list"
  sc_id_field :: id_field
  sc_row_id :: "'r \<Rightarrow> uuid"
  sc_order :: "'r \<Rightarrow> 'k"
  sc_asc :: bool
  sc_filter :: "('r \<Rightarrow> bool) option"

fun passes :: "('r \<Rightarrow> bool) option \<Rightarrow> 'r \<Rightarrow> bool" where
  "passes None r = True"
| "passes (Some p) r = p r"

text \<open>Lines 22--27: active featured rows of the section, by \<open>display_order\<close>.\<close>

definition featured_query :: "string \<Rightarrow> featured_item list \<Rightarrow> featured_item list" where
  "featured_query sec fis =
     order_by fi_display_order True (filter (\<lambda>f. fi_section f = sec \<and> fi_is_active f) fis)"

text \<open>Line 30: \<open>featured.map(f => f[idField]).filter(Boolean)\<close>.\<close>

definition featured_ids :: "id_field \<Rightarrow> featured_item list \<Rightarrow> uuid list" where
  "featured_ids fld fs = truthy_ids (map (fi_ref fld) fs)"

text \<open>Line 32: \<open>new Map(featured.map(f => [f[idField], f.display_order]))\<close>; a later
  pair overwrites an earlier one with the same key.\<close>

definition order_map :: "id_field \<Rightarrow> featured_item list \<Rightarrow> uuid option \<Rightarrow> int option" where
  "order_map fld fs = fold (\<lambda>f m. m(fi_ref fld f \<mapsto> fi_display_order f)) fs Map.empty"

text \<open>Line 33: the sort key \<open>orderMap.get(a.id) || 99\<close>; \<open>0\<close> is falsy in JavaScript.\<close>

definition rank :: "(uuid option \<Rightarrow> int option) \<Rightarrow> ('r \<Rightarrow> uuid) \<Rightarrow> 'r \<Rightarrow> int" where
  "rank om rid r = (case om (Some (rid r)) of None \<Rightarrow> 99 | Some v \<Rightarrow> if v = 0 then 99 else v)"

text \<open>Lines 30--33: fetch the referenced rows and sort them (a stable sort by \<open>rank\<close>).\<close>

definition curated :: "faults \<Rightarrow> ('r, 'k) section_cfg \<Rightarrow> featured_item list \<Rightarrow> db \<Rightarrow> 'r list" where
  "curated qf c fs db =
     sort_key (rank (order_map (sc_id_field c) fs) (sc_row_id c))
       (data_or_empty (run_query (qf QFetch)
          (where_in (sc_row_id c) (featured_ids (sc_id_field c) fs) (sc_table c db))))"

text \<open>Line 36: the ids to exclude, or the nil UUID when there are none.\<close>

definition exclusion :: "('r \<Rightarrow> uuid) \<Rightarrow> 'r list \<Rightarrow> uuid list" where
  "exclusion rid items = (if items = [] then [nil_uuid] else map rid items)"

text \<open>Lines 35--39 and 46--47: the fallback query, \<open>excl = []\<close> for the query without
  \<open>.not('id', 'in', ...)\<close>.\<close>

definition fallback_query ::
  "('r, 'k::linorder) section_cfg \<Rightarrow> uuid list \<Rightarrow> nat \<Rightarrow> db \<Rightarrow> 'r list" where
  "fallback_query c excl n db =
     take n (order_by (sc_order c) (sc_asc c)
       (filter (passes (sc_filter c)) (where_not_in (sc_row_id c) excl (sc_table c db))))"

definition load_featured_section ::
  "faults \<Rightarrow> ('r, 'k::linorder) section_cfg \<Rightarrow> nat \<Rightarrow> db \<Rightarrow> 'r list \<times> query_step list" where
  "load_featured_section qf c limit db =
     (let pure = (data_or_empty (run_query (qf QFallback) (fallback_query c [] limit db)),
                  [QFeatured, QFallback])
      in case run_query (qf QFeatured) (featured_query (sc_section c) (featured_items db)) of
           None \<Rightarrow> pure
         | Some fs \<Rightarrow>
             if fs = [] then pure
             else
               (let items = curated qf c fs db
                in if length items < limit
                   then (items @ data_or_empty (run_query (qf QFallback)
                            (fallback_query c (exclusion (sc_row_id c) items) (limit - length items) db)),
                         [QFeatured, QFetch, QFallback])
                   else (items, [QFeatured, QFetch])))"

abbreviation resolve :: "faults \<Rightarrow> ('r, 'k::linorder) section_cfg \<Rightarrow> nat \<Rightarrow> db \<Rightarrow> 'r list" where
  "resolve qf c limit db \<equiv> fst (load_featured_section qf c limit db)"

abbreviation queries_issued ::
  "faults \<Rightarrow> ('r, 'k::linorder) section_cfg \<Rightarrow> nat \<Rightarrow> db \<Rightarrow> query_step list" where
  "queries_issued qf c limit db \<equiv> snd (load_featured_section qf c limit db)"

text \<open>Vocabulary of the lemmas: the featured rows the call reads, whether a row is
  referenced by one of them, and the sort key the code gives it.\<close>

abbreviation active_featured :: "('r, 'k) section_cfg \<Rightarrow> db \<Rightarrow> featured_item list" where
  "active_featured c db \<equiv> featured_query (sc_section c) (featured_items db)"

definition referenced :: "('r, 'k) section_cfg \<Rightarrow> db \<Rightarrow> 'r \<Rightarrow> bool" where
  "referenced c db r \<longleftrightarrow>
     sc_row_id c r \<in> set (featured_ids (sc_id_field c) (featured_query (sc_section c) (featured_items db)))"

definition display_rank :: "('r, 'k) section_cfg \<Rightarrow> db \<Rightarrow> 'r \<Rightarrow> int" where
  "display_rank c db =
     rank (order_map (sc_id_field c) (featured_query (sc_section c) (featured_items db))) (sc_row_id c)"

definition orphan :: "('r, 'k) section_cfg \<Rightarrow> db \<Rightarrow> featured_item \<Rightarrow> bool" where
  "orphan c db f \<longleftrightarrow>
     (case fi_ref (sc_id_field c) f of None \<Rightarrow> True | Some x \<Rightarrow> x \<notin> sc_row_id c ` set (sc_table c db))"

subsection \<open>The three sections of the home page\<close>

text \<open>Lines 63--65: the arguments of the three calls.\<close>

definition popular_courses :: "(course, real) section_cfg" where
  "popular_courses = \<lparr>sc_section = ''popular_courses'', sc_table = courses,
     sc_id_field = CourseIdField, sc_row_id = c_id, sc_order = c_rating, sc_asc = False,
     sc_filter = None\<rparr>"

definition recommended_contents :: "(content, int) section_cfg" where
  "recommended_contents = \<lparr>sc_section = ''recommended_contents'', sc_table = contents,
     sc_id_field = ContentIdField, sc_row_id = ct_id, sc_order = ct_view_count, sc_asc = False,
     sc_filter = None\<rparr>"

definition urgent_jobs :: "(job_posting, string) section_cfg" where
  "urgent_jobs = \<lparr>sc_section = ''urgent_jobs'', sc_table = job_postings,
     sc_id_field = JobIdField, sc_row_id = j_id, sc_order = j_deadline, sc_asc = True,
     sc_filter = Some j_is_active\<rparr>"

text \<open>Line 62: the hero banners, and lines 56--66: the page's four parallel loads. Each
  section has its own fault pattern.\<close>

definition hero_query :: "hero_banner list \<Rightarrow> hero_banner list" where
  "hero_query hbs = take 5 (order_by hb_display_order True (filter hb_is_active hbs))"

record home_data =
  hd_banners :: "hero_banner list option"
  hd_courses :: "course list"
  hd_contents :: "content list"
  hd_jobs :: "job_posting list"

definition home_page :: "bool \<Rightarrow> faults \<Rightarrow> faults \<Rightarrow> faults \<Rightarrow> db \<Rightarrow> home_data" where
  "home_page hf qc qt qj db =
     \<lparr>hd_banners = run_query hf (hero_query (hero_banners db)),
      hd_courses = resolve qc popular_courses 6 db,
      hd_contents = resolve qt recommended_contents 6 db,
      hd_jobs = resolve qj urgent_jobs 5 db\<rparr>"

subsection \<open>Example stores\<close>

text \<open>Small stores on which the witnesses below evaluate the resolver.\<close>

definition ex_course :: "uuid \<Rightarrow> real \<Rightarrow> course" where
  "ex_course i r = \<lparr>c_id = i, c_title = i, c_description = [], c_instructor_name = ''kim'',
     c_instructor_title = None, c_category = ''coding'', c_thumbnail_url = None, c_max_students = 30,
     c_current_students = 0, c_start_date = ''2026-03-02'', c_end_date = ''2026-04-27'',
     c_duration_weeks = 8, c_price = 0, c_is_live = False, c_syllabus = SylText [], c_rating = r,
     c_review_count = 0, c_status = Recruiting\<rparr>"

definition ex_featured :: "uuid \<Rightarrow> uuid \<Rightarrow> int \<Rightarrow> featured_item" where
  "ex_featured i r d = \<lparr>fi_id = i, fi_section = ''popular_courses'', fi_course_id = Some r,
     fi_content_id = None, fi_job_id = None, fi_display_order = d, fi_is_active = True\<rparr>"

definition ex_job :: "uuid \<Rightarrow> string \<Rightarrow> bool \<Rightarrow> job_posting" where
  "ex_job i d a = \<lparr>j_id = i, j_company_name = ''acme'', j_title = i, j_description = None,
     j_job_type = Newgrad, j_location = None, j_deadline = d, j_url = None, j_thumbnail_url = None,
     j_tags = [], j_source = None, j_is_active = a\<rparr>"

definition ex_db :: db where
  "ex_db = empty_db\<lparr>
     courses := [ex_course ''a'' 4, ex_course ''b'' 5, ex_course ''c'' 3, ex_course ''d'' 2],
     featured_items := [ex_featured ''f1'' ''c'' 2, ex_featured ''f2'' ''zz'' 1, ex_featured ''f3'' ''a'' 2],
     job_postings := [ex_job ''j1'' ''2026-03-01'' True, ex_job ''j2'' ''2026-01-15'' False,
                      ex_job ''j3'' ''2026-02-01'' True]\<rparr>"

definition ex_db7 :: db where
  "ex_db7 = empty_db\<lparr>
     courses := [ex_course ''a'' 1, ex_course ''b'' 2, ex_course ''c'' 3, ex_course ''d'' 4,
                 ex_course ''e'' 5, ex_course ''f'' 4, ex_course ''g'' 3, ex_course ''h'' 5],
     featured_items := [ex_featured ''f1'' ''g'' 7, ex_featured ''f2'' ''a'' 1, ex_featured ''f3'' ''f'' 6,
                        ex_featured ''f4'' ''b'' 2, ex_featured ''f5'' ''e'' 5, ex_featured ''f6'' ''c'' 3,
                        ex_featured ''f7'' ''d'' 4]\<rparr>"

subsection \<open>Properties of the resolver\<close>

lemma set_curated:
  "set (curated qf c fs db) =
     (if qf QFetch then {} else {r \<in> set (sc_table c db). sc_row_id c r \<in> set (featured_ids (sc_id_field c) fs)})"
  by (simp add: curated_def)

lemma distinct_curated:
  "distinct (map (sc_row_id c) (sc_table c db)) \<Longrightarrow> distinct (map (sc_row_id c) (curated qf c fs db))"
  by (auto simp: curated_def)

lemma length_curated:
  assumes "distinct (map (sc_row_id c) (sc_table c db))"
  shows "length (curated qf c fs db) \<le> length fs"
proof -
  have "length (curated qf c fs db) \<le> length (featured_ids (sc_id_field c) fs)"
    using assms by (intro length_distinct_le_card [where f = "sc_row_id c"])
      (auto simp: distinct_curated set_curated split: if_splits)
  also have "\<dots> \<le> length fs"
    using length_truthy_ids by (simp add: featured_ids_def) (metis length_map)
  finally show ?thesis .
qed

lemma set_fallback_query:
  "set (fallback_query c excl n db) \<subseteq>
     {r \<in> set (sc_table c db). sc_row_id c r \<notin> set excl \<and> passes (sc_filter c) r}"
  by (auto simp: fallback_query_def dest: set_take_subset_elem)

lemma length_fallback_query: "length (fallback_query c excl n db) \<le> n"
  by (simp add: fallback_query_def)

lemma distinct_fallback_query:
  "distinct (map (sc_row_id c) (sc_table c db)) \<Longrightarrow> distinct (map (sc_row_id c) (fallback_query c excl n db))"
  unfolding fallback_query_def
  by (intro distinct_take_map) (simp add: distinct_map_filter distinct_map_where_not_in)

lemma fallback_after_curated:
  "r \<in> set (fallback_query c (exclusion (sc_row_id c) items) n db) \<Longrightarrow> r' \<in> set items \<Longrightarrow>
     sc_row_id c r \<noteq> sc_row_id c r'"
  using set_fallback_query [of c "exclusion (sc_row_id c) items" n db]
  by (auto simp: exclusion_def split: if_splits)

lemma fallback_unreferenced:
  assumes "\<not> qf QFetch" "r \<in> set (fallback_query c (exclusion (sc_row_id c) (curated qf c fs db)) n db)"
  shows "sc_row_id c r \<notin> set (featured_ids (sc_id_field c) fs)"
proof
  assume ref: "sc_row_id c r \<in> set (featured_ids (sc_id_field c) fs)"
  from assms(2) have "r \<in> set (sc_table c db)"
    using set_fallback_query by fast
  with ref assms(1) have "r \<in> set (curated qf c fs db)"
    by (simp add: set_curated)
  with assms(2) show False
    using fallback_after_curated by metis
qed

lemma resolve_cases:
  "resolve qf c limit db =
     (if qf QFeatured \<or> active_featured c db = []
      then (if qf QFallback then [] else fallback_query c [] limit db)
      else (let items = curated qf c (active_featured c db) db
            in if length items < limit
               then items @ (if qf QFallback then []
                             else fallback_query c (exclusion (sc_row_id c) items) (limit - length items) db)
               else items))"
  by (simp add: load_featured_section_def Let_def run_query_def)

text \<open>C3: the result is at most the limit or the number of active featured rows of the section, whichever is larger: the fallback tier fills up to the limit but the curated tier is never truncated to it.\<close>

theorem resolve_length_bound:
  assumes "distinct (map (sc_row_id c) (sc_table c db))"
  shows "length (resolve qf c limit db) \<le> max limit (length (active_featured c db))"
proof (cases "qf QFeatured \<or> active_featured c db = []")
  case True
  then have "length (resolve qf c limit db) \<le> limit"
    using length_fallback_query [of c "[]" limit db] by (simp add: resolve_cases)
  then show ?thesis by simp
next
  case False
  let ?items = "curated qf c (active_featured c db) db"
  let ?excl = "exclusion (sc_row_id c) ?items"
  show ?thesis
  proof (cases "length ?items < limit")
    case True
    have "length (fallback_query c ?excl (limit - length ?items) db) \<le> limit - length ?items"
      by (rule length_fallback_query)
    with False True have "length (resolve qf c limit db) \<le> limit"
      by (auto simp: resolve_cases Let_def)
    then show ?thesis by simp
  next
    case less: False
    have "length ?items \<le> length (active_featured c db)"
      using assms by (rule length_curated)
    with False less show ?thesis
      by (simp add: resolve_cases Let_def)
  qed
qed

text \<open>C1: the resolver never returns two rows with the same id, whatever queries fail, when the entity table has unique ids; in particular an entity that is both featured and ranked by the fallback appears once, and two featured rows naming the same entity yield it once (the bulk fetch returns each row once).\<close>

theorem resolve_distinct:
  assumes dist: "distinct (map (sc_row_id c) (sc_table c db))"
  shows "distinct (map (sc_row_id c) (resolve qf c limit db))"
proof (cases "qf QFeatured \<or> active_featured c db = []")
  case True
  then show ?thesis
    using distinct_fallback_query [OF dist] by (simp add: resolve_cases)
next
  case False
  let ?items = "curated qf c (active_featured c db) db"
  let ?fb = "fallback_query c (exclusion (sc_row_id c) ?items) (limit - length ?items) db"
  have "distinct (map (sc_row_id c) ?items)"
    by (rule distinct_curated [OF dist])
  moreover have "distinct (map (sc_row_id c) ?fb)"
    by (rule distinct_fallback_query [OF dist])
  moreover have "set (map (sc_row_id c) ?items) \<inter> set (map (sc_row_id c) ?fb) = {}"
    using fallback_after_curated by fastforce
  ultimately show ?thesis
    using False by (simp add: resolve_cases Let_def)
qed

lemma resolve_split_referenced:
  assumes "\<not> qf QFeatured" "\<not> qf QFetch" "active_featured c db \<noteq> []"
  obtains fb where "resolve qf c limit db = curated qf c (active_featured c db) db @ fb"
    and "\<forall>r \<in> set fb. \<not> referenced c db r"
proof (cases "length (curated qf c (active_featured c db) db) < limit")
  case True
  let ?items = "curated qf c (active_featured c db) db"
  let ?fb = "if qf QFallback then []
             else fallback_query c (exclusion (sc_row_id c) ?items) (limit - length ?items) db"
  have "\<forall>r \<in> set ?fb. \<not> referenced c db r"
  proof
    fix r
    assume "r \<in> set ?fb"
    then have "r \<in> set (fallback_query c (exclusion (sc_row_id c) ?items) (limit - length ?items) db)"
      by (simp split: if_splits)
    with assms(2) show "\<not> referenced c db r"
      unfolding referenced_def by (rule fallback_unreferenced)
  qed
  moreover have "resolve qf c limit db = ?items @ ?fb"
    using assms True by (simp add: resolve_cases Let_def)
  ultimately show ?thesis using that by blast
next
  case False
  then have "resolve qf c limit db = curated qf c (active_featured c db) db @ []"
    using assms by (simp add: resolve_cases Let_def)
  then show ?thesis using that by simp
qed

lemma curated_referenced:
  "r \<in> set (curated qf c (active_featured c db) db) \<Longrightarrow> referenced c db r"
  by (simp add: set_curated referenced_def split: if_splits)

text \<open>C2: when the featured query and the bulk fetch succeed, every row referenced by an active featured row of the section comes before every row that is not.\<close>

theorem resolve_curated_first:
  assumes "\<not> qf QFeatured" "\<not> qf QFetch"
    and i: "i < length (resolve qf c limit db)" and j: "j < length (resolve qf c limit db)"
    and ri: "referenced c db (resolve qf c limit db ! i)"
    and rj: "\<not> referenced c db (resolve qf c limit db ! j)"
  shows "i < j"
proof -
  have "active_featured c db \<noteq> []"
    using ri by (auto simp: referenced_def featured_ids_def)
  then obtain fb where out: "resolve qf c limit db = curated qf c (active_featured c db) db @ fb"
    and unref: "\<forall>r \<in> set fb. \<not> referenced c db r"
    using resolve_split_referenced assms(1,2) by metis
  let ?n = "length (curated qf c (active_featured c db) db)"
  have "i < ?n"
  proof (rule ccontr)
    assume "\<not> i < ?n"
    with i ri out have "referenced c db (fb ! (i - ?n))" "fb ! (i - ?n) \<in> set fb"
      by (auto simp: nth_append)
    with unref show False by blast
  qed
  moreover have "?n \<le> j"
  proof (rule ccontr)
    assume "\<not> ?n \<le> j"
    with rj out have "\<not> referenced c db (curated qf c (active_featured c db) db ! j)"
      by (simp add: nth_append)
    moreover from \<open>\<not> ?n \<le> j\<close> have "curated qf c (active_featured c db) db ! j
        \<in> set (curated qf c (active_featured c db) db)"
      by simp
    then have "referenced c db (curated qf c (active_featured c db) db ! j)"
      by (rule curated_referenced)
    ultimately show False by contradiction
  qed
  ultimately show ?thesis by simp
qed

lemma filter_referenced_resolve:
  assumes "\<not> qf QFeatured" "\<not> qf QFetch"
  shows "filter (referenced c db) (resolve qf c limit db) = curated qf c (active_featured c db) db"
proof (cases "active_featured c db = []")
  case True
  then have "\<And>r. \<not> referenced c db r"
    by (simp add: referenced_def featured_ids_def)
  with True show ?thesis
    by (simp add: curated_def featured_ids_def where_in_def)
next
  case False
  then obtain fb where out: "resolve qf c limit db = curated qf c (active_featured c db) db @ fb"
    and unref: "\<forall>r \<in> set fb. \<not> referenced c db r"
    using resolve_split_referenced assms by metis
  have "filter (referenced c db) (curated qf c (active_featured c db) db) =
      curated qf c (active_featured c db) db"
    using curated_referenced [of _ qf c db] by (simp add: filter_id_conv)
  moreover have "filter (referenced c db) fb = []"
    using unref by (simp add: filter_empty_conv)
  ultimately show ?thesis
    using out by simp
qed

lemma curated_as_filter:
  assumes "\<not> qf QFetch"
  shows "curated qf c (active_featured c db) db = sort_key (display_rank c db) (filter (referenced c db) (sc_table c db))"
  using assms by (simp add: curated_def display_rank_def referenced_def [abs_def] where_in_def)

text \<open>C6: the referenced rows of the result are sorted by the code's key, the display order with 0 and a missing entry read as 99.\<close>

theorem resolve_curated_sorted:
  assumes "\<not> qf QFeatured" "\<not> qf QFetch"
  shows "sorted (map (display_rank c db) (filter (referenced c db) (resolve qf c limit db)))"
  using assms by (simp add: filter_referenced_resolve curated_as_filter)

text \<open>C5: referenced rows with the same sort key appear in the order the entity table returns them, not in the order of the featured rows.\<close>

theorem resolve_ties_table_order:
  assumes "\<not> qf QFeatured" "\<not> qf QFetch"
  shows "filter (\<lambda>r. referenced c db r \<and> display_rank c db r = k) (resolve qf c limit db) =
         filter (\<lambda>r. referenced c db r \<and> display_rank c db r = k) (sc_table c db)"
proof -
  have "filter (\<lambda>r. referenced c db r \<and> display_rank c db r = k) (resolve qf c limit db) =
      filter (\<lambda>r. display_rank c db r = k) (filter (referenced c db) (resolve qf c limit db))"
    by (simp add: conj_commute)
  also have "\<dots> = filter (\<lambda>r. display_rank c db r = k) (filter (referenced c db) (sc_table c db))"
    using assms by (simp add: filter_referenced_resolve curated_as_filter sort_key_stable)
  also have "\<dots> = filter (\<lambda>r. referenced c db r \<and> display_rank c db r = k) (sc_table c db)"
    by (simp add: conj_commute)
  finally show ?thesis .
qed

lemma queries_issued_cases:
  "queries_issued qf c limit db =
     (if qf QFeatured \<or> active_featured c db = [] then [QFeatured, QFallback]
      else if length (curated qf c (active_featured c db) db) < limit then [QFeatured, QFetch, QFallback]
      else [QFeatured, QFetch])"
  by (simp add: load_featured_section_def Let_def run_query_def)

text \<open>with limit 0 the resolver returns every resolvable curated row when the section has active featured rows, and otherwise issues a fallback query with limit 0 and returns nothing.\<close>

theorem resolve_zero_limit:
  "resolve qf c 0 db =
     (if qf QFeatured \<or> active_featured c db = [] then [] else curated qf c (active_featured c db) db) \<and>
   (QFallback \<in> set (queries_issued qf c 0 db) \<longleftrightarrow> qf QFeatured \<or> active_featured c db = [])"
  by (simp add: resolve_cases queries_issued_cases fallback_query_def)

lemma prefix_fallback_query:
  "n \<le> m \<Longrightarrow> prefix (fallback_query c excl n db) (fallback_query c excl m db)"
  unfolding fallback_query_def by (metis min.absorb1 take_is_prefix take_take)

text \<open>raising the limit by one only appends to the result: the result for limit n is a prefix of the result for n + 1.\<close>

theorem resolve_prefix_mono:
  "prefix (resolve qf c limit db) (resolve qf c (Suc limit) db)"
proof (cases "qf QFeatured \<or> active_featured c db = []")
  case True
  then show ?thesis
    using prefix_fallback_query [of limit "Suc limit" c "[]" db] by (simp add: resolve_cases)
next
  case False
  let ?items = "curated qf c (active_featured c db) db"
  let ?excl = "exclusion (sc_row_id c) ?items"
  have "prefix (fallback_query c ?excl (limit - length ?items) db)
      (fallback_query c ?excl (Suc limit - length ?items) db)"
    by (rule prefix_fallback_query) simp
  with False show ?thesis
    by (auto simp: resolve_cases Let_def)
qed

text \<open>C7: when the section has no active featured rows, or the featured query fails, the result is the fallback ranking query itself: the filtered table ordered by the section's column and cut to the limit.\<close>

theorem resolve_no_featured:
  assumes "\<not> qf QFallback" "qf QFeatured \<or> active_featured c db = []"
  shows "resolve qf c limit db =
           take limit (order_by (sc_order c) (sc_asc c) (filter (passes (sc_filter c)) (sc_table c db)))"
  using assms by (simp add: resolve_cases fallback_query_def)

lemma fold_order_map:
  "fold (\<lambda>f m. m(fi_ref fld f \<mapsto> fi_display_order f)) fs m k =
     (if \<exists>f \<in> set fs. fi_ref fld f = k
      then Some (fi_display_order (last (filter (\<lambda>f. fi_ref fld f = k) fs))) else m k)"
  by (induction fs arbitrary: m) (auto simp: filter_empty_conv)

lemma order_map_eq:
  "order_map fld fs k =
     (if \<exists>f \<in> set fs. fi_ref fld f = k
      then Some (fi_display_order (last (filter (\<lambda>f. fi_ref fld f = k) fs))) else None)"
  by (simp add: order_map_def fold_order_map)

lemma order_map_filter:
  assumes "filter (\<lambda>g. fi_ref fld g = k) fs' = filter (\<lambda>g. fi_ref fld g = k) fs"
  shows "order_map fld fs' k = order_map fld fs k"
proof -
  have "(\<exists>g\<in>set fs'. fi_ref fld g = k) \<longleftrightarrow> (\<exists>g\<in>set fs. fi_ref fld g = k)"
    using arg_cong [OF assms, of set] by auto
  with assms show ?thesis by (simp only: order_map_eq)
qed

lemma fallback_query_nil_uuid:
  assumes "nil_uuid \<notin> sc_row_id c ` set (sc_table c db)"
  shows "fallback_query c [nil_uuid] n db = fallback_query c [] n db"
proof -
  have "where_not_in (sc_row_id c) [nil_uuid] (sc_table c db) = sc_table c db"
    using assms unfolding where_not_in_def by (intro filter_True) (auto simp: image_iff)
  then show ?thesis by (simp add: fallback_query_def)
qed

lemma curated_cong_table:
  "sc_table c db' = sc_table c db \<Longrightarrow> curated qf c fs db' = curated qf c fs db"
  by (simp add: curated_def)

lemma fallback_query_cong_table:
  "sc_table c db' = sc_table c db \<Longrightarrow> fallback_query c excl n db' = fallback_query c excl n db"
  by (simp add: fallback_query_def)

lemma curated_insert_orphan:
  assumes "orphan c db f"
  shows "curated qf c (insort_key fi_display_order f fs) db = curated qf c fs db"
proof -
  let ?fld = "sc_id_field c"
  let ?rid = "sc_row_id c"
  let ?fs' = "insort_key fi_display_order f fs"
  have noref: "\<And>r. r \<in> set (sc_table c db) \<Longrightarrow> fi_ref ?fld f \<noteq> Some (?rid r)"
    using assms by (auto simp: orphan_def split: option.splits)
  have ids: "\<And>r. r \<in> set (sc_table c db) \<Longrightarrow>
      ?rid r \<in> set (featured_ids ?fld ?fs') \<longleftrightarrow> ?rid r \<in> set (featured_ids ?fld fs)"
  proof -
    fix r
    assume "r \<in> set (sc_table c db)"
    then have ne: "fi_ref ?fld f \<noteq> Some (?rid r)"
      by (rule noref)
    have "set (featured_ids ?fld ?fs') = set (featured_ids ?fld fs) \<union>
        {x. fi_ref ?fld f = Some x \<and> x \<noteq> []}"
      by (auto simp: featured_ids_def set_insort_key)
    with ne show "?rid r \<in> set (featured_ids ?fld ?fs') \<longleftrightarrow> ?rid r \<in> set (featured_ids ?fld fs)"
      by auto
  qed
  have rows: "where_in ?rid (featured_ids ?fld ?fs') (sc_table c db) =
      where_in ?rid (featured_ids ?fld fs) (sc_table c db)"
    unfolding where_in_def using ids by (rule filter_cong [OF refl])
  have ranks: "\<And>r. r \<in> set (sc_table c db) \<Longrightarrow>
      rank (order_map ?fld ?fs') ?rid r = rank (order_map ?fld fs) ?rid r"
  proof -
    fix r
    assume "r \<in> set (sc_table c db)"
    then have "fi_ref ?fld f \<noteq> Some (?rid r)"
      by (rule noref)
    then have "filter (\<lambda>g. fi_ref ?fld g = Some (?rid r)) ?fs' =
        filter (\<lambda>g. fi_ref ?fld g = Some (?rid r)) fs"
      by (simp add: filter_insort_triv)
    then have "order_map ?fld ?fs' (Some (?rid r)) = order_map ?fld fs (Some (?rid r))"
      by (rule order_map_filter)
    then show "rank (order_map ?fld ?fs') ?rid r = rank (order_map ?fld fs) ?rid r"
      by (simp add: rank_def)
  qed
  show ?thesis
    unfolding curated_def rows
    by (rule sort_key_cong) (auto simp: ranks split: if_splits)
qed

text \<open>C4: adding a featured row whose reference matches no entity (an orphan) never changes the result: the orphan is skipped and its slot is back-filled by the fallback tier.\<close>

theorem resolve_orphan_invariant:
  assumes orph: "orphan c db f" and nil: "nil_uuid \<notin> sc_row_id c ` set (sc_table c db)"
    and tbl: "sc_table c (db\<lparr>featured_items := f # featured_items db\<rparr>) = sc_table c db"
  shows "resolve qf c limit (db\<lparr>featured_items := f # featured_items db\<rparr>) = resolve qf c limit db"
proof -
  let ?db' = "db\<lparr>featured_items := f # featured_items db\<rparr>"
  have cur: "\<And>fs. curated qf c fs ?db' = curated qf c fs db"
    using tbl by (rule curated_cong_table)
  have fb: "\<And>excl n. fallback_query c excl n ?db' = fallback_query c excl n db"
    using tbl by (rule fallback_query_cong_table)
  show ?thesis
  proof (cases "fi_section f = sc_section c \<and> fi_is_active f")
    case False
    then have "active_featured c ?db' = active_featured c db"
      by (auto simp: featured_query_def)
    then show ?thesis
      by (simp add: resolve_cases Let_def cur fb)
  next
    case True
    then have fs': "active_featured c ?db' = insort_key fi_display_order f (active_featured c db)"
      by (simp add: featured_query_def order_by_def)
    then have ne: "active_featured c ?db' \<noteq> []"
      by (metis empty_iff set_empty2 set_insort_key insert_iff)
    have cur': "curated qf c (active_featured c ?db') ?db' = curated qf c (active_featured c db) db"
      using fs' cur curated_insert_orphan [OF orph] by simp
    show ?thesis
    proof (cases "active_featured c db = []")
      case True
      then have "curated qf c (active_featured c db) db = []"
        by (simp add: curated_def featured_ids_def where_in_def)
      with True ne cur' show ?thesis
        using fallback_query_nil_uuid [OF nil] fb
        by (cases limit) (simp_all add: resolve_cases exclusion_def fallback_query_def [of _ _ 0])
    next
      case False
      with ne cur' fb show ?thesis
        by (simp add: resolve_cases Let_def)
    qed
  qed
qed

lemma truthy_ids_all_some:
  "\<forall>v \<in> set vs. \<exists>x. v = Some x \<and> x \<noteq> [] \<Longrightarrow> truthy_ids vs = map the vs"
  by (induction vs rule: truthy_ids.induct) auto

lemma order_map_unique:
  "distinct (map (fi_ref fld) fs) \<Longrightarrow> f \<in> set fs \<Longrightarrow>
   order_map fld fs (fi_ref fld f) = Some (fi_display_order f)"
  by (auto simp: order_map_eq filter_key_single)

lemma full_override_rows:
  assumes "\<not> qf QFetch"
    and dist: "distinct (map (sc_row_id c) (sc_table c db))"
    and refs: "\<forall>f \<in> set fs. \<exists>x. fi_ref (sc_id_field c) f = Some x \<and> x \<noteq> [] \<and>
                 x \<in> sc_row_id c ` set (sc_table c db)"
    and drefs: "distinct (map (fi_ref (sc_id_field c)) fs)"
  shows "featured_ids (sc_id_field c) fs = map (\<lambda>f. the (fi_ref (sc_id_field c) f)) fs"
    and "distinct (featured_ids (sc_id_field c) fs)"
    and "set (map (sc_row_id c) (curated qf c fs db)) = set (featured_ids (sc_id_field c) fs)"
    and "length (curated qf c fs db) = length fs"
proof -
  let ?fld = "sc_id_field c"
  let ?rid = "sc_row_id c"
  let ?ids = "featured_ids ?fld fs"
  let ?items = "curated qf c fs db"
  have "truthy_ids (map (fi_ref ?fld) fs) = map the (map (fi_ref ?fld) fs)"
    using refs by (intro truthy_ids_all_some) auto
  then show ids: "?ids = map (\<lambda>f. the (fi_ref ?fld f)) fs"
    by (simp add: featured_ids_def)
  have somes: "\<And>f. f \<in> set fs \<Longrightarrow> fi_ref ?fld f = Some (the (fi_ref ?fld f))"
    using refs by fastforce
  have inj_the: "inj_on the (set (map (fi_ref ?fld) fs))"
    by (auto simp: inj_on_def) (metis somes)
  have "distinct (map the (map (fi_ref ?fld) fs))"
    using drefs inj_the by (simp only: distinct_map [of the])
  then show dids: "distinct ?ids"
    by (simp add: ids comp_def)
  show set_items: "set (map ?rid ?items) = set ?ids"
    using assms(1) refs by (force simp: set_curated ids)
  have ditems: "distinct (map ?rid ?items)"
    using dist by (rule distinct_curated)
  show "length ?items = length fs"
    using distinct_card [OF ditems] distinct_card [OF dids] set_items by (simp add: ids)
qed

lemma full_override_order:
  assumes "\<not> qf QFetch"
    and dist: "distinct (map (sc_row_id c) (sc_table c db))"
    and refs: "\<forall>f \<in> set (active_featured c db). \<exists>x. fi_ref (sc_id_field c) f = Some x \<and> x \<noteq> [] \<and>
                 x \<in> sc_row_id c ` set (sc_table c db)"
    and drefs: "distinct (map (fi_ref (sc_id_field c)) (active_featured c db))"
    and dord: "distinct (map fi_display_order (active_featured c db))"
    and pos: "\<forall>f \<in> set (active_featured c db). 0 < fi_display_order f"
  shows "map (sc_row_id c) (curated qf c (active_featured c db) db) = featured_ids (sc_id_field c) (active_featured c db)"
proof -
  let ?fs = "active_featured c db"
  let ?fld = "sc_id_field c"
  let ?rid = "sc_row_id c"
  let ?ids = "featured_ids ?fld ?fs"
  let ?items = "curated qf c ?fs db"
  note rows = full_override_rows [of qf c db ?fs, OF assms(1) dist refs drefs]
  define g where "g x = the (order_map ?fld ?fs (Some x))" for x
  have gf: "\<And>f. f \<in> set ?fs \<Longrightarrow> g (the (fi_ref ?fld f)) = fi_display_order f"
    using refs order_map_unique [OF drefs] by (force simp: g_def)
  have rank_g: "\<And>r. r \<in> set ?items \<Longrightarrow> rank (order_map ?fld ?fs) ?rid r = g (?rid r)"
  proof -
    fix r
    assume "r \<in> set ?items"
    then have "?rid r \<in> set ?ids"
      using rows(3) by auto
    then obtain f where f: "f \<in> set ?fs" "fi_ref ?fld f = Some (?rid r)"
      using rows(1) refs by auto
    then have "order_map ?fld ?fs (Some (?rid r)) = Some (fi_display_order f)"
      using order_map_unique [OF drefs] by metis
    moreover have "fi_display_order f \<noteq> 0"
      using f(1) pos by fastforce
    ultimately show "rank (order_map ?fld ?fs) ?rid r = g (?rid r)"
      by (simp add: rank_def g_def)
  qed
  have "sorted (map (rank (order_map ?fld ?fs) ?rid) ?items)"
    by (simp add: curated_def)
  moreover have "map (rank (order_map ?fld ?fs) ?rid) ?items = map g (map ?rid ?items)"
    using rank_g by simp
  ultimately have sorted_items: "sorted (map g (map ?rid ?items))"
    by simp
  have map_g_ids: "map g ?ids = map fi_display_order ?fs"
    using gf by (simp add: rows(1))
  have "sorted (map fi_display_order ?fs)"
    by (simp add: featured_query_def order_by_def)
  then have sorted_ids: "sorted (map g ?ids)"
    by (simp only: map_g_ids)
  have dg_ids: "distinct (map g ?ids)"
    using dord by (simp add: map_g_ids)
  then have inj_g: "inj_on g (set ?ids)"
    by (simp add: distinct_map)
  have "distinct (map ?rid ?items)"
    using dist by (rule distinct_curated)
  then have dg_items: "distinct (map g (map ?rid ?items))"
    using inj_g rows(3) by (simp add: distinct_map del: map_map)
  show ?thesis
    using inj_g sorted_items dg_items sorted_ids dg_ids rows(3)
    by (intro map_sorted_distinct_set_unique [where f = g]) simp_all
qed

text \<open>when every active featured row references a distinct existing entity with a distinct positive display order and there are at least limit of them, the result is exactly those entities in display order and no fallback query is issued.\<close>

theorem resolve_full_override:
  assumes nf: "\<not> qf QFeatured" "\<not> qf QFetch"
    and dist: "distinct (map (sc_row_id c) (sc_table c db))"
    and refs: "\<forall>f \<in> set (active_featured c db). \<exists>x. fi_ref (sc_id_field c) f = Some x \<and> x \<noteq> [] \<and>
                 x \<in> sc_row_id c ` set (sc_table c db)"
    and drefs: "distinct (map (fi_ref (sc_id_field c)) (active_featured c db))"
    and dord: "distinct (map fi_display_order (active_featured c db))"
    and pos: "\<forall>f \<in> set (active_featured c db). 0 < fi_display_order f"
    and lim: "0 < limit" "limit \<le> length (active_featured c db)"
  shows "map (sc_row_id c) (resolve qf c limit db) = featured_ids (sc_id_field c) (active_featured c db) \<and>
         QFallback \<notin> set (queries_issued qf c limit db)"
proof -
  have ne: "active_featured c db \<noteq> []"
    using lim by auto
  have "length (curated qf c (active_featured c db) db) = length (active_featured c db)"
    using full_override_rows [of qf c db "active_featured c db", OF nf(2) dist refs drefs] by simp
  with nf(1) ne lim have "resolve qf c limit db = curated qf c (active_featured c db) db"
    and "queries_issued qf c limit db = [QFeatured, QFetch]"
    by (simp_all add: resolve_cases queries_issued_cases Let_def)
  with full_override_order [of qf c db, OF nf(2) dist refs drefs dord pos] show ?thesis
    by simp
qed

subsection \<open>Witnesses\<close>

lemmas resolver_eval = load_featured_section_def featured_query_def order_by_def featured_ids_def
  curated_def where_in_def order_map_def rank_def fallback_query_def exclusion_def where_not_in_def
  nil_uuid_def popular_courses_def recommended_contents_def urgent_jobs_def referenced_def
  display_rank_def no_faults_def run_query_def orphan_def

lemmas ex_data = ex_db_def ex_db7_def empty_db_def ex_course_def ex_featured_def ex_job_def

theorem resolve_length_bound_witness:
  "distinct (map c_id (courses ex_db7)) \<and> length (resolve no_faults popular_courses 6 ex_db7) = 7 \<and>
   length (resolve no_faults popular_courses 6 ex_db7) \<le> max 6 (length (active_featured popular_courses ex_db7))"
proof -
  have d: "distinct (map (sc_row_id popular_courses) (sc_table popular_courses ex_db7))"
    by (simp add: popular_courses_def ex_data)
  have "length (resolve no_faults popular_courses 6 ex_db7) = 7"
    by (simp add: resolver_eval ex_data)
  with d resolve_length_bound [OF d, of no_faults 6] show ?thesis
    by (simp add: popular_courses_def)
qed

theorem resolve_full_override_witness:
  "map c_id (resolve no_faults popular_courses 6 ex_db7) = [''a'', ''b'', ''c'', ''d'', ''e'', ''f'', ''g''] \<and>
   QFallback \<notin> set (queries_issued no_faults popular_courses 6 ex_db7)"
proof -
  have nf: "\<not> no_faults QFeatured" "\<not> no_faults QFetch"
    by (simp_all add: no_faults_def)
  have fs: "active_featured popular_courses ex_db7 =
      [ex_featured ''f2'' ''a'' 1, ex_featured ''f4'' ''b'' 2, ex_featured ''f6'' ''c'' 3,
       ex_featured ''f7'' ''d'' 4, ex_featured ''f5'' ''e'' 5, ex_featured ''f3'' ''f'' 6,
       ex_featured ''f1'' ''g'' 7]"
    by (simp add: featured_query_def order_by_def popular_courses_def ex_data)
  have d: "distinct (map (sc_row_id popular_courses) (sc_table popular_courses ex_db7))"
    by (simp add: popular_courses_def ex_data)
  have refs: "\<forall>f \<in> set (active_featured popular_courses ex_db7). \<exists>x. fi_ref (sc_id_field popular_courses) f = Some x \<and>
      x \<noteq> [] \<and> x \<in> sc_row_id popular_courses ` set (sc_table popular_courses ex_db7)"
    unfolding fs by (simp add: popular_courses_def ex_data)
  have dr: "distinct (map (fi_ref (sc_id_field popular_courses)) (active_featured popular_courses ex_db7))"
    unfolding fs by (simp add: popular_courses_def ex_featured_def)
  have dord: "distinct (map fi_display_order (active_featured popular_courses ex_db7))"
    unfolding fs by (simp add: ex_featured_def)
  have pos: "\<forall>f \<in> set (active_featured popular_courses ex_db7). 0 < fi_display_order f"
    unfolding fs by (simp add: ex_featured_def)
  have lim: "(0::nat) < 6" "6 \<le> length (active_featured popular_courses ex_db7)"
    unfolding fs by simp_all
  have ids: "featured_ids (sc_id_field popular_courses) (active_featured popular_courses ex_db7) =
      [''a'', ''b'', ''c'', ''d'', ''e'', ''f'', ''g'']"
    unfolding fs by (simp add: featured_ids_def popular_courses_def ex_featured_def)
  show ?thesis
    using resolve_full_override [OF nf d refs dr dord pos lim] ids by (simp add: popular_courses_def)
qed

lemma ex_db_out:
  "resolve no_faults popular_courses 3 ex_db = [ex_course ''a'' 4, ex_course ''c'' 3, ex_course ''b'' 5]"
  by (simp add: resolver_eval ex_data)

lemma ex_db_referenced:
  "referenced popular_courses ex_db (ex_course ''a'' 4)" "referenced popular_courses ex_db (ex_course ''c'' 3)"
  "\<not> referenced popular_courses ex_db (ex_course ''b'' 5)"
  by (simp_all add: resolver_eval ex_data)

theorem resolve_distinct_witness:
  "distinct (map c_id (courses ex_db)) \<and> distinct (map c_id (resolve no_faults popular_courses 3 ex_db))"
proof -
  have d: "distinct (map (sc_row_id popular_courses) (sc_table popular_courses ex_db))"
    by (simp add: popular_courses_def ex_data)
  from d resolve_distinct [OF d, of no_faults 3] show ?thesis
    by (simp add: popular_courses_def)
qed

theorem resolve_curated_first_witness:
  "referenced popular_courses ex_db (resolve no_faults popular_courses 3 ex_db ! 0) \<and>
   \<not> referenced popular_courses ex_db (resolve no_faults popular_courses 3 ex_db ! 2) \<and> (0::nat) < 2"
proof -
  have nf: "\<not> no_faults QFeatured" "\<not> no_faults QFetch"
    by (simp_all add: no_faults_def)
  have "(0::nat) < 2"
    using resolve_curated_first [OF nf, of 0 popular_courses 3 ex_db 2] ex_db_out ex_db_referenced
    by simp
  with ex_db_out ex_db_referenced show ?thesis by simp
qed

theorem resolve_ties_table_order_witness:
  "display_rank popular_courses ex_db (ex_course ''a'' 4) = 2 \<and>
   display_rank popular_courses ex_db (ex_course ''c'' 3) = 2 \<and>
   map fi_id (active_featured popular_courses ex_db) = [''f2'', ''f1'', ''f3''] \<and>
   filter (\<lambda>r. referenced popular_courses ex_db r \<and> display_rank popular_courses ex_db r = 2)
     (resolve no_faults popular_courses 3 ex_db) = [ex_course ''a'' 4, ex_course ''c'' 3]"
proof -
  have nf: "\<not> no_faults QFeatured" "\<not> no_faults QFetch"
    by (simp_all add: no_faults_def)
  have ranks: "display_rank popular_courses ex_db (ex_course ''a'' 4) = 2"
    "display_rank popular_courses ex_db (ex_course ''c'' 3) = 2"
    "display_rank popular_courses ex_db (ex_course ''b'' 5) = 99"
    "display_rank popular_courses ex_db (ex_course ''d'' 2) = 99"
    by (simp_all add: resolver_eval ex_data)
  have ord: "map fi_id (active_featured popular_courses ex_db) = [''f2'', ''f1'', ''f3'']"
    by (simp add: featured_query_def order_by_def popular_courses_def ex_data)
  have tbl: "filter (\<lambda>r. referenced popular_courses ex_db r \<and> display_rank popular_courses ex_db r = 2)
      (sc_table popular_courses ex_db) = [ex_course ''a'' 4, ex_course ''c'' 3]"
    using ranks ex_db_referenced by (simp add: popular_courses_def ex_db_def empty_db_def referenced_def)
  show ?thesis
    using resolve_ties_table_order [OF nf, of popular_courses ex_db 2 3] ranks ord tbl by simp
qed

theorem resolve_curated_sorted_witness:
  "map (display_rank popular_courses ex_db) (filter (referenced popular_courses ex_db)
     (resolve no_faults popular_courses 3 ex_db)) = [2, 2] \<and>
   sorted (map (display_rank popular_courses ex_db) (filter (referenced popular_courses ex_db)
     (resolve no_faults popular_courses 3 ex_db)))"
proof -
  have nf: "\<not> no_faults QFeatured" "\<not> no_faults QFetch"
    by (simp_all add: no_faults_def)
  have "map (display_rank popular_courses ex_db) (filter (referenced popular_courses ex_db)
     (resolve no_faults popular_courses 3 ex_db)) = [2, 2]"
    unfolding ex_db_out by (simp add: resolver_eval ex_data)
  with resolve_curated_sorted [OF nf, of popular_courses ex_db 3] show ?thesis by simp
qed

theorem resolve_orphan_invariant_witness:
  "orphan popular_courses ex_db (ex_featured ''f9'' ''ghost'' 1) \<and>
   resolve no_faults popular_courses 3
     (ex_db\<lparr>featured_items := ex_featured ''f9'' ''ghost'' 1 # featured_items ex_db\<rparr>) =
   [ex_course ''a'' 4, ex_course ''c'' 3, ex_course ''b'' 5]"
proof -
  have o: "orphan popular_courses ex_db (ex_featured ''f9'' ''ghost'' 1)"
    by (simp add: orphan_def popular_courses_def ex_data)
  have n: "nil_uuid \<notin> sc_row_id popular_courses ` set (sc_table popular_courses ex_db)"
    by (simp add: nil_uuid_def popular_courses_def ex_data)
  have t: "sc_table popular_courses (ex_db\<lparr>featured_items := ex_featured ''f9'' ''ghost'' 1 # featured_items ex_db\<rparr>) =
      sc_table popular_courses ex_db"
    by (simp add: popular_courses_def)
  show ?thesis
    using resolve_orphan_invariant [OF o n t, of no_faults 3] o ex_db_out by simp
qed

theorem resolve_zero_limit_witness:
  "resolve no_faults popular_courses 0 ex_db = [ex_course ''a'' 4, ex_course ''c'' 3] \<and>
   QFallback \<notin> set (queries_issued no_faults popular_courses 0 ex_db)"
proof -
  have "active_featured popular_courses ex_db \<noteq> []"
    by (simp add: featured_query_def order_by_def popular_courses_def ex_data)
  moreover have "curated no_faults popular_courses (active_featured popular_courses ex_db) ex_db =
      [ex_course ''a'' 4, ex_course ''c'' 3]"
    by (simp add: resolver_eval ex_data)
  ultimately show ?thesis
    using resolve_zero_limit [of no_faults popular_courses ex_db] by (simp add: no_faults_def)
qed

theorem resolve_no_featured_witness:
  "resolve no_faults urgent_jobs 5 ex_db = [ex_job ''j3'' ''2026-02-01'' True, ex_job ''j1'' ''2026-03-01'' True]"
proof -
  have h: "\<not> no_faults QFallback" "no_faults QFeatured \<or> active_featured urgent_jobs ex_db = []"
    by (simp_all add: no_faults_def featured_query_def order_by_def urgent_jobs_def ex_data)
  have "take 5 (order_by (sc_order urgent_jobs) (sc_asc urgent_jobs)
      (filter (passes (sc_filter urgent_jobs)) (sc_table urgent_jobs ex_db))) =
      [ex_job ''j3'' ''2026-02-01'' True, ex_job ''j1'' ''2026-03-01'' True]"
    by (simp add: order_by_def urgent_jobs_def ex_data)
  with resolve_no_featured [OF h, of 5] show ?thesis by simp
qed

theorem resolve_prefix_mono_witness:
  "prefix (resolve no_faults popular_courses 2 ex_db) (resolve no_faults popular_courses 3 ex_db) \<and>
   resolve no_faults popular_courses 2 ex_db = [ex_course ''a'' 4, ex_course ''c'' 3]"
proof -
  have "resolve no_faults popular_courses 2 ex_db = [ex_course ''a'' 4, ex_course ''c'' 3]"
    by (simp add: resolver_eval ex_data)
  with resolve_prefix_mono [of no_faults popular_courses 2 ex_db] show ?thesis
    by (simp add: numeral_eq_Suc)
qed

text \<open>C8: the sort-key map of line 32, built over the featured rows the query returns,
  gives an id the largest display order among the active featured rows of the section that
  reference it, and no entry to an id no such row references: the rows come sorted by
  display order and the Map keeps the last one written.\<close>

theorem order_map_largest:
  "order_map fld (featured_query sec fis) k =
     (let rows = filter (\<lambda>f. fi_section f = sec \<and> fi_is_active f \<and> fi_ref fld f = k) fis
      in if rows = [] then None else Some (Max (fi_display_order ` set rows)))"
proof -
  let ?fs = "featured_query sec fis"
  let ?P = "\<lambda>f. fi_ref fld f = k"
  let ?rows = "filter (\<lambda>f. fi_section f = sec \<and> fi_is_active f \<and> fi_ref fld f = k) fis"
  have set_eq: "set (filter ?P ?fs) = set ?rows" by (auto simp: featured_query_def)
  have sorted: "sorted (map fi_display_order (filter ?P ?fs))"
    unfolding featured_query_def by (rule sorted_filter) (rule sorted_order_by_asc)
  show ?thesis
  proof (cases "?rows = []")
    case True
    then have "\<not> (\<exists>f\<in>set ?fs. ?P f)" using set_eq by (auto simp: filter_empty_conv)
    with True show ?thesis by (simp add: order_map_def fold_order_map Let_def)
  next
    case False
    then have ne: "filter ?P ?fs \<noteq> []" using set_eq by (metis set_empty)
    then have "\<exists>f\<in>set ?fs. ?P f" by (auto simp: filter_empty_conv)
    with False show ?thesis
      using sorted_last_Max [OF sorted ne] set_eq by (simp add: order_map_def fold_order_map Let_def)
  qed
qed

end
