(* ===== verification/Forms.thy ===== *)
theory Forms
  imports Prelude "HOL-Library.AList"
begin

text \<open>
  The browser-side values the admin screens send to the server actions: a
  \<open>FormData\<close> is an association list of field names and strings (\<open>get\<close> returns
  the value of the first entry or \<open>null\<close>, \<open>set\<close> replaces it); numbers cross the
  boundary as \<open>String(n)\<close> and come back through JavaScript's \<open>parseInt\<close>, which
  skips leading white space, reads an optional sign, switches to base 16 after a
  \<open>0x\<close> prefix, and reads the longest run of digits, \<open>NaN\<close> (here \<open>None\<close>) when
  there is none. \<open>parseInt(null)\<close> parses the string \<open>"null"\<close>.
\<close>

type_synonym form = "(string \<times> string) list"

definition form_get :: "form \<Rightarrow> string \<Rightarrow> string option" where
  "form_get f k = map_of f k"

definition form_set :: "string \<Rightarrow> string \<Rightarrow> form \<Rightarrow> form" where
  "form_set k v f = AList.update k v f"

subsection \<open>parseInt\<close>

definition js_space :: "char \<Rightarrow> bool" where
  "js_space c \<longleftrightarrow> c \<in> {CHR '' '', CHR 0x09, CHR 0x0A, CHR 0x0B, CHR 0x0C, CHR 0x0D}"

definition digit_value :: "nat \<Rightarrow> char \<Rightarrow> nat option" where
  "digit_value radix c =
     (let n = of_char c :: nat
      in if 48 \<le> n \<and> n \<le> 57 \<and> n - 48 < radix then Some (n - 48)
         else if 97 \<le> n \<and> n \<le> 122 \<and> n - 87 < radix then Some (n - 87)
         else if 65 \<le> n \<and> n \<le> 90 \<and> n - 55 < radix then Some (n - 55)
         else None)"

definition is_digit_in :: "nat \<Rightarrow> char \<Rightarrow> bool" where
  "is_digit_in radix c \<longleftrightarrow> digit_value radix c \<noteq> None"

definition digits_value :: "nat \<Rightarrow> string \<Rightarrow> nat" where
  "digits_value radix ds = foldl (\<lambda>acc c. acc * radix + the (digit_value radix c)) 0 ds"

fun split_sign :: "string \<Rightarrow> bool \<times> string" where
  "split_sign (c # r) =
     (if c = CHR ''-'' then (True, r) else if c = CHR ''+'' then (False, r) else (False, c # r))"
| "split_sign [] = (False, [])"

fun split_radix :: "string \<Rightarrow> nat \<times> string" where
  "split_radix (c # d # r) =
     (if c = CHR ''0'' \<and> (d = CHR ''x'' \<or> d = CHR ''X'') then (16, r) else (10, c # d # r))"
| "split_radix s = (10, s)"

definition parse_int :: "string option \<Rightarrow> int option" where
  "parse_int s =
     (let str = (case s of None \<Rightarrow> ''null'' | Some v \<Rightarrow> v);
          (neg, u) = split_sign (dropWhile js_space str);
          (radix, w) = split_radix u;
          ds = takeWhile (is_digit_in radix) w
      in if ds = [] then None
         else Some ((if neg then -1 else 1) * int (digits_value radix ds)))"

text \<open>\<open>parseInt(x) || d\<close>: \<open>NaN\<close> and \<open>0\<close> are falsy.\<close>

definition parse_int_or :: "string option \<Rightarrow> int \<Rightarrow> int" where
  "parse_int_or s d = (case parse_int s of Some n \<Rightarrow> if n = 0 then d else n | None \<Rightarrow> d)"

subsection \<open>String(n)\<close>

definition digit_char :: "nat \<Rightarrow> char" where
  "digit_char d = char_of (48 + d)"

fun string_of_nat :: "nat \<Rightarrow> string" where
  "string_of_nat n = (if n < 10 then [digit_char n] else string_of_nat (n div 10) @ [digit_char (n mod 10)])"

definition js_string_of_int :: "int \<Rightarrow> string" where
  "js_string_of_int i = (if i < 0 then CHR ''-'' # string_of_nat (nat (- i)) else string_of_nat (nat i))"

text \<open>\<open>String(b)\<close> for a boolean.\<close>

definition js_string_of_bool :: "bool \<Rightarrow> string" where
  "js_string_of_bool b = (if b then ''true'' else ''false'')"


subsection \<open>split, join, parseFloat, Math.round\<close>

text \<open>\<open>s.split(c)\<close>: the pieces between the separators, empty ones included.\<close>

fun js_split :: "char \<Rightarrow> string \<Rightarrow> string list" where
  "js_split c [] = [[]]"
| "js_split c (x # xs) =
     (if x = c then [] # js_split c xs
      else (case js_split c xs of p # ps \<Rightarrow> (x # p) # ps | [] \<Rightarrow> [[x]]))"

text \<open>\<open>xs.join(c)\<close>.\<close>

fun js_join :: "char \<Rightarrow> string list \<Rightarrow> string" where
  "js_join c [] = []"
| "js_join c [x] = x"
| "js_join c (x # y # ys) = x @ c # js_join c (y # ys)"

text \<open>\<open>(formData.get(k) as string || '').split(',').filter(Boolean)\<close>.\<close>

definition csv_ids :: "string option \<Rightarrow> string list" where
  "csv_ids v = filter (\<lambda>x. x \<noteq> []) (js_split CHR '','' (or_default v []))"

text \<open>
  \<open>parseFloat\<close>: after white space and a sign, \<open>Infinity\<close>, or the longest decimal
  literal (digits, an optional fraction, an optional exponent); \<open>NaN\<close> is \<open>None\<close>.
\<close>

datatype js_float = JFinite real | JInfinity bool

definition exponent_part :: "string \<Rightarrow> int" where
  "exponent_part r =
     (case r of
        e # t \<Rightarrow>
          if e = CHR ''e'' \<or> e = CHR ''E'' then
            (let (neg, u) = split_sign t; ds = takeWhile (is_digit_in 10) u
             in if ds = [] then 0 else (if neg then -1 else 1) * int (digits_value 10 ds))
          else 0
      | [] \<Rightarrow> 0)"

definition parse_float :: "string option \<Rightarrow> js_float option" where
  "parse_float s =
     (let str = (case s of None \<Rightarrow> ''null'' | Some v \<Rightarrow> v);
          (neg, u) = split_sign (dropWhile js_space str);
          sgn = (if neg then -1 else 1) :: real
      in if take 8 u = ''Infinity'' then Some (JInfinity neg)
         else
           (let ip = takeWhile (is_digit_in 10) u;
                r1 = dropWhile (is_digit_in 10) u;
                (fp, r2) = (case r1 of
                              c # r \<Rightarrow> if c = CHR ''.'' then (takeWhile (is_digit_in 10) r, dropWhile (is_digit_in 10) r)
                                       else ([], r1)
                            | [] \<Rightarrow> ([], []));
                m = real (digits_value 10 ip) + real (digits_value 10 fp) / 10 ^ length fp;
                e = exponent_part r2
            in if ip = [] \<and> fp = [] then None
               else Some (JFinite (sgn * m * (if 0 \<le> e then 10 ^ nat e else 1 / 10 ^ nat (- e))))))"

text \<open>\<open>parseFloat(x) || d\<close> for a finite column: \<open>NaN\<close> and \<open>0\<close> give \<open>d\<close>; an infinite
  value is not a number the column holds (\<open>None\<close>).\<close>

definition parse_float_or :: "string option \<Rightarrow> real \<Rightarrow> real option" where
  "parse_float_or s d =
     (case parse_float s of
        None \<Rightarrow> Some d
      | Some (JFinite x) \<Rightarrow> Some (if x = 0 then d else x)
      | Some (JInfinity _) \<Rightarrow> None)"

text \<open>\<open>Math.round\<close>.\<close>

definition js_round :: "real \<Rightarrow> int" where
  "js_round x = \<lfloor>x + 1 / 2\<rfloor>"

subsection \<open>Lemmas: digits and the round trip through String and parseInt\<close>

declare string_of_nat.simps [simp del]

lemma digit_value_digit_char [simp]:
  "d < 10 \<Longrightarrow> digit_value 10 (digit_char d) = Some d"
  by (simp add: digit_value_def digit_char_def of_char_of)

lemma of_char_digit_char: "d < 10 \<Longrightarrow> (of_char (digit_char d) :: nat) = 48 + d"
  by (simp add: digit_char_def of_char_of)

lemma digit_char_eqD: "digit_char d = c \<Longrightarrow> d < 10 \<Longrightarrow> (of_char c :: nat) = 48 + d"
  using of_char_digit_char by blast

lemma digit_char_not_sign [simp]:
  "d < 10 \<Longrightarrow> digit_char d \<noteq> CHR ''-''" "d < 10 \<Longrightarrow> digit_char d \<noteq> CHR ''+''"
  "d < 10 \<Longrightarrow> digit_char d \<noteq> CHR ''x''" "d < 10 \<Longrightarrow> digit_char d \<noteq> CHR ''X''"
  "d < 10 \<Longrightarrow> \<not> js_space (digit_char d)"
  by (auto simp: js_space_def dest!: digit_char_eqD)

lemma not_js_space_minus [simp]: "\<not> js_space CHR ''-''"
  by (simp add: js_space_def)

lemma string_of_nat_digits:
  "c \<in> set (string_of_nat n) \<Longrightarrow> \<exists>d < 10. c = digit_char d"
proof (induction n rule: string_of_nat.induct)
  case (1 n)
  then show ?case
    by (cases "n < 10") (auto simp: string_of_nat.simps [of n] intro: exI [of _ "n mod 10"])
qed

lemma string_of_nat_ne [simp]: "string_of_nat n \<noteq> []"
  by (simp add: string_of_nat.simps [of n])

lemma digits_value_snoc:
  "digits_value radix (xs @ [c]) = digits_value radix xs * radix + the (digit_value radix c)"
  by (simp add: digits_value_def)

lemma digits_value_string_of_nat: "digits_value 10 (string_of_nat n) = n"
proof (induction n rule: string_of_nat.induct)
  case (1 n)
  show ?case
  proof (cases "n < 10")
    case True
    then show ?thesis
      by (simp add: string_of_nat.simps [of n] digits_value_def)
  next
    case False
    with "1.IH" show ?thesis
      by (simp add: string_of_nat.simps [of n] digits_value_snoc)
  qed
qed

lemma takeWhile_string_of_nat: "takeWhile (is_digit_in 10) (string_of_nat n) = string_of_nat n"
  using string_of_nat_digits by (force simp: takeWhile_eq_all_conv is_digit_in_def)

lemma string_of_nat_Cons: "\<exists>d r. d < 10 \<and> string_of_nat n = digit_char d # r"
proof -
  obtain c r where cr: "string_of_nat n = c # r"
    using string_of_nat_ne by (cases "string_of_nat n") auto
  then obtain d where "d < 10" "c = digit_char d"
    using string_of_nat_digits [of c n] by auto
  with cr show ?thesis by blast
qed

lemma split_sign_string_of_nat [simp]: "split_sign (string_of_nat n) = (False, string_of_nat n)"
  using string_of_nat_Cons [of n] by auto

lemma dropWhile_string_of_nat [simp]: "dropWhile js_space (string_of_nat n) = string_of_nat n"
  using string_of_nat_Cons [of n] by auto

lemma split_radix_string_of_nat [simp]: "split_radix (string_of_nat n) = (10, string_of_nat n)"
proof (cases "string_of_nat n" rule: split_radix.cases)
  case (1 c d r)
  then have "d \<in> set (string_of_nat n)" by simp
  then obtain k where "k < 10" "d = digit_char k"
    using string_of_nat_digits by blast
  with 1 show ?thesis by simp
qed auto

lemma parse_int_string_of_nat: "parse_int (Some (string_of_nat n)) = Some (int n)"
  by (simp add: parse_int_def takeWhile_string_of_nat digits_value_string_of_nat)

lemma parse_int_js_string_of_int: "parse_int (Some (js_string_of_int i)) = Some i"
  by (simp add: parse_int_def js_string_of_int_def takeWhile_string_of_nat digits_value_string_of_nat)

lemma parse_int_hex_example: "parse_int (Some ''  -0x1Fz'') = Some (-31)"
  by (simp add: parse_int_def js_space_def digits_value_def is_digit_in_def digit_value_def)
lemma parse_int_null: "parse_int None = None"
  by (simp add: parse_int_def js_space_def is_digit_in_def digit_value_def)
lemma parse_int_prefix_example: "parse_int (Some ''12abc'') = Some 12"
  by (simp add: parse_int_def js_space_def digits_value_def is_digit_in_def digit_value_def)

lemma form_get_set_same [simp]: "form_get (form_set k v f) k = Some v"
  by (simp add: form_get_def form_set_def update_conv')

lemma form_get_set_other [simp]: "k' \<noteq> k \<Longrightarrow> form_get (form_set k v f) k' = form_get f k'"
  by (simp add: form_get_def form_set_def update_conv')

lemma form_get_empty [simp]: "form_get [] k = None"
  by (simp add: form_get_def)

lemma parse_int_or_js_string_of_int [simp]: "parse_int_or (Some (js_string_of_int i)) d = (if i = 0 then d else i)"
  by (simp add: parse_int_or_def parse_int_js_string_of_int)

lemma parse_float_null [simp]: "parse_float None = None"
  by (simp add: parse_float_def js_space_def is_digit_in_def digit_value_def)

lemma parse_float_or_null [simp]: "parse_float_or None d = Some d"
  by (simp add: parse_float_or_def)

lemma js_split_ne [simp]: "js_split c s \<noteq> []"
  by (induction c s rule: js_split.induct) (auto split: list.splits)

lemma js_split_join:
  "\<forall>x \<in> set xs. c \<notin> set x \<Longrightarrow> xs \<noteq> [] \<Longrightarrow> js_split c (js_join c xs) = xs"
proof (induction c xs rule: js_join.induct)
  case (2 c x)
  then show ?case
    by (induction x) (auto split: list.splits)
next
  case (3 c x y ys)
  have "js_split c (x @ c # s) = x # js_split c s" if "c \<notin> set x" for s
    using that by (induction x) (auto split: list.splits)
  with 3 show ?case by simp
qed simp

lemma csv_ids_join:
  "\<forall>x \<in> set xs. x \<noteq> [] \<and> CHR '','' \<notin> set x \<Longrightarrow> csv_ids (Some (js_join CHR '','' xs)) = xs"
proof (cases xs)
  case Nil
  then show ?thesis by (simp add: csv_ids_def or_default_def)
next
  case (Cons y ys)
  assume a: "\<forall>x \<in> set xs. x \<noteq> [] \<and> CHR '','' \<notin> set x"
  then have "js_join CHR '','' xs \<noteq> []"
    using Cons by (cases ys) auto
  with a Cons show ?thesis
    by (simp add: csv_ids_def or_default_def js_split_join del: js_join.simps)
qed

lemma js_round_clamp: "0 \<le> js_round (max 0 (min 100 x)) \<and> js_round (max 0 (min 100 x)) \<le> 100"
  by (auto simp: js_round_def max_def min_def intro!: floor_le_iff [THEN iffD2])

lemma map_fst_update_present:
  "k \<in> set (map fst al) \<Longrightarrow> map fst (AList.update k v al) = map fst al"
  by (induction al) auto

lemma map_of_update_other: "n \<noteq> k \<Longrightarrow> map_of (AList.update k v al) n = map_of al n"
  by (simp add: update_conv')

lemma map_of_update_same: "map_of (AList.update k v al) k = Some v"
  by (simp add: update_conv')

end
