(* ===== verification/Admin.thy ===== *)
theory Admin
  imports Resolver Forms
begin

text \<open>
  The admin side of the home-page curation (\<open>src/app/actions/admin.ts\<close>,
  \<open>src/components/admin/FeaturedManager.tsx\<close>, \<open>src/components/admin/MemberManager.tsx\<close>,
  \<open>src/app/(admin)/layout.tsx\<close>, \<open>src/app/(admin)/admin/pending/page.tsx\<close>,
  \<open>src/app/(admin)/admin/members/page.tsx\<close>). The signed-in user is an optional id
  (\<open>auth.getUser()\<close>); a server action returns \<open>Inl\<close> of the error it throws or \<open>Inr\<close> of
  the store after its writes. A write the code awaits without reading its \<open>error\<close> is a
  flag \<open>fails\<close>: when set the store is unchanged and the action still succeeds. A row the
  store inserts gets the id \<open>new_id\<close> the caller supplies and goes to the end of its
  table, so table order is insertion order.
\<close>

subsection \<open>Guards: \<open>requireAdmin\<close>, \<open>requireSuperAdmin\<close>\<close>

datatype admin_error = NotLoggedIn | NotAdmin | NotSuperAdmin | WriteFailed

text \<open>\<open>.from('profiles').select(..).eq('id', uid).single()\<close>.\<close>

definition profile_row :: "db \<Rightarrow> uuid \<Rightarrow> profile option" where
  "profile_row db uid = single_data (filter (\<lambda>p. pf_id p = uid) (profiles db))"

definition require_admin :: "uuid option \<Rightarrow> db \<Rightarrow> admin_error + profile" where
  "require_admin user db =
     (case user of
        None \<Rightarrow> Inl NotLoggedIn
      | Some uid \<Rightarrow>
          (case profile_row db uid of
             None \<Rightarrow> Inl NotAdmin
           | Some p \<Rightarrow>
               if pf_admin_role p \<noteq> Some Approved \<and> pf_admin_role p \<noteq> Some Super then Inl NotAdmin
               else Inr p))"

definition require_super_admin :: "uuid option \<Rightarrow> db \<Rightarrow> admin_error + profile" where
  "require_super_admin user db =
     (case require_admin user db of
        Inl e \<Rightarrow> Inl e
      | Inr p \<Rightarrow> if pf_admin_role p \<noteq> Some Super then Inl NotSuperAdmin else Inr p)"

subsection \<open>Member approval: \<open>approveAdmin\<close>, \<open>rejectAdmin\<close>\<close>

text \<open>\<open>.update({admin_role, is_admin}).eq('id', userId)\<close>.\<close>

definition set_admin_role :: "uuid \<Rightarrow> admin_role \<Rightarrow> bool \<Rightarrow> db \<Rightarrow> db" where
  "set_admin_role uid r a db =
     db\<lparr>profiles := map (\<lambda>p. if pf_id p = uid then p\<lparr>pf_admin_role := Some r, pf_is_admin := a\<rparr> else p)
                      (profiles db)\<rparr>"

definition approve_admin :: "uuid option \<Rightarrow> uuid \<Rightarrow> bool \<Rightarrow> db \<Rightarrow> admin_error + db" where
  "approve_admin user uid fails db =
     (case require_super_admin user db of
        Inl e \<Rightarrow> Inl e
      | Inr _ \<Rightarrow> if fails then Inl WriteFailed else Inr (set_admin_role uid Approved True db))"

definition reject_admin :: "uuid option \<Rightarrow> uuid \<Rightarrow> bool \<Rightarrow> db \<Rightarrow> admin_error + db" where
  "reject_admin user uid fails db =
     (case require_super_admin user db of
        Inl e \<Rightarrow> Inl e
      | Inr _ \<Rightarrow> if fails then Inl WriteFailed else Inr (set_admin_role uid Rejected False db))"

subsection \<open>Home curation: \<open>upsertFeaturedItem\<close>, \<open>deleteFeaturedItem\<close>\<close>

text \<open>
  The columns the action writes, read from the form: \<open>x || null\<close> for the three
  references, \<open>parseInt(..) || 0\<close> for the order, \<open>!== 'false'\<close> for the flag.
\<close>

definition featured_fields :: "form \<Rightarrow> string \<Rightarrow> featured_item \<Rightarrow> featured_item" where
  "featured_fields fd sec f =
     f\<lparr>fi_section := sec,
       fi_course_id := or_null (form_get fd ''course_id''),
       fi_content_id := or_null (form_get fd ''content_id''),
       fi_job_id := or_null (form_get fd ''job_id''),
       fi_display_order := parse_int_or (form_get fd ''display_order'') 0,
       fi_is_active := (form_get fd ''is_active'' \<noteq> Some ''false'')\<rparr>"

text \<open>A row the store creates, with the column defaults before the insert's values.\<close>

definition new_featured :: "uuid \<Rightarrow> featured_item" where
  "new_featured nid =
     \<lparr>fi_id = nid, fi_section = [], fi_course_id = None, fi_content_id = None, fi_job_id = None,
      fi_display_order = 0, fi_is_active = True\<rparr>"

text \<open>
  \<open>section\<close> is a non-null column: a form without it makes the write fail, and the
  action ignores the failure like any other.
\<close>

definition upsert_featured_item :: "uuid option \<Rightarrow> form \<Rightarrow> uuid \<Rightarrow> bool \<Rightarrow> db \<Rightarrow> admin_error + db" where
  "upsert_featured_item user fd nid fails db =
     (case require_admin user db of
        Inl e \<Rightarrow> Inl e
      | Inr _ \<Rightarrow>
          (case form_get fd ''section'' of
             None \<Rightarrow> Inr db
           | Some sec \<Rightarrow>
               if fails then Inr db
               else if js_truthy_str (form_get fd ''id'')
               then Inr (db\<lparr>featured_items :=
                          map (\<lambda>f. if Some (fi_id f) = form_get fd ''id'' then featured_fields fd sec f else f)
                              (featured_items db)\<rparr>)
               else Inr (db\<lparr>featured_items :=
                          featured_items db @ [featured_fields fd sec (new_featured nid)]\<rparr>)))"

definition delete_featured_item :: "uuid option \<Rightarrow> uuid \<Rightarrow> bool \<Rightarrow> db \<Rightarrow> admin_error + db" where
  "delete_featured_item user fid fails db =
     (case require_admin user db of
        Inl e \<Rightarrow> Inl e
      | Inr _ \<Rightarrow>
          if fails then Inr db
          else Inr (db\<lparr>featured_items := filter (\<lambda>f. fi_id f \<noteq> fid) (featured_items db)\<rparr>))"

subsection \<open>The curation screen: \<open>FeaturedManager\<close>\<close>

text \<open>\<open>sectionType\<close>: the entity kind a section id names.\<close>

definition section_type :: "string \<Rightarrow> id_field" where
  "section_type sid =
     (if sid = ''popular_courses'' then CourseIdField
      else if sid = ''recommended_contents'' then ContentIdField else JobIdField)"

text \<open>The form \<open>handleAdd\<close> builds from the selected id and the chosen rank.\<close>

definition add_form :: "string \<Rightarrow> string \<Rightarrow> int \<Rightarrow> form" where
  "add_form sid sel order =
     (let t = section_type sid;
          f1 = form_set ''section'' sid [];
          f2 = (if t = CourseIdField then form_set ''course_id'' sel f1 else f1);
          f3 = (if t = ContentIdField then form_set ''content_id'' sel f2 else f2);
          f4 = (if t = JobIdField then form_set ''job_id'' sel f3 else f3)
      in form_set ''is_active'' ''true'' (form_set ''display_order'' (js_string_of_int order) f4))"

text \<open>The state of one section's panel: \<open>showAdd\<close>, \<open>selectedId\<close>, \<open>order\<close>.\<close>

record section_ui =
  su_show_add :: bool
  su_selected :: string
  su_order :: int

definition init_section_ui :: "featured_item list \<Rightarrow> section_ui" where
  "init_section_ui items = \<lparr>su_show_add = False, su_selected = [], su_order = int (length items) + 1\<rparr>"

text \<open>
  \<open>handleAdd\<close>: nothing without a selection; otherwise the action runs and, when it
  returns, the panel closes and the selection is cleared. A thrown error leaves the
  transition before the resets.
\<close>

definition handle_add ::
  "string \<Rightarrow> uuid option \<Rightarrow> uuid \<Rightarrow> bool \<Rightarrow> section_ui \<times> db \<Rightarrow> admin_error + section_ui \<times> db" where
  "handle_add sid user nid fails st =
     (let (ui, db) = st in
      if su_selected ui = [] then Inr (ui, db)
      else (case upsert_featured_item user (add_form sid (su_selected ui) (su_order ui)) nid fails db of
              Inl e \<Rightarrow> Inl e
            | Inr db' \<Rightarrow> Inr (ui\<lparr>su_show_add := False, su_selected := []\<rparr>, db')))"

text \<open>\<open>if (item.x) formData.set('x', item.x)\<close>.\<close>

definition set_if_truthy :: "string \<Rightarrow> string option \<Rightarrow> form \<Rightarrow> form" where
  "set_if_truthy k v fd = (case v of Some s \<Rightarrow> if s \<noteq> [] then form_set k s fd else fd | None \<Rightarrow> fd)"

definition order_change_form :: "featured_item \<Rightarrow> int \<Rightarrow> form" where
  "order_change_form item n =
     form_set ''is_active'' (js_string_of_bool (fi_is_active item))
      (form_set ''display_order'' (js_string_of_int n)
        (set_if_truthy ''job_id'' (fi_job_id item)
          (set_if_truthy ''content_id'' (fi_content_id item)
            (set_if_truthy ''course_id'' (fi_course_id item)
              (form_set ''section'' (fi_section item) (form_set ''id'' (fi_id item) []))))))"

definition handle_order_change ::
  "uuid option \<Rightarrow> featured_item \<Rightarrow> int \<Rightarrow> uuid \<Rightarrow> bool \<Rightarrow> db \<Rightarrow> admin_error + db" where
  "handle_order_change user item n nid fails db =
     upsert_featured_item user (order_change_form item n) nid fails db"

definition handle_delete :: "bool \<Rightarrow> uuid option \<Rightarrow> uuid \<Rightarrow> bool \<Rightarrow> db \<Rightarrow> admin_error + db" where
  "handle_delete confirmed user fid fails db =
     (if \<not> confirmed then Inr db else delete_featured_item user fid fails db)"

text \<open>
  The panel's list: the page loads every row ordered by \<open>display_order\<close>, the panel
  keeps its section's rows and sorts them again (a stable sort).
\<close>

definition section_items :: "string \<Rightarrow> featured_item list \<Rightarrow> featured_item list" where
  "section_items sid fis = sort_key fi_display_order
     (filter (\<lambda>f. fi_section f = sid) (order_by fi_display_order True fis))"

text \<open>\<open>getItemName\<close>; the fixed labels for deleted entities are constructors.\<close>

datatype item_label = Title string | DeletedCourse | DeletedContent | DeletedJob | UnknownItem

definition item_name ::
  "course list \<Rightarrow> content list \<Rightarrow> job_posting list \<Rightarrow> featured_item \<Rightarrow> item_label" where
  "item_name cs ts js item =
     (if js_truthy_str (fi_course_id item) then
        (case find (\<lambda>c. Some (c_id c) = fi_course_id item) cs of
           Some c \<Rightarrow> Title (c_title c) | None \<Rightarrow> DeletedCourse)
      else if js_truthy_str (fi_content_id item) then
        (case find (\<lambda>c. Some (ct_id c) = fi_content_id item) ts of
           Some c \<Rightarrow> Title (ct_title c) | None \<Rightarrow> DeletedContent)
      else if js_truthy_str (fi_job_id item) then
        (case find (\<lambda>j. Some (j_id j) = fi_job_id item) js of
           Some j \<Rightarrow> Title (j_company_name j @ '' - '' @ j_title j) | None \<Rightarrow> DeletedJob)
      else UnknownItem)"

subsection \<open>Admin pages: layout, pending page, member screen\<close>

datatype layout_view = ChildrenOnly | AdminShell bool

definition admin_layout :: "uuid option \<Rightarrow> db \<Rightarrow> layout_view" where
  "admin_layout user db =
     (case user of
        None \<Rightarrow> ChildrenOnly
      | Some uid \<Rightarrow>
          (case profile_row db uid of
             None \<Rightarrow> ChildrenOnly
           | Some p \<Rightarrow>
               if pf_admin_role p = None \<or> pf_admin_role p = Some Pending \<or> pf_admin_role p = Some Rejected
               then ChildrenOnly
               else AdminShell (pf_admin_role p = Some Super)))"

datatype pending_view = RedirectLogin | RedirectAdmin | PendingNotice | RejectedNotice

definition pending_page :: "uuid option \<Rightarrow> db \<Rightarrow> pending_view" where
  "pending_page user db =
     (case user of
        None \<Rightarrow> RedirectLogin
      | Some uid \<Rightarrow>
          (let role = (case profile_row db uid of None \<Rightarrow> None | Some p \<Rightarrow> pf_admin_role p)
           in if role = Some Approved \<or> role = Some Super then RedirectAdmin
              else if role = Some Rejected then RejectedNotice else PendingNotice))"

text \<open>\<open>.not('admin_role', 'is', null)\<close> (the order by creation time is not modelled).\<close>

definition member_rows :: "db \<Rightarrow> profile list" where
  "member_rows db = filter (\<lambda>p. pf_admin_role p \<noteq> None) (profiles db)"

text \<open>\<open>MemberManager\<close>'s four lists, in the order the screen shows them.\<close>

definition member_sections :: "profile list \<Rightarrow> profile list \<times> profile list \<times> profile list \<times> profile list" where
  "member_sections ms =
     (filter (\<lambda>m. pf_admin_role m = Some Pending) ms,
      filter (\<lambda>m. pf_admin_role m = Some Super) ms,
      filter (\<lambda>m. pf_admin_role m = Some Approved) ms,
      filter (\<lambda>m. pf_admin_role m = Some Rejected) ms)"

datatype member_action = Approve | Reject | Revoke | ReApprove

text \<open>The buttons of a \<open>MemberRow\<close>: \<open>showActions\<close>, \<open>showRevoke\<close>, \<open>showReApprove\<close>.\<close>

fun row_actions :: "admin_role \<Rightarrow> member_action list" where
  "row_actions Pending = [Approve, Reject]"
| "row_actions Approved = [Revoke]"
| "row_actions Rejected = [ReApprove]"
| "row_actions Super = []"

text \<open>\<open>handleApprove\<close> and \<open>handleReject\<close> (the latter behind \<open>confirm\<close>).\<close>

fun run_member_action :: "member_action \<Rightarrow> bool \<Rightarrow> uuid option \<Rightarrow> uuid \<Rightarrow> bool \<Rightarrow> db \<Rightarrow> admin_error + db" where
  "run_member_action Approve _ user uid fails db = approve_admin user uid fails db"
| "run_member_action ReApprove _ user uid fails db = approve_admin user uid fails db"
| "run_member_action Reject confirmed user uid fails db =
     (if confirmed then reject_admin user uid fails db else Inr db)"
| "run_member_action Revoke confirmed user uid fails db =
     (if confirmed then reject_admin user uid fails db else Inr db)"

subsection \<open>What the curation screen promises\<close>

text \<open>
  The three section ids of \<open>FEATURED_SECTIONS\<close> (\<open>src/lib/constants.ts\<close>), the row
  \<open>upsertOverride(section, entityRef, displayOrder, isActive)\<close> stores for a new
  override, and the well-formedness of a stored override: a known section, exactly one
  non-empty reference, of the section's entity kind.
\<close>

definition featured_section_ids :: "string list" where
  "featured_section_ids = [''popular_courses'', ''recommended_contents'', ''urgent_jobs'']"

definition override_row :: "uuid \<Rightarrow> string \<Rightarrow> string \<Rightarrow> int \<Rightarrow> featured_item" where
  "override_row nid sid sel order =
     \<lparr>fi_id = nid, fi_section = sid,
      fi_course_id = (if section_type sid = CourseIdField then Some sel else None),
      fi_content_id = (if section_type sid = ContentIdField then Some sel else None),
      fi_job_id = (if section_type sid = JobIdField then Some sel else None),
      fi_display_order = order, fi_is_active = True\<rparr>"

definition no_empty_refs :: "featured_item \<Rightarrow> bool" where
  "no_empty_refs f \<longleftrightarrow> fi_course_id f \<noteq> Some [] \<and> fi_content_id f \<noteq> Some [] \<and> fi_job_id f \<noteq> Some []"

definition override_ok :: "featured_item \<Rightarrow> bool" where
  "override_ok f \<longleftrightarrow> fi_id f \<noteq> [] \<and> fi_section f \<in> set featured_section_ids \<and>
     (case fi_ref (section_type (fi_section f)) f of None \<Rightarrow> False | Some x \<Rightarrow> x \<noteq> []) \<and>
     (fi_course_id f = None \<or> section_type (fi_section f) = CourseIdField) \<and>
     (fi_content_id f = None \<or> section_type (fi_section f) = ContentIdField) \<and>
     (fi_job_id f = None \<or> section_type (fi_section f) = JobIdField)"

definition overrides_ok :: "featured_item list \<Rightarrow> bool" where
  "overrides_ok fs \<longleftrightarrow> list_all override_ok fs \<and> distinct (map fi_id fs)"

text \<open>The admin flag agrees with the role, as every writer of the two columns sets them.\<close>

definition admin_flags_ok :: "profile list \<Rightarrow> bool" where
  "admin_flags_ok ps \<longleftrightarrow>
     list_all (\<lambda>p. pf_is_admin p = (pf_admin_role p = Some Approved \<or> pf_admin_role p = Some Super)) ps"

text \<open>A store with one admin of each role, over the resolver's example store.\<close>

definition ex_profile :: "uuid \<Rightarrow> admin_role option \<Rightarrow> profile" where
  "ex_profile uid r = \<lparr>pf_id = uid, pf_email = uid @ ''@example.com'', pf_name = None,
     pf_target_job = None, pf_preparation_stage = None, pf_interests = [],
     pf_is_admin = (r = Some Approved \<or> r = Some Super), pf_admin_role = r\<rparr>"

definition ex_admin_db :: db where
  "ex_admin_db = ex_db\<lparr>profiles := [ex_profile ''u1'' (Some Super), ex_profile ''u2'' (Some Approved),
     ex_profile ''u3'' (Some Pending), ex_profile ''u4'' None]\<rparr>"

definition ex_stale_db :: db where
  "ex_stale_db = ex_admin_db\<lparr>featured_items :=
     [(ex_featured ''f1'' ''c'' 2)\<lparr>fi_is_active := False\<rparr>, ex_featured ''f2'' ''zz'' 1]\<rparr>"

subsection \<open>Lemmas\<close>

lemma require_admin_Inr:
  "require_admin user db = Inr p \<longleftrightarrow>
     (\<exists>uid. user = Some uid \<and> profile_row db uid = Some p \<and>
            (pf_admin_role p = Some Approved \<or> pf_admin_role p = Some Super))"
  by (auto simp: require_admin_def split: option.splits)

lemma require_super_admin_Inr:
  "require_super_admin user db = Inr p \<longleftrightarrow>
     (\<exists>uid. user = Some uid \<and> profile_row db uid = Some p \<and> pf_admin_role p = Some Super)"
  by (auto simp: require_super_admin_def require_admin_def split: sum.splits option.splits)

lemma require_admin_cong:
  assumes "profiles db' = profiles db" shows "require_admin user db' = require_admin user db"
  unfolding require_admin_def profile_row_def assms ..

lemma form_get_add_form:
  "form_get (add_form sid sel order) ''section'' = Some sid"
  "form_get (add_form sid sel order) ''id'' = None"
  "form_get (add_form sid sel order) ''display_order'' = Some (js_string_of_int order)"
  "form_get (add_form sid sel order) ''is_active'' = Some ''true''"
  "form_get (add_form sid sel order) ''course_id'' = (if section_type sid = CourseIdField then Some sel else None)"
  "form_get (add_form sid sel order) ''content_id'' = (if section_type sid = ContentIdField then Some sel else None)"
  "form_get (add_form sid sel order) ''job_id'' = (if section_type sid = JobIdField then Some sel else None)"
  by (cases "section_type sid"; simp add: add_form_def Let_def)+

lemma featured_fields_add_form:
  "sel \<noteq> [] \<Longrightarrow> featured_fields (add_form sid sel order) sid (new_featured nid) = override_row nid sid sel order"
  by (simp add: featured_fields_def form_get_add_form new_featured_def override_row_def parse_int_or_js_string_of_int)

lemma form_get_set_if_truthy:
  "form_get (set_if_truthy k v fd) k' = (if k' = k \<and> js_truthy_str v then v else form_get fd k')"
  by (cases v) (auto simp: set_if_truthy_def)

lemma js_string_of_bool_false [simp]: "(js_string_of_bool b \<noteq> ''false'') = b"
  by (simp add: js_string_of_bool_def)

lemma form_get_order_change_form:
  "form_get (order_change_form item n) ''id'' = Some (fi_id item)"
  "form_get (order_change_form item n) ''section'' = Some (fi_section item)"
  "form_get (order_change_form item n) ''display_order'' = Some (js_string_of_int n)"
  "form_get (order_change_form item n) ''is_active'' = Some (js_string_of_bool (fi_is_active item))"
  "or_null (form_get (order_change_form item n) ''course_id'') = or_null (fi_course_id item)"
  "or_null (form_get (order_change_form item n) ''content_id'') = or_null (fi_content_id item)"
  "or_null (form_get (order_change_form item n) ''job_id'') = or_null (fi_job_id item)"
  by (simp_all add: order_change_form_def form_get_set_if_truthy or_null_def)

lemma featured_fields_order_change:
  assumes "no_empty_refs item" "fi_id f = fi_id item"
  shows "featured_fields (order_change_form item n) (fi_section item) f = item\<lparr>fi_display_order := n\<rparr>"
  using assms by (simp add: featured_fields_def form_get_order_change_form no_empty_refs_def or_null_id)

lemma handle_order_change_writes:
  assumes "require_admin user db = Inr p" "fi_id item \<noteq> []" "no_empty_refs item"
  shows "handle_order_change user item n nid False db =
    Inr (db\<lparr>featured_items :=
      map (\<lambda>f. if fi_id f = fi_id item then item\<lparr>fi_display_order := n\<rparr> else f) (featured_items db)\<rparr>)"
proof -
  have "\<And>f. (if Some (fi_id f) = Some (fi_id item)
              then featured_fields (order_change_form item n) (fi_section item) f else f) =
            (if fi_id f = fi_id item then item\<lparr>fi_display_order := n\<rparr> else f)"
    using featured_fields_order_change [OF assms(3)] by simp
  then show ?thesis
    using assms(1,2) by (simp add: handle_order_change_def upsert_featured_item_def form_get_order_change_form)
qed

lemma override_ok_no_empty_refs: "override_ok f \<Longrightarrow> no_empty_refs f"
  by (cases "section_type (fi_section f)") (auto simp: override_ok_def no_empty_refs_def)

lemma override_ok_override_row:
  "sid \<in> set featured_section_ids \<Longrightarrow> nid \<noteq> [] \<Longrightarrow> sel \<noteq> [] \<Longrightarrow> override_ok (override_row nid sid sel order)"
  by (cases "section_type sid") (auto simp: override_ok_def override_row_def)

lemma override_ok_order [simp]: "override_ok (f\<lparr>fi_display_order := n\<rparr>) = override_ok f"
  by (cases "section_type (fi_section f)") (simp_all add: override_ok_def)

lemma handle_add_cases:
  "handle_add sid user nid fails (ui, db) = Inr (ui', db') \<Longrightarrow>
     db' = db \<or> (\<exists>p. require_admin user db = Inr p \<and> su_selected ui \<noteq> [] \<and> \<not> fails \<and>
       db' = db\<lparr>featured_items := featured_items db @ [override_row nid sid (su_selected ui) (su_order ui)]\<rparr>)"
  by (cases fails; cases "require_admin user db")
     (auto simp: handle_add_def upsert_featured_item_def form_get_add_form featured_fields_add_form split: if_splits)

lemma overrides_ok_add:
  assumes "overrides_ok fs" "sid \<in> set featured_section_ids" "nid \<noteq> []" "nid \<notin> fi_id ` set fs" "sel \<noteq> []"
  shows "overrides_ok (fs @ [override_row nid sid sel order])"
  using assms override_ok_override_row [OF assms(2,3,5)]
  by (simp add: overrides_ok_def override_row_def)

lemma handle_order_change_cases:
  assumes "override_ok item" "handle_order_change user item n nid fails db = Inr db'"
  shows "db' = db \<or> db' = db\<lparr>featured_items :=
      map (\<lambda>f. if fi_id f = fi_id item then item\<lparr>fi_display_order := n\<rparr> else f) (featured_items db)\<rparr>"
proof (cases "fails")
  case True
  with assms(2) show ?thesis
    by (auto simp: handle_order_change_def upsert_featured_item_def form_get_order_change_form split: sum.splits)
next
  case False
  from assms(1) have "fi_id item \<noteq> []" "no_empty_refs item"
    by (auto simp: override_ok_def intro: override_ok_no_empty_refs)
  with False assms(2) show ?thesis
    using handle_order_change_writes
    by (cases "require_admin user db") (auto simp: handle_order_change_def upsert_featured_item_def)
qed

lemma overrides_ok_reorder:
  assumes "overrides_ok fs" "override_ok item"
  shows "overrides_ok (map (\<lambda>f. if fi_id f = fi_id item then item\<lparr>fi_display_order := n\<rparr> else f) fs)"
proof -
  have ids: "map fi_id (map (\<lambda>f. if fi_id f = fi_id item then item\<lparr>fi_display_order := n\<rparr> else f) fs) =
      map fi_id fs"
    by simp
  have "list_all override_ok (map (\<lambda>f. if fi_id f = fi_id item then item\<lparr>fi_display_order := n\<rparr> else f) fs)"
    using assms by (auto simp: overrides_ok_def list_all_iff)
  with assms(1) show ?thesis
    unfolding overrides_ok_def ids by simp
qed

lemma overrides_ok_delete: "overrides_ok fs \<Longrightarrow> overrides_ok (filter P fs)"
  by (auto simp: overrides_ok_def list_all_iff)

lemma handle_delete_cases:
  "handle_delete confirmed user fid fails db = Inr db' \<Longrightarrow>
     db' = db \<or> db' = db\<lparr>featured_items := filter (\<lambda>f. fi_id f \<noteq> fid) (featured_items db)\<rparr>"
  by (auto simp: handle_delete_def delete_featured_item_def split: sum.splits if_splits)

lemma admin_flags_ok_set_admin_role:
  "admin_flags_ok (profiles db) \<Longrightarrow> (a \<longleftrightarrow> r = Approved \<or> r = Super) \<Longrightarrow>
     admin_flags_ok (profiles (set_admin_role uid r a db))"
  by (auto simp: admin_flags_ok_def set_admin_role_def list_all_iff)

lemma run_member_action_cases:
  "run_member_action act confirmed user uid fails db = Inr db' \<Longrightarrow>
     db' = db \<or> db' = set_admin_role uid Approved True db \<or> db' = set_admin_role uid Rejected False db"
  by (cases act) (auto simp: approve_admin_def reject_admin_def split: sum.splits if_splits)

lemma featured_items_set_admin_role [simp]: "featured_items (set_admin_role uid r a db) = featured_items db"
  by (simp add: set_admin_role_def)


lemma reorder_map_cong:
  assumes "distinct (map fi_id fs)" "f \<in> set fs"
  shows "map (\<lambda>g. if fi_id g = fi_id f then f\<lparr>fi_display_order := n\<rparr> else g) fs =
         map (\<lambda>g. if g = f then g\<lparr>fi_display_order := n\<rparr> else g) fs"
proof (rule map_cong [OF refl])
  fix g assume "g \<in> set fs"
  with assms have "fi_id g = fi_id f \<longleftrightarrow> g = f"
    by (metis distinct_map inj_on_eq_iff)
  then show "(if fi_id g = fi_id f then f\<lparr>fi_display_order := n\<rparr> else g) =
             (if g = f then g\<lparr>fi_display_order := n\<rparr> else g)"
    by auto
qed

lemma filter_map_update_same:
  "filter (\<lambda>q. pf_id q = uid) (map (\<lambda>q. if pf_id q = uid then g q else q) ps) =
   map g (filter (\<lambda>q. pf_id q = uid) ps)"
  if "\<And>q. pf_id (g q) = pf_id q"
  using that by (induction ps) auto

lemma profile_row_set_admin_role:
  "profile_row (set_admin_role uid r a db) uid =
     map_option (\<lambda>p. p\<lparr>pf_admin_role := Some r, pf_is_admin := a\<rparr>) (profile_row db uid)"
  by (simp add: profile_row_def set_admin_role_def filter_map_update_same single_data_map)

lemmas admin_eval = require_admin_def require_super_admin_def profile_row_def single_data_def
  ex_admin_db_def ex_profile_def ex_data

subsection \<open>Properties of the admin side\<close>

text \<open>
  C9: adding an entity to a section from the curation screen, as a signed-in admin
  with an entity selected, appends exactly the override \<open>upsertOverride\<close> promises
  (the section, one reference of the section's kind, the chosen rank, active), leaves
  every other table as it was, and closes the panel and clears the selection.
\<close>

theorem handle_add_inserts:
  assumes "require_admin user db = Inr p" and "su_selected ui \<noteq> []"
  shows "handle_add sid user nid False (ui, db) =
     Inr (ui\<lparr>su_show_add := False, su_selected := []\<rparr>,
          db\<lparr>featured_items := featured_items db @ [override_row nid sid (su_selected ui) (su_order ui)]\<rparr>)"
  using assms by (simp add: handle_add_def upsert_featured_item_def form_get_add_form featured_fields_add_form)

text \<open>
  C10: changing the rank of a stored override from the curation screen rewrites that
  row's display order and nothing else: every other row and every other column is
  unchanged (the rank crosses the form as \<open>String(n)\<close> and comes back through
  \<open>parseInt\<close>).
\<close>

theorem reorder_updates_only_order:
  assumes "require_admin user db = Inr p" "override_ok f" "f \<in> set (featured_items db)"
    "distinct (map fi_id (featured_items db))"
  shows "handle_order_change user f n nid False db =
    Inr (db\<lparr>featured_items :=
      map (\<lambda>g. if g = f then g\<lparr>fi_display_order := n\<rparr> else g) (featured_items db)\<rparr>)"
  using handle_order_change_writes [OF assms(1) _ override_ok_no_empty_refs [OF assms(2)]]
    reorder_map_cong [OF assms(4,3)] assms(2)
  by (simp add: override_ok_def)

text \<open>
  C11: the admin layout shows the admin sidebar exactly to the users the server
  actions accept (\<open>requireAdmin\<close> succeeds), and the super-admin menu exactly to the
  users \<open>requireSuperAdmin\<close> accepts.
\<close>

theorem admin_layout_matches_guards:
  "((\<exists>s. admin_layout user db = AdminShell s) \<longleftrightarrow> (\<exists>p. require_admin user db = Inr p)) \<and>
   (admin_layout user db = AdminShell True \<longleftrightarrow> (\<exists>p. require_super_admin user db = Inr p))"
proof
  show "(\<exists>s. admin_layout user db = AdminShell s) \<longleftrightarrow> (\<exists>p. require_admin user db = Inr p)"
    by (auto simp: admin_layout_def require_admin_Inr split: option.splits if_splits)
       (metis admin_role.exhaust)
  show "admin_layout user db = AdminShell True \<longleftrightarrow> (\<exists>p. require_super_admin user db = Inr p)"
    by (cases user; cases "profile_row db (the user)") (auto simp: admin_layout_def require_super_admin_Inr)
qed

text \<open>
  for a signed-in user the pending page sends the user on to the dashboard exactly
  when the server actions would accept them, so an approved admin never sees the
  waiting notice and a pending or rejected one never reaches the dashboard from it.
\<close>

theorem pending_page_matches_guard:
  "user \<noteq> None \<Longrightarrow> pending_page user db = RedirectAdmin \<longleftrightarrow> (\<exists>p. require_admin user db = Inr p)"
  by (cases user; cases "profile_row db (the user)") (auto simp: pending_page_def require_admin_Inr Let_def)

text \<open>
  C12: a failed write of the curation actions is not reported: for an admin,
  \<open>upsertFeaturedItem\<close> and \<open>deleteFeaturedItem\<close> succeed with the store unchanged when
  the store rejects the write, where \<open>approveAdmin\<close> reports the failure.
\<close>

theorem featured_write_failure_ignored:
  assumes "require_admin user db = Inr p"
  shows "upsert_featured_item user fd nid True db = Inr db \<and> delete_featured_item user fid True db = Inr db \<and>
         (pf_admin_role p = Some Super \<longrightarrow> approve_admin user uid True db = Inl WriteFailed)"
  using assms
  by (auto simp: upsert_featured_item_def delete_featured_item_def approve_admin_def require_super_admin_def
           split: option.splits)

text \<open>
  the curation screen labels a well-formed override as deleted exactly when the
  home-page resolver treats it as an orphan and skips it: the admin listing surfaces the
  rows the home page silently drops.
\<close>

theorem item_name_deleted_iff_orphan:
  assumes "override_ok f"
  shows "(item_name (courses db) (contents db) (job_postings db) f \<in> {DeletedCourse, DeletedContent, DeletedJob}) =
    (case section_type (fi_section f) of
       CourseIdField \<Rightarrow> orphan popular_courses db f
     | ContentIdField \<Rightarrow> orphan recommended_contents db f
     | JobIdField \<Rightarrow> orphan urgent_jobs db f)"
  using assms
  by (cases "section_type (fi_section f)")
     (auto simp: override_ok_def item_name_def orphan_def popular_courses_def recommended_contents_def
        urgent_jobs_def find_None_iff dest: find_SomeD split: option.splits)

text \<open>
  \<open>rejectAdmin\<close> accepts any target, a super admin included: a super admin who
  rejects their own id loses access to every admin action, although the member screen
  offers no button on a super admin's row.
\<close>

theorem reject_admin_self_demotion:
  assumes "require_super_admin (Some s) db = Inr p"
  shows "row_actions Super = [] \<and>
    (\<exists>db'. reject_admin (Some s) s False db = Inr db' \<and> require_admin (Some s) db' = Inl NotAdmin)"
proof -
  from assms have row: "profile_row db s = Some p"
    by (auto simp: require_super_admin_Inr)
  have "require_admin (Some s) (set_admin_role s Rejected False db) = Inl NotAdmin"
    by (simp add: require_admin_def profile_row_set_admin_role row)
  with assms show ?thesis
    by (simp add: reject_admin_def)
qed

text \<open>
  the member screen's four lists (pending, super, approved, rejected) partition the
  profiles that have an admin role: every member appears in exactly one list, once.
\<close>

theorem member_sections_partition:
  "(case member_sections (member_rows db) of (pe, su, ap, re) \<Rightarrow> mset pe + mset su + mset ap + mset re) =
   mset (member_rows db)"
proof -
  have "\<And>ms. list_all (\<lambda>m. pf_admin_role m \<noteq> None) ms \<Longrightarrow>
     (case member_sections ms of (pe, su, ap, re) \<Rightarrow> mset pe + mset su + mset ap + mset re) = mset ms"
  proof -
    fix ms :: "profile list"
    show "list_all (\<lambda>m. pf_admin_role m \<noteq> None) ms \<Longrightarrow>
     (case member_sections ms of (pe, su, ap, re) \<Rightarrow> mset pe + mset su + mset ap + mset re) = mset ms"
    proof (induction ms)
      case (Cons m ms)
      then show ?case
        by (cases "the (pf_admin_role m)") (auto simp: member_sections_def)
    qed (simp add: member_sections_def)
  qed
  then show ?thesis
    by (simp add: member_rows_def list_all_iff)
qed

text \<open>
  C13: a rank change made on a stale screen is a lost update: the action writes every
  column from the screen's copy of the row, so the row the store holds under that id
  (say, deactivated by another admin since the page was loaded) is replaced by the
  screen's copy with the new rank.
\<close>

theorem reorder_stale_copy_lost_update:
  assumes "require_admin user db = Inr p" "override_ok item" "g \<in> set (featured_items db)" "fi_id g = fi_id item"
  shows "\<exists>db'. handle_order_change user item n nid False db = Inr db' \<and>
    item\<lparr>fi_display_order := n\<rparr> \<in> set (featured_items db') \<and>
    (g \<noteq> item\<lparr>fi_display_order := n\<rparr> \<longrightarrow> g \<notin> set (featured_items db'))"
proof -
  have w: "handle_order_change user item n nid False db =
    Inr (db\<lparr>featured_items :=
      map (\<lambda>f. if fi_id f = fi_id item then item\<lparr>fi_display_order := n\<rparr> else f) (featured_items db)\<rparr>)"
    using handle_order_change_writes [OF assms(1) _ override_ok_no_empty_refs [OF assms(2)]] assms(2)
    by (simp add: override_ok_def)
  have "item\<lparr>fi_display_order := n\<rparr> \<in> (\<lambda>f. if fi_id f = fi_id item then item\<lparr>fi_display_order := n\<rparr> else f) ` set (featured_items db)"
    using assms(3,4) by (auto intro: image_eqI [of _ _ g])
  moreover have "g \<noteq> item\<lparr>fi_display_order := n\<rparr> \<Longrightarrow>
      g \<notin> (\<lambda>f. if fi_id f = fi_id item then item\<lparr>fi_display_order := n\<rparr> else f) ` set (featured_items db)"
    using assms(4) by auto
  ultimately show ?thesis
    using w by auto
qed

subsection \<open>Witnesses\<close>

theorem handle_add_inserts_witness:
  "require_admin (Some ''u2'') ex_admin_db = Inr (ex_profile ''u2'' (Some Approved)) \<and>
   handle_add ''popular_courses'' (Some ''u2'') ''f9''  False
     (\<lparr>su_show_add = True, su_selected = ''b'', su_order = 1\<rparr>, ex_admin_db) =
   Inr (\<lparr>su_show_add = False, su_selected = [], su_order = 1\<rparr>,
        ex_admin_db\<lparr>featured_items := featured_items ex_admin_db @ [override_row ''f9'' ''popular_courses'' ''b'' 1]\<rparr>)"
proof -
  have a: "require_admin (Some ''u2'') ex_admin_db = Inr (ex_profile ''u2'' (Some Approved))"
    by (simp add: admin_eval)
  show ?thesis
    using handle_add_inserts [OF a, of "\<lparr>su_show_add = True, su_selected = ''b'', su_order = 1\<rparr>"
        "''popular_courses''" "''f9''"] a
    by simp
qed

theorem reorder_updates_only_order_witness:
  "require_admin (Some ''u1'') ex_admin_db = Inr (ex_profile ''u1'' (Some Super)) \<and>
   override_ok (ex_featured ''f1'' ''c'' 2) \<and> ex_featured ''f1'' ''c'' 2 \<in> set (featured_items ex_admin_db) \<and>
   distinct (map fi_id (featured_items ex_admin_db)) \<and>
   handle_order_change (Some ''u1'') (ex_featured ''f1'' ''c'' 2) 5 ''f9'' False ex_admin_db =
     Inr (ex_admin_db\<lparr>featured_items := [ex_featured ''f1'' ''c'' 5, ex_featured ''f2'' ''zz'' 1,
        ex_featured ''f3'' ''a'' 2]\<rparr>)"
proof -
  have a: "require_admin (Some ''u1'') ex_admin_db = Inr (ex_profile ''u1'' (Some Super))"
    by (simp add: admin_eval)
  have o: "override_ok (ex_featured ''f1'' ''c'' 2)"
    by (simp add: override_ok_def ex_featured_def featured_section_ids_def section_type_def)
  have m: "ex_featured ''f1'' ''c'' 2 \<in> set (featured_items ex_admin_db)"
    and d: "distinct (map fi_id (featured_items ex_admin_db))"
    by (simp_all add: admin_eval)
  show ?thesis
    using reorder_updates_only_order [OF a o m d, of 5 "''f9''"] a o m d
    by (simp add: admin_eval)
qed

theorem pending_page_matches_guard_witness:
  "Some ''u3'' \<noteq> None \<and> pending_page (Some ''u3'') ex_admin_db = PendingNotice \<and>
   (\<forall>p. require_admin (Some ''u3'') ex_admin_db \<noteq> Inr p)"
proof -
  have "pending_page (Some ''u3'') ex_admin_db = PendingNotice"
    by (simp add: pending_page_def admin_eval)
  then show ?thesis
    using pending_page_matches_guard [of "Some ''u3''" ex_admin_db] by auto
qed

theorem featured_write_failure_ignored_witness:
  "require_admin (Some ''u1'') ex_admin_db = Inr (ex_profile ''u1'' (Some Super)) \<and>
   upsert_featured_item (Some ''u1'') (add_form ''popular_courses'' ''b'' 1) ''f9'' True ex_admin_db = Inr ex_admin_db \<and>
   approve_admin (Some ''u1'') ''u3'' True ex_admin_db = Inl WriteFailed"
proof -
  have a: "require_admin (Some ''u1'') ex_admin_db = Inr (ex_profile ''u1'' (Some Super))"
    by (simp add: admin_eval)
  show ?thesis
    using featured_write_failure_ignored [OF a, of "add_form ''popular_courses'' ''b'' 1" "''f9''" "''f1''" "''u3''"] a
    by (simp add: ex_profile_def)
qed

theorem item_name_deleted_iff_orphan_witness:
  "override_ok (ex_featured ''f2'' ''zz'' 1) \<and> orphan popular_courses ex_admin_db (ex_featured ''f2'' ''zz'' 1) \<and>
   item_name (courses ex_admin_db) (contents ex_admin_db) (job_postings ex_admin_db) (ex_featured ''f2'' ''zz'' 1) \<in>
     {DeletedCourse, DeletedContent, DeletedJob}"
proof -
  have o: "override_ok (ex_featured ''f2'' ''zz'' 1)"
    by (simp add: override_ok_def ex_featured_def featured_section_ids_def section_type_def)
  have t: "section_type (fi_section (ex_featured ''f2'' ''zz'' 1)) = CourseIdField"
    by (simp add: ex_featured_def section_type_def)
  have orph: "orphan popular_courses ex_admin_db (ex_featured ''f2'' ''zz'' 1)"
    by (simp add: orphan_def popular_courses_def admin_eval)
  show ?thesis
    using item_name_deleted_iff_orphan [OF o, of ex_admin_db] o t orph by simp
qed

theorem reject_admin_self_demotion_witness:
  "require_super_admin (Some ''u1'') ex_admin_db = Inr (ex_profile ''u1'' (Some Super)) \<and>
   (\<exists>db'. reject_admin (Some ''u1'') ''u1'' False ex_admin_db = Inr db' \<and>
      require_admin (Some ''u1'') db' = Inl NotAdmin)"
proof -
  have a: "require_super_admin (Some ''u1'') ex_admin_db = Inr (ex_profile ''u1'' (Some Super))"
    by (simp add: admin_eval)
  show ?thesis
    using reject_admin_self_demotion [OF a] a by simp
qed

theorem admin_layout_matches_guards_witness:
  "admin_layout (Some ''u2'') ex_admin_db = AdminShell False \<and>
   (\<exists>p. require_admin (Some ''u2'') ex_admin_db = Inr p) \<and>
   (\<forall>p. require_super_admin (Some ''u2'') ex_admin_db \<noteq> Inr p)"
proof -
  have l: "admin_layout (Some ''u2'') ex_admin_db = AdminShell False"
    by (simp add: admin_layout_def admin_eval)
  then show ?thesis
    using admin_layout_matches_guards [of "Some ''u2''" ex_admin_db] by auto
qed

theorem reorder_stale_copy_lost_update_witness:
  "require_admin (Some ''u2'') ex_stale_db = Inr (ex_profile ''u2'' (Some Approved)) \<and>
   override_ok (ex_featured ''f1'' ''c'' 2) \<and>
   (ex_featured ''f1'' ''c'' 2)\<lparr>fi_is_active := False\<rparr> \<in> set (featured_items ex_stale_db) \<and>
   (\<exists>db'. handle_order_change (Some ''u2'') (ex_featured ''f1'' ''c'' 2) 3 ''f9'' False ex_stale_db = Inr db' \<and>
     ex_featured ''f1'' ''c'' 3 \<in> set (featured_items db') \<and>
     (ex_featured ''f1'' ''c'' 2)\<lparr>fi_is_active := False\<rparr> \<notin> set (featured_items db'))"
proof -
  have a: "require_admin (Some ''u2'') ex_stale_db = Inr (ex_profile ''u2'' (Some Approved))"
    by (simp add: ex_stale_db_def admin_eval)
  have o: "override_ok (ex_featured ''f1'' ''c'' 2)"
    by (simp add: override_ok_def ex_featured_def featured_section_ids_def section_type_def)
  have m: "(ex_featured ''f1'' ''c'' 2)\<lparr>fi_is_active := False\<rparr> \<in> set (featured_items ex_stale_db)"
    by (simp add: ex_stale_db_def)
  have i: "fi_id ((ex_featured ''f1'' ''c'' 2)\<lparr>fi_is_active := False\<rparr>) = fi_id (ex_featured ''f1'' ''c'' 2)"
    by simp
  have ne: "(ex_featured ''f1'' ''c'' 2)\<lparr>fi_is_active := False\<rparr> \<noteq> (ex_featured ''f1'' ''c'' 2)\<lparr>fi_display_order := 3\<rparr>"
    and e3: "(ex_featured ''f1'' ''c'' 2)\<lparr>fi_display_order := 3\<rparr> = ex_featured ''f1'' ''c'' 3"
    by (simp_all add: ex_featured_def)
  show ?thesis
    using reorder_stale_copy_lost_update [OF a o m i, of 3 "''f9''"] a o m ne e3 by auto
qed

end
