(* ===== verification/Accounts.thy ===== *)
theory Accounts
  imports Admin
begin

text \<open>
  How a user becomes an admin: the admin signup page
  (\<open>src/app/(admin)/admin/signup/page.tsx\<close>, \<open>handleSignup\<close>), the admin login page
  (\<open>src/app/(admin)/admin/login/page.tsx\<close>, \<open>handleLogin\<close>) and the dashboard's gate
  (\<open>src/app/(admin)/admin/page.tsx\<close>). Both pages run in the browser and write the
  \<open>profiles\<close> table directly. Each store call that may fail is a flag; a failed read
  returns \<open>null\<close>, a failed write leaves the store as it was (the pages never read the
  write's error). Both pages import \<open>SUPER_ADMIN_EMAILS\<close>, which \<open>src/lib/constants.ts\<close>
  does not export (it exports \<open>SUPER_ADMIN_EMAIL\<close>): the import is \<open>undefined\<close> and
  \<open>SUPER_ADMIN_EMAILS.some(..)\<close> throws. The e-mail list is therefore a parameter,
  \<open>None\<close> for the import as written, and a call that throws is an outcome of its own.
\<close>

subsection \<open>The super-admin e-mail test\<close>

definition super_admin_emails_import :: "string list option" where
  "super_admin_emails_import = None"

text \<open>\<open>toLowerCase\<close> on the ASCII letters (the test compares e-mail addresses).\<close>

definition js_lower_char :: "char \<Rightarrow> char" where
  "js_lower_char c = (if CHR ''A'' \<le> c \<and> c \<le> CHR ''Z'' then char_of (of_char c + (32::nat)) else c)"

definition js_lower :: "string \<Rightarrow> string" where
  "js_lower s = map js_lower_char s"

text \<open>\<open>SUPER_ADMIN_EMAILS.some(e => e.toLowerCase() === email.toLowerCase())\<close>; \<open>None\<close>: it throws.\<close>

definition is_super_email :: "string list option \<Rightarrow> string \<Rightarrow> bool option" where
  "is_super_email emails email = map_option (\<lambda>es. list_ex (\<lambda>e. js_lower e = js_lower email) es) emails"

subsection \<open>Profile writes of the two pages\<close>

text \<open>\<open>.upsert({id, email, name, is_admin, admin_role})\<close>: the row with that id gets these
  columns and keeps its others (\<open>upsert_cols\<close>); otherwise the payload is appended, its other
  columns at their insert defaults (\<open>null\<close>, \<open>null\<close>, no interests).\<close>

definition upsert_cols :: "profile \<Rightarrow> profile \<Rightarrow> profile" where
  "upsert_cols p q = q\<lparr>pf_email := pf_email p, pf_name := pf_name p, pf_is_admin := pf_is_admin p,
                       pf_admin_role := pf_admin_role p\<rparr>"

definition upsert_profile :: "profile \<Rightarrow> db \<Rightarrow> db" where
  "upsert_profile p db =
     (if list_ex (\<lambda>q. pf_id q = pf_id p) (profiles db)
      then db\<lparr>profiles := map (\<lambda>q. if pf_id q = pf_id p then upsert_cols p q else q) (profiles db)\<rparr>
      else db\<lparr>profiles := profiles db @ [p]\<rparr>)"

text \<open>\<open>.update({is_admin, admin_role, name}).eq('id', uid)\<close>.\<close>

definition update_profile_role :: "uuid \<Rightarrow> bool \<Rightarrow> admin_role \<Rightarrow> string option \<Rightarrow> db \<Rightarrow> db" where
  "update_profile_role uid a r nm db =
     db\<lparr>profiles := map (\<lambda>q. if pf_id q = uid then q\<lparr>pf_is_admin := a, pf_admin_role := Some r, pf_name := nm\<rparr> else q)
                      (profiles db)\<rparr>"

subsection \<open>Admin login: \<open>handleLogin\<close>\<close>

datatype login_step = LReadProfile | LCreateProfile | LRereadProfile | LPromote

datatype login_error = BadCredentials | ProfileMissing | NoAdminRole | SignupRejected | UnknownRole

datatype login_outcome = LoginError login_error | LoginRedirect string | LoginCrash

text \<open>The user \<open>signInWithPassword\<close> returns: its id, e-mail and \<open>full_name\<close> metadata.\<close>

record auth_user =
  au_id :: uuid
  au_email :: "string option"
  au_full_name :: "string option"

definition read_profile :: "bool \<Rightarrow> db \<Rightarrow> uuid \<Rightarrow> profile option" where
  "read_profile fails db uid = (if fails then None else profile_row db uid)"

text \<open>Steps 3 and 4 of \<open>handleLogin\<close>: the decision on the role of the profile read.\<close>

definition login_role ::
  "string list option \<Rightarrow> string \<Rightarrow> uuid \<Rightarrow> (login_step \<Rightarrow> bool) \<Rightarrow> profile \<Rightarrow> db \<Rightarrow> login_outcome \<times> db" where
  "login_role emails email uid lf p db =
     (case pf_admin_role p of
        None \<Rightarrow>
          (case is_super_email emails email of
             None \<Rightarrow> (LoginCrash, db)
           | Some True \<Rightarrow> (LoginRedirect ''/admin'', if lf LPromote then db else set_admin_role uid Super True db)
           | Some False \<Rightarrow> (LoginError NoAdminRole, db))
      | Some Pending \<Rightarrow> (LoginRedirect ''/admin/pending'', db)
      | Some Rejected \<Rightarrow> (LoginError SignupRejected, db)
      | Some Approved \<Rightarrow> (LoginRedirect ''/admin'', db)
      | Some Super \<Rightarrow> (LoginRedirect ''/admin'', db))"

definition handle_login ::
  "string list option \<Rightarrow> string \<Rightarrow> auth_user option \<Rightarrow> (login_step \<Rightarrow> bool) \<Rightarrow> db \<Rightarrow> login_outcome \<times> db" where
  "handle_login emails email auth lf db =
     (case auth of
        None \<Rightarrow> (LoginError BadCredentials, db)
      | Some u \<Rightarrow>
          (case read_profile (lf LReadProfile) db (au_id u) of
             Some p \<Rightarrow> login_role emails email (au_id u) lf p db
           | None \<Rightarrow>
               (case is_super_email emails email of
                  None \<Rightarrow> (LoginCrash, db)
                | Some is_sup \<Rightarrow>
                    (let db1 = (if lf LCreateProfile then db
                                else upsert_profile
                                  \<lparr>pf_id = au_id u, pf_email = or_default (au_email u) email,
                                   pf_name = or_null (au_full_name u),
                                   pf_target_job = None, pf_preparation_stage = None, pf_interests = [],
                                   pf_is_admin = is_sup,
                                   pf_admin_role = (if is_sup then Some Super else None)\<rparr> db)
                     in (case read_profile (lf LRereadProfile) db1 (au_id u) of
                           None \<Rightarrow> (LoginError ProfileMissing, db1)
                         | Some p \<Rightarrow> login_role emails email (au_id u) lf p db1)))))"

subsection \<open>Admin signup: \<open>handleSignup\<close>\<close>

datatype signup_error = PasswordTooShort | PasswordMismatch | AlreadyRegistered | AuthFailed string | NoUser

datatype signup_outcome = SignupError signup_error | SignupRedirect string | SignupCrash

text \<open>What \<open>auth.signUp\<close> returns: an error message, no user, or the new user's id.\<close>

datatype signup_auth = SignUpError string | SignUpNoUser | SignUpUser uuid

text \<open>
  The wait for the profile row the store's trigger creates: at most six reads, the
  \<open>i\<close>-th of which sees the row when \<open>visible i\<close>.
\<close>

function poll_profile :: "(nat \<Rightarrow> bool) \<Rightarrow> nat \<Rightarrow> bool" where
  "poll_profile visible i =
     (if i < 6 then (if visible i then True else poll_profile visible (Suc i)) else False)"
  by pat_completeness auto
termination
  by (relation "measure (\<lambda>(_, i). 6 - i)") auto

text \<open>
  The reason field of the form is read into state and never sent; it is not an
  argument. The profile write's error is not read (\<open>wfails\<close>).
\<close>

definition handle_signup ::
  "string list option \<Rightarrow> string \<Rightarrow> string \<Rightarrow> string \<Rightarrow> string \<Rightarrow> signup_auth \<Rightarrow> (nat \<Rightarrow> bool) \<Rightarrow> bool \<Rightarrow> db
     \<Rightarrow> signup_outcome \<times> db" where
  "handle_signup emails name email password confirm auth visible wfails db =
     (if length password < 6 then (SignupError PasswordTooShort, db)
      else if password \<noteq> confirm then (SignupError PasswordMismatch, db)
      else (case auth of
              SignUpError m \<Rightarrow>
                (SignupError (if m = ''User already registered'' then AlreadyRegistered else AuthFailed m), db)
            | SignUpNoUser \<Rightarrow> (SignupError NoUser, db)
            | SignUpUser uid \<Rightarrow>
                (case is_super_email emails email of
                   None \<Rightarrow> (SignupCrash, db)
                 | Some is_sup \<Rightarrow>
                     (let role = (if is_sup then Super else Pending);
                          db1 = (if wfails then db
                                 else if poll_profile visible 0
                                 then update_profile_role uid is_sup role (or_null (Some name)) db
                                 else upsert_profile
                                   \<lparr>pf_id = uid, pf_email = email, pf_name = or_null (Some name),
                                    pf_target_job = None, pf_preparation_stage = None, pf_interests = [],
                                    pf_is_admin = is_sup, pf_admin_role = Some role\<rparr> db)
                      in (SignupRedirect (if is_sup then ''/admin'' else ''/admin/pending''), db1)))))"

text \<open>The submit button: disabled while loading or when a typed confirmation differs.\<close>

definition signup_submit_enabled :: "bool \<Rightarrow> string \<Rightarrow> string \<Rightarrow> bool" where
  "signup_submit_enabled loading password confirm \<longleftrightarrow>
     \<not> (loading \<or> (0 < length confirm \<and> password \<noteq> confirm))"

subsection \<open>The dashboard's gate\<close>

datatype dashboard_view = DashRedirectLogin | DashRedirectPending | Dashboard bool bool

text \<open>\<open>Dashboard isSuper showPending\<close>: the pending banner shows for a super admin with
  pending applications.\<close>

definition dashboard :: "uuid option \<Rightarrow> db \<Rightarrow> dashboard_view" where
  "dashboard user db =
     (case user of
        None \<Rightarrow> DashRedirectLogin
      | Some uid \<Rightarrow>
          (case profile_row db uid of
             None \<Rightarrow> DashRedirectLogin
           | Some p \<Rightarrow>
               if pf_admin_role p \<noteq> Some Approved \<and> pf_admin_role p \<noteq> Some Super then
                 (if pf_admin_role p = Some Pending then DashRedirectPending else DashRedirectLogin)
               else
                 (let pending = length (filter (\<lambda>q. pf_admin_role q = Some Pending) (profiles db))
                  in Dashboard (pf_admin_role p = Some Super) (pf_admin_role p = Some Super \<and> 0 < pending))))"

text \<open>Users of the examples: the signed-in user of a login, by id.\<close>

definition ex_auth :: "uuid \<Rightarrow> auth_user" where
  "ex_auth uid = \<lparr>au_id = uid, au_email = Some (uid @ ''@example.com''), au_full_name = None\<rparr>"

subsection \<open>Lemmas\<close>


declare poll_profile.simps [simp del]

lemma poll_profile_iff: "poll_profile visible i \<longleftrightarrow> (\<exists>j. i \<le> j \<and> j < 6 \<and> visible j)"
proof (induction visible i rule: poll_profile.induct)
  case (1 visible i)
  show ?case
  proof (cases "i < 6")
    case lt: True
    show ?thesis
    proof (cases "visible i")
      case True
      with lt show ?thesis by (auto simp: poll_profile.simps [of visible i])
    next
      case False
      with lt have "poll_profile visible i = poll_profile visible (Suc i)"
        by (simp add: poll_profile.simps [of visible i])
      moreover have "(\<exists>j. Suc i \<le> j \<and> j < 6 \<and> visible j) \<longleftrightarrow> (\<exists>j. i \<le> j \<and> j < 6 \<and> visible j)"
      proof
        assume "\<exists>j. Suc i \<le> j \<and> j < 6 \<and> visible j"
        then show "\<exists>j. i \<le> j \<and> j < 6 \<and> visible j" by (auto dest: Suc_leD)
      next
        assume "\<exists>j. i \<le> j \<and> j < 6 \<and> visible j"
        then obtain j where j: "i \<le> j" "j < 6" "visible j" by blast
        with False have "Suc i \<le> j" by (cases "i = j") auto
        with j show "\<exists>j. Suc i \<le> j \<and> j < 6 \<and> visible j" by blast
      qed
      ultimately show ?thesis
        using "1.IH" [OF lt False] by simp
    qed
  qed (simp add: poll_profile.simps [of visible i])
qed

lemma profile_row_unique:
  "distinct (map pf_id (profiles db)) \<Longrightarrow> q \<in> set (profiles db) \<Longrightarrow> pf_id q = uid \<Longrightarrow> profile_row db uid = Some q"
  using filter_key_single [of pf_id "profiles db" q] by (auto simp: profile_row_def single_data_def)

lemma profile_rowD: "profile_row db uid = Some q \<Longrightarrow> q \<in> set (profiles db) \<and> pf_id q = uid"
proof -
  assume "profile_row db uid = Some q"
  then have "filter (\<lambda>p. pf_id p = uid) (profiles db) = [q]"
    by (auto simp: profile_row_def single_data_def split: list.splits)
  then have "q \<in> set (filter (\<lambda>p. pf_id p = uid) (profiles db))"
    by simp
  then show ?thesis by simp
qed

lemma filter_map_same_key:
  "filter (\<lambda>q. pf_id q = uid) (map (\<lambda>q. if pf_id q = uid then g q else q) ps) =
   map g (filter (\<lambda>q. pf_id q = uid) ps)"
  if "\<And>q. pf_id q = uid \<Longrightarrow> pf_id (g q) = uid"
  using that by (induction ps) auto

lemma profile_row_map_same:
  "(\<And>q. pf_id q = uid \<Longrightarrow> pf_id (g q) = uid) \<Longrightarrow>
   profile_row (db\<lparr>profiles := map (\<lambda>q. if pf_id q = uid then g q else q) (profiles db)\<rparr>) uid =
   map_option g (profile_row db uid)"
  by (simp add: profile_row_def filter_map_same_key single_data_map)

lemma profile_row_update_profile_role:
  "profile_row (update_profile_role uid a r nm db) uid =
     map_option (\<lambda>q. q\<lparr>pf_is_admin := a, pf_admin_role := Some r, pf_name := nm\<rparr>) (profile_row db uid)"
  unfolding update_profile_role_def by (rule profile_row_map_same) simp

lemma upsert_cols_simps [simp]:
  "pf_id (upsert_cols p q) = pf_id q" "pf_email (upsert_cols p q) = pf_email p"
  "pf_name (upsert_cols p q) = pf_name p" "pf_is_admin (upsert_cols p q) = pf_is_admin p"
  "pf_admin_role (upsert_cols p q) = pf_admin_role p" "upsert_cols p p = p"
  by (simp_all add: upsert_cols_def)

lemma profile_row_upsert_present:
  "profile_row db (pf_id p) = Some q \<Longrightarrow> profile_row (upsert_profile p db) (pf_id p) = Some (upsert_cols p q)"
  using profile_row_map_same [of "pf_id p" "upsert_cols p" db] profile_rowD [of db "pf_id p" q]
  by (auto simp: upsert_profile_def list_ex_iff)

lemma profile_row_upsert_absent:
  "pf_id p \<notin> pf_id ` set (profiles db) \<Longrightarrow> profile_row (upsert_profile p db) (pf_id p) = Some p"
proof -
  assume a: "pf_id p \<notin> pf_id ` set (profiles db)"
  then have "\<forall>q \<in> set (profiles db). pf_id q \<noteq> pf_id p"
    by (auto simp: image_iff)
  then have "filter (\<lambda>q. pf_id q = pf_id p) (profiles db) = []"
    by (simp add: filter_empty_conv)
  with a show ?thesis
    by (auto simp: upsert_profile_def list_ex_iff profile_row_def single_data_def image_iff)
qed

lemma distinct_upsert_profile:
  "distinct (map pf_id (profiles db)) \<Longrightarrow> distinct (map pf_id (profiles (upsert_profile p db)))"
proof -
  assume d: "distinct (map pf_id (profiles db))"
  show ?thesis
  proof (cases "list_ex (\<lambda>q. pf_id q = pf_id p) (profiles db)")
    case True
    have ids: "map pf_id (map (\<lambda>q. if pf_id q = pf_id p then upsert_cols p q else q) (profiles db)) =
               map pf_id (profiles db)"
      by simp
    from True have "profiles (upsert_profile p db) =
                    map (\<lambda>q. if pf_id q = pf_id p then upsert_cols p q else q) (profiles db)"
      by (simp add: upsert_profile_def)
    with d show ?thesis
      by (simp only: ids)
  next
    case False
    with d show ?thesis
      by (auto simp: upsert_profile_def list_ex_iff)
  qed
qed

lemma profile_row_upsert:
  "distinct (map pf_id (profiles db)) \<Longrightarrow> \<exists>q. profile_row (upsert_profile p db) (pf_id p) = Some (upsert_cols p q)"
proof (cases "pf_id p \<in> pf_id ` set (profiles db)")
  case True
  assume d: "distinct (map pf_id (profiles db))"
  from True obtain q where "q \<in> set (profiles db)" "pf_id q = pf_id p" by auto
  with d have "profile_row db (pf_id p) = Some q" by (rule profile_row_unique)
  then show ?thesis by (blast dest: profile_row_upsert_present)
next
  case False
  then show ?thesis using profile_row_upsert_absent [OF False] upsert_cols_simps(6) by metis
qed

lemma require_admin_of_row:
  "profile_row db uid = Some p \<Longrightarrow>
   require_admin (Some uid) db = (if pf_admin_role p = Some Approved \<or> pf_admin_role p = Some Super then Inr p else Inl NotAdmin)"
  by (auto simp: require_admin_def)

lemma read_profile_SomeD: "read_profile b db uid = Some p \<Longrightarrow> profile_row db uid = Some p"
  by (simp add: read_profile_def split: if_splits)

lemma login_role_admin_sound:
  assumes "login_role emails email uid lf p db = (LoginRedirect ''/admin'', db')"
    "profile_row db uid = Some p" "\<not> lf LPromote"
  shows "\<exists>q. require_admin (Some uid) db' = Inr q"
  using assms
  by (auto simp: login_role_def require_admin_of_row profile_row_set_admin_role
           split: option.splits admin_role.splits bool.splits)

lemma signup_pending_row:
  assumes "handle_signup emails name email pw cf (SignUpUser uid) visible False db = (SignupRedirect ''/admin/pending'', db')"
    "distinct (map pf_id (profiles db))" "poll_profile visible 0 \<longrightarrow> uid \<in> pf_id ` set (profiles db)"
  shows "\<exists>p. profile_row db' uid = Some p \<and> pf_admin_role p = Some Pending \<and> \<not> pf_is_admin p"
proof -
  from assms(1) have sup: "is_super_email emails email = Some False" and ok: "6 \<le> length pw" "pw = cf"
    by (auto simp: handle_signup_def split: if_splits option.splits)
  show ?thesis
  proof (cases "poll_profile visible 0")
    case True
    with assms(3) obtain q where "q \<in> set (profiles db)" "pf_id q = uid" by auto
    with assms(2) have "profile_row db uid = Some q" by (rule profile_row_unique)
    with True sup ok assms(1) show ?thesis
      by (auto simp: handle_signup_def profile_row_update_profile_role)
  next
    case False
    let ?P = "\<lparr>pf_id = uid, pf_email = email, pf_name = or_null (Some name),
              pf_target_job = None, pf_preparation_stage = None, pf_interests = [], pf_is_admin = False,
              pf_admin_role = Some Pending\<rparr>"
    obtain q where "profile_row (upsert_profile ?P db) uid = Some (upsert_cols ?P q)"
      using profile_row_upsert [OF assms(2), of ?P] by auto
    with False sup ok assms(1) show ?thesis
      by (auto simp: handle_signup_def)
  qed
qed

subsection \<open>Properties of signup and login\<close>

text \<open>
  C14: with \<open>SUPER_ADMIN_EMAILS\<close> imported as written (undefined), every admin signup
  that passes the password checks and creates the auth user throws before any profile
  is written, and every login of a user without a readable profile or without an admin
  role throws as well: nobody can apply for admin access through these pages.
\<close>

theorem missing_import_blocks_onboarding:
  assumes "6 \<le> length password" "password = confirm"
  shows "handle_signup super_admin_emails_import name email password confirm (SignUpUser uid) visible wfails db =
           (SignupCrash, db) \<and>
         (read_profile (lf LReadProfile) db (au_id u) = None \<or>
          (\<exists>p. read_profile (lf LReadProfile) db (au_id u) = Some p \<and> pf_admin_role p = None) \<longrightarrow>
          handle_login super_admin_emails_import email (Some u) lf db = (LoginCrash, db))"
  using assms
  by (auto simp: handle_signup_def handle_login_def login_role_def super_admin_emails_import_def is_super_email_def)

text \<open>
  A latent path of \<open>handleLogin\<close>: once the list of super-admin e-mails is read (with the
  shipped import the page throws before the upsert, see \<open>missing_import_blocks_onboarding\<close>), a failed profile
  read at login demotes an approved admin: the page takes the missing row for a first
  login, upserts a fresh profile with no admin role over the existing one, and then reports
  that the user has no admin rights; \<open>requireAdmin\<close> accepted the user before and refuses
  them after.
\<close>

theorem login_read_failure_demotes:
  assumes "is_super_email emails email = Some False" "profile_row db (au_id u) = Some p"
    "pf_admin_role p = Some Approved" "lf LReadProfile" "\<not> lf LCreateProfile" "\<not> lf LRereadProfile"
  shows "require_admin (Some (au_id u)) db = Inr p \<and>
    (\<exists>db'. handle_login emails email (Some u) lf db = (LoginError NoAdminRole, db') \<and>
           require_admin (Some (au_id u)) db' = Inl NotAdmin)"
proof -
  let ?P = "\<lparr>pf_id = au_id u, pf_email = or_default (au_email u) email, pf_name = or_null (au_full_name u),
             pf_target_job = None, pf_preparation_stage = None, pf_interests = [],
             pf_is_admin = False, pf_admin_role = None\<rparr>"
  have row: "profile_row (upsert_profile ?P db) (au_id u) = Some (upsert_cols ?P p)"
    using profile_row_upsert_present [of db ?P p] assms(2) by simp
  show ?thesis
    using assms row
    by (simp add: require_admin_of_row handle_login_def read_profile_def login_role_def)
qed

text \<open>
  when the admin login page sends a user to the dashboard and its own promotion
  write (if any) went through, the server actions accept that user: the page's
  decision agrees with \<open>requireAdmin\<close> on the store it leaves behind.
\<close>

theorem login_redirect_admin_sound:
  assumes "handle_login emails email (Some u) lf db = (LoginRedirect ''/admin'', db')" "\<not> lf LPromote"
  shows "\<exists>q. require_admin (Some (au_id u)) db' = Inr q"
  using assms login_role_admin_sound read_profile_SomeD
  by (auto simp: handle_login_def Let_def split: option.splits)

text \<open>
  a completed admin signup of a user not on the super-admin list leaves a profile
  awaiting approval: the server actions refuse the user, the pending page shows the
  waiting notice and the dashboard sends the user to it, whether the trigger's row was
  seen during the six reads or the page inserted the row itself.
\<close>

theorem admin_signup_pending:
  assumes "handle_signup emails name email pw cf (SignUpUser uid) visible False db = (SignupRedirect ''/admin/pending'', db')"
    "distinct (map pf_id (profiles db))" "poll_profile visible 0 \<longrightarrow> uid \<in> pf_id ` set (profiles db)"
  shows "require_admin (Some uid) db' = Inl NotAdmin \<and> pending_page (Some uid) db' = PendingNotice \<and>
         dashboard (Some uid) db' = DashRedirectPending"
  using signup_pending_row [OF assms]
  by (auto simp: require_admin_of_row pending_page_def dashboard_def)

text \<open>
  C15: the signup page's wait for the profile row always ends, after at most six reads,
  and it reports the row exactly when one of the six reads sees it.
\<close>

theorem poll_profile_bounded: "poll_profile visible 0 \<longleftrightarrow> (\<exists>j < 6. visible j)"
  by (simp add: poll_profile_iff)

text \<open>
  the dashboard renders for exactly the users \<open>requireAdmin\<close> accepts, and with the
  super-admin view for exactly those \<open>requireSuperAdmin\<close> accepts.
\<close>

theorem dashboard_matches_guards:
  "((\<exists>s b. dashboard user db = Dashboard s b) \<longleftrightarrow> (\<exists>p. require_admin user db = Inr p)) \<and>
   ((\<exists>b. dashboard user db = Dashboard True b) \<longleftrightarrow> (\<exists>p. require_super_admin user db = Inr p))"
  by (auto simp: dashboard_def require_admin_Inr require_super_admin_Inr Let_def split: option.splits)

subsection \<open>Witnesses\<close>

theorem missing_import_blocks_onboarding_witness:
  "handle_signup super_admin_emails_import ''n'' ''u5@example.com'' ''secret1'' ''secret1'' (SignUpUser ''u5'')
     (\<lambda>_. False) False ex_admin_db = (SignupCrash, ex_admin_db) \<and>
   read_profile False ex_admin_db ''u4'' = Some (ex_profile ''u4'' None) \<and>
   handle_login super_admin_emails_import ''u5@example.com'' (Some (ex_auth ''u4'')) (\<lambda>_. False) ex_admin_db =
     (LoginCrash, ex_admin_db)"
proof -
  have r: "read_profile False ex_admin_db ''u4'' = Some (ex_profile ''u4'' None)"
    by (simp add: read_profile_def admin_eval)
  show ?thesis
    using missing_import_blocks_onboarding [where password = "''secret1''" and confirm = "''secret1''"
        and name = "''n''" and email = "''u5@example.com''" and uid = "''u5''" and visible = "\<lambda>_. False"
        and wfails = False and db = ex_admin_db and lf = "\<lambda>_. False" and u = "ex_auth ''u4''"] r
    by (simp add: ex_auth_def ex_profile_def)
qed

theorem login_read_failure_demotes_witness:
  "require_admin (Some ''u2'') ex_admin_db = Inr (ex_profile ''u2'' (Some Approved)) \<and>
   (\<exists>db'. handle_login (Some []) ''u2@example.com'' (Some (ex_auth ''u2'')) (\<lambda>s. s = LReadProfile) ex_admin_db =
      (LoginError NoAdminRole, db') \<and> require_admin (Some ''u2'') db' = Inl NotAdmin)"
proof -
  have row: "profile_row ex_admin_db ''u2'' = Some (ex_profile ''u2'' (Some Approved))"
    by (simp add: admin_eval)
  have "is_super_email (Some []) ''u2@example.com'' = Some False"
    by (simp add: is_super_email_def)
  then show ?thesis
    using login_read_failure_demotes [of "Some []" "''u2@example.com''" ex_admin_db "ex_auth ''u2''"
        "ex_profile ''u2'' (Some Approved)" "\<lambda>s. s = LReadProfile"] row
    by (simp add: ex_auth_def ex_profile_def)
qed

theorem login_redirect_admin_sound_witness:
  "handle_login (Some []) ''u2@example.com'' (Some (ex_auth ''u2'')) (\<lambda>_. False) ex_admin_db =
     (LoginRedirect ''/admin'', ex_admin_db) \<and>
   (\<exists>q. require_admin (Some ''u2'') ex_admin_db = Inr q)"
proof -
  have l: "handle_login (Some []) ''u2@example.com'' (Some (ex_auth ''u2'')) (\<lambda>_. False) ex_admin_db =
     (LoginRedirect ''/admin'', ex_admin_db)"
    by (simp add: handle_login_def read_profile_def login_role_def ex_auth_def admin_eval)
  show ?thesis
    using login_redirect_admin_sound [OF l] l by (simp add: ex_auth_def)
qed

theorem admin_signup_pending_witness:
  "(\<exists>db'. handle_signup (Some []) ''n'' ''u5@example.com'' ''secret1'' ''secret1'' (SignUpUser ''u5'')
      (\<lambda>_. False) False ex_admin_db = (SignupRedirect ''/admin/pending'', db') \<and>
    distinct (map pf_id (profiles ex_admin_db)) \<and>
    require_admin (Some ''u5'') db' = Inl NotAdmin \<and> pending_page (Some ''u5'') db' = PendingNotice \<and>
    dashboard (Some ''u5'') db' = DashRedirectPending)"
proof -
  let ?db' = "upsert_profile \<lparr>pf_id = ''u5'', pf_email = ''u5@example.com'', pf_name = Some ''n'',
                pf_target_job = None, pf_preparation_stage = None, pf_interests = [],
                pf_is_admin = False, pf_admin_role = Some Pending\<rparr> ex_admin_db"
  have np: "\<not> poll_profile (\<lambda>_. False) 0"
    by (simp add: poll_profile_iff)
  have s: "handle_signup (Some []) ''n'' ''u5@example.com'' ''secret1'' ''secret1'' (SignUpUser ''u5'')
      (\<lambda>_. False) False ex_admin_db = (SignupRedirect ''/admin/pending'', ?db')"
    using np by (simp add: handle_signup_def is_super_email_def)
  have d: "distinct (map pf_id (profiles ex_admin_db))"
    by (simp add: admin_eval)
  show ?thesis
    using admin_signup_pending [OF s d] np s d by blast
qed

end
