(* ===== verification/AdminSystem.thy ===== *)
theory AdminSystem
  imports Accounts
begin

text \<open>
  The admin side as one system: every operation of \<open>Admin\<close> and \<open>Accounts\<close> that
  writes the store is a step of the relation \<open>admin_step\<close>, with any user, any
  arguments and any pattern of store failures. A step of the curation screen's rank
  change carries the screen's copy of a row, which was a well-formed row when the
  screen loaded it. The invariant: every override is well formed (a known section and
  exactly one non-empty reference of the section's kind) with distinct ids, every
  profile's admin flag agrees with its role, and profile ids are distinct.
\<close>

inductive admin_step :: "db \<Rightarrow> db \<Rightarrow> bool" where
  add: "sid \<in> set featured_section_ids \<Longrightarrow> nid \<noteq> [] \<Longrightarrow> nid \<notin> fi_id ` set (featured_items db) \<Longrightarrow>
        handle_add sid user nid fails (ui, db) = Inr (ui', db') \<Longrightarrow> admin_step db db'"
| reorder: "override_ok item \<Longrightarrow> handle_order_change user item n nid fails db = Inr db' \<Longrightarrow> admin_step db db'"
| delete: "handle_delete confirmed user fid fails db = Inr db' \<Longrightarrow> admin_step db db'"
| member: "run_member_action act confirmed user uid fails db = Inr db' \<Longrightarrow> admin_step db db'"
| login: "handle_login emails email auth lf db = (out, db') \<Longrightarrow> admin_step db db'"
| signup: "handle_signup emails name email pw cf auth visible wfails db = (out, db') \<Longrightarrow> admin_step db db'"

text \<open>The invariant, and the agreement of a profile's flag and role.\<close>

definition admin_inv :: "db \<Rightarrow> bool" where
  "admin_inv db \<longleftrightarrow> overrides_ok (featured_items db) \<and> admin_flags_ok (profiles db) \<and>
     distinct (map pf_id (profiles db))"

definition profile_ok :: "profile \<Rightarrow> bool" where
  "profile_ok p \<longleftrightarrow> pf_is_admin p = (pf_admin_role p = Some Approved \<or> pf_admin_role p = Some Super)"

text \<open>The form of an unchecked client: a course and a job in one override.\<close>

definition ex_two_ref_form :: form where
  "ex_two_ref_form = [(''section'', ''popular_courses''), (''course_id'', ''a''), (''job_id'', ''j1'')]"

subsection \<open>Lemmas\<close>

inductive_cases admin_stepE: "admin_step db db'"

lemma admin_flags_ok_iff: "admin_flags_ok ps \<longleftrightarrow> (\<forall>p \<in> set ps. profile_ok p)"
  by (simp add: admin_flags_ok_def profile_ok_def list_all_iff)

lemma profiles_writes_frame [simp]:
  "featured_items (upsert_profile p db) = featured_items db"
  "featured_items (update_profile_role uid a r nm db) = featured_items db"
  by (simp_all add: upsert_profile_def update_profile_role_def)

lemma distinct_map_pf_id_update:
  "(\<And>q. pf_id q = uid \<Longrightarrow> pf_id (g q) = uid) \<Longrightarrow>
   distinct (map pf_id (map (\<lambda>q. if pf_id q = uid then g q else q) ps)) = distinct (map pf_id ps)"
proof -
  assume "\<And>q. pf_id q = uid \<Longrightarrow> pf_id (g q) = uid"
  then have "map pf_id (map (\<lambda>q. if pf_id q = uid then g q else q) ps) = map pf_id ps"
    by (induction ps) auto
  then show ?thesis by (simp only:)
qed

lemma admin_inv_set_admin_role:
  "admin_inv db \<Longrightarrow> (a \<longleftrightarrow> r = Approved \<or> r = Super) \<Longrightarrow> admin_inv (set_admin_role uid r a db)"
  using admin_flags_ok_set_admin_role [of db a r uid]
  by (simp add: admin_inv_def set_admin_role_def distinct_map_pf_id_update del: map_map)

lemma admin_inv_update_profile_role:
  "admin_inv db \<Longrightarrow> (a \<longleftrightarrow> r = Approved \<or> r = Super) \<Longrightarrow> admin_inv (update_profile_role uid a r nm db)"
  by (auto simp: admin_inv_def update_profile_role_def admin_flags_ok_def list_all_iff distinct_map_pf_id_update
           simp del: map_map)

lemma admin_inv_upsert_profile:
  "admin_inv db \<Longrightarrow> profile_ok p \<Longrightarrow> admin_inv (upsert_profile p db)"
  using distinct_upsert_profile [of db p]
  by (auto simp: admin_inv_def upsert_profile_def admin_flags_ok_iff profile_ok_def split: if_splits)

lemma admin_inv_featured:
  "admin_inv db \<Longrightarrow> overrides_ok fs \<Longrightarrow> admin_inv (db\<lparr>featured_items := fs\<rparr>)"
  by (simp add: admin_inv_def)

lemma admin_inv_login:
  assumes "admin_inv db" "handle_login emails email auth lf db = (out, db')"
  shows "admin_inv db'"
proof -
  have role: "\<And>e uid p d out d'. admin_inv d \<Longrightarrow> login_role emails e uid lf p d = (out, d') \<Longrightarrow> admin_inv d'"
    by (auto simp: login_role_def intro: admin_inv_set_admin_role split: option.splits admin_role.splits bool.splits if_splits)
  have ups: "\<And>u. admin_inv (upsert_profile
      \<lparr>pf_id = au_id u, pf_email = or_default (au_email u) email, pf_name = or_null (au_full_name u),
       pf_target_job = None, pf_preparation_stage = None, pf_interests = [],
       pf_is_admin = True, pf_admin_role = Some Super\<rparr> db)"
    "\<And>u. admin_inv (upsert_profile
      \<lparr>pf_id = au_id u, pf_email = or_default (au_email u) email, pf_name = or_null (au_full_name u),
       pf_target_job = None, pf_preparation_stage = None, pf_interests = [],
       pf_is_admin = False, pf_admin_role = None\<rparr> db)"
    using assms(1) by (auto intro!: admin_inv_upsert_profile simp: profile_ok_def)
  show ?thesis
    using assms ups
    by (auto simp: handle_login_def Let_def split: option.splits if_splits intro: role)
qed

lemma admin_inv_signup:
  assumes "admin_inv db" "handle_signup emails name email pw cf auth visible wfails db = (out, db')"
  shows "admin_inv db'"
  using assms
  by (auto simp: handle_signup_def Let_def profile_ok_def
           intro!: admin_inv_upsert_profile admin_inv_update_profile_role
           split: signup_auth.splits option.splits if_splits)

lemma admin_inv_step:
  assumes "admin_step db db'" "admin_inv db"
  shows "admin_inv db'"
  using assms
proof (induction rule: admin_step.induct)
  case (add sid nid db user fails ui ui' db')
  then show ?case
    using handle_add_cases [OF add.hyps(4)] overrides_ok_add [of "featured_items db" sid nid]
    by (auto simp: admin_inv_def)
next
  case (reorder item user n nid fails db db')
  then show ?case
    using handle_order_change_cases [OF reorder.hyps] overrides_ok_reorder
    by (auto simp: admin_inv_def)
next
  case (delete confirmed user fid fails db db')
  then show ?case
    using handle_delete_cases [OF delete.hyps] overrides_ok_delete
    by (auto simp: admin_inv_def)
next
  case (member act confirmed user uid fails db db')
  then show ?case
    using run_member_action_cases [OF member.hyps]
    by (auto intro: admin_inv_set_admin_role)
next
  case (login emails email auth lf db out db')
  then show ?case by (rule admin_inv_login [rotated])
next
  case (signup emails name email pw cf auth visible wfails db out db')
  then show ?case by (rule admin_inv_signup [rotated])
qed

lemma admin_inv_ex_admin_db: "admin_inv ex_admin_db"
  by (simp add: admin_inv_def overrides_ok_def override_ok_def admin_flags_ok_def featured_section_ids_def
      section_type_def admin_eval)

subsection \<open>Properties of the system\<close>

text \<open>
  every store reachable from a store satisfying the invariant, by any sequence of
  admin-side operations (curation adds, rank changes, deletes, approvals, rejections,
  logins, signups) under any pattern of store failures, satisfies the invariant.
\<close>

theorem admin_inv_reachable:
  "admin_step\<^sup>*\<^sup>* db db' \<Longrightarrow> admin_inv db \<Longrightarrow> admin_inv db'"
  by (induction rule: rtranclp_induct) (auto intro: admin_inv_step)

text \<open>
  the invariant is kept by the screens, not by the server: \<open>upsertFeaturedItem\<close>
  stores a form naming a course and a job in one override, from a store satisfying the
  invariant to one that does not.
\<close>

theorem upsert_accepts_unchecked_form:
  "admin_inv ex_admin_db \<and>
   (\<exists>db'. upsert_featured_item (Some ''u2'') ex_two_ref_form ''f9'' False ex_admin_db = Inr db' \<and> \<not> admin_inv db')"
proof -
  have a: "require_admin (Some ''u2'') ex_admin_db = Inr (ex_profile ''u2'' (Some Approved))"
    by (simp add: admin_eval)
  have inv: "admin_inv ex_admin_db"
    by (rule admin_inv_ex_admin_db)
  have "\<not> override_ok (featured_fields ex_two_ref_form ''popular_courses'' (new_featured ''f9''))"
    by (simp add: override_ok_def featured_fields_def ex_two_ref_form_def form_get_def new_featured_def
        section_type_def or_null_def)
  with a inv show ?thesis
    by (simp add: upsert_featured_item_def ex_two_ref_form_def form_get_def admin_inv_def overrides_ok_def)
qed

subsection \<open>Witnesses\<close>

theorem admin_inv_reachable_witness:
  "admin_step\<^sup>*\<^sup>* ex_admin_db (ex_admin_db\<lparr>featured_items := [ex_featured ''f1'' ''c'' 2, ex_featured ''f3'' ''a'' 2]\<rparr>) \<and>
   admin_inv ex_admin_db \<and>
   admin_inv (ex_admin_db\<lparr>featured_items := [ex_featured ''f1'' ''c'' 2, ex_featured ''f3'' ''a'' 2]\<rparr>)"
proof -
  have "handle_delete True (Some ''u1'') ''f2'' False ex_admin_db =
      Inr (ex_admin_db\<lparr>featured_items := [ex_featured ''f1'' ''c'' 2, ex_featured ''f3'' ''a'' 2]\<rparr>)"
    by (simp add: handle_delete_def delete_featured_item_def admin_eval)
  then have s: "admin_step\<^sup>*\<^sup>* ex_admin_db (ex_admin_db\<lparr>featured_items := [ex_featured ''f1'' ''c'' 2, ex_featured ''f3'' ''a'' 2]\<rparr>)"
    by (blast intro: admin_step.delete)
  have inv: "admin_inv ex_admin_db"
    by (rule admin_inv_ex_admin_db)
  show ?thesis
    using admin_inv_reachable [OF s inv] s inv by simp
qed

end
