(* ===== verification/Catalogue.thy ===== *)
theory Catalogue
  imports Admin "HOL-Library.Monad_Syntax"
begin

text \<open>
  The catalogue the admin edits (\<open>src/app/actions/admin.ts\<close>, lines 62--390): create,
  update and delete of courses, contents, job postings and hero banners, and
  \<open>syncTags\<close>, which relinks an item to its tags; and the client side of the forms
  (\<open>src/components/admin/CourseForm.tsx\<close>, \<open>TagSelector.tsx\<close>, \<open>BannerForm.tsx\<close>,
  \<open>DeleteButton.tsx\<close>). An action returns \<open>Inl\<close> of the error it throws or \<open>Inr\<close> of the
  store. A form value the store cannot hold makes the write fail: a missing value for a
  column the types declare non-null, or a string outside a column's union; the
  catalogue's \<open>fails\<close> flag is any other failure of the write. New rows get the ids the
  caller supplies and go to the end of their table.
\<close>

subsection \<open>Values of the union columns\<close>

definition course_status_of :: "string \<Rightarrow> course_status option" where
  "course_status_of s =
     (if s = ''recruiting'' then Some Recruiting else if s = ''closed'' then Some Closed
      else if s = ''ongoing'' then Some Ongoing else if s = ''finished'' then Some Finished else None)"

definition job_type_of :: "string \<Rightarrow> job_type option" where
  "job_type_of s =
     (if s = ''newgrad'' then Some Newgrad else if s = ''intern'' then Some Intern
      else if s = ''experienced'' then Some Experienced else None)"

definition link_type_of :: "string \<Rightarrow> link_type option" where
  "link_type_of s =
     (if s = ''course'' then Some LinkCourse else if s = ''content'' then Some LinkContent
      else if s = ''job'' then Some LinkJob else if s = ''custom'' then Some LinkCustom else None)"

subsection \<open>Tag links: \<open>syncTags\<close>\<close>

datatype item_kind = KCourse | KContent | KJob

text \<open>\<open>fieldMap[itemType]\<close>: the column of a tag link naming the item.\<close>

fun tag_ref :: "item_kind \<Rightarrow> content_tag \<Rightarrow> uuid option" where
  "tag_ref KCourse r = cg_course_id r"
| "tag_ref KContent r = cg_content_id r"
| "tag_ref KJob r = cg_job_id r"

definition tag_link :: "item_kind \<Rightarrow> uuid \<Rightarrow> uuid \<Rightarrow> uuid \<Rightarrow> content_tag" where
  "tag_link k item lid t =
     \<lparr>cg_id = lid, cg_content_id = (if k = KContent then Some item else None),
      cg_course_id = (if k = KCourse then Some item else None),
      cg_job_id = (if k = KJob then Some item else None), cg_tag_id = t\<rparr>"

text \<open>
  \<open>.delete().eq(field, itemId)\<close>, then, for a non-empty list, one \<open>.insert(rows)\<close>; the
  errors of both are ignored (flags \<open>fl = (delete fails, insert fails)\<close>). The insert is one
  statement: it also fails as a whole when a tag id names no tag (\<open>tag_id\<close> references
  \<open>tags\<close>). The \<open>i\<close>-th new link gets the id \<open>new_ids i\<close>.
\<close>

definition sync_tags :: "item_kind \<Rightarrow> uuid list \<Rightarrow> uuid \<Rightarrow> (nat \<Rightarrow> uuid) \<Rightarrow> bool \<times> bool \<Rightarrow> db \<Rightarrow> db" where
  "sync_tags k tids item new_ids fl db =
     (let db1 = (if fst fl then db
                 else db\<lparr>content_tags := filter (\<lambda>r. tag_ref k r \<noteq> Some item) (content_tags db)\<rparr>)
      in if tids \<noteq> [] \<and> \<not> snd fl \<and> list_all (\<lambda>t. t \<in> tg_id ` set (tags db1)) tids
         then db1\<lparr>content_tags := content_tags db1 @
                    map (\<lambda>(i, t). tag_link k item (new_ids i) t) (enumerate 0 tids)\<rparr>
         else db1)"

subsection \<open>Courses: \<open>createCourse\<close>, \<open>updateCourse\<close>, \<open>deleteCourse\<close>\<close>

text \<open>
  The curriculum field: HTML (starting with \<open><\<close>) is kept as text; otherwise
  \<open>JSON.parse(raw || '[]')\<close>, whose success on a text is the parameter \<open>json_ok\<close>,
  and the raw text when it throws.
\<close>

definition syllabus_of :: "(string \<Rightarrow> bool) \<Rightarrow> string \<Rightarrow> syllabus" where
  "syllabus_of json_ok raw =
     (if take 1 raw = ''<'' then SylText raw
      else (let t = (if raw = [] then ''[]'' else raw) in if json_ok t then SylJson t else SylText raw))"

text \<open>The columns both course actions write (lines 105--119 and 144--161).\<close>

definition course_fields :: "(string \<Rightarrow> bool) \<Rightarrow> form \<Rightarrow> (course \<Rightarrow> course) option" where
  "course_fields json_ok fd = do {
     t \<leftarrow> form_get fd ''title'';
     d \<leftarrow> form_get fd ''description'';
     iname \<leftarrow> form_get fd ''instructor_name'';
     cat \<leftarrow> form_get fd ''category'';
     sd \<leftarrow> form_get fd ''start_date'';
     ed \<leftarrow> form_get fd ''end_date'';
     st \<leftarrow> course_status_of (or_default (form_get fd ''status'') ''recruiting'');
     Some (\<lambda>c. c\<lparr>c_title := t, c_description := d, c_instructor_name := iname,
       c_instructor_title := or_null (form_get fd ''instructor_title''), c_category := cat,
       c_thumbnail_url := or_null (form_get fd ''thumbnail_url''),
       c_max_students := parse_int_or (form_get fd ''max_students'') 30,
       c_start_date := sd, c_end_date := ed,
       c_duration_weeks := parse_int_or (form_get fd ''duration_weeks'') 4,
       c_price := parse_int_or (form_get fd ''price'') 0,
       c_is_live := (form_get fd ''is_live'' = Some ''true''),
       c_syllabus := syllabus_of json_ok (or_default (form_get fd ''syllabus'') []),
       c_status := st\<rparr>)
   }"

text \<open>\<open>updateCourse\<close> also writes the enrolment count, the rating and the review count.\<close>

definition course_update_fields :: "(string \<Rightarrow> bool) \<Rightarrow> form \<Rightarrow> (course \<Rightarrow> course) option" where
  "course_update_fields json_ok fd = do {
     f \<leftarrow> course_fields json_ok fd;
     r \<leftarrow> parse_float_or (form_get fd ''rating'') 0;
     Some (\<lambda>c. (f c)\<lparr>c_current_students := parse_int_or (form_get fd ''current_students'') 0,
                      c_rating := r, c_review_count := parse_int_or (form_get fd ''review_count'') 0\<rparr>)
   }"

text \<open>A course row before the insert's values: the column defaults.\<close>

definition new_course :: "uuid \<Rightarrow> course" where
  "new_course nid =
     \<lparr>c_id = nid, c_title = [], c_description = [], c_instructor_name = [], c_instructor_title = None,
      c_category = [], c_thumbnail_url = None, c_max_students = 30, c_current_students = 0,
      c_start_date = [], c_end_date = [], c_duration_weeks = 4, c_price = 0, c_is_live = False,
      c_syllabus = SylJson ''[]'', c_rating = 0, c_review_count = 0, c_status = Recruiting\<rparr>"

definition create_course ::
  "uuid option \<Rightarrow> form \<Rightarrow> (string \<Rightarrow> bool) \<Rightarrow> uuid \<Rightarrow> (nat \<Rightarrow> uuid) \<Rightarrow> bool \<Rightarrow> bool \<times> bool \<Rightarrow> db
     \<Rightarrow> admin_error + db" where
  "create_course user fd json_ok nid new_ids fails tfl db =
     (case require_admin user db of
        Inl e \<Rightarrow> Inl e
      | Inr _ \<Rightarrow>
          (case course_fields json_ok fd of
             None \<Rightarrow> Inl WriteFailed
           | Some f \<Rightarrow>
               if fails then Inl WriteFailed
               else (let db1 = db\<lparr>courses := courses db @ [f (new_course nid)]\<rparr>;
                         tids = csv_ids (form_get fd ''tag_ids'')
                     in Inr (if tids \<noteq> [] then sync_tags KCourse tids nid new_ids tfl db1 else db1))))"

definition update_course ::
  "uuid option \<Rightarrow> uuid \<Rightarrow> form \<Rightarrow> (string \<Rightarrow> bool) \<Rightarrow> (nat \<Rightarrow> uuid) \<Rightarrow> bool \<Rightarrow> bool \<times> bool \<Rightarrow> db
     \<Rightarrow> admin_error + db" where
  "update_course user cid fd json_ok new_ids fails tfl db =
     (case require_admin user db of
        Inl e \<Rightarrow> Inl e
      | Inr _ \<Rightarrow>
          (case course_update_fields json_ok fd of
             None \<Rightarrow> Inl WriteFailed
           | Some f \<Rightarrow>
               if fails then Inl WriteFailed
               else (let db1 = db\<lparr>courses := map (\<lambda>c. if c_id c = cid then f c else c) (courses db)\<rparr>
                     in Inr (sync_tags KCourse (csv_ids (form_get fd ''tag_ids'')) cid new_ids tfl db1))))"

definition delete_course :: "uuid option \<Rightarrow> uuid \<Rightarrow> bool \<Rightarrow> db \<Rightarrow> admin_error + db" where
  "delete_course user cid fails db =
     (case require_admin user db of
        Inl e \<Rightarrow> Inl e
      | Inr _ \<Rightarrow> if fails then Inl WriteFailed else Inr (db\<lparr>courses := filter (\<lambda>c. c_id c \<noteq> cid) (courses db)\<rparr>))"

subsection \<open>Contents: \<open>createContent\<close>, \<open>updateContent\<close>, \<open>deleteContent\<close>\<close>

definition content_fields :: "form \<Rightarrow> (content \<Rightarrow> content) option" where
  "content_fields fd = do {
     t \<leftarrow> form_get fd ''title'';
     sm \<leftarrow> form_get fd ''summary'';
     b \<leftarrow> form_get fd ''body'';
     an \<leftarrow> form_get fd ''author_name'';
     cat \<leftarrow> form_get fd ''category'';
     Some (\<lambda>c. c\<lparr>ct_title := t, ct_summary := sm, ct_body := b, ct_author_name := an,
       ct_author_title := or_null (form_get fd ''author_title''),
       ct_thumbnail_url := or_null (form_get fd ''thumbnail_url''), ct_category := cat,
       ct_tags := csv_ids (form_get fd ''legacy_tags''),
       ct_is_featured := (form_get fd ''is_featured'' = Some ''true'')\<rparr>)
   }"

definition new_content :: "uuid \<Rightarrow> content" where
  "new_content nid =
     \<lparr>ct_id = nid, ct_title = [], ct_summary = [], ct_body = [], ct_author_name = [], ct_author_title = None,
      ct_thumbnail_url = None, ct_category = [], ct_tags = [], ct_view_count = 0, ct_like_count = 0,
      ct_is_featured = False\<rparr>"

definition create_content ::
  "uuid option \<Rightarrow> form \<Rightarrow> uuid \<Rightarrow> (nat \<Rightarrow> uuid) \<Rightarrow> bool \<Rightarrow> bool \<times> bool \<Rightarrow> db \<Rightarrow> admin_error + db" where
  "create_content user fd nid new_ids fails tfl db =
     (case require_admin user db of
        Inl e \<Rightarrow> Inl e
      | Inr _ \<Rightarrow>
          (case content_fields fd of
             None \<Rightarrow> Inl WriteFailed
           | Some f \<Rightarrow>
               if fails then Inl WriteFailed
               else (let db1 = db\<lparr>contents := contents db @ [f (new_content nid)]\<rparr>;
                         tids = csv_ids (form_get fd ''tag_ids'')
                     in Inr (if tids \<noteq> [] then sync_tags KContent tids nid new_ids tfl db1 else db1))))"

definition update_content ::
  "uuid option \<Rightarrow> uuid \<Rightarrow> form \<Rightarrow> (nat \<Rightarrow> uuid) \<Rightarrow> bool \<Rightarrow> bool \<times> bool \<Rightarrow> db \<Rightarrow> admin_error + db" where
  "update_content user cid fd new_ids fails tfl db =
     (case require_admin user db of
        Inl e \<Rightarrow> Inl e
      | Inr _ \<Rightarrow>
          (case content_fields fd of
             None \<Rightarrow> Inl WriteFailed
           | Some f \<Rightarrow>
               if fails then Inl WriteFailed
               else (let db1 = db\<lparr>contents := map (\<lambda>c. if ct_id c = cid then f c else c) (contents db)\<rparr>
                     in Inr (sync_tags KContent (csv_ids (form_get fd ''tag_ids'')) cid new_ids tfl db1))))"

definition delete_content :: "uuid option \<Rightarrow> uuid \<Rightarrow> bool \<Rightarrow> db \<Rightarrow> admin_error + db" where
  "delete_content user cid fails db =
     (case require_admin user db of
        Inl e \<Rightarrow> Inl e
      | Inr _ \<Rightarrow> if fails then Inl WriteFailed else Inr (db\<lparr>contents := filter (\<lambda>c. ct_id c \<noteq> cid) (contents db)\<rparr>))"

subsection \<open>Job postings: \<open>createJob\<close>, \<open>updateJob\<close>, \<open>deleteJob\<close>\<close>

definition job_fields :: "form \<Rightarrow> (job_posting \<Rightarrow> job_posting) option" where
  "job_fields fd = do {
     cn \<leftarrow> form_get fd ''company_name'';
     t \<leftarrow> form_get fd ''title'';
     jt \<leftarrow> form_get fd ''job_type'';
     ty \<leftarrow> job_type_of jt;
     dl \<leftarrow> form_get fd ''deadline'';
     Some (\<lambda>j. j\<lparr>j_company_name := cn, j_title := t, j_description := or_null (form_get fd ''description''),
       j_job_type := ty, j_location := or_null (form_get fd ''location''), j_deadline := dl,
       j_url := or_null (form_get fd ''url''), j_thumbnail_url := or_null (form_get fd ''thumbnail_url''),
       j_tags := csv_ids (form_get fd ''legacy_tags''), j_source := or_null (form_get fd ''source''),
       j_is_active := (form_get fd ''is_active'' \<noteq> Some ''false'')\<rparr>)
   }"

definition new_job :: "uuid \<Rightarrow> job_posting" where
  "new_job nid =
     \<lparr>j_id = nid, j_company_name = [], j_title = [], j_description = None, j_job_type = Newgrad,
      j_location = None, j_deadline = [], j_url = None, j_thumbnail_url = None, j_tags = [],
      j_source = None, j_is_active = True\<rparr>"

definition create_job ::
  "uuid option \<Rightarrow> form \<Rightarrow> uuid \<Rightarrow> (nat \<Rightarrow> uuid) \<Rightarrow> bool \<Rightarrow> bool \<times> bool \<Rightarrow> db \<Rightarrow> admin_error + db" where
  "create_job user fd nid new_ids fails tfl db =
     (case require_admin user db of
        Inl e \<Rightarrow> Inl e
      | Inr _ \<Rightarrow>
          (case job_fields fd of
             None \<Rightarrow> Inl WriteFailed
           | Some f \<Rightarrow>
               if fails then Inl WriteFailed
               else (let db1 = db\<lparr>job_postings := job_postings db @ [f (new_job nid)]\<rparr>;
                         tids = csv_ids (form_get fd ''tag_ids'')
                     in Inr (if tids \<noteq> [] then sync_tags KJob tids nid new_ids tfl db1 else db1))))"

definition update_job ::
  "uuid option \<Rightarrow> uuid \<Rightarrow> form \<Rightarrow> (nat \<Rightarrow> uuid) \<Rightarrow> bool \<Rightarrow> bool \<times> bool \<Rightarrow> db \<Rightarrow> admin_error + db" where
  "update_job user jid fd new_ids fails tfl db =
     (case require_admin user db of
        Inl e \<Rightarrow> Inl e
      | Inr _ \<Rightarrow>
          (case job_fields fd of
             None \<Rightarrow> Inl WriteFailed
           | Some f \<Rightarrow>
               if fails then Inl WriteFailed
               else (let db1 = db\<lparr>job_postings := map (\<lambda>j. if j_id j = jid then f j else j) (job_postings db)\<rparr>
                     in Inr (sync_tags KJob (csv_ids (form_get fd ''tag_ids'')) jid new_ids tfl db1))))"

definition delete_job :: "uuid option \<Rightarrow> uuid \<Rightarrow> bool \<Rightarrow> db \<Rightarrow> admin_error + db" where
  "delete_job user jid fails db =
     (case require_admin user db of
        Inl e \<Rightarrow> Inl e
      | Inr _ \<Rightarrow> if fails then Inl WriteFailed else Inr (db\<lparr>job_postings := filter (\<lambda>j. j_id j \<noteq> jid) (job_postings db)\<rparr>))"

subsection \<open>Hero banners: \<open>createHeroBanner\<close>, \<open>updateHeroBanner\<close>, \<open>deleteHeroBanner\<close>\<close>

text \<open>Only the reference of the chosen link type is kept; the others are written null.\<close>

definition banner_fields :: "form \<Rightarrow> (hero_banner \<Rightarrow> hero_banner) option" where
  "banner_fields fd = do {
     t \<leftarrow> form_get fd ''title'';
     ls \<leftarrow> form_get fd ''link_type'';
     lt \<leftarrow> link_type_of ls;
     Some (\<lambda>b. b\<lparr>hb_title := t, hb_subtitle := or_null (form_get fd ''subtitle''),
       hb_image_url := or_null (form_get fd ''image_url''), hb_link_type := lt,
       hb_course_id := (if ls = ''course'' then or_null (form_get fd ''course_id'') else None),
       hb_content_id := (if ls = ''content'' then or_null (form_get fd ''content_id'') else None),
       hb_job_id := (if ls = ''job'' then or_null (form_get fd ''job_id'') else None),
       hb_custom_url := (if ls = ''custom'' then or_null (form_get fd ''custom_url'') else None),
       hb_bg_color := or_default (form_get fd ''bg_color'') ''#EBF2FF'',
       hb_text_color := or_default (form_get fd ''text_color'') ''#ffffff'',
       hb_focal_x := parse_int_or (form_get fd ''focal_x'') 50,
       hb_focal_y := parse_int_or (form_get fd ''focal_y'') 50,
       hb_display_order := parse_int_or (form_get fd ''display_order'') 0,
       hb_is_active := (form_get fd ''is_active'' \<noteq> Some ''false'')\<rparr>)
   }"

definition new_banner :: "uuid \<Rightarrow> hero_banner" where
  "new_banner nid =
     \<lparr>hb_id = nid, hb_title = [], hb_subtitle = None, hb_image_url = None, hb_link_type = LinkCustom,
      hb_course_id = None, hb_content_id = None, hb_job_id = None, hb_custom_url = None,
      hb_bg_color = ''#EBF2FF'', hb_text_color = ''#ffffff'', hb_focal_x = 50, hb_focal_y = 50,
      hb_display_order = 0, hb_is_active = True\<rparr>"

definition create_hero_banner :: "uuid option \<Rightarrow> form \<Rightarrow> uuid \<Rightarrow> bool \<Rightarrow> db \<Rightarrow> admin_error + db" where
  "create_hero_banner user fd nid fails db =
     (case require_admin user db of
        Inl e \<Rightarrow> Inl e
      | Inr _ \<Rightarrow>
          (case banner_fields fd of
             None \<Rightarrow> Inl WriteFailed
           | Some f \<Rightarrow>
               if fails then Inl WriteFailed
               else Inr (db\<lparr>hero_banners := hero_banners db @ [f (new_banner nid)]\<rparr>)))"

definition update_hero_banner :: "uuid option \<Rightarrow> uuid \<Rightarrow> form \<Rightarrow> bool \<Rightarrow> db \<Rightarrow> admin_error + db" where
  "update_hero_banner user bid fd fails db =
     (case require_admin user db of
        Inl e \<Rightarrow> Inl e
      | Inr _ \<Rightarrow>
          (case banner_fields fd of
             None \<Rightarrow> Inl WriteFailed
           | Some f \<Rightarrow>
               if fails then Inl WriteFailed
               else Inr (db\<lparr>hero_banners := map (\<lambda>b. if hb_id b = bid then f b else b) (hero_banners db)\<rparr>)))"

definition delete_hero_banner :: "uuid option \<Rightarrow> uuid \<Rightarrow> bool \<Rightarrow> db \<Rightarrow> admin_error + db" where
  "delete_hero_banner user bid fails db =
     (case require_admin user db of
        Inl e \<Rightarrow> Inl e
      | Inr _ \<Rightarrow> if fails then Inl WriteFailed else Inr (db\<lparr>hero_banners := filter (\<lambda>b. hb_id b \<noteq> bid) (hero_banners db)\<rparr>))"

subsection \<open>The client side of the forms\<close>

text \<open>\<open>TAGS\<close> of \<open>src/lib/constants.ts\<close>, by id.\<close>

definition preset_tag_ids :: "string list" where
  "preset_tag_ids = [''resume'', ''interview'', ''brand_marketing'', ''sales'', ''design'', ''uiux'',
     ''biz_dev'', ''development'', ''coaching'', ''career_dev'', ''data'', ''finance'', ''pm'', ''startup'', ''ai'']"

text \<open>The ids \<open>TagSelector\<close> offers: the store's tags, or the presets when there are none.\<close>

definition tag_options :: "tag list \<Rightarrow> string list" where
  "tag_options all_tags =
     (if all_tags \<noteq> [] then map tg_id all_tags else map (\<lambda>t. ''preset-'' @ t) preset_tag_ids)"

definition toggle_tag :: "string list \<Rightarrow> string \<Rightarrow> string list" where
  "toggle_tag sel t = (if t \<in> set sel then filter (\<lambda>x. x \<noteq> t) sel else sel @ [t])"

text \<open>The hidden field \<open>tag_ids\<close> the forms submit: \<open>tagIds.join(',')\<close>.\<close>

definition tag_ids_field :: "string list \<Rightarrow> string" where
  "tag_ids_field sel = js_join CHR '','' sel"

text \<open>The text \<open>CourseForm\<close> seeds the curriculum editor with: a stored text, or nothing.\<close>

definition editor_seed :: "syllabus \<Rightarrow> string" where
  "editor_seed s = (case s of SylText t \<Rightarrow> t | SylJson _ \<Rightarrow> [])"

text \<open>
  \<open>BannerForm\<close>'s drag of the preview: the focal point moves against the pointer by the
  dragged share of the preview's width, clamped to 0..100 and rounded.
\<close>

definition drag_focal :: "int \<Rightarrow> real \<Rightarrow> real \<Rightarrow> int" where
  "drag_focal f0 d w = js_round (max 0 (min 100 (of_int f0 + d / w * -100)))"

text \<open>\<open>DeleteButton\<close>: the delete runs only when the confirmation is accepted.\<close>

definition delete_button :: "bool \<Rightarrow> (db \<Rightarrow> admin_error + db) \<Rightarrow> db \<Rightarrow> admin_error + db" where
  "delete_button confirmed on_delete db = (if confirmed then on_delete db else Inr db)"

subsection \<open>What the banner actions promise\<close>

text \<open>A banner keeps only the reference its link type names.\<close>

definition banner_ok :: "hero_banner \<Rightarrow> bool" where
  "banner_ok b \<longleftrightarrow>
     (hb_course_id b = None \<or> hb_link_type b = LinkCourse) \<and> (hb_content_id b = None \<or> hb_link_type b = LinkContent) \<and>
     (hb_job_id b = None \<or> hb_link_type b = LinkJob) \<and> (hb_custom_url b = None \<or> hb_link_type b = LinkCustom)"

text \<open>Example stores and forms of the witnesses.\<close>

definition ex_cat_db :: db where
  "ex_cat_db = ex_admin_db\<lparr>tags := [\<lparr>tg_id = ''t1'', tg_name = ''resume''\<rparr>, \<lparr>tg_id = ''t2'', tg_name = ''interview''\<rparr>],
     content_tags := [tag_link KCourse ''a'' ''l1'' ''t1'', tag_link KCourse ''b'' ''l2'' ''t2'']\<rparr>"

definition ex_banner_form :: form where
  "ex_banner_form = [(''title'', ''spring''), (''link_type'', ''course''), (''course_id'', ''a''),
     (''content_id'', ''zz''), (''focal_x'', js_string_of_int 0)]"

subsection \<open>Lemmas\<close>

lemma map_snd_enumerate [simp]: "map snd (enumerate n xs) = xs"
  by (induction xs arbitrary: n) auto

lemma tag_ref_tag_link [simp]: "tag_ref k (tag_link k' item lid t) = (if k = k' then Some item else None)"
  by (cases k; cases k') (simp_all add: tag_link_def)

lemma cg_tag_id_tag_link [simp]: "cg_tag_id (tag_link k item lid t) = t"
  by (simp add: tag_link_def)

lemma sync_tags_frame [simp]:
  "courses (sync_tags k tids item new_ids fl db) = courses db"
  "contents (sync_tags k tids item new_ids fl db) = contents db"
  "job_postings (sync_tags k tids item new_ids fl db) = job_postings db"
  "tags (sync_tags k tids item new_ids fl db) = tags db"
  "featured_items (sync_tags k tids item new_ids fl db) = featured_items db"
  "profiles (sync_tags k tids item new_ids fl db) = profiles db"
  "hero_banners (sync_tags k tids item new_ids fl db) = hero_banners db"
  by (simp_all add: sync_tags_def Let_def)

lemma filter_new_links:
  "filter (\<lambda>r. tag_ref k r = Some item) (map (\<lambda>(i, t). tag_link k item (new_ids i) t) ps) =
   map (\<lambda>(i, t). tag_link k item (new_ids i) t) ps"
  by (induction ps) auto

lemma filter_new_links_other:
  "filter (\<lambda>r. tag_ref k r \<noteq> Some item) (map (\<lambda>(i, t). tag_link k item (new_ids i) t) ps) = []"
  by (induction ps) auto

lemma banner_fields_ok: "banner_fields fd = Some f \<Longrightarrow> banner_ok (f b)"
  by (auto simp: banner_fields_def banner_ok_def link_type_of_def split: if_splits Option.bind_splits)

lemma list_all_map_if:
  "list_all P xs \<Longrightarrow> (\<And>x. P (f x)) \<Longrightarrow> list_all P (map (\<lambda>x. if Q x then f x else x) xs)"
  by (induction xs) auto

lemma course_fields_syllabus:
  assumes "course_fields json_ok fd = Some f" "form_get fd ''syllabus'' = Some h"
  shows "c_syllabus (f c) = syllabus_of json_ok h \<and> c_id (f c) = c_id c"
proof -
  from assms(1) obtain t d iname cat sd ed st where
    "f = (\<lambda>c. c\<lparr>c_title := t, c_description := d, c_instructor_name := iname,
       c_instructor_title := or_null (form_get fd ''instructor_title''), c_category := cat,
       c_thumbnail_url := or_null (form_get fd ''thumbnail_url''),
       c_max_students := parse_int_or (form_get fd ''max_students'') 30,
       c_start_date := sd, c_end_date := ed,
       c_duration_weeks := parse_int_or (form_get fd ''duration_weeks'') 4,
       c_price := parse_int_or (form_get fd ''price'') 0,
       c_is_live := (form_get fd ''is_live'' = Some ''true''),
       c_syllabus := syllabus_of json_ok (or_default (form_get fd ''syllabus'') []),
       c_status := st\<rparr>)"
    unfolding course_fields_def by (auto simp: bind_eq_Some_conv)
  with assms(2) show ?thesis
    by (simp add: or_default_def split: if_splits)
qed

lemma course_update_fields_syllabus:
  assumes "course_update_fields json_ok fd = Some g" "form_get fd ''syllabus'' = Some h"
  shows "c_syllabus (g c) = syllabus_of json_ok h \<and> c_id (g c) = c_id c"
proof -
  from assms(1) obtain f r where f: "course_fields json_ok fd = Some f"
    and g: "g = (\<lambda>c. (f c)\<lparr>c_current_students := parse_int_or (form_get fd ''current_students'') 0,
                      c_rating := r, c_review_count := parse_int_or (form_get fd ''review_count'') 0\<rparr>)"
    unfolding course_update_fields_def by (auto simp: bind_eq_Some_conv)
  show ?thesis
    using course_fields_syllabus [OF f assms(2), of c] g by simp
qed

lemma update_course_ids:
  "update_course user cid fd json_ok new_ids fails tfl db = Inr db' \<Longrightarrow> map c_id (courses db') = map c_id (courses db)"
proof -
  assume u: "update_course user cid fd json_ok new_ids fails tfl db = Inr db'"
  then obtain g where g: "course_update_fields json_ok fd = Some g"
    and cs: "courses db' = map (\<lambda>c. if c_id c = cid then g c else c) (courses db)"
    by (auto simp: update_course_def Let_def split: sum.splits option.splits if_splits)
  have "c_id (g c) = c_id c" for c
    using g by (auto simp: course_update_fields_def course_fields_def bind_eq_Some_conv)
  with cs show ?thesis by simp
qed

subsection \<open>Properties of the catalogue\<close>

text \<open>
  the tag ids a form submits in its hidden \<open>tag_ids\<close> field (\<open>tagIds.join(',')\<close>) are the ids the action reads back (\<open>split(',').filter(Boolean)\<close>), in order, when no id is empty or contains a comma.
\<close>

theorem tag_ids_roundtrip:
  "list_all (\<lambda>t. t \<noteq> [] \<and> CHR '','' \<notin> set t) sel \<Longrightarrow> csv_ids (Some (tag_ids_field sel)) = sel"
  by (simp add: tag_ids_field_def csv_ids_join list_all_iff)

text \<open>
  when neither store call fails and every tag id names a tag, \<open>syncTags\<close> leaves the item linked to exactly the given tags, in order, and every other item's links as they were.
\<close>

theorem sync_tags_links_exact:
  assumes "list_all (\<lambda>t. t \<in> tg_id ` set (tags db)) tids"
  shows "map cg_tag_id (filter (\<lambda>r. tag_ref k r = Some item) (content_tags (sync_tags k tids item new_ids (False, False) db))) = tids \<and>
    filter (\<lambda>r. tag_ref k r \<noteq> Some item) (content_tags (sync_tags k tids item new_ids (False, False) db)) =
    filter (\<lambda>r. tag_ref k r \<noteq> Some item) (content_tags db)"
proof -
  have "map cg_tag_id (map (\<lambda>(i, t). tag_link k item (new_ids i) t) ps) = map snd ps" for ps
    by (induction ps) auto
  then have m: "map cg_tag_id (map (\<lambda>(i, t). tag_link k item (new_ids i) t) (enumerate 0 tids)) = tids"
    by (metis map_snd_enumerate)
  show ?thesis
    using assms m by (auto simp: sync_tags_def Let_def filter_new_links filter_new_links_other)
qed

text \<open>
  C17: \<open>syncTags\<close> is not atomic: when the insert fails, whether the store rejects it or one id names no tag (as the selector's preset ids do when the store has no tags), the item ends with no tag links at all, whatever it had before.
\<close>

theorem sync_tags_failure_unlinks:
  assumes "snd fl \<or> \<not> list_all (\<lambda>t. t \<in> tg_id ` set (tags db)) tids" "\<not> fst fl"
  shows "filter (\<lambda>r. tag_ref k r = Some item) (content_tags (sync_tags k tids item new_ids fl db)) = []"
  using assms by (auto simp: sync_tags_def Let_def filter_empty_conv)

text \<open>
  C18: every hero-banner action keeps each banner's references to the one its link type names: the server writes the other three null, whatever the form holds.
\<close>

theorem banner_links_exclusive:
  assumes "list_all banner_ok (hero_banners db)"
  shows "(create_hero_banner user fd nid fails db = Inr db1 \<longrightarrow> list_all banner_ok (hero_banners db1)) \<and>
         (update_hero_banner user bid fd fails db = Inr db2 \<longrightarrow> list_all banner_ok (hero_banners db2)) \<and>
         (delete_hero_banner user bid fails db = Inr db3 \<longrightarrow> list_all banner_ok (hero_banners db3))"
proof (intro conjI impI)
  assume "create_hero_banner user fd nid fails db = Inr db1"
  then obtain f where "banner_fields fd = Some f" "db1 = db\<lparr>hero_banners := hero_banners db @ [f (new_banner nid)]\<rparr>"
    by (auto simp: create_hero_banner_def split: sum.splits option.splits if_splits)
  with assms show "list_all banner_ok (hero_banners db1)"
    by (simp add: banner_fields_ok)
next
  assume "update_hero_banner user bid fd fails db = Inr db2"
  then obtain f where "banner_fields fd = Some f"
      "db2 = db\<lparr>hero_banners := map (\<lambda>b. if hb_id b = bid then f b else b) (hero_banners db)\<rparr>"
    by (auto simp: update_hero_banner_def split: sum.splits option.splits if_splits)
  with assms show "list_all banner_ok (hero_banners db2)"
    by (simp add: list_all_map_if banner_fields_ok)
next
  assume "delete_hero_banner user bid fails db = Inr db3"
  then have "hero_banners db3 = filter (\<lambda>b. hb_id b \<noteq> bid) (hero_banners db)"
    by (auto simp: delete_hero_banner_def split: sum.splits if_splits)
  with assms show "list_all banner_ok (hero_banners db3)"
    by (simp add: list_all_iff)
qed

text \<open>
  dragging the banner preview keeps the focal point within 0..100.
\<close>

theorem drag_focal_bounds: "0 \<le> drag_focal f0 d w \<and> drag_focal f0 d w \<le> 100"
  by (simp add: drag_focal_def js_round_clamp)

text \<open>
  a focal point dragged to the edge (0) is saved as the centre: the form sends \<open>String(0)\<close> and the action reads it with \<open>parseInt(..) || 50\<close>.
\<close>

theorem focal_edge_saved_as_center:
  assumes "0 < w" "banner_fields fd = Some f" "form_get fd ''focal_x'' = Some (js_string_of_int (drag_focal f0 w w))"
    "f0 \<le> 100"
  shows "drag_focal f0 w w = 0 \<and> hb_focal_x (f b) = 50"
proof -
  have "of_int f0 + w / w * -100 \<le> 0" using assms(1,4) by simp
  then have z: "drag_focal f0 w w = 0"
    by (simp add: drag_focal_def js_round_def max_def min_def)
  then show ?thesis
    using assms(2,3) by (auto simp: banner_fields_def split: Option.bind_splits)
qed

subsection \<open>Witnesses\<close>

lemmas cat_eval = ex_cat_db_def ex_banner_form_def form_get_def admin_eval

theorem tag_ids_roundtrip_witness:
  "list_all (\<lambda>t. t \<noteq> [] \<and> CHR '','' \<notin> set t) [''t1'', ''t2''] \<and> csv_ids (Some (tag_ids_field [''t1'', ''t2''])) = [''t1'', ''t2'']"
  using tag_ids_roundtrip [of "[''t1'', ''t2'']"] by simp

theorem sync_tags_links_exact_witness:
  "list_all (\<lambda>t. t \<in> tg_id ` set (tags ex_cat_db)) [''t2''] \<and>
   map cg_tag_id (filter (\<lambda>r. tag_ref KCourse r = Some ''a'')
     (content_tags (sync_tags KCourse [''t2''] ''a'' (\<lambda>_. ''l3'') (False, False) ex_cat_db))) = [''t2''] \<and>
   filter (\<lambda>r. tag_ref KCourse r \<noteq> Some ''a'') (content_tags (sync_tags KCourse [''t2''] ''a'' (\<lambda>_. ''l3'') (False, False) ex_cat_db)) =
     [tag_link KCourse ''b'' ''l2'' ''t2'']"
proof -
  have t: "list_all (\<lambda>t. t \<in> tg_id ` set (tags ex_cat_db)) [''t2'']"
    by (simp add: ex_cat_db_def)
  have o: "filter (\<lambda>r. tag_ref KCourse r \<noteq> Some ''a'') (content_tags ex_cat_db) = [tag_link KCourse ''b'' ''l2'' ''t2'']"
    by (simp add: ex_cat_db_def tag_link_def)
  show ?thesis
    using sync_tags_links_exact [OF t, of KCourse "''a''" "\<lambda>_. ''l3''"] t o by simp
qed

theorem sync_tags_failure_unlinks_witness:
  "(snd (False, False) \<or> \<not> list_all (\<lambda>t. t \<in> tg_id ` set (tags ex_admin_db)) [''preset-resume'']) \<and>
   ''preset-resume'' \<in> set (tag_options (tags ex_admin_db)) \<and>
   filter (\<lambda>r. tag_ref KCourse r = Some ''a'')
     (content_tags (sync_tags KCourse [''preset-resume''] ''a'' (\<lambda>_. ''l3'') (False, False) ex_admin_db)) = []"
proof -
  have h: "snd (False, False) \<or> \<not> list_all (\<lambda>t. t \<in> tg_id ` set (tags ex_admin_db)) [''preset-resume'']"
    by (simp add: admin_eval)
  have "''preset-resume'' \<in> set (tag_options (tags ex_admin_db))"
    by (simp add: tag_options_def preset_tag_ids_def admin_eval)
  with h show ?thesis
    using sync_tags_failure_unlinks [OF h, of KCourse "''a''" "\<lambda>_. ''l3''"] by simp
qed

theorem banner_links_exclusive_witness:
  "list_all banner_ok (hero_banners ex_admin_db) \<and>
   (\<exists>db1. create_hero_banner (Some ''u2'') ex_banner_form ''h1'' False ex_admin_db = Inr db1 \<and>
          list_all banner_ok (hero_banners db1) \<and> hero_banners db1 \<noteq> [])"
proof -
  have i: "list_all banner_ok (hero_banners ex_admin_db)"
    by (simp add: admin_eval)
  obtain db1 where c: "create_hero_banner (Some ''u2'') ex_banner_form ''h1'' False ex_admin_db = Inr db1"
    by (simp add: create_hero_banner_def banner_fields_def link_type_of_def cat_eval)
  have "hero_banners db1 \<noteq> []"
    using c by (auto simp: create_hero_banner_def split: sum.splits option.splits if_splits)
  with i c show ?thesis
    using banner_links_exclusive [OF i, of "Some ''u2''" ex_banner_form "''h1''" False db1] by blast
qed

theorem focal_edge_saved_as_center_witness:
  "\<exists>f. (0::real) < 300 \<and> banner_fields ex_banner_form = Some f \<and>
       form_get ex_banner_form ''focal_x'' = Some (js_string_of_int (drag_focal 50 300 300)) \<and> (50::int) \<le> 100 \<and>
       drag_focal 50 300 300 = 0 \<and> hb_focal_x (f (new_banner ''h1'')) = 50"
proof -
  obtain f where f: "banner_fields ex_banner_form = Some f"
    by (simp add: banner_fields_def link_type_of_def ex_banner_form_def form_get_def)
  have d: "drag_focal 50 300 300 = 0"
    by (simp add: drag_focal_def js_round_def)
  have g: "form_get ex_banner_form ''focal_x'' = Some (js_string_of_int (drag_focal 50 300 300))"
    by (simp add: d ex_banner_form_def form_get_def)
  show ?thesis
    using focal_edge_saved_as_center [OF _ f g, of "new_banner ''h1''"] f g d by auto
qed

end
