(* ===== verification/Enrollment.thy ===== *)
theory Enrollment
  imports Resolver
begin

text \<open>
  Course enrolment (\<open>src/app/actions/courses.ts\<close>: \<open>enrollCourse\<close>, \<open>cancelEnrollment\<close>),
  the button that calls them (\<open>src/app/(main)/courses/[id]/EnrollButton.tsx\<close>), the course
  page that shows it (\<open>src/app/(main)/courses/[id]/page.tsx\<close>) and the list of a user's
  enrolments (\<open>src/app/(main)/my/courses/page.tsx\<close>). Each store call that may fail is a
  flag of a fault function; a failed read gives \<open>null\<close>. \<open>.maybeSingle()\<close> gives the row
  when exactly one matches and \<open>null\<close> otherwise (an error when several match). A
  server action runs its reads and then its writes; \<open>enroll_check\<close> and \<open>enroll_commit\<close>
  are the two halves of \<open>enrollCourse\<close>, so that two requests can be interleaved.
\<close>

datatype enroll_msg =
  NeedLogin | AlreadyEnrolled | CourseNotFound | NotRecruiting | CourseFull | EnrollFailed
  | CountUpdateFailed | EnrollmentNotFound | CancelFailed

datatype enroll_result = Enrolled | Canceled_ok | EnrollError enroll_msg

datatype enroll_q = EReadExisting | EReadCourse | EInsert | EUpdateCount

datatype cancel_q = CReadEnrollment | CUpdate | CReadCourse | CUpdateCount

subsection \<open>Store reads\<close>

definition user_course_rows :: "uuid \<Rightarrow> uuid \<Rightarrow> enrollment list \<Rightarrow> enrollment list" where
  "user_course_rows uid cid es = filter (\<lambda>e. en_user_id e = uid \<and> en_course_id e = cid) es"

definition active_rows :: "uuid \<Rightarrow> uuid \<Rightarrow> enrollment list \<Rightarrow> enrollment list" where
  "active_rows uid cid es = filter (\<lambda>e. en_status e \<noteq> Canceled) (user_course_rows uid cid es)"

definition course_row :: "db \<Rightarrow> uuid \<Rightarrow> course option" where
  "course_row db cid = single_data (filter (\<lambda>c. c_id c = cid) (courses db))"

definition set_course_count :: "uuid \<Rightarrow> int \<Rightarrow> db \<Rightarrow> db" where
  "set_course_count cid n db =
     db\<lparr>courses := map (\<lambda>c. if c_id c = cid then c\<lparr>c_current_students := n\<rparr> else c) (courses db)\<rparr>"

subsection \<open>\<open>enrollCourse\<close>\<close>

text \<open>Lines 19--48: the reads and the checks; the course as read.\<close>

definition enroll_check :: "uuid \<Rightarrow> uuid \<Rightarrow> (enroll_q \<Rightarrow> bool) \<Rightarrow> db \<Rightarrow> enroll_msg + course" where
  "enroll_check uid cid qf db =
     (let existing = (if qf EReadExisting then None else single_data (user_course_rows uid cid (enrollments db)))
      in if (case existing of Some e \<Rightarrow> en_status e \<noteq> Canceled | None \<Rightarrow> False) then Inl AlreadyEnrolled
         else (case (if qf EReadCourse then None else course_row db cid) of
                 None \<Rightarrow> Inl CourseNotFound
               | Some c \<Rightarrow>
                   if c_status c \<noteq> Recruiting then Inl NotRecruiting
                   else if c_max_students c \<le> c_current_students c then Inl CourseFull
                   else Inr c))"

text \<open>Lines 50--74: the insert, then the count written from the value read.\<close>

definition enroll_commit ::
  "uuid \<Rightarrow> uuid \<Rightarrow> uuid \<Rightarrow> course \<Rightarrow> (enroll_q \<Rightarrow> bool) \<Rightarrow> db \<Rightarrow> enroll_result \<times> db" where
  "enroll_commit uid cid nid c qf db =
     (if qf EInsert then (EnrollError EnrollFailed, db)
      else (let db1 = db\<lparr>enrollments := enrollments db @
                 [\<lparr>en_id = nid, en_user_id = uid, en_course_id = cid, en_status = Applied\<rparr>]\<rparr>
            in if qf EUpdateCount then (EnrollError CountUpdateFailed, db1)
               else (Enrolled, set_course_count cid (c_current_students c + 1) db1)))"

definition enroll_course :: "uuid option \<Rightarrow> uuid \<Rightarrow> uuid \<Rightarrow> (enroll_q \<Rightarrow> bool) \<Rightarrow> db \<Rightarrow> enroll_result \<times> db" where
  "enroll_course user cid nid qf db =
     (case user of
        None \<Rightarrow> (EnrollError NeedLogin, db)
      | Some uid \<Rightarrow>
          (case enroll_check uid cid qf db of
             Inl m \<Rightarrow> (EnrollError m, db)
           | Inr c \<Rightarrow> enroll_commit uid cid nid c qf db))"

subsection \<open>\<open>cancelEnrollment\<close>\<close>

definition cancel_enrollment :: "uuid option \<Rightarrow> uuid \<Rightarrow> (cancel_q \<Rightarrow> bool) \<Rightarrow> db \<Rightarrow> enroll_result \<times> db" where
  "cancel_enrollment user cid qf db =
     (case user of
        None \<Rightarrow> (EnrollError NeedLogin, db)
      | Some uid \<Rightarrow>
          (case (if qf CReadEnrollment then None else single_data (active_rows uid cid (enrollments db))) of
             None \<Rightarrow> (EnrollError EnrollmentNotFound, db)
           | Some e \<Rightarrow>
               if qf CUpdate then (EnrollError CancelFailed, db)
               else (let db1 = db\<lparr>enrollments :=
                           map (\<lambda>x. if en_id x = en_id e then x\<lparr>en_status := Canceled\<rparr> else x) (enrollments db)\<rparr>
                     in (Canceled_ok,
                         case (if qf CReadCourse then None else course_row db1 cid) of
                           Some c \<Rightarrow> if 0 < c_current_students c \<and> \<not> qf CUpdateCount
                                     then set_course_count cid (c_current_students c - 1) db1 else db1
                         | None \<Rightarrow> db1))))"

subsection \<open>The button and the pages\<close>

datatype enroll_button = ButtonDisabled course_status | ButtonCancel bool | ButtonEnroll bool

text \<open>\<open>EnrollButton\<close>'s rendering; the flag of \<open>ButtonCancel\<close>/\<open>ButtonEnroll\<close> is \<open>disabled={isPending}\<close>.\<close>

definition enroll_button :: "course_status \<Rightarrow> bool \<Rightarrow> bool \<Rightarrow> enroll_button" where
  "enroll_button st enrolled pending =
     (if st \<noteq> Recruiting \<and> \<not> enrolled then ButtonDisabled st
      else if enrolled then ButtonCancel pending else ButtonEnroll pending)"

datatype click_outcome = GoLogin | ShowResult enroll_result

text \<open>\<open>handleEnroll\<close> and \<open>handleCancel\<close>.\<close>

definition handle_enroll ::
  "bool \<Rightarrow> uuid option \<Rightarrow> uuid \<Rightarrow> uuid \<Rightarrow> (enroll_q \<Rightarrow> bool) \<Rightarrow> db \<Rightarrow> click_outcome \<times> db" where
  "handle_enroll logged_in user cid nid qf db =
     (if \<not> logged_in then (GoLogin, db)
      else (let (r, db') = enroll_course user cid nid qf db in (ShowResult r, db')))"

definition handle_cancel :: "uuid option \<Rightarrow> uuid \<Rightarrow> (cancel_q \<Rightarrow> bool) \<Rightarrow> db \<Rightarrow> click_outcome \<times> db" where
  "handle_cancel user cid qf db = (let (r, db') = cancel_enrollment user cid qf db in (ShowResult r, db'))"

text \<open>What the course page shows: the course, whether it counts the user as enrolled, and
  the button.\<close>

record course_view =
  cv_course :: course
  cv_free :: bool
  cv_enrolled :: bool
  cv_button :: enroll_button

datatype course_page = CourseMissing | CoursePage course_view

definition course_page :: "uuid option \<Rightarrow> uuid \<Rightarrow> bool \<Rightarrow> db \<Rightarrow> course_page" where
  "course_page user cid pending db =
     (case course_row db cid of
        None \<Rightarrow> CourseMissing
      | Some c \<Rightarrow>
          (let enrolled = (case user of None \<Rightarrow> False | Some uid \<Rightarrow> single_data (active_rows uid cid (enrollments db)) \<noteq> None)
           in CoursePage \<lparr>cv_course = c, cv_free = (c_price c = 0), cv_enrolled = enrolled,
                          cv_button = enroll_button (c_status c) enrolled pending\<rparr>))"

text \<open>The user's enrolments, newest first, each with its course; a row whose course is
  gone is skipped. \<open>requireAuth\<close> sends a signed-out user to the login page.\<close>

datatype 'a auth_page = AuthRedirectLogin | AuthPage 'a

definition my_courses :: "uuid option \<Rightarrow> db \<Rightarrow> (enrollment \<times> course) list auth_page" where
  "my_courses user db =
     (case user of
        None \<Rightarrow> AuthRedirectLogin
      | Some uid \<Rightarrow>
          AuthPage (List.map_filter
            (\<lambda>e. map_option (\<lambda>c. (e, c)) (find (\<lambda>c. c_id c = en_course_id e) (courses db)))
            (rev (filter (\<lambda>e. en_user_id e = uid) (enrollments db)))))"

subsection \<open>The enrolment invariant and the step relation\<close>

text \<open>\<open>course_active\<close>: the course's enrolments that are not canceled. \<open>enroll_inv\<close>: the
  stored count of each course is the number of its active enrolments and stays within its
  capacity; ids are unique. \<open>enroll_step\<close>: one request of a signed-in user, run alone and
  without store faults (the insert receives a fresh id).\<close>

definition course_active :: "uuid \<Rightarrow> enrollment list \<Rightarrow> enrollment list" where
  "course_active cid es = filter (\<lambda>e. en_course_id e = cid \<and> en_status e \<noteq> Canceled) es"

definition enroll_inv :: "db \<Rightarrow> bool" where
  "enroll_inv db \<longleftrightarrow>
     list_all (\<lambda>c. c_current_students c = int (length (course_active (c_id c) (enrollments db))) \<and>
                   c_current_students c \<le> c_max_students c) (courses db) \<and>
     distinct (map c_id (courses db)) \<and> distinct (map en_id (enrollments db))"

inductive enroll_step :: "db \<Rightarrow> db \<Rightarrow> bool" where
  enroll: "enroll_course (Some uid) cid nid (\<lambda>_. False) db = (r, db') \<Longrightarrow> nid \<notin> en_id ` set (enrollments db) \<Longrightarrow>
           enroll_step db db'"
| cancel: "cancel_enrollment (Some uid) cid (\<lambda>_. False) db = (r, db') \<Longrightarrow> enroll_step db db'"

text \<open>Example stores: a two-seat course; the store after enrol, cancel, enrol by one user;
  a course with one seat left.\<close>

definition ex_en_db :: db where
  "ex_en_db = empty_db\<lparr>courses := [(ex_course ''c1'' 4)\<lparr>c_max_students := 2\<rparr>]\<rparr>"

definition ex_trace_db :: db where
  "ex_trace_db = snd (enroll_course (Some ''u'') ''c1'' ''n2'' (\<lambda>_. False)
                   (snd (cancel_enrollment (Some ''u'') ''c1'' (\<lambda>_. False)
                     (snd (enroll_course (Some ''u'') ''c1'' ''n1'' (\<lambda>_. False) ex_en_db)))))"

definition ex_last_seat_db :: db where
  "ex_last_seat_db = empty_db\<lparr>courses := [(ex_course ''c1'' 4)\<lparr>c_max_students := 2, c_current_students := 1\<rparr>],
     enrollments := [\<lparr>en_id = ''n0'', en_user_id = ''u0'', en_course_id = ''c1'', en_status = Applied\<rparr>]\<rparr>"

subsection \<open>Lemmas\<close>

lemma course_row_SomeD: "course_row db cid = Some c \<Longrightarrow> c \<in> set (courses db) \<and> c_id c = cid"
proof -
  assume "course_row db cid = Some c"
  then have "filter (\<lambda>c. c_id c = cid) (courses db) = [c]"
    by (simp add: course_row_def single_data_Some_iff)
  then have "c \<in> set (filter (\<lambda>c. c_id c = cid) (courses db))" by simp
  then show ?thesis by simp
qed

lemma course_row_set_course_count:
  "course_row (set_course_count cid n db) cid = map_option (\<lambda>c. c\<lparr>c_current_students := n\<rparr>) (course_row db cid)"
  by (simp add: course_row_def set_course_count_def filter_map_update_key single_data_def split: list.splits)

lemma enroll_course_cases:
  "enroll_course (Some uid) cid nid (\<lambda>_. False) db = (r, db') \<Longrightarrow>
   db' = db \<or> (\<exists>c. course_row db cid = Some c \<and> c_status c = Recruiting \<and> c_current_students c < c_max_students c \<and>
     db' = set_course_count cid (c_current_students c + 1)
             (db\<lparr>enrollments := enrollments db @ [\<lparr>en_id = nid, en_user_id = uid, en_course_id = cid, en_status = Applied\<rparr>]\<rparr>))"
  by (auto simp: enroll_course_def enroll_check_def enroll_commit_def Let_def not_le
           split: sum.splits option.splits if_splits)

lemma length_course_active_cancel:
  assumes "distinct (map en_id es)" "e \<in> set es" "en_status e \<noteq> Canceled"
  shows "length (course_active cid (map (\<lambda>x. if en_id x = en_id e then x\<lparr>en_status := Canceled\<rparr> else x) es)) + 
           (if en_course_id e = cid then 1 else 0) = length (course_active cid es)"
  using assms
proof (induction es)
  case (Cons x es)
  show ?case
  proof (cases "x = e")
    case True
    with Cons.prems have "\<forall>y \<in> set es. en_id y \<noteq> en_id e" by (auto simp: image_iff)
    then have "map (\<lambda>x. if en_id x = en_id e then x\<lparr>en_status := Canceled\<rparr> else x) es = es"
      by (induction es) auto
    with True Cons.prems show ?thesis by (auto simp: course_active_def)
  next
    case False
    with Cons.prems have "e \<in> set es" by auto
    moreover have "en_id x \<noteq> en_id e"
      using Cons.prems \<open>e \<in> set es\<close> by auto
    ultimately show ?thesis
      using Cons by (auto simp: course_active_def)
  qed
qed simp

lemma course_active_snoc:
  "course_active k (es @ [e]) = course_active k es @ (if en_course_id e = k \<and> en_status e \<noteq> Canceled then [e] else [])"
  by (simp add: course_active_def)

lemma course_row_unique:
  "distinct (map c_id (courses db)) \<Longrightarrow> c \<in> set (courses db) \<Longrightarrow> course_row db (c_id c) = Some c"
  using filter_key_single [of c_id "courses db" c] by (simp add: course_row_def single_data_def)

lemma course_row_None:
  "distinct (map c_id (courses db)) \<Longrightarrow> course_row db cid = None \<Longrightarrow> c \<in> set (courses db) \<Longrightarrow> c_id c \<noteq> cid"
  using course_row_unique by fastforce

lemma map_c_id_count [simp]:
  "map (c_id \<circ> (\<lambda>c. if c_id c = cid then c\<lparr>c_current_students := n\<rparr> else c)) cs = map c_id cs"
  by (induction cs) auto

lemma enroll_inv_enroll:
  assumes inv: "enroll_inv db" and c: "course_row db cid = Some c" and lt: "c_current_students c < c_max_students c"
    and fresh: "nid \<notin> en_id ` set (enrollments db)"
  shows "enroll_inv (set_course_count cid (c_current_students c + 1)
           (db\<lparr>enrollments := enrollments db @ [\<lparr>en_id = nid, en_user_id = uid, en_course_id = cid, en_status = Applied\<rparr>]\<rparr>))"
proof -
  from c have cin: "c \<in> set (courses db)" "c_id c = cid" by (auto dest: course_row_SomeD)
  have same: "c0 = c" if "c0 \<in> set (courses db)" "c_id c0 = cid" for c0
    using course_row_unique [of db c0] inv that c by (simp add: enroll_inv_def)
  have cnt: "c_current_students c = int (length (course_active cid (enrollments db)))"
    using inv cin by (auto simp: enroll_inv_def list_all_iff)
  show ?thesis
    using inv fresh lt cnt same
    by (auto simp: enroll_inv_def set_course_count_def list_all_iff course_active_snoc)
qed

lemma map_en_id_cancel [simp]:
  "map (en_id \<circ> (\<lambda>x. if en_id x = k then x\<lparr>en_status := Canceled\<rparr> else x)) es = map en_id es"
  by (induction es) auto

lemma active_rows_SomeD:
  "single_data (active_rows uid cid es) = Some e \<Longrightarrow> e \<in> set es \<and> en_course_id e = cid \<and> en_user_id e = uid \<and> en_status e \<noteq> Canceled"
proof -
  assume "single_data (active_rows uid cid es) = Some e"
  then have "e \<in> set (active_rows uid cid es)" by (simp add: single_data_Some_iff)
  then show ?thesis by (simp add: active_rows_def user_course_rows_def)
qed

lemma enroll_inv_cancel:
  assumes inv: "enroll_inv db" and e: "single_data (active_rows uid cid (enrollments db)) = Some e"
  defines "db1 \<equiv> db\<lparr>enrollments := map (\<lambda>x. if en_id x = en_id e then x\<lparr>en_status := Canceled\<rparr> else x) (enrollments db)\<rparr>"
  shows "enroll_inv (case course_row db1 cid of
                       Some c \<Rightarrow> if 0 < c_current_students c then set_course_count cid (c_current_students c - 1) db1 else db1
                     | None \<Rightarrow> db1)"
proof -
  from e have ein: "e \<in> set (enrollments db)" "en_course_id e = cid" "en_status e \<noteq> Canceled"
    by (auto dest: active_rows_SomeD)
  have len: "int (length (course_active k (enrollments db1))) =
               int (length (course_active k (enrollments db))) - (if k = cid then 1 else 0)" for k
  proof -
    have "length (course_active k (enrollments db1)) + (if en_course_id e = k then 1 else 0) =
            length (course_active k (enrollments db))"
      using length_course_active_cancel [of "enrollments db" e k] inv ein by (simp add: db1_def enroll_inv_def)
    then show ?thesis using ein by (cases "k = cid") auto
  qed
  have cr: "course_row db1 cid = course_row db cid" by (simp add: db1_def course_row_def)
  show ?thesis
  proof (cases "course_row db cid")
    case None
    then have "c_id c0 \<noteq> cid" if "c0 \<in> set (courses db)" for c0
      using course_row_None inv that by (auto simp: enroll_inv_def)
    then show ?thesis
      using None inv len cr by (auto simp: enroll_inv_def db1_def list_all_iff)
  next
    case (Some c)
    from Some have cin: "c \<in> set (courses db)" "c_id c = cid" by (auto dest: course_row_SomeD)
    have same: "c0 = c" if "c0 \<in> set (courses db)" "c_id c0 = cid" for c0
      using course_row_unique [of db c0] inv that Some by (simp add: enroll_inv_def)
    have pos: "0 < c_current_students c"
      using inv cin len [of cid] by (auto simp: enroll_inv_def list_all_iff)
    show ?thesis
      using Some cr pos inv len same by (auto simp: enroll_inv_def db1_def set_course_count_def list_all_iff)
  qed
qed

lemma cancel_enrollment_cases:
  "cancel_enrollment (Some uid) cid (\<lambda>_. False) db = (r, db') \<Longrightarrow>
   db' = db \<or> (\<exists>e. single_data (active_rows uid cid (enrollments db)) = Some e \<and>
     (let db1 = db\<lparr>enrollments := map (\<lambda>x. if en_id x = en_id e then x\<lparr>en_status := Canceled\<rparr> else x) (enrollments db)\<rparr>
      in db' = (case course_row db1 cid of
                  Some c \<Rightarrow> if 0 < c_current_students c then set_course_count cid (c_current_students c - 1) db1 else db1
                | None \<Rightarrow> db1)))"
  by (auto simp: cancel_enrollment_def Let_def split: option.splits)

lemma enroll_inv_step: "enroll_step db db' \<Longrightarrow> enroll_inv db \<Longrightarrow> enroll_inv db'"
proof (induction rule: enroll_step.induct)
  case (enroll uid cid nid db r db')
  then show ?case using enroll_course_cases [OF enroll(1)] enroll_inv_enroll by blast
next
  case (cancel uid cid db r db')
  then show ?case using cancel_enrollment_cases [OF cancel(1)] enroll_inv_cancel by (auto simp: Let_def)
qed

subsection \<open>Properties\<close>

text \<open>C27: Run one request at a time and without store faults, \<open>enrollCourse\<close> and
  \<open>cancelEnrollment\<close> keep every course's \<open>current_students\<close> equal to its number of
  non-canceled enrolments and within \<open>max_students\<close>: the invariant holds in every store
  reachable from one where it holds.\<close>

theorem enroll_inv_reachable: "enroll_step\<^sup>*\<^sup>* db0 db \<Longrightarrow> enroll_inv db0 \<Longrightarrow> enroll_inv db"
  by (induction rule: rtranclp_induct) (auto intro: enroll_inv_step)

theorem enroll_inv_reachable_witness:
  "enroll_step\<^sup>*\<^sup>* ex_en_db (snd (enroll_course (Some ''u'') ''c1'' ''n1'' (\<lambda>_. False) ex_en_db)) \<and>
   enroll_inv (snd (enroll_course (Some ''u'') ''c1'' ''n1'' (\<lambda>_. False) ex_en_db))"
proof -
  have s: "enroll_step ex_en_db (snd (enroll_course (Some ''u'') ''c1'' ''n1'' (\<lambda>_. False) ex_en_db))"
    by (rule enroll_step.enroll [where r = "fst (enroll_course (Some ''u'') ''c1'' ''n1'' (\<lambda>_. False) ex_en_db)"])
       (simp_all add: ex_en_db_def empty_db_def)
  have i: "enroll_inv ex_en_db" by (simp add: enroll_inv_def ex_en_db_def empty_db_def ex_course_def course_active_def)
  have r: "enroll_step\<^sup>*\<^sup>* ex_en_db (snd (enroll_course (Some ''u'') ''c1'' ''n1'' (\<lambda>_. False) ex_en_db))"
    using s by (rule r_into_rtranclp)
  show ?thesis using enroll_inv_reachable [OF r i] r by blast
qed

lemma single_data_long: "2 \<le> length xs \<Longrightarrow> single_data xs = None"
  by (cases xs rule: remdups_adj.cases) (auto simp: single_data_def)

lemma enroll_check_InrD:
  "enroll_check uid cid qf db = Inr c \<Longrightarrow>
   course_row db cid = Some c \<and> \<not> qf EReadCourse \<and> c_status c = Recruiting \<and> c_current_students c < c_max_students c"
  by (auto simp: enroll_check_def Let_def not_le split: if_splits option.splits)

lemma enroll_check_bypass:
  "2 \<le> length (user_course_rows uid cid (enrollments db)) \<Longrightarrow>
   enroll_check uid cid (\<lambda>_. False) db =
     (case course_row db cid of None \<Rightarrow> Inl CourseNotFound
      | Some c \<Rightarrow> if c_status c \<noteq> Recruiting then Inl NotRecruiting
                  else if c_max_students c \<le> c_current_students c then Inl CourseFull else Inr c)"
  by (simp add: enroll_check_def single_data_long)

lemma ex_trace_db_eq:
  "ex_trace_db = empty_db\<lparr>courses := [(ex_course ''c1'' 4)\<lparr>c_max_students := 2, c_current_students := 1\<rparr>],
     enrollments := [\<lparr>en_id = ''n1'', en_user_id = ''u'', en_course_id = ''c1'', en_status = Canceled\<rparr>,
                     \<lparr>en_id = ''n2'', en_user_id = ''u'', en_course_id = ''c1'', en_status = Applied\<rparr>]\<rparr>"
  by (simp add: ex_trace_db_def ex_en_db_def empty_db_def ex_course_def enroll_course_def enroll_check_def
      enroll_commit_def cancel_enrollment_def course_row_def set_course_count_def active_rows_def
      user_course_rows_def single_data_def)

text \<open>C28: The duplicate check of \<open>enrollCourse\<close> reads the user's rows for the course with
  \<open>.maybeSingle()\<close>, canceled ones included. Once the user has two rows (enrol, cancel,
  enrol), the read yields \<open>null\<close>, the check passes and a further enrolment succeeds,
  although the user already holds an active one.\<close>

theorem enroll_guard_bypassed:
  assumes "2 \<le> length (user_course_rows uid cid (enrollments db))" "course_row db cid = Some c"
    "c_status c = Recruiting" "c_current_students c < c_max_students c"
  shows "fst (enroll_course (Some uid) cid nid (\<lambda>_. False) db) = Enrolled"
  using assms by (simp add: enroll_course_def enroll_check_bypass enroll_commit_def Let_def)

theorem enroll_guard_bypassed_witness:
  "2 \<le> length (user_course_rows ''u'' ''c1'' (enrollments ex_trace_db)) \<and>
   course_row ex_trace_db ''c1'' = Some ((ex_course ''c1'' 4)\<lparr>c_max_students := 2, c_current_students := 1\<rparr>) \<and>
   fst (enroll_course (Some ''u'') ''c1'' ''n3'' (\<lambda>_. False) ex_trace_db) = Enrolled"
proof -
  have a: "2 \<le> length (user_course_rows ''u'' ''c1'' (enrollments ex_trace_db))"
    by (simp add: ex_trace_db_eq user_course_rows_def)
  have b: "course_row ex_trace_db ''c1'' = Some ((ex_course ''c1'' 4)\<lparr>c_max_students := 2, c_current_students := 1\<rparr>)"
    by (simp add: ex_trace_db_eq course_row_def single_data_def ex_course_def)
  show ?thesis using a b enroll_guard_bypassed [OF a b] by (simp add: ex_course_def)
qed

text \<open>A user with two active enrolments in a course cannot cancel (the
  \<open>.maybeSingle()\<close> of \<open>cancelEnrollment\<close> finds no single row: the action reports
  that no enrolment exists and writes nothing), and the course page shows the user as
  not enrolled and offers the enrol button again.\<close>

theorem double_enrollment_stuck:
  assumes "2 \<le> length (active_rows uid cid (enrollments db))"
  shows "cancel_enrollment (Some uid) cid qf db = (EnrollError EnrollmentNotFound, db) \<and>
    course_page (Some uid) cid p db =
      (case course_row db cid of None \<Rightarrow> CourseMissing
       | Some c \<Rightarrow> CoursePage \<lparr>cv_course = c, cv_free = (c_price c = 0), cv_enrolled = False,
                                cv_button = enroll_button (c_status c) False p\<rparr>)"
  using assms by (simp add: cancel_enrollment_def course_page_def single_data_long split: option.splits)

theorem double_enrollment_stuck_witness:
  "2 \<le> length (active_rows ''u'' ''c1'' (enrollments (snd (enroll_course (Some ''u'') ''c1'' ''n3'' (\<lambda>_. False) ex_trace_db)))) \<and>
   fst (cancel_enrollment (Some ''u'') ''c1'' (\<lambda>_. False) (snd (enroll_course (Some ''u'') ''c1'' ''n3'' (\<lambda>_. False) ex_trace_db)))
     = EnrollError EnrollmentNotFound"
proof -
  have a: "2 \<le> length (active_rows ''u'' ''c1'' (enrollments (snd (enroll_course (Some ''u'') ''c1'' ''n3'' (\<lambda>_. False) ex_trace_db))))"
    by (simp add: ex_trace_db_eq ex_course_def enroll_course_def enroll_check_def enroll_commit_def course_row_def
        set_course_count_def active_rows_def user_course_rows_def single_data_def)
  show ?thesis using a double_enrollment_stuck [OF a, of "\<lambda>_. False" False] by simp
qed

lemma enrollments_set_course_count [simp]:
  "enrollments (set_course_count cid n db) = enrollments db" "enrollments (db\<lparr>enrollments := es\<rparr>) = es"
  by (simp_all add: set_course_count_def)

lemma course_row_enrollments [simp]: "course_row (db\<lparr>enrollments := es\<rparr>) cid = course_row db cid"
  by (simp add: course_row_def)

lemma enroll_inv_course_count:
  "enroll_inv db \<Longrightarrow> course_row db cid = Some c \<Longrightarrow> c_current_students c = int (length (course_active cid (enrollments db)))"
  using course_row_SomeD [of db cid c] by (auto simp: enroll_inv_def list_all_iff)

text \<open>C29: Two \<open>enrollCourse\<close> requests for the same course that both read the course
  before either writes both insert an enrolment but both write \<open>current_students + 1\<close>
  from the value they read: one increment is lost, the count no longer matches the
  enrolments, and on the last seat the course ends with more enrolments than seats.\<close>

theorem concurrent_enroll_lost_count:
  fixes n1 n2 :: uuid
  assumes inv: "enroll_inv db" and c1: "enroll_check u1 cid (\<lambda>_. False) db = Inr c1"
    and c2: "enroll_check u2 cid (\<lambda>_. False) db = Inr c2"
  defines "db2 \<equiv> snd (enroll_commit u2 cid n2 c2 (\<lambda>_. False) (snd (enroll_commit u1 cid n1 c1 (\<lambda>_. False) db)))"
  shows "course_row db2 cid = Some (c1\<lparr>c_current_students := c_current_students c1 + 1\<rparr>) \<and>
    int (length (course_active cid (enrollments db2))) = c_current_students c1 + 2 \<and> \<not> enroll_inv db2"
proof -
  have r1: "course_row db cid = Some c1" and r2: "course_row db cid = Some c2"
    using enroll_check_InrD [OF c1] enroll_check_InrD [OF c2] by simp_all
  then have eq: "c2 = c1" by simp
  have cnt: "c_current_students c1 = int (length (course_active cid (enrollments db)))"
    using enroll_inv_course_count [OF inv r1] .
  have row: "course_row db2 cid = Some (c1\<lparr>c_current_students := c_current_students c1 + 1\<rparr>)"
    using r1 eq by (simp add: db2_def enroll_commit_def course_row_set_course_count Let_def)
  have act: "int (length (course_active cid (enrollments db2))) = c_current_students c1 + 2"
    using cnt by (simp add: db2_def enroll_commit_def Let_def course_active_def)
  have "\<not> enroll_inv db2"
  proof
    assume "enroll_inv db2"
    from enroll_inv_course_count [OF this row] act show False by simp
  qed
  then show ?thesis using row act by simp
qed

lemmas enroll_eval = ex_course_def empty_db_def enroll_check_def course_row_def user_course_rows_def
  active_rows_def single_data_def enroll_inv_def course_active_def

theorem concurrent_enroll_lost_count_witness:
  "enroll_inv ex_last_seat_db \<and>
   enroll_check ''u1'' ''c1'' (\<lambda>_. False) ex_last_seat_db = Inr ((ex_course ''c1'' 4)\<lparr>c_max_students := 2, c_current_students := 1\<rparr>) \<and>
   enroll_check ''u2'' ''c1'' (\<lambda>_. False) ex_last_seat_db = Inr ((ex_course ''c1'' 4)\<lparr>c_max_students := 2, c_current_students := 1\<rparr>) \<and>
   length (course_active ''c1'' (enrollments (snd (enroll_commit ''u2'' ''c1'' ''n2'' ((ex_course ''c1'' 4)\<lparr>c_max_students := 2, c_current_students := 1\<rparr>) (\<lambda>_. False)
      (snd (enroll_commit ''u1'' ''c1'' ''n1'' ((ex_course ''c1'' 4)\<lparr>c_max_students := 2, c_current_students := 1\<rparr>) (\<lambda>_. False) ex_last_seat_db)))))) = 3"
proof -
  have i: "enroll_inv ex_last_seat_db" by (simp add: ex_last_seat_db_def enroll_eval)
  have a: "enroll_check ''u1'' ''c1'' (\<lambda>_. False) ex_last_seat_db = Inr ((ex_course ''c1'' 4)\<lparr>c_max_students := 2, c_current_students := 1\<rparr>)"
    by (simp add: ex_last_seat_db_def enroll_eval)
  have b: "enroll_check ''u2'' ''c1'' (\<lambda>_. False) ex_last_seat_db = Inr ((ex_course ''c1'' 4)\<lparr>c_max_students := 2, c_current_students := 1\<rparr>)"
    by (simp add: ex_last_seat_db_def enroll_eval)
  show ?thesis using i a b concurrent_enroll_lost_count [OF i a b, of "''n2''" "''n1''"] by (simp add: ex_course_def)
qed

text \<open>C30: When the insert succeeds and the count update fails, \<open>enrollCourse\<close> reports
  \<open>CountUpdateFailed\<close> but the enrolment stays: the user is enrolled, the course count is
  unchanged and is now one less than the enrolments.\<close>

theorem count_failure_leaves_enrolled:
  assumes inv: "enroll_inv db" and chk: "enroll_check uid cid qf db = Inr c"
    and "\<not> qf EInsert" "qf EUpdateCount"
  shows "fst (enroll_course (Some uid) cid nid qf db) = EnrollError CountUpdateFailed \<and>
    course_row (snd (enroll_course (Some uid) cid nid qf db)) cid = Some c \<and>
    int (length (course_active cid (enrollments (snd (enroll_course (Some uid) cid nid qf db))))) = c_current_students c + 1"
proof -
  have r: "course_row db cid = Some c" using enroll_check_InrD [OF chk] by simp
  have "c_current_students c = int (length (course_active cid (enrollments db)))"
    using enroll_inv_course_count [OF inv r] .
  then show ?thesis
    using assms r by (simp add: enroll_course_def enroll_commit_def Let_def course_active_def)
qed

theorem count_failure_leaves_enrolled_witness:
  "enroll_inv ex_en_db \<and>
   enroll_check ''u'' ''c1'' (\<lambda>q. q = EUpdateCount) ex_en_db = Inr ((ex_course ''c1'' 4)\<lparr>c_max_students := 2\<rparr>) \<and>
   fst (enroll_course (Some ''u'') ''c1'' ''n1'' (\<lambda>q. q = EUpdateCount) ex_en_db) = EnrollError CountUpdateFailed \<and>
   length (course_active ''c1'' (enrollments (snd (enroll_course (Some ''u'') ''c1'' ''n1'' (\<lambda>q. q = EUpdateCount) ex_en_db)))) = 1"
proof -
  have i: "enroll_inv ex_en_db" by (simp add: ex_en_db_def enroll_eval)
  have a: "enroll_check ''u'' ''c1'' (\<lambda>q. q = EUpdateCount) ex_en_db = Inr ((ex_course ''c1'' 4)\<lparr>c_max_students := 2\<rparr>)"
    by (simp add: ex_en_db_def enroll_eval)
  show ?thesis using i a count_failure_leaves_enrolled [OF i a, of "''n1''"] by (simp add: ex_course_def)
qed

end
