(* ===== verification/Reactions.thy ===== *)
theory Reactions
  imports Resolver
begin

text \<open>
  Likes and bookmarks of contents. The server actions \<open>toggleLike\<close> and \<open>toggleBookmark\<close>
  (\<open>src/app/actions/contents.ts\<close>); the client buttons \<open>LikeButton\<close> and \<open>BookmarkButton\<close>
  (\<open>src/components/features\<close>), which write to the store directly with optimistic
  state; and the content page (\<open>src/app/(main)/contents/[id]/page.tsx\<close>) that counts a view
  and seeds the buttons. A store call that may fail has a fault flag; the code awaits its
  writes without reading the error, so a failed write leaves the store unchanged and the
  code goes on. \<open>.single()\<close> gives the row when exactly one matches and \<open>null\<close> otherwise.
\<close>

subsection \<open>Store reads and writes\<close>

definition like_rows :: "uuid \<Rightarrow> uuid \<Rightarrow> like list \<Rightarrow> like list" where
  "like_rows uid cid ls = filter (\<lambda>l. lk_user_id l = uid \<and> lk_content_id l = cid) ls"

definition content_row :: "db \<Rightarrow> uuid \<Rightarrow> content option" where
  "content_row db cid = single_data (filter (\<lambda>c. ct_id c = cid) (contents db))"

definition set_like_count :: "uuid \<Rightarrow> int \<Rightarrow> db \<Rightarrow> db" where
  "set_like_count cid n db =
     db\<lparr>contents := map (\<lambda>c. if ct_id c = cid then c\<lparr>ct_like_count := n\<rparr> else c) (contents db)\<rparr>"

definition delete_likes :: "uuid \<Rightarrow> uuid \<Rightarrow> db \<Rightarrow> db" where
  "delete_likes uid cid db = db\<lparr>likes := filter (\<lambda>l. \<not> (lk_user_id l = uid \<and> lk_content_id l = cid)) (likes db)\<rparr>"

definition insert_like :: "uuid \<Rightarrow> uuid \<Rightarrow> uuid \<Rightarrow> db \<Rightarrow> db" where
  "insert_like lid uid cid db = db\<lparr>likes := likes db @ [\<lparr>lk_id = lid, lk_user_id = uid, lk_content_id = cid\<rparr>]\<rparr>"

text \<open>A target of a bookmark: a content or a course, as \<open>content_type\<close> with the id in
  \<open>content_id\<close> or \<open>course_id\<close>.\<close>

definition bookmark_target :: "bookmark_type \<Rightarrow> uuid \<Rightarrow> bookmark \<Rightarrow> bool" where
  "bookmark_target k tid b \<longleftrightarrow>
     bm_content_type b = k \<and> (case k of BmContent \<Rightarrow> bm_content_id b = Some tid | BmCourse \<Rightarrow> bm_course_id b = Some tid)"

definition bookmark_rows :: "uuid \<Rightarrow> bookmark_type \<Rightarrow> uuid \<Rightarrow> bookmark list \<Rightarrow> bookmark list" where
  "bookmark_rows uid k tid bs = filter (\<lambda>b. bm_user_id b = uid \<and> bookmark_target k tid b) bs"

definition new_bookmark :: "uuid \<Rightarrow> uuid \<Rightarrow> bookmark_type \<Rightarrow> uuid \<Rightarrow> bookmark" where
  "new_bookmark bid uid k tid =
     \<lparr>bm_id = bid, bm_user_id = uid,
      bm_content_id = (if k = BmContent then Some tid else None),
      bm_course_id = (if k = BmContent then None else Some tid), bm_content_type = k\<rparr>"

subsection \<open>The server actions\<close>

datatype reaction_error = ReactNeedLogin

datatype like_q = LRead | LDelete | LReadContent | LUpdate | LInsert

text \<open>\<open>toggleLike\<close>, lines 7--70: with a single like of the user, delete the user's likes of
  the content and write \<open>max 0 (like_count - 1)\<close>; otherwise insert a like and write
  \<open>like_count + 1\<close>; the count is read again after the first write.\<close>

definition toggle_like ::
  "uuid option \<Rightarrow> uuid \<Rightarrow> uuid \<Rightarrow> (like_q \<Rightarrow> bool) \<Rightarrow> db \<Rightarrow> (reaction_error + bool) \<times> db" where
  "toggle_like user cid lid qf db =
     (case user of
        None \<Rightarrow> (Inl ReactNeedLogin, db)
      | Some uid \<Rightarrow>
          (let existing = (if qf LRead then None else single_data (like_rows uid cid (likes db)))
           in case existing of
                Some _ \<Rightarrow>
                  (let db1 = (if qf LDelete then db else delete_likes uid cid db)
                   in (Inr False,
                       case (if qf LReadContent then None else content_row db1 cid) of
                         Some c \<Rightarrow> if qf LUpdate then db1 else set_like_count cid (max 0 (ct_like_count c - 1)) db1
                       | None \<Rightarrow> db1))
              | None \<Rightarrow>
                  (let db1 = (if qf LInsert then db else insert_like lid uid cid db)
                   in (Inr True,
                       case (if qf LReadContent then None else content_row db1 cid) of
                         Some c \<Rightarrow> if qf LUpdate then db1 else set_like_count cid (ct_like_count c + 1) db1
                       | None \<Rightarrow> db1))))"

datatype bookmark_q = BRead | BDelete | BInsert

text \<open>\<open>toggleBookmark\<close>, lines 72--122.\<close>

definition toggle_bookmark ::
  "uuid option \<Rightarrow> uuid \<Rightarrow> bookmark_type \<Rightarrow> uuid \<Rightarrow> (bookmark_q \<Rightarrow> bool) \<Rightarrow> db \<Rightarrow> (reaction_error + bool) \<times> db" where
  "toggle_bookmark user tid k bid qf db =
     (case user of
        None \<Rightarrow> (Inl ReactNeedLogin, db)
      | Some uid \<Rightarrow>
          (case (if qf BRead then None else single_data (bookmark_rows uid k tid (bookmarks db))) of
             Some b \<Rightarrow> (Inr False, if qf BDelete then db else db\<lparr>bookmarks := filter (\<lambda>x. bm_id x \<noteq> bm_id b) (bookmarks db)\<rparr>)
           | None \<Rightarrow> (Inr True, if qf BInsert then db else db\<lparr>bookmarks := bookmarks db @ [new_bookmark bid uid k tid]\<rparr>)))"

subsection \<open>The client buttons\<close>

text \<open>\<open>LikeButton\<close>'s state (\<open>liked\<close>, \<open>count\<close>, \<open>loading\<close>) and \<open>handleToggleLike\<close>: the
  state is flipped before the writes, the writes go to the store directly with the count
  computed from the button's own \<open>count\<close>, and the state is rolled back only in the
  \<open>catch\<close> branch. The store client resolves a failed call with an error value and does
  not throw, so the \<open>catch\<close> branch is not reached; the two flags say which write fails.\<close>

record like_ui =
  lu_liked :: bool
  lu_count :: int
  lu_loading :: bool

definition handle_toggle_like ::
  "uuid option \<Rightarrow> uuid \<Rightarrow> uuid \<Rightarrow> bool \<times> bool \<Rightarrow> like_ui \<Rightarrow> db \<Rightarrow> like_ui \<times> db" where
  "handle_toggle_like user cid lid fl ui db =
     (if lu_loading ui then (ui, db)
      else case user of
        None \<Rightarrow> (ui, db)
      | Some uid \<Rightarrow>
          (let was = lu_liked ui; prev = lu_count ui;
               db1 = (if fst fl then db else if was then delete_likes uid cid db else insert_like lid uid cid db);
               db2 = (if snd fl then db1 else set_like_count cid (if was then prev - 1 else prev + 1) db1)
           in (\<lparr>lu_liked = \<not> was, lu_count = (if was then prev - 1 else prev + 1), lu_loading = False\<rparr>, db2)))"

record bookmark_ui =
  bu_bookmarked :: bool
  bu_loading :: bool

text \<open>\<open>handleToggleBookmark\<close>: the delete removes every bookmark of the user on the target
  (the filters are added to the same builder), the insert adds one.\<close>

definition handle_toggle_bookmark ::
  "uuid option \<Rightarrow> uuid \<Rightarrow> bookmark_type \<Rightarrow> uuid \<Rightarrow> bool \<Rightarrow> bookmark_ui \<Rightarrow> db \<Rightarrow> bookmark_ui \<times> db" where
  "handle_toggle_bookmark user tid k bid fails ui db =
     (if bu_loading ui then (ui, db)
      else case user of
        None \<Rightarrow> (ui, db)
      | Some uid \<Rightarrow>
          (let was = bu_bookmarked ui;
               db1 = (if fails then db
                      else if was then db\<lparr>bookmarks := filter (\<lambda>b. \<not> (bm_user_id b = uid \<and> bookmark_target k tid b)) (bookmarks db)\<rparr>
                      else db\<lparr>bookmarks := bookmarks db @ [new_bookmark bid uid k tid]\<rparr>)
           in (\<lparr>bu_bookmarked = \<not> was, bu_loading = False\<rparr>, db1)))"

subsection \<open>The content page\<close>

text \<open>\<open>ContentDetailPage\<close>, lines 62--107: the content (or \<open>notFound()\<close>), the view count
  written as the value read plus one (\<open>vfail\<close>: the write fails, unnoticed), and the
  buttons' initial state.\<close>

record content_view =
  cpv_content :: content
  cpv_like :: like_ui
  cpv_bookmark :: bookmark_ui

datatype content_page = ContentNotFound | ContentPage content_view

definition content_page :: "uuid option \<Rightarrow> uuid \<Rightarrow> bool \<Rightarrow> db \<Rightarrow> content_page \<times> db" where
  "content_page user cid vfail db =
     (case content_row db cid of
        None \<Rightarrow> (ContentNotFound, db)
      | Some c \<Rightarrow>
          (let db1 = if vfail then db else db\<lparr>contents := map (\<lambda>x. if ct_id x = cid then x\<lparr>ct_view_count := ct_view_count c + 1\<rparr> else x) (contents db)\<rparr>;
               liked = (case user of None \<Rightarrow> False | Some uid \<Rightarrow> single_data (like_rows uid cid (likes db1)) \<noteq> None);
               marked = (case user of None \<Rightarrow> False
                         | Some uid \<Rightarrow> single_data (bookmark_rows uid BmContent cid (bookmarks db1)) \<noteq> None)
           in (ContentPage \<lparr>cpv_content = c, cpv_like = \<lparr>lu_liked = liked, lu_count = ct_like_count c, lu_loading = False\<rparr>,
                            cpv_bookmark = \<lparr>bu_bookmarked = marked, bu_loading = False\<rparr>\<rparr>, db1)))"

subsection \<open>The like invariant and the step relation\<close>

text \<open>\<open>like_inv\<close>: every content's stored like count is its number of likes, content ids
  are unique, and a user likes a content at most once. \<open>like_step\<close>: a fault-free
  \<open>toggleLike\<close>, a view of a content page, or a \<open>toggleBookmark\<close> (any faults).\<close>

definition like_inv :: "db \<Rightarrow> bool" where
  "like_inv db \<longleftrightarrow>
     list_all (\<lambda>c. ct_like_count c = int (length (filter (\<lambda>l. lk_content_id l = ct_id c) (likes db)))) (contents db) \<and>
     distinct (map ct_id (contents db)) \<and> distinct (map (\<lambda>l. (lk_user_id l, lk_content_id l)) (likes db))"

inductive like_step :: "db \<Rightarrow> db \<Rightarrow> bool" where
  toggle: "like_step db (snd (toggle_like (Some uid) cid lid (\<lambda>_. False) db))"
| view: "like_step db (snd (content_page user cid vfail db))"
| bookmark: "like_step db (snd (toggle_bookmark user tid k bid qf db))"

text \<open>An example store: one content liked once.\<close>

definition ex_content :: "uuid \<Rightarrow> int \<Rightarrow> content" where
  "ex_content i n = \<lparr>ct_id = i, ct_title = i, ct_summary = [], ct_body = [], ct_author_name = ''lee'',
     ct_author_title = None, ct_thumbnail_url = None, ct_category = ''career'', ct_tags = [],
     ct_view_count = 0, ct_like_count = n, ct_is_featured = False\<rparr>"

definition ex_like_db :: db where
  "ex_like_db = empty_db\<lparr>contents := [ex_content ''t1'' 1],
     likes := [\<lparr>lk_id = ''l0'', lk_user_id = ''u0'', lk_content_id = ''t1''\<rparr>]\<rparr>"

subsection \<open>Lemmas\<close>

lemma map_ct_id_set_like_count [simp]:
  "map (ct_id \<circ> (\<lambda>c. if ct_id c = cid then c\<lparr>ct_like_count := n\<rparr> else c)) cs = map ct_id cs"
  by (induction cs) auto

lemma like_rows_distinct:
  "distinct (map (\<lambda>l. (lk_user_id l, lk_content_id l)) ls) \<Longrightarrow> length (like_rows uid cid ls) \<le> 1"
proof (induction ls)
  case (Cons l ls)
  then show ?case by (auto simp: like_rows_def filter_empty_conv image_iff)
qed (simp add: like_rows_def)

lemma content_row_likes [simp]:
  "content_row (delete_likes uid cid db) k = content_row db k"
  "content_row (insert_like lid uid cid db) k = content_row db k"
  by (simp_all add: content_row_def delete_likes_def insert_like_def)

lemma content_row_likes_upd [simp]: "content_row (db\<lparr>likes := ls\<rparr>) k = content_row db k"
  by (simp add: content_row_def)

lemma likes_set_like_count [simp]: "likes (set_like_count cid n db) = likes db"
  by (simp add: set_like_count_def)

lemma length_filter_remove_single:
  assumes "filter P xs = [y]"
  shows "length (filter Q (filter (\<lambda>x. \<not> P x) xs)) = length (filter Q xs) - (if Q y then 1 else 0)"
proof -
  have "length (filter P (filter Q xs)) + length (filter (\<lambda>x. \<not> P x) (filter Q xs)) = length (filter Q xs)"
    by (rule sum_length_filter_compl)
  moreover have "filter P (filter Q xs) = filter Q (filter P xs)"
    by (simp add: conj_commute)
  moreover have "filter (\<lambda>x. \<not> P x) (filter Q xs) = filter Q (filter (\<lambda>x. \<not> P x) xs)"
    by (simp add: conj_commute)
  ultimately show ?thesis using assms by auto
qed

lemma like_inv_after:
  assumes inv: "like_inv db" and cs: "contents db' = contents db"
    and cnt: "\<And>k. k \<noteq> cid \<Longrightarrow> length (filter (\<lambda>l. lk_content_id l = k) (likes db')) = length (filter (\<lambda>l. lk_content_id l = k) (likes db))"
    and cnt_cid: "int (length (filter (\<lambda>l. lk_content_id l = cid) (likes db'))) = int (length (filter (\<lambda>l. lk_content_id l = cid) (likes db))) + d"
    and dist: "distinct (map (\<lambda>l. (lk_user_id l, lk_content_id l)) (likes db'))"
  shows "like_inv (case content_row db' cid of Some c \<Rightarrow> set_like_count cid (ct_like_count c + d) db' | None \<Rightarrow> db')"
proof (cases "content_row db' cid")
  case None
  have "ct_id c0 \<noteq> cid" if "c0 \<in> set (contents db)" for c0
    using single_data_filter_absent [of ct_id "contents db" cid c0] None inv cs that
    by (simp add: content_row_def like_inv_def)
  then show ?thesis using None inv cs cnt dist by (auto simp: like_inv_def list_all_iff)
next
  case (Some c)
  then have cin: "c \<in> set (contents db)" "ct_id c = cid"
    using single_data_filter_SomeD [of ct_id cid "contents db'" c] cs by (simp_all add: content_row_def)
  have same: "c0 = c" if "c0 \<in> set (contents db)" "ct_id c0 = cid" for c0
    using single_data_filter_key [of ct_id "contents db" c0] Some cs inv that by (simp add: content_row_def like_inv_def)
  have cnt_c: "ct_like_count c + d = int (length (filter (\<lambda>l. lk_content_id l = cid) (likes db')))"
    using inv cin cnt_cid by (auto simp: like_inv_def list_all_iff)
  have each: "ct_like_count c1 = int (length (filter (\<lambda>l. lk_content_id l = ct_id c1) (likes db')))"
    if mem: "c1 \<in> set (contents (set_like_count cid (ct_like_count c + d) db'))" for c1
  proof -
    obtain c0 where c0: "c0 \<in> set (contents db)"
      and c1: "c1 = (if ct_id c0 = cid then c0\<lparr>ct_like_count := ct_like_count c + d\<rparr> else c0)"
      using mem cs by (auto simp: set_like_count_def)
    show ?thesis
    proof (cases "ct_id c0 = cid")
      case True
      then show ?thesis using c1 cnt_c by simp
    next
      case False
      then show ?thesis using c1 c0 inv cnt [of "ct_id c0"] by (simp add: like_inv_def list_all_iff)
    qed
  qed
  have "distinct (map ct_id (contents (set_like_count cid (ct_like_count c + d) db')))"
    using inv cs by (simp add: like_inv_def set_like_count_def)
  then show ?thesis
    using Some each dist by (simp add: like_inv_def list_all_iff)
qed

lemma single_data_short_None: "length xs \<le> 1 \<Longrightarrow> single_data xs = None \<Longrightarrow> xs = []"
  by (cases xs) (auto simp: single_data_def)

lemma like_inv_toggle_like:
  assumes inv: "like_inv db"
  shows "like_inv (snd (toggle_like (Some uid) cid lid (\<lambda>_. False) db))"
proof (cases "single_data (like_rows uid cid (likes db))")
  case None
  then have nil: "like_rows uid cid (likes db) = []"
    using single_data_short_None like_rows_distinct inv by (auto simp: like_inv_def)
  then have "(uid, cid) \<notin> (\<lambda>l. (lk_user_id l, lk_content_id l)) ` set (likes db)"
    by (auto simp: like_rows_def filter_empty_conv)
  then have "distinct (map (\<lambda>l. (lk_user_id l, lk_content_id l)) (likes (insert_like lid uid cid db)))"
    using inv by (simp add: like_inv_def insert_like_def)
  from like_inv_after [OF inv _ _ _ this, of cid 1]
  have "like_inv (case content_row (insert_like lid uid cid db) cid of
            Some c \<Rightarrow> set_like_count cid (ct_like_count c + 1) (insert_like lid uid cid db)
          | None \<Rightarrow> insert_like lid uid cid db)"
    by (simp add: insert_like_def)
  then show ?thesis using None by (simp add: toggle_like_def Let_def split: option.splits)
next
  case (Some l)
  then have one: "like_rows uid cid (likes db) = [l]" by (simp add: single_data_Some_iff)
  then have l: "l \<in> set (likes db)" "lk_content_id l = cid"
    using filter_eq_singleD [OF one [unfolded like_rows_def]] by simp_all
  have cnt: "length (filter (\<lambda>x. lk_content_id x = k) (likes (delete_likes uid cid db))) =
             length (filter (\<lambda>x. lk_content_id x = k) (likes db)) - (if k = cid then 1 else 0)" for k
    using length_filter_remove_single [OF one [unfolded like_rows_def], of "\<lambda>x. lk_content_id x = k"] l
    by (simp add: delete_likes_def)
  have pos: "0 < length (filter (\<lambda>x. lk_content_id x = cid) (likes db))"
    using l by (auto simp: filter_empty_conv)
  have eq: "(case content_row db cid of Some c \<Rightarrow> set_like_count cid (max 0 (ct_like_count c - 1)) (delete_likes uid cid db)
              | None \<Rightarrow> delete_likes uid cid db) =
            (case content_row db cid of Some c \<Rightarrow> set_like_count cid (ct_like_count c + - 1) (delete_likes uid cid db)
              | None \<Rightarrow> delete_likes uid cid db)"
  proof (cases "content_row db cid")
    case (Some c)
    then have "c \<in> set (contents db)" "ct_id c = cid"
      using single_data_filter_SomeD [of ct_id cid "contents db" c] by (simp_all add: content_row_def)
    then have "ct_like_count c = int (length (filter (\<lambda>x. lk_content_id x = cid) (likes db)))"
      using inv by (auto simp: like_inv_def list_all_iff)
    with Some pos show ?thesis by simp
  qed simp
  have "distinct (map (\<lambda>l. (lk_user_id l, lk_content_id l)) (likes (delete_likes uid cid db)))"
    using inv by (auto simp: like_inv_def delete_likes_def)
  moreover have "int (length (filter (\<lambda>x. lk_content_id x = cid) (likes db)) - 1) =
                   int (length (filter (\<lambda>x. lk_content_id x = cid) (likes db))) - 1"
    using pos by (metis Suc_leI One_nat_def of_nat_1 of_nat_diff)
  ultimately have "like_inv (case content_row (delete_likes uid cid db) cid of
            Some c \<Rightarrow> set_like_count cid (ct_like_count c + - 1) (delete_likes uid cid db)
          | None \<Rightarrow> delete_likes uid cid db)"
    using like_inv_after [OF inv, of "delete_likes uid cid db" cid "- 1"] cnt by (simp add: delete_likes_def)
  then show ?thesis using Some eq by (simp add: toggle_like_def Let_def split: option.splits)
qed

lemma content_row_set_like_count:
  "content_row (set_like_count cid n db) cid = map_option (\<lambda>c. c\<lparr>ct_like_count := n\<rparr>) (content_row db cid)"
  by (simp add: content_row_def set_like_count_def filter_map_update_key single_data_def split: list.splits)

lemma like_inv_count:
  "like_inv db \<Longrightarrow> content_row db cid = Some c \<Longrightarrow> ct_like_count c = int (length (filter (\<lambda>x. lk_content_id x = cid) (likes db)))"
  using single_data_filter_SomeD [of ct_id cid "contents db" c] by (auto simp: content_row_def like_inv_def list_all_iff)

lemma like_count_pos:
  assumes "like_inv db" "content_row db cid = Some c" "like_rows uid cid (likes db) = [l]"
  shows "0 < ct_like_count c"
proof -
  have "c \<in> set (contents db)" "ct_id c = cid"
    using single_data_filter_SomeD [of ct_id cid "contents db" c] assms(2) by (simp_all add: content_row_def)
  then have "ct_like_count c = int (length (filter (\<lambda>x. lk_content_id x = cid) (likes db)))"
    using assms(1) by (auto simp: like_inv_def list_all_iff)
  moreover have "l \<in> set (likes db)" "lk_content_id l = cid"
    using filter_eq_singleD [OF assms(3) [unfolded like_rows_def]] by simp_all
  ultimately show ?thesis by (auto simp: filter_empty_conv)
qed

lemma like_inv_content_page:
  assumes "like_inv db" shows "like_inv (snd (content_page user cid vfail db))"
proof -
  have m: "map (ct_id \<circ> (\<lambda>x. if ct_id x = cid then x\<lparr>ct_view_count := n\<rparr> else x)) cs = map ct_id cs" for n cs
    by (induction cs) auto
  have l: "list_all (\<lambda>c. ct_like_count c = int (length (filter (\<lambda>l. lk_content_id l = ct_id c) ls)))
            (map (\<lambda>x. if ct_id x = cid then x\<lparr>ct_view_count := n\<rparr> else x) cs) =
          list_all (\<lambda>c. ct_like_count c = int (length (filter (\<lambda>l. lk_content_id l = ct_id c) ls))) cs" for ls n cs
    by (induction cs) auto
  show ?thesis using assms
    by (auto simp: content_page_def Let_def like_inv_def m l split: option.splits)
qed

lemma like_inv_toggle_bookmark: "like_inv db \<Longrightarrow> like_inv (snd (toggle_bookmark user tid k bid qf db))"
  by (auto simp: toggle_bookmark_def like_inv_def split: option.splits)

subsection \<open>Properties\<close>

text \<open>C31: Run without store faults, \<open>toggleLike\<close> keeps every content's \<open>like_count\<close>
  equal to its number of likes and each user's like of a content unique; viewing a
  content page and toggling bookmarks do not disturb it: the invariant holds in every
  store reachable from one where it holds.\<close>

theorem like_inv_reachable: "like_step\<^sup>*\<^sup>* db0 db \<Longrightarrow> like_inv db0 \<Longrightarrow> like_inv db"
proof (induction rule: rtranclp_induct)
  case (step y z)
  then have "like_inv y" by blast
  with step(2) show ?case
    by (cases rule: like_step.cases) (auto intro: like_inv_toggle_like like_inv_content_page like_inv_toggle_bookmark)
qed

theorem like_inv_reachable_witness:
  "like_step\<^sup>*\<^sup>* ex_like_db (snd (toggle_like (Some ''u0'') ''t1'' ''l1'' (\<lambda>_. False) ex_like_db)) \<and>
   like_inv (snd (toggle_like (Some ''u0'') ''t1'' ''l1'' (\<lambda>_. False) ex_like_db))"
proof -
  have r: "like_step\<^sup>*\<^sup>* ex_like_db (snd (toggle_like (Some ''u0'') ''t1'' ''l1'' (\<lambda>_. False) ex_like_db))"
    by (rule r_into_rtranclp) (rule like_step.toggle)
  have i: "like_inv ex_like_db" by (simp add: like_inv_def ex_like_db_def empty_db_def ex_content_def)
  show ?thesis using r like_inv_reachable [OF r i] by simp
qed

text \<open>C32: From the state the content page seeds (liked as stored, the stored count), a
  fault-free click of \<open>LikeButton\<close> changes the store exactly as the server action
  \<open>toggleLike\<close> would, and shows the state \<open>toggleLike\<close> returns.\<close>

theorem like_button_refines_toggle_like:
  assumes inv: "like_inv db" and c: "content_row db cid = Some c"
  shows "snd (handle_toggle_like (Some uid) cid lid (False, False)
               \<lparr>lu_liked = (single_data (like_rows uid cid (likes db)) \<noteq> None), lu_count = ct_like_count c, lu_loading = False\<rparr> db) =
           snd (toggle_like (Some uid) cid lid (\<lambda>_. False) db) \<and>
         fst (toggle_like (Some uid) cid lid (\<lambda>_. False) db) =
           Inr (lu_liked (fst (handle_toggle_like (Some uid) cid lid (False, False)
               \<lparr>lu_liked = (single_data (like_rows uid cid (likes db)) \<noteq> None), lu_count = ct_like_count c, lu_loading = False\<rparr> db)))"
proof (cases "single_data (like_rows uid cid (likes db))")
  case None
  then show ?thesis using c by (simp add: handle_toggle_like_def toggle_like_def Let_def)
next
  case (Some l)
  then have "0 < ct_like_count c"
    using like_count_pos [OF inv c] by (simp add: single_data_Some_iff)
  then show ?thesis using Some c by (simp add: handle_toggle_like_def toggle_like_def Let_def)
qed

theorem like_button_refines_toggle_like_witness:
  "like_inv ex_like_db \<and> content_row ex_like_db ''t1'' = Some (ex_content ''t1'' 1) \<and>
   snd (handle_toggle_like (Some ''u0'') ''t1'' ''l1'' (False, False) \<lparr>lu_liked = True, lu_count = 1, lu_loading = False\<rparr> ex_like_db) =
   snd (toggle_like (Some ''u0'') ''t1'' ''l1'' (\<lambda>_. False) ex_like_db)"
proof -
  have i: "like_inv ex_like_db" by (simp add: like_inv_def ex_like_db_def empty_db_def ex_content_def)
  have c: "content_row ex_like_db ''t1'' = Some (ex_content ''t1'' 1)"
    by (simp add: content_row_def ex_like_db_def empty_db_def ex_content_def single_data_def)
  have l: "single_data (like_rows ''u0'' ''t1'' (likes ex_like_db)) \<noteq> None"
    by (simp add: like_rows_def ex_like_db_def single_data_def)
  show ?thesis using i c l like_button_refines_toggle_like [OF i c, of "''u0''" "''l1''"] by (simp add: ex_content_def)
qed

text \<open>C33: \<open>LikeButton\<close> writes the count as the page's count plus one. Two clicks from
  pages loaded with the same count (two users, or two tabs) add two likes but raise the
  count by one, so the count drifts from the likes.\<close>

theorem stale_like_count_lost:
  fixes la lb :: uuid
  assumes inv: "like_inv db" and c: "content_row db cid = Some c"
  shows "let ui = \<lparr>lu_liked = False, lu_count = ct_like_count c, lu_loading = False\<rparr>;
             db2 = snd (handle_toggle_like (Some ub) cid lb (False, False) ui
                     (snd (handle_toggle_like (Some ua) cid la (False, False) ui db)))
         in content_row db2 cid = Some (c\<lparr>ct_like_count := ct_like_count c + 1\<rparr>) \<and>
            length (filter (\<lambda>x. lk_content_id x = cid) (likes db2)) = length (filter (\<lambda>x. lk_content_id x = cid) (likes db)) + 2 \<and>
            \<not> like_inv db2"
proof -
  define db2 where "db2 = snd (handle_toggle_like (Some ub) cid lb (False, False) \<lparr>lu_liked = False, lu_count = ct_like_count c, lu_loading = False\<rparr>
                     (snd (handle_toggle_like (Some ua) cid la (False, False) \<lparr>lu_liked = False, lu_count = ct_like_count c, lu_loading = False\<rparr> db)))"
  have row: "content_row db2 cid = Some (c\<lparr>ct_like_count := ct_like_count c + 1\<rparr>)"
    using c by (simp add: db2_def handle_toggle_like_def Let_def content_row_set_like_count)
  have len: "length (filter (\<lambda>x. lk_content_id x = cid) (likes db2)) = length (filter (\<lambda>x. lk_content_id x = cid) (likes db)) + 2"
    by (simp add: db2_def handle_toggle_like_def Let_def insert_like_def)
  have "\<not> like_inv db2"
  proof
    assume "like_inv db2"
    from like_inv_count [OF this row] len like_inv_count [OF inv c] show False by simp
  qed
  with row len show ?thesis by (simp add: db2_def Let_def)
qed

theorem stale_like_count_lost_witness:
  "like_inv ex_like_db \<and> content_row ex_like_db ''t1'' = Some (ex_content ''t1'' 1) \<and>
   content_row (snd (handle_toggle_like (Some ''ub'') ''t1'' ''lb'' (False, False) \<lparr>lu_liked = False, lu_count = 1, lu_loading = False\<rparr>
     (snd (handle_toggle_like (Some ''ua'') ''t1'' ''la'' (False, False) \<lparr>lu_liked = False, lu_count = 1, lu_loading = False\<rparr> ex_like_db)))) ''t1''
     = Some (ex_content ''t1'' 2)"
proof -
  have i: "like_inv ex_like_db" by (simp add: like_inv_def ex_like_db_def empty_db_def ex_content_def)
  have c: "content_row ex_like_db ''t1'' = Some (ex_content ''t1'' 1)"
    by (simp add: content_row_def ex_like_db_def empty_db_def ex_content_def single_data_def)
  show ?thesis using i c stale_like_count_lost [OF i c, of "''ub''" "''lb''" "''ua''" "''la''"]
    by (simp add: Let_def ex_content_def)
qed

text \<open>When the like write fails, \<open>LikeButton\<close> still shows the flipped state (the store
  client does not throw, so the rollback in \<open>catch\<close> never runs) and still writes the new
  count, although no like was added or removed.\<close>

theorem like_failure_not_rolled_back:
  assumes "\<not> lu_loading ui"
  shows "lu_liked (fst (handle_toggle_like (Some uid) cid lid (True, False) ui db)) = (\<not> lu_liked ui) \<and>
    likes (snd (handle_toggle_like (Some uid) cid lid (True, False) ui db)) = likes db \<and>
    snd (handle_toggle_like (Some uid) cid lid (True, False) ui db) =
      set_like_count cid (if lu_liked ui then lu_count ui - 1 else lu_count ui + 1) db"
  using assms by (simp add: handle_toggle_like_def Let_def)

theorem like_failure_not_rolled_back_witness:
  "\<not> lu_loading \<lparr>lu_liked = False, lu_count = 1, lu_loading = False\<rparr> \<and>
   lu_liked (fst (handle_toggle_like (Some ''ua'') ''t1'' ''la'' (True, False) \<lparr>lu_liked = False, lu_count = 1, lu_loading = False\<rparr> ex_like_db)) \<and>
   \<not> like_inv (snd (handle_toggle_like (Some ''ua'') ''t1'' ''la'' (True, False) \<lparr>lu_liked = False, lu_count = 1, lu_loading = False\<rparr> ex_like_db))"
proof -
  have n: "\<not> lu_loading \<lparr>lu_liked = False, lu_count = 1, lu_loading = False\<rparr>" by simp
  have "\<not> like_inv (set_like_count ''t1'' 2 ex_like_db)"
    by (simp add: like_inv_def set_like_count_def ex_like_db_def empty_db_def ex_content_def)
  then show ?thesis using like_failure_not_rolled_back [OF n, of "''ua''" "''t1''" "''la''" ex_like_db] by simp
qed

end
