(* ===== verification/Chat.thy ===== *)
theory Chat
  imports Enrollment
begin

text \<open>
  Chat: the hook \<open>useChat\<close> (\<open>src/hooks/useChat.ts\<close>) that loads a room's messages and
  appends the ones the realtime channel delivers, \<open>sendMessage\<close>, the input box
  (\<open>src/components/features/ChatInput.tsx\<close>), the message list
  (\<open>src/components/features/ChatMessages.tsx\<close>), the new-conversation button
  (\<open>src/app/(main)/chat/CreateChatButton.tsx\<close>), the room list
  (\<open>src/app/(main)/chat/page.tsx\<close>) and the room header
  (\<open>src/app/(main)/chat/[id]/page.tsx\<close>). The hook's state is computed from the list
  of events that reach it, in the order they reach it: the answer of the initial fetch
  and each realtime insert (after its sender's profile has been read).
\<close>

subsection \<open>Store reads\<close>

definition room_messages :: "uuid \<Rightarrow> db \<Rightarrow> message list" where
  "room_messages rid db = filter (\<lambda>m. ms_room_id m = rid) (messages db)"

text \<open>\<open>.eq('room_id', roomId).order('created_at', {ascending: true}).limit(100)\<close>.\<close>

definition fetch_messages :: "uuid \<Rightarrow> db \<Rightarrow> message list" where
  "fetch_messages rid db = take 100 (order_by ms_created_at True (room_messages rid db))"

definition sender_of :: "db \<Rightarrow> uuid \<Rightarrow> profile option" where
  "sender_of db uid = single_data (filter (\<lambda>p. pf_id p = uid) (profiles db))"

type_synonym chat_msg = "message \<times> profile option"

definition with_sender :: "db \<Rightarrow> message \<Rightarrow> chat_msg" where
  "with_sender db m = (m, sender_of db (ms_sender_id m))"

subsection \<open>The hook \<open>useChat\<close>\<close>

record chat_ui =
  cu_messages :: "chat_msg list"
  cu_loading :: bool

definition init_chat_ui :: chat_ui where
  "init_chat_ui = \<lparr>cu_messages = [], cu_loading = True\<rparr>"

text \<open>What reaches the hook: the fetch's \<open>data\<close> (\<open>None\<close> when it failed), or a delivered
  insert with the profile its handler read for the sender.\<close>

datatype chat_event = Fetched "chat_msg list option" | Arrived message "profile option"

text \<open>\<open>fetchMessages\<close> (lines 18--30) replaces the list when data came back and ends the
  loading state; the realtime handler (lines 47--63) appends.\<close>

fun chat_apply :: "chat_ui \<Rightarrow> chat_event \<Rightarrow> chat_ui" where
  "chat_apply ui (Fetched d) =
     ui\<lparr>cu_messages := (case d of Some xs \<Rightarrow> xs | None \<Rightarrow> cu_messages ui), cu_loading := False\<rparr>"
| "chat_apply ui (Arrived m s) = ui\<lparr>cu_messages := cu_messages ui @ [(m, s)]\<rparr>"

definition chat_run :: "chat_event list \<Rightarrow> chat_ui" where
  "chat_run evs = foldl chat_apply init_chat_ui evs"

text \<open>The events the store produces: the fetch's answer from the store as the query sees
  it, and the delivery of an inserted message with the sender read from the store as the
  handler sees it (a failed read gives \<open>sender: undefined\<close>).\<close>

definition fetch_event :: "uuid \<Rightarrow> bool \<Rightarrow> db \<Rightarrow> chat_event" where
  "fetch_event rid fails db =
     Fetched (if fails then None else Some (map (with_sender db) (fetch_messages rid db)))"

definition arrive_event :: "bool \<Rightarrow> db \<Rightarrow> message \<Rightarrow> chat_event" where
  "arrive_event fails db m = Arrived m (if fails then None else sender_of db (ms_sender_id m))"

text \<open>\<open>sendMessage\<close>, lines 73--86: a text message of the signed-in user; a failed insert
  is not reported.\<close>

definition send_message :: "uuid option \<Rightarrow> uuid \<Rightarrow> string \<Rightarrow> uuid \<Rightarrow> nat \<Rightarrow> bool \<Rightarrow> db \<Rightarrow> db" where
  "send_message user rid content mid t fails db =
     (case user of
        None \<Rightarrow> db
      | Some uid \<Rightarrow>
          if fails then db
          else db\<lparr>messages := messages db @
                  [\<lparr>ms_id = mid, ms_room_id = rid, ms_sender_id = uid, ms_content = content,
                    ms_type = MsgText, ms_file_url = None, ms_created_at = t\<rparr>]\<rparr>)"

subsection \<open>The input box\<close>

text \<open>\<open>String.prototype.trim\<close> on the ASCII white space and line terminators (tab, line
  feed, vertical tab, form feed, carriage return, space); the non-ASCII white space it
  also removes is outside the character type of the model.\<close>

definition js_is_space :: "char \<Rightarrow> bool" where
  "js_is_space c \<longleftrightarrow> c \<in> set [CHR 0x09, CHR 0x0A, CHR 0x0B, CHR 0x0C, CHR 0x0D, CHR 0x20]"

definition js_trim :: "string \<Rightarrow> string" where
  "js_trim s = rev (dropWhile js_is_space (rev (dropWhile js_is_space s)))"

text \<open>\<open>handleSubmit\<close>, lines 13--20: the new contents of the box and what is sent.\<close>

definition handle_submit :: "string \<Rightarrow> string \<times> string option" where
  "handle_submit msg = (let t = js_trim msg in if t = [] then (msg, None) else ([], Some t))"

definition send_disabled :: "string \<Rightarrow> bool" where
  "send_disabled msg \<longleftrightarrow> js_trim msg = []"

subsection \<open>The message list\<close>

datatype sender_label = SenderName string | SenderUnknown

datatype message_view = MineView string | OtherView sender_label string

text \<open>Lines 32--62: a message of the current user on the right without a name; another
  user's with \<open>sender?.name || '(unknown)'\<close>.\<close>

definition name_label :: "profile option \<Rightarrow> sender_label" where
  "name_label s = (case s of Some p \<Rightarrow> (case pf_name p of Some n \<Rightarrow> if n \<noteq> [] then SenderName n else SenderUnknown
                                        | None \<Rightarrow> SenderUnknown)
                   | None \<Rightarrow> SenderUnknown)"

definition message_view :: "uuid \<Rightarrow> chat_msg \<Rightarrow> message_view" where
  "message_view me cm =
     (let (m, s) = cm in if ms_sender_id m = me then MineView (ms_content m) else OtherView (name_label s) (ms_content m))"

datatype messages_view = EmptyChat | MessageList "message_view list"

definition chat_messages :: "uuid \<Rightarrow> chat_msg list \<Rightarrow> messages_view" where
  "chat_messages me ms = (if ms = [] then EmptyChat else MessageList (map (message_view me) ms))"

subsection \<open>Starting a conversation\<close>

datatype create_error = NoSuchUser | SelfChat

record create_ui =
  cc_show :: bool
  cc_email :: string
  cc_loading :: bool
  cc_error :: "create_error option"

datatype create_q = CFindUser | CInsertRoom | CInsertParticipants

text \<open>\<open>handleCreate\<close>, lines 15--62: the result is the button's state, the store and the
  room the page navigates to. The room gets the id \<open>rid\<close> and the two participant rows
  the ids \<open>pids\<close>; a failed room insert gives \<open>room = null\<close>.\<close>

definition handle_create ::
  "uuid option \<Rightarrow> uuid \<Rightarrow> uuid \<times> uuid \<Rightarrow> nat \<Rightarrow> (create_q \<Rightarrow> bool) \<Rightarrow> create_ui \<Rightarrow> db \<Rightarrow> create_ui \<times> db \<times> uuid option" where
  "handle_create user rid pids t qf ui db =
     (let ui1 = ui\<lparr>cc_loading := True, cc_error := None\<rparr> in
      case user of
        None \<Rightarrow> (ui1, db, None)
      | Some uid \<Rightarrow>
          (case (if qf CFindUser then None else single_data (filter (\<lambda>p. pf_email p = cc_email ui) (profiles db))) of
             None \<Rightarrow> (ui1\<lparr>cc_loading := False, cc_error := Some NoSuchUser\<rparr>, db, None)
           | Some other \<Rightarrow>
               if pf_id other = uid then (ui1\<lparr>cc_loading := False, cc_error := Some SelfChat\<rparr>, db, None)
               else if qf CInsertRoom then (ui1\<lparr>cc_loading := False\<rparr>, db, None)
               else
                 (let db1 = db\<lparr>chat_rooms := chat_rooms db @
                              [\<lparr>cr_id = rid, cr_type = RoomDm, cr_name = None, cr_created_by = uid, cr_created_at = t\<rparr>]\<rparr>;
                      db2 = (if qf CInsertParticipants then db1
                             else db1\<lparr>chat_participants := chat_participants db1 @
                                    [\<lparr>cp_id = fst pids, cp_room_id = rid, cp_user_id = uid\<rparr>,
                                     \<lparr>cp_id = snd pids, cp_room_id = rid, cp_user_id = pf_id other\<rparr>]\<rparr>)
                  in (ui1\<lparr>cc_loading := False\<rparr>, db2, Some rid))))"

subsection \<open>The room list and the room header\<close>

text \<open>The other participant of a direct room, \<open>.neq('user_id', user.id).limit(1)\<close>.\<close>

definition other_participant :: "uuid \<Rightarrow> uuid \<Rightarrow> db \<Rightarrow> chat_participant option" where
  "other_participant uid rid db =
     (case filter (\<lambda>p. cp_room_id p = rid \<and> cp_user_id p \<noteq> uid) (chat_participants db) of
        [] \<Rightarrow> None | p # _ \<Rightarrow> Some p)"

text \<open>\<open>profiles:profiles!user_id(name)\<close>: the participant's profile name, \<open>null\<close> when
  the profile is missing.\<close>

definition participant_name :: "db \<Rightarrow> chat_participant \<Rightarrow> string option" where
  "participant_name db p = (case sender_of db (cp_user_id p) of Some q \<Rightarrow> pf_name q | None \<Rightarrow> None)"

text \<open>The latest message, \<open>.order('created_at', {ascending: false}).limit(1).single()\<close>.\<close>

definition last_message :: "uuid \<Rightarrow> db \<Rightarrow> message option" where
  "last_message rid db = single_data (take 1 (order_by ms_created_at False (room_messages rid db)))"

text \<open>Lines 38--70 and the title shown at line 104,
  \<open>room.otherUser || room.name || '(chat room)'\<close>: the partner's name in a direct room
  with another participant (a placeholder when the name is empty or missing), else the
  room's name, else the generic title.\<close>

datatype room_title = TitleName string | TitleUnknownPartner | TitleRoom

definition truthy_name :: "string option \<Rightarrow> string option" where
  "truthy_name v = (case v of Some n \<Rightarrow> if n \<noteq> [] then Some n else None | None \<Rightarrow> None)"

definition list_title :: "uuid \<Rightarrow> db \<Rightarrow> chat_room \<Rightarrow> room_title" where
  "list_title uid db r =
     (let other = (if cr_type r = RoomDm then map_option (participant_name db) (other_participant uid (cr_id r) db) else None)
      in case other of
           Some n \<Rightarrow> (case truthy_name n of Some x \<Rightarrow> TitleName x | None \<Rightarrow> TitleUnknownPartner)
         | None \<Rightarrow> (case truthy_name (cr_name r) of Some x \<Rightarrow> TitleName x | None \<Rightarrow> TitleRoom))"

definition user_rooms :: "uuid \<Rightarrow> db \<Rightarrow> chat_room list" where
  "user_rooms uid db =
     (let ids = map cp_room_id (filter (\<lambda>p. cp_user_id p = uid) (chat_participants db))
      in if ids = [] then [] else order_by cr_created_at False (where_in cr_id ids (chat_rooms db)))"

definition chat_list_page :: "uuid option \<Rightarrow> db \<Rightarrow> (chat_room \<times> message option \<times> room_title) list auth_page" where
  "chat_list_page user db =
     (case user of
        None \<Rightarrow> AuthRedirectLogin
      | Some uid \<Rightarrow> AuthPage (map (\<lambda>r. (r, last_message (cr_id r) db, list_title uid db r)) (user_rooms uid db)))"

datatype header_title = HeaderName string | HeaderPartner | HeaderDefault | HeaderGroup

text \<open>\<open>ChatRoomPage\<close>'s \<open>init\<close>, lines 19--51: the header starts as the default title; a
  direct room with another participant shows the partner's name (or a placeholder), any
  other room its name (or the group placeholder), a direct room alone keeps the default.
  \<open>None\<close>: the page sends a signed-out user to the login page.\<close>

definition room_header :: "uuid option \<Rightarrow> uuid \<Rightarrow> db \<Rightarrow> header_title option" where
  "room_header user rid db =
     (case user of
        None \<Rightarrow> None
      | Some uid \<Rightarrow>
          (let room = single_data (filter (\<lambda>r. cr_id r = rid) (chat_rooms db))
           in if map_option cr_type room = Some RoomDm
              then (case other_participant uid rid db of
                      Some p \<Rightarrow> Some (case truthy_name (participant_name db p) of Some n \<Rightarrow> HeaderName n | None \<Rightarrow> HeaderPartner)
                    | None \<Rightarrow> Some HeaderDefault)
              else Some (case truthy_name (Option.bind room cr_name) of Some n \<Rightarrow> HeaderName n | None \<Rightarrow> HeaderGroup)))"

subsection \<open>Example stores\<close>

text \<open>A room with 101 messages, numbered by time.\<close>

definition ex_chat_msg :: "nat \<Rightarrow> message" where
  "ex_chat_msg i = \<lparr>ms_id = replicate i (CHR ''m''), ms_room_id = ''r'', ms_sender_id = ''u1'', ms_content = ''hi'',
     ms_type = MsgText, ms_file_url = None, ms_created_at = i\<rparr>"

definition ex_big_room :: db where
  "ex_big_room = empty_db\<lparr>messages := map ex_chat_msg [0..<101]\<rparr>"

subsection \<open>Lemmas\<close>

lemma map_fst_with_sender [simp]: "map fst (map (with_sender db) xs) = xs"
  by (induction xs) (simp_all add: with_sender_def)

lemma fst_with_sender [simp]: "fst (with_sender db m) = m" "fst \<circ> with_sender db = id"
  by (simp_all add: with_sender_def fun_eq_iff)

lemma chat_run_snoc: "chat_run (evs @ [e]) = chat_apply (chat_run evs) e"
  by (simp add: chat_run_def)

lemma chat_arrivals:
  "cu_messages (foldl chat_apply ui (map (arrive_event fl db) ms)) =
   cu_messages ui @ map (\<lambda>m. (m, if fl then None else sender_of db (ms_sender_id m))) ms"
  by (induction ms arbitrary: ui) (simp_all add: arrive_event_def)

lemma last_not_in_take:
  assumes "distinct xs" "n < length xs"
  shows "last xs \<notin> set (take n xs)"
proof -
  have "last xs = last (drop n xs)" using assms(2) by (simp add: last_drop)
  moreover have "drop n xs \<noteq> []" using assms(2) by simp
  ultimately have "last xs \<in> set (drop n xs)" by (metis last_in_set)
  moreover have "set (take n xs) \<inter> set (drop n xs) = {}"
    using assms(1) by (metis append_take_drop_id distinct_append)
  ultimately show ?thesis by blast
qed

lemma room_messages_big: "room_messages ''r'' ex_big_room = map ex_chat_msg [0..<101]"
  by (simp add: room_messages_def ex_big_room_def empty_db_def ex_chat_msg_def filter_map o_def)

lemma send_disabled_iff_nothing_sent: "send_disabled msg \<longleftrightarrow> snd (handle_submit msg) = None"
  by (simp add: send_disabled_def handle_submit_def Let_def)

lemma js_trim_prefix: "\<exists>v. dropWhile js_is_space s = js_trim s @ v"
proof -
  let ?u = "dropWhile js_is_space s"
  have "rev ?u = takeWhile js_is_space (rev ?u) @ dropWhile js_is_space (rev ?u)" by simp
  then have "?u = rev (dropWhile js_is_space (rev ?u)) @ rev (takeWhile js_is_space (rev ?u))"
    by (metis rev_append rev_rev_ident)
  then show ?thesis by (auto simp: js_trim_def)
qed

lemma js_trim_edges:
  assumes "js_trim s \<noteq> []"
  shows "\<not> js_is_space (hd (js_trim s)) \<and> \<not> js_is_space (last (js_trim s))"
proof
  obtain v where v: "dropWhile js_is_space s = js_trim s @ v" using js_trim_prefix by blast
  then have "hd (dropWhile js_is_space s) = hd (js_trim s)" using assms by simp
  moreover have "dropWhile js_is_space s \<noteq> []" using v assms by simp
  ultimately show "\<not> js_is_space (hd (js_trim s))" by (metis hd_dropWhile)
next
  have "dropWhile js_is_space (rev (dropWhile js_is_space s)) \<noteq> []" using assms by (simp add: js_trim_def)
  then have "\<not> js_is_space (hd (dropWhile js_is_space (rev (dropWhile js_is_space s))))" by (rule hd_dropWhile)
  then show "\<not> js_is_space (last (js_trim s))" by (simp add: js_trim_def last_rev)
qed

lemma dropWhile_hd_not: "xs = [] \<or> \<not> P (hd xs) \<Longrightarrow> dropWhile P xs = xs"
  by (cases xs) auto

lemma js_trim_idem: "js_trim (js_trim s) = js_trim s"
proof (cases "js_trim s = []")
  case False
  note e = js_trim_edges [OF False]
  have "dropWhile js_is_space (js_trim s) = js_trim s" using e by (intro dropWhile_hd_not) simp
  moreover have "dropWhile js_is_space (rev (js_trim s)) = rev (js_trim s)"
    using e False by (intro dropWhile_hd_not) (simp add: hd_rev)
  ultimately show ?thesis by (simp add: js_trim_def)
next
  case True
  have "js_trim [] = []" by (simp add: js_trim_def)
  with True show ?thesis by simp
qed

lemma handle_submit_sends_trimmed:
  "snd (handle_submit msg) = Some t \<Longrightarrow> t = js_trim msg \<and> t \<noteq> [] \<and> js_trim t = t \<and> fst (handle_submit msg) = []"
  by (auto simp: handle_submit_def Let_def js_trim_idem split: if_splits)

lemma handle_create_signed_out:
  "handle_create None rid pids t qf ui db = (ui\<lparr>cc_loading := True, cc_error := None\<rparr>, db, None)"
  by (simp add: handle_create_def)

lemma handle_create_success:
  assumes "single_data (filter (\<lambda>p. pf_email p = cc_email ui) (profiles db)) = Some other" "pf_id other \<noteq> uid"
  shows "handle_create (Some uid) rid pids t (\<lambda>_. False) ui db =
    (ui\<lparr>cc_loading := False, cc_error := None\<rparr>,
     db\<lparr>chat_rooms := chat_rooms db @ [\<lparr>cr_id = rid, cr_type = RoomDm, cr_name = None, cr_created_by = uid, cr_created_at = t\<rparr>],
        chat_participants := chat_participants db @
          [\<lparr>cp_id = fst pids, cp_room_id = rid, cp_user_id = uid\<rparr>, \<lparr>cp_id = snd pids, cp_room_id = rid, cp_user_id = pf_id other\<rparr>]\<rparr>,
     Some rid)"
  using assms by (simp add: handle_create_def Let_def)

lemma handle_create_lists_room:
  assumes "single_data (filter (\<lambda>p. pf_email p = cc_email ui) (profiles db)) = Some other" "pf_id other \<noteq> uid"
  shows "rid \<in> cr_id ` set (user_rooms uid (fst (snd (handle_create (Some uid) rid pids t (\<lambda>_. False) ui db)))) \<and>
         rid \<in> cr_id ` set (user_rooms (pf_id other) (fst (snd (handle_create (Some uid) rid pids t (\<lambda>_. False) ui db))))"
  using assms by (auto simp: handle_create_success user_rooms_def Let_def order_by_def image_iff)

subsection \<open>Properties\<close>

text \<open>C35: the room page loads the 100 oldest messages of a room
  (\<open>.order('created_at', {ascending: true}).limit(100)\<close>): in a room with more than
  100 messages the hook shows the first 100 in time order, and the newest stored message is
  never shown, whatever new messages the realtime channel delivers afterwards.\<close>

theorem chat_loads_oldest_hundred:
  assumes "100 < length (room_messages rid db)" "distinct (room_messages rid db)"
    "set ms \<inter> set (room_messages rid db) = {}"
  shows "map fst (cu_messages (chat_run [fetch_event rid False db])) = take 100 (sort_key ms_created_at (room_messages rid db)) \<and>
    last (sort_key ms_created_at (room_messages rid db)) \<notin>
      fst ` set (cu_messages (chat_run (fetch_event rid False db # map (arrive_event False db') ms)))"
proof -
  let ?L = "sort_key ms_created_at (room_messages rid db)"
  have d: "distinct ?L" using assms(2) distinct_map_sort_key [of id] by simp
  have l: "100 < length ?L" using assms(1) by simp
  have "last ?L \<notin> set (take 100 ?L)" using last_not_in_take [OF d l] .
  moreover have "last ?L \<in> set (room_messages rid db)"
    using l by (metis last_in_set length_0_conv not_less_zero set_sort)
  then have "last ?L \<notin> set ms" using assms(3) by blast
  moreover have "cu_messages (chat_run (fetch_event rid False db # map (arrive_event False db') ms)) =
      map (with_sender db) (take 100 ?L) @ map (\<lambda>m. (m, sender_of db' (ms_sender_id m))) ms"
    using chat_arrivals [of "chat_apply init_chat_ui (fetch_event rid False db)" False db' ms]
    by (simp add: chat_run_def fetch_event_def fetch_messages_def order_by_def)
  ultimately show ?thesis
    by (auto simp: chat_run_def fetch_event_def fetch_messages_def order_by_def image_iff)
qed

theorem chat_loads_oldest_hundred_witness:
  "100 < length (room_messages ''r'' ex_big_room) \<and> distinct (room_messages ''r'' ex_big_room) \<and>
   last (sort_key ms_created_at (room_messages ''r'' ex_big_room)) \<notin>
     fst ` set (cu_messages (chat_run (fetch_event ''r'' False ex_big_room # map (arrive_event False ex_big_room) [])))"
proof -
  have a: "100 < length (room_messages ''r'' ex_big_room)" by (simp add: room_messages_big)
  have b: "distinct (room_messages ''r'' ex_big_room)"
    by (simp add: room_messages_big distinct_map inj_on_def ex_chat_msg_def)
  have c: "set [] \<inter> set (room_messages ''r'' ex_big_room) = {}" by simp
  show ?thesis using chat_loads_oldest_hundred [OF a b c, of ex_big_room] a b by blast
qed

text \<open>C36: the initial fetch and the realtime channel race: a message delivered before
  the fetch answers, and missed by the fetch's read, disappears when the answer replaces the
  list; a message the fetch already saw and that is delivered afterwards is shown twice.\<close>

theorem chat_fetch_race:
  assumes "m \<notin> set (messages db)" "m \<in> set (fetch_messages rid db')"
  shows "m \<notin> fst ` set (cu_messages (chat_run [arrive_event False db' m, fetch_event rid False db])) \<and>
    2 \<le> count (mset (map fst (cu_messages (chat_run [fetch_event rid False db', arrive_event False db' m])))) m"
proof -
  have sub: "set (fetch_messages rid db) \<subseteq> set (messages db)"
    by (auto simp: fetch_messages_def order_by_def room_messages_def dest: set_take_subset_elem)
  have "0 < count (mset (fetch_messages rid db')) m" using assms(2) by simp
  then show ?thesis using assms(1) sub
    by (auto simp: chat_run_def fetch_event_def arrive_event_def image_iff)
qed

theorem chat_fetch_race_witness:
  "ex_chat_msg 0 \<notin> set (messages empty_db) \<and>
   ex_chat_msg 0 \<in> set (fetch_messages ''r'' (send_message (Some ''u1'') ''r'' ''hi'' [] 0 False empty_db)) \<and>
   2 \<le> count (mset (map fst (cu_messages (chat_run [fetch_event ''r'' False (send_message (Some ''u1'') ''r'' ''hi'' [] 0 False empty_db),
          arrive_event False (send_message (Some ''u1'') ''r'' ''hi'' [] 0 False empty_db) (ex_chat_msg 0)])))) (ex_chat_msg 0)"
proof -
  have a: "ex_chat_msg 0 \<notin> set (messages empty_db)" by (simp add: empty_db_def)
  have b: "ex_chat_msg 0 \<in> set (fetch_messages ''r'' (send_message (Some ''u1'') ''r'' ''hi'' [] 0 False empty_db))"
    by (simp add: fetch_messages_def send_message_def room_messages_def order_by_def empty_db_def ex_chat_msg_def)
  show ?thesis using chat_fetch_race [OF a b] a b by blast
qed

end
