(* ===== verification/Browse.thy ===== *)
theory Browse
  imports Catalogue
begin

text \<open>
  The public browsing pages: the hero banner carousel
  (\<open>src/components/features/HeroBanner.tsx\<close>), the session route guard
  (\<open>src/lib/supabase/middleware.ts\<close>), the tag search (\<open>src/app/(main)/search/page.tsx\<close>),
  the course, job and content listings (\<open>src/app/(main)/courses/page.tsx\<close>,
  \<open>jobs/page.tsx\<close>, \<open>contents/page.tsx\<close>) and the decisions of the cards they render
  (\<open>CourseCard\<close>, \<open>JobCard\<close>, \<open>ContentCard\<close> in \<open>src/components/features\<close>).
  \<open>created_at\<close> and \<open>published_at\<close> are filled by the store at insert time, so the
  listings' newest-first order is the reverse of the insertion order the tables keep.
\<close>

subsection \<open>The hero banner carousel\<close>

text \<open>JavaScript's \<open>%\<close>: the remainder has the sign of the dividend. (With a zero divisor
  JavaScript gives \<open>NaN\<close>; the carousel never divides by zero, see below.)\<close>

definition js_rem :: "int \<Rightarrow> int \<Rightarrow> int" where
  "js_rem a b = sgn a * (\<bar>a\<bar> mod \<bar>b\<bar>)"

record carousel =
  car_current :: int
  car_paused :: bool

definition init_carousel :: carousel where
  "init_carousel = \<lparr>car_current = 0, car_paused = False\<rparr>"

text \<open>\<open>next\<close> and \<open>prev\<close>, lines 18--24.\<close>

definition carousel_next :: "int \<Rightarrow> carousel \<Rightarrow> carousel" where
  "carousel_next n st = st\<lparr>car_current := js_rem (car_current st + 1) n\<rparr>"

definition carousel_prev :: "int \<Rightarrow> carousel \<Rightarrow> carousel" where
  "carousel_prev n st = st\<lparr>car_current := js_rem (car_current st - 1 + n) n\<rparr>"

text \<open>What can happen to the carousel: the arrows and the dots (rendered only with two or
  more banners, lines 95--130), the mouse entering or leaving (lines 59--60, rendered
  whenever there is a banner) and the four-second timer (lines 27--31, installed only with
  two or more banners and no pause).\<close>

datatype carousel_event = ClickNext | ClickPrev | ClickDot nat | Hover bool | Tick

fun carousel_step :: "int \<Rightarrow> carousel \<Rightarrow> carousel_event \<Rightarrow> carousel" where
  "carousel_step n st ClickNext = (if 1 < n then carousel_next n st else st)"
| "carousel_step n st ClickPrev = (if 1 < n then carousel_prev n st else st)"
| "carousel_step n st (ClickDot i) = (if 1 < n \<and> int i < n then st\<lparr>car_current := int i\<rparr> else st)"
| "carousel_step n st (Hover b) = (if 0 < n then st\<lparr>car_paused := b\<rparr> else st)"
| "carousel_step n st Tick = (if n \<le> 1 \<or> car_paused st then st else carousel_next n st)"

text \<open>\<open>getBannerHref\<close>, lines 38--51, and \<open>isExternal\<close>, line 54.\<close>

definition banner_href :: "hero_banner \<Rightarrow> string" where
  "banner_href b =
     (case hb_link_type b of
        LinkCourse \<Rightarrow> (case hb_course_id b of Some i \<Rightarrow> if i \<noteq> [] then ''/courses/'' @ i else ''/courses'' | None \<Rightarrow> ''/courses'')
      | LinkContent \<Rightarrow> (case hb_content_id b of Some i \<Rightarrow> if i \<noteq> [] then ''/contents/'' @ i else ''/contents'' | None \<Rightarrow> ''/contents'')
      | LinkJob \<Rightarrow> ''/jobs''
      | LinkCustom \<Rightarrow> (case hb_custom_url b of Some u \<Rightarrow> if u \<noteq> [] then u else ''/'' | None \<Rightarrow> ''/''))"

definition banner_external :: "hero_banner \<Rightarrow> bool" where
  "banner_external b \<longleftrightarrow>
     hb_link_type b = LinkCustom \<and> (case hb_custom_url b of Some u \<Rightarrow> prefix ''http'' u | None \<Rightarrow> False)"

text \<open>What the carousel renders, lines 33--147: nothing without banners; the current
  banner with its link, whether the link opens a new tab, and whether the arrows and dots
  show; or a crash, when \<open>banners[current]\<close> is \<open>undefined\<close> and \<open>banner.link_type\<close> throws.\<close>

datatype banner_render = NoBanners | BannerCrash | BannerShown hero_banner string bool bool

definition carousel_view :: "hero_banner list \<Rightarrow> carousel \<Rightarrow> banner_render" where
  "carousel_view bs st =
     (if bs = [] then NoBanners
      else if car_current st < 0 \<or> int (length bs) \<le> car_current st then BannerCrash
      else (let b = bs ! nat (car_current st) in BannerShown b (banner_href b) (banner_external b) (1 < length bs)))"

subsection \<open>The home page's layout\<close>

text \<open>\<open>HomePage\<close>, lines 68--200 of \<open>src/app/(main)/page.tsx\<close>: the carousel when the banner
  query returned a non-empty list, the default hero otherwise (a failed query gives
  \<open>null\<close>); each of the three sections shows its cards, or its empty notice when the list
  is empty.\<close>

datatype home_hero = HeroCarousel "hero_banner list" | DefaultHero

datatype 'a home_section = SectionCards "'a list" | SectionEmpty

definition home_section :: "'a list \<Rightarrow> 'a home_section" where
  "home_section xs = (if xs \<noteq> [] then SectionCards xs else SectionEmpty)"

record home_view =
  hv_hero :: home_hero
  hv_courses :: "course home_section"
  hv_contents :: "content home_section"
  hv_jobs :: "job_posting home_section"

definition home_render :: "home_data \<Rightarrow> home_view" where
  "home_render d =
     \<lparr>hv_hero = (case hd_banners d of Some bs \<Rightarrow> if bs \<noteq> [] then HeroCarousel bs else DefaultHero
                 | None \<Rightarrow> DefaultHero),
      hv_courses = home_section (hd_courses d),
      hv_contents = home_section (hd_contents d),
      hv_jobs = home_section (hd_jobs d)\<rparr>"

subsection \<open>The session route guard\<close>

datatype guard_result = GuardNext | GuardRedirect string

text \<open>\<open>updateSession\<close>, lines 28--54: \<open>pathname.startsWith(path)\<close> for the protected
  paths and the sign-in paths.\<close>

definition route_guard :: "uuid option \<Rightarrow> string \<Rightarrow> guard_result" where
  "route_guard user path =
     (if user = None \<and> list_ex (\<lambda>p. prefix p path) [''/my'', ''/chat''] then GuardRedirect ''/login''
      else if user \<noteq> None \<and> list_ex (\<lambda>p. prefix p path) [''/login'', ''/signup''] then GuardRedirect ''/''
      else GuardNext)"

subsection \<open>The tag search\<close>

text \<open>\<open>TAGS\<close> of \<open>src/lib/constants.ts\<close> is the parameter \<open>consts\<close>, a list of (id, name)
  pairs. Lines 16--22: the links whose tag has the name of the constant with the given
  id (\<open>tags!inner(name)\<close> with \<open>.eq('tags.name', tagInfo?.name || '')\<close>), then the truthy
  ids of each kind.\<close>

definition tag_const_name :: "(string \<times> string) list \<Rightarrow> string \<Rightarrow> string" where
  "tag_const_name consts t = (case find (\<lambda>c. fst c = t) consts of Some c \<Rightarrow> snd c | None \<Rightarrow> [])"

definition search_rows :: "(string \<times> string) list \<Rightarrow> string option \<Rightarrow> db \<Rightarrow> content_tag list" where
  "search_rows consts tag db =
     (case tag of
        Some t \<Rightarrow> if t \<noteq> [] then filter (\<lambda>r. list_ex (\<lambda>g. tg_id g = cg_tag_id r \<and> tg_name g = tag_const_name consts t) (tags db))
                                   (content_tags db)
                 else []
      | None \<Rightarrow> [])"

text \<open>Lines 25--35: each kind fetched by id when there are ids, nothing otherwise.\<close>

definition fetch_by_ids :: "('r \<Rightarrow> uuid) \<Rightarrow> uuid list \<Rightarrow> 'r list \<Rightarrow> 'r list" where
  "fetch_by_ids rid ids rs = (if ids = [] then [] else where_in rid ids rs)"

record search_view =
  sv_courses :: "course list"
  sv_contents :: "content list"
  sv_jobs :: "job_posting list"
  sv_count :: nat

definition search_page :: "(string \<times> string) list \<Rightarrow> string option \<Rightarrow> db \<Rightarrow> search_view" where
  "search_page consts tag db =
     (let rows = search_rows consts tag db;
          cs = fetch_by_ids c_id (truthy_ids (map cg_course_id rows)) (courses db);
          ns = fetch_by_ids ct_id (truthy_ids (map cg_content_id rows)) (contents db);
          js = fetch_by_ids j_id (truthy_ids (map cg_job_id rows)) (job_postings db)
      in \<lparr>sv_courses = cs, sv_contents = ns, sv_jobs = js, sv_count = length cs + length ns + length js\<rparr>)"

subsection \<open>The listings\<close>

text \<open>\<open>CoursesPage\<close>, lines 10--21: newest first, filtered by the category when one is
  given (an empty one is no filter).\<close>

definition course_listing :: "string option \<Rightarrow> db \<Rightarrow> course list" where
  "course_listing category db =
     (let cs = rev (courses db) in
      case category of Some k \<Rightarrow> if k \<noteq> [] then filter (\<lambda>c. c_category c = k) cs else cs | None \<Rightarrow> cs)"

text \<open>\<open>JobsPage\<close>, lines 10--24: the active postings by deadline, filtered by the type.\<close>

definition job_listing :: "string option \<Rightarrow> db \<Rightarrow> job_posting list" where
  "job_listing jt db =
     (let js = order_by j_deadline True (filter j_is_active (job_postings db)) in
      case jt of Some k \<Rightarrow> if k \<noteq> [] then filter (\<lambda>j. job_type_of k = Some (j_job_type j)) js else js | None \<Rightarrow> js)"

text \<open>\<open>ContentsPage\<close>, lines 10--23: newest first, filtered by the category.\<close>

definition content_listing :: "string option \<Rightarrow> db \<Rightarrow> content list" where
  "content_listing category db =
     (let ns = rev (contents db) in
      case category of Some k \<Rightarrow> if k \<noteq> [] then filter (\<lambda>c. ct_category c = k) ns else ns | None \<Rightarrow> ns)"

subsection \<open>The cards\<close>

text \<open>\<open>getDday\<close>, lines 20--29 of \<open>JobCard\<close>, on day numbers: both dates are taken at the
  server's local midnight, so their difference is a whole number of days.\<close>

datatype dday = DExpired | DDay | DMinus int

definition get_dday :: "int \<Rightarrow> int \<Rightarrow> dday \<times> bool" where
  "get_dday today deadline =
     (let diff = deadline - today in
      if diff < 0 then (DExpired, False) else if diff = 0 then (DDay, True) else (DMinus diff, diff \<le> 7))"

record job_card =
  jc_dday :: dday
  jc_urgent :: bool
  jc_expired :: bool
  jc_apply_link :: "string option"
  jc_tags :: "string list"

text \<open>\<open>JobCard\<close>, lines 31--97: the apply link only for a posting with a URL that has not
  expired, at most three tags.\<close>

definition job_card :: "int \<Rightarrow> int \<Rightarrow> job_posting \<Rightarrow> job_card" where
  "job_card today deadline j =
     (let (d, u) = get_dday today deadline; expired = (d = DExpired)
      in \<lparr>jc_dday = d, jc_urgent = u, jc_expired = expired,
          jc_apply_link = (case j_url j of Some s \<Rightarrow> if s \<noteq> [] \<and> \<not> expired then Some s else None | None \<Rightarrow> None),
          jc_tags = take 3 (j_tags j)\<rparr>)"

datatype price_label = PriceFree | PriceWon int

record course_card =
  cc_href :: string
  cc_visual :: "string option"
  cc_live :: bool
  cc_price :: price_label

text \<open>\<open>CourseCard\<close>, lines 52--116: the link, the category's visual (the default one for a
  category without an entry), the live badge and the price label.\<close>

definition course_card :: "course \<Rightarrow> course_card" where
  "course_card c =
     \<lparr>cc_href = ''/courses/'' @ c_id c,
      cc_visual = (if c_category c \<in> set [''resume'', ''interview'', ''coding'', ''portfolio'', ''skill'', ''attitude'']
                   then Some (c_category c) else None),
      cc_live = c_is_live c,
      cc_price = (if c_price c = 0 then PriceFree else PriceWon (c_price c))\<rparr>"

subsection \<open>Runs of the carousel and an example store\<close>

text \<open>\<open>carousel_run\<close>: the carousel after a sequence of events for a list of \<open>n\<close> banners;
  \<open>in_range\<close>: its index points into the list.\<close>

definition carousel_run :: "int \<Rightarrow> carousel_event list \<Rightarrow> carousel" where
  "carousel_run n evs = foldl (carousel_step n) init_carousel evs"

definition in_range :: "int \<Rightarrow> carousel \<Rightarrow> bool" where
  "in_range n st \<longleftrightarrow> 0 \<le> car_current st \<and> car_current st < n"

definition ex_search_db :: db where
  "ex_search_db = empty_db\<lparr>tags := [\<lparr>tg_id = ''t1'', tg_name = ''resume''\<rparr>], courses := [ex_course ''a'' 4]\<rparr>"

subsection \<open>Lemmas\<close>

lemma js_rem_nonneg: "0 \<le> a \<Longrightarrow> 0 < b \<Longrightarrow> js_rem a b = a mod b"
  by (cases "a = 0") (simp_all add: js_rem_def)

lemma in_range_next: "0 < n \<Longrightarrow> in_range n st \<Longrightarrow> in_range n (carousel_next n st)"
  by (simp add: in_range_def carousel_next_def js_rem_nonneg)

lemma in_range_prev: "0 < n \<Longrightarrow> in_range n st \<Longrightarrow> in_range n (carousel_prev n st)"
  by (simp add: in_range_def carousel_prev_def js_rem_nonneg)

lemma in_range_step: "0 < n \<Longrightarrow> in_range n st \<Longrightarrow> in_range n (carousel_step n st e)"
  by (cases e) (auto simp: in_range_next in_range_prev, auto simp: in_range_def)

lemma in_range_run: "0 < n \<Longrightarrow> in_range n (carousel_run n evs)"
proof -
  assume n: "0 < n"
  have "in_range n st \<Longrightarrow> in_range n (foldl (carousel_step n) st evs)" for st
    by (induction evs arbitrary: st) (simp_all add: in_range_step [OF n])
  moreover have "in_range n init_carousel" using n by (simp add: in_range_def init_carousel_def)
  ultimately show ?thesis by (simp add: carousel_run_def)
qed

lemma home_hero_carousel_safe:
  assumes "hv_hero (home_render d) = HeroCarousel bs"
  shows "bs \<noteq> [] \<and> carousel_view bs (carousel_run (int (length bs)) evs) \<noteq> BannerCrash"
proof -
  have ne: "bs \<noteq> []" using assms by (auto simp: home_render_def split: option.splits if_splits)
  then have "in_range (int (length bs)) (carousel_run (int (length bs)) evs)" by (simp add: in_range_run)
  then show ?thesis using ne by (simp add: carousel_view_def in_range_def Let_def)
qed

lemma home_hero_banners:
  "hv_hero (home_render (home_page hf qc qt qj db)) =
     (if \<not> hf \<and> hero_query (hero_banners db) \<noteq> [] then HeroCarousel (hero_query (hero_banners db)) else DefaultHero) \<and>
   (\<forall>bs. hv_hero (home_render (home_page hf qc qt qj db)) = HeroCarousel bs \<longrightarrow>
      length bs \<le> 5 \<and> set bs \<subseteq> set (hero_banners db) \<and> list_all hb_is_active bs)"
  by (auto simp: home_render_def home_page_def run_query_def hero_query_def order_by_def list_all_iff
           dest: set_take_subset_elem)

lemma carousel_prev_next:
  assumes n: "1 < n" and r: "in_range n st"
  shows "carousel_prev n (carousel_next n st) = st"
proof (cases "car_current st + 1 = n")
  case True
  then have "js_rem (car_current st + 1) n = 0" using n by (simp add: js_rem_nonneg)
  moreover have "js_rem (0 - 1 + n) n = car_current st"
  proof -
    have "js_rem (0 - 1 + n) n = js_rem (n - 1) n" by simp
    also have "\<dots> = (n - 1) mod n" by (rule js_rem_nonneg) (use n in simp_all)
    also have "\<dots> = n - 1" by (rule mod_pos_pos_trivial) (use n in simp_all)
    finally show ?thesis using True by simp
  qed
  ultimately show ?thesis by (simp add: carousel_prev_def carousel_next_def)
next
  case False
  then have "js_rem (car_current st + 1) n = car_current st + 1" using r by (simp add: js_rem_nonneg in_range_def)
  moreover have "js_rem (car_current st + 1 - 1 + n) n = car_current st" using r by (simp add: js_rem_nonneg in_range_def)
  ultimately show ?thesis by (simp add: carousel_prev_def carousel_next_def)
qed

lemma carousel_shrink_crashes:
  "car_current st = int (length bs) \<Longrightarrow> bs \<noteq> [] \<Longrightarrow> carousel_view bs st = BannerCrash"
  by (simp add: carousel_view_def)

lemma route_guard_prefix_overreach:
  "route_guard None ''/mypage'' = GuardRedirect ''/login''"
  "route_guard None ''/chatbot-help'' = GuardRedirect ''/login''"
  by (simp_all add: route_guard_def)

lemma truthy_ids_append [simp]: "truthy_ids (xs @ ys) = truthy_ids xs @ truthy_ids ys"
  by (induction xs rule: truthy_ids.induct) auto

lemma in_enumerate_snd:
  assumes "t \<in> set tids"
  shows "\<exists>i. (i, t) \<in> set (enumerate n tids)"
proof -
  have "t \<in> snd ` set (enumerate n tids)" using assms by (metis list.set_map map_snd_enumerate)
  then show ?thesis by force
qed

subsection \<open>Properties\<close>

lemma js_rem_nonneg_mod: "0 \<le> a \<Longrightarrow> 0 < n \<Longrightarrow> js_rem a n = a mod n"
  by (cases "a = 0") (simp_all add: js_rem_def)

lemma ticks_current:
  assumes n: "1 < n" and p: "\<not> car_paused st" and r: "in_range n st"
  shows "foldl (carousel_step n) st (replicate k Tick) = st\<lparr>car_current := (car_current st + int k) mod n\<rparr>"
proof (induction k)
  case 0
  then show ?case using r by (simp add: in_range_def)
next
  case (Suc k)
  have "replicate (Suc k) Tick = replicate k Tick @ [Tick]" by (simp add: replicate_append_same)
  then show ?case using Suc n p
    by (simp add: carousel_next_def js_rem_nonneg_mod mod_add_right_eq ac_simps)
qed

text \<open>for a fixed list of banners, no sequence of arrow and dot clicks, hovers and
  timer ticks moves the carousel's index out of the list, so the carousel never renders
  \<open>banners[current]\<close> as \<open>undefined\<close>.\<close>

theorem carousel_never_crashes:
  "carousel_view bs (carousel_run (int (length bs)) evs) \<noteq> BannerCrash"
proof (cases "bs = []")
  case False
  then have "in_range (int (length bs)) (carousel_run (int (length bs)) evs)" by (simp add: in_range_run)
  then show ?thesis using False by (simp add: carousel_view_def in_range_def Let_def)
qed (simp add: carousel_view_def)

text \<open>C38: the admin's tag sync and the public tag search agree: after \<open>syncTags\<close> links a
  course to a list of existing tags, the search page for a tag constant whose name one of
  those tags carries lists the course.\<close>

lemma search_finds_synced_course:
  assumes tg: "tg \<in> set (tags db)" "tg_id tg \<in> set tids" "tg_name tg = tag_const_name consts tid"
    and ok: "list_all (\<lambda>t. t \<in> tg_id ` set (tags db)) tids" and tid: "tid \<noteq> []"
    and c: "c \<in> set (courses db)" "c_id c \<noteq> []"
  shows "c \<in> set (sv_courses (search_page consts (Some tid) (sync_tags KCourse tids (c_id c) new_ids (False, False) db)))"
proof -
  let ?db = "sync_tags KCourse tids (c_id c) new_ids (False, False) db"
  let ?r = "\<lambda>i. tag_link KCourse (c_id c) (new_ids i) (tg_id tg)"
  have ne: "tids \<noteq> []" using tg(2) by auto
  have ct: "content_tags ?db = filter (\<lambda>r. tag_ref KCourse r \<noteq> Some (c_id c)) (content_tags db) @
                                map (\<lambda>(i, t). tag_link KCourse (c_id c) (new_ids i) t) (enumerate 0 tids)"
    using ne ok by (simp add: sync_tags_def Let_def)
  obtain i where i: "(i, tg_id tg) \<in> set (enumerate 0 tids)"
    using in_enumerate_snd [OF tg(2)] by blast
  have "?r i \<in> set (map (\<lambda>(i, t). tag_link KCourse (c_id c) (new_ids i) t) (enumerate 0 tids))"
    using i by force
  then have row: "?r i \<in> set (content_tags ?db)" using ct by simp
  have "list_ex (\<lambda>g. tg_id g = cg_tag_id (?r i) \<and> tg_name g = tag_const_name consts tid) (tags ?db)"
    using tg by (auto simp: list_ex_iff tag_link_def)
  then have "?r i \<in> set (search_rows consts (Some tid) ?db)"
    using row tid by (simp add: search_rows_def)
  then have "Some (c_id c) \<in> set (map cg_course_id (search_rows consts (Some tid) ?db))"
    by (force simp: tag_link_def)
  then have m: "c_id c \<in> set (truthy_ids (map cg_course_id (search_rows consts (Some tid) ?db)))"
    using c(2) by simp
  then have "truthy_ids (map cg_course_id (search_rows consts (Some tid) ?db)) \<noteq> []" by (metis empty_iff list.set(1))
  then show ?thesis using c(1) m by (simp add: search_page_def Let_def fetch_by_ids_def)
qed

theorem search_finds_synced_course_witness:
  "\<lparr>tg_id = ''t1'', tg_name = ''resume''\<rparr> \<in> set (tags ex_search_db) \<and>
   ex_course ''a'' 4 \<in> set (sv_courses (search_page [(''resume'', ''resume'')] (Some ''resume'')
     (sync_tags KCourse [''t1''] (c_id (ex_course ''a'' 4)) (\<lambda>_. ''l1'') (False, False) ex_search_db)))"
proof -
  have a: "\<lparr>tg_id = ''t1'', tg_name = ''resume''\<rparr> \<in> set (tags ex_search_db)" by (simp add: ex_search_db_def empty_db_def)
  have b: "tg_id \<lparr>tg_id = ''t1'', tg_name = ''resume''\<rparr> \<in> set [''t1'']" by simp
  have c: "tg_name \<lparr>tg_id = ''t1'', tg_name = ''resume''\<rparr> = tag_const_name [(''resume'', ''resume'')] ''resume''"
    by (simp add: tag_const_name_def)
  have d: "list_all (\<lambda>t. t \<in> tg_id ` set (tags ex_search_db)) [''t1'']" by (simp add: ex_search_db_def empty_db_def)
  have e: "ex_course ''a'' 4 \<in> set (courses ex_search_db)" by (simp add: ex_search_db_def empty_db_def)
  have f: "c_id (ex_course ''a'' 4) \<noteq> []" by (simp add: ex_course_def)
  show ?thesis using a search_finds_synced_course [OF a b c d _ e f, of "\<lambda>_. ''l1''"] by simp
qed

text \<open>C37: autoplay reaches every banner: from any state the events leave behind, with two
  or more banners and the mouse outside, every banner is shown within as many timer ticks
  as there are banners.\<close>

theorem autoplay_shows_every_banner:
  assumes n: "1 < n" and p: "\<not> car_paused (carousel_run n evs)" and i: "0 \<le> i" "i < n"
  shows "\<exists>k < nat n. car_current (foldl (carousel_step n) (carousel_run n evs) (replicate k Tick)) = i"
proof -
  let ?st = "carousel_run n evs"
  have r: "in_range n ?st" using n by (simp add: in_range_run)
  let ?k = "nat ((i - car_current ?st) mod n)"
  have k: "?k < nat n" using n by simp
  have e: "(car_current ?st + int ?k) mod n = i"
    using n i by (simp add: mod_add_right_eq)
  have "car_current (foldl (carousel_step n) ?st (replicate ?k Tick)) = i"
    using e by (simp only: ticks_current [OF n p r]) simp
  with k show ?thesis by blast
qed

theorem autoplay_shows_every_banner_witness:
  "\<exists>k < nat 3. car_current (foldl (carousel_step 3) (carousel_run 3 []) (replicate k Tick)) = 2"
  using autoplay_shows_every_banner [of 3 "[]" 2] by (simp add: carousel_run_def init_carousel_def)

end
