(* ===== verification/MyPages.thy ===== *)
theory MyPages
  imports Enrollment Reactions Catalogue
begin

text \<open>
  The signed-in user's pages: \<open>MyPage\<close> (\<open>src/app/(main)/my/page.tsx\<close>) with the
  profile name and the two counters, and \<open>BookmarksPage\<close>
  (\<open>src/app/(main)/my/bookmarks/page.tsx\<close>) with the bookmarked contents and courses.
  \<open>requireAuth\<close> sends a signed-out user to the login page (\<open>auth_page\<close>); the user is
  given by id and e-mail. Newest first is the reverse of insertion order. Also the user
  sign-in and sign-up pages (\<open>src/app/(auth)/login/page.tsx\<close>,
  \<open>src/app/(auth)/signup/page.tsx\<close>), whose calls to the authentication service are
  modelled by their outcome.
\<close>

record my_view =
  mv_name :: "string option"
  mv_email :: string
  mv_enrolled :: nat
  mv_bookmarked :: nat

text \<open>Lines 7--32 and the name shown at line 44 (\<open>profile?.name || placeholder\<close>):
  the profile by \<open>.single()\<close>, the non-canceled enrolments and the bookmarks counted with
  \<open>count: 'exact'\<close>.\<close>

definition my_page :: "(uuid \<times> string) option \<Rightarrow> db \<Rightarrow> my_view auth_page" where
  "my_page user db =
     (case user of
        None \<Rightarrow> AuthRedirectLogin
      | Some (uid, email) \<Rightarrow>
          AuthPage \<lparr>mv_name = (case single_data (filter (\<lambda>p. pf_id p = uid) (profiles db)) of
                                Some p \<Rightarrow> (case pf_name p of Some n \<Rightarrow> if n \<noteq> [] then Some n else None | None \<Rightarrow> None)
                              | None \<Rightarrow> None),
                    mv_email = email,
                    mv_enrolled = length (filter (\<lambda>e. en_user_id e = uid \<and> en_status e \<noteq> Canceled) (enrollments db)),
                    mv_bookmarked = length (filter (\<lambda>b. bm_user_id b = uid) (bookmarks db))\<rparr>)"

text \<open>The user's bookmarks of one type, newest first (lines 11--24).\<close>

definition user_bookmarks :: "uuid \<Rightarrow> bookmark_type \<Rightarrow> db \<Rightarrow> bookmark list" where
  "user_bookmarks uid k db = rev (filter (\<lambda>b. bm_user_id b = uid \<and> bm_content_type b = k) (bookmarks db))"

text \<open>The embedded row \<open>content:contents(*)\<close> or \<open>course:courses(*)\<close>: the row the foreign key
  names, \<open>null\<close> when there is none; a bookmark whose row is \<open>null\<close> is skipped (lines 60
  and 89).\<close>

definition bookmarked_contents :: "uuid \<Rightarrow> db \<Rightarrow> content list" where
  "bookmarked_contents uid db =
     List.map_filter (\<lambda>b. Option.bind (bm_content_id b) (\<lambda>i. find (\<lambda>c. ct_id c = i) (contents db)))
       (user_bookmarks uid BmContent db)"

definition bookmarked_courses :: "uuid \<Rightarrow> db \<Rightarrow> course list" where
  "bookmarked_courses uid db =
     List.map_filter (\<lambda>b. Option.bind (bm_course_id b) (\<lambda>i. find (\<lambda>c. c_id c = i) (courses db)))
       (user_bookmarks uid BmCourse db)"

datatype bookmarks_view = NoBookmarks | BookmarkLists "content list" "course list"

text \<open>Lines 26--107: the empty state is decided on the bookmark rows, before the rows
  without a target are skipped.\<close>

definition bookmarks_page :: "uuid option \<Rightarrow> db \<Rightarrow> bookmarks_view auth_page" where
  "bookmarks_page user db =
     (case user of
        None \<Rightarrow> AuthRedirectLogin
      | Some uid \<Rightarrow>
          AuthPage (if user_bookmarks uid BmContent db = [] \<and> user_bookmarks uid BmCourse db = [] then NoBookmarks
                    else BookmarkLists (bookmarked_contents uid db) (bookmarked_courses uid db)))"

subsection \<open>Sign-in and sign-up pages\<close>

datatype user_auth_error = BadCredentials | PasswordTooShort | SignupFailed

record auth_form_ui =
  af_loading :: bool
  af_error :: "user_auth_error option"

text \<open>\<open>handleLogin\<close>, lines 15--33: \<open>ok\<close> is the outcome of \<open>signInWithPassword\<close>; on
  success the page navigates home and stays in its loading state.\<close>

definition handle_user_login :: "bool \<Rightarrow> auth_form_ui \<Rightarrow> auth_form_ui \<times> string option" where
  "handle_user_login ok ui =
     (let ui1 = ui\<lparr>af_loading := True, af_error := None\<rparr> in
      if ok then (ui1, Some ''/'') else (ui1\<lparr>af_error := Some BadCredentials, af_loading := False\<rparr>, None))"

text \<open>\<open>handleSignup\<close>, lines 16--43: the length check before the call (\<open>password.length\<close>
  counts characters), then \<open>signUp\<close> with outcome \<open>ok\<close>.\<close>

definition handle_user_signup :: "string \<Rightarrow> bool \<Rightarrow> auth_form_ui \<Rightarrow> auth_form_ui \<times> string option" where
  "handle_user_signup password ok ui =
     (let ui1 = ui\<lparr>af_loading := True, af_error := None\<rparr> in
      if length password < 6 then (ui1\<lparr>af_error := Some PasswordTooShort, af_loading := False\<rparr>, None)
      else if ok then (ui1, Some ''/'')
      else (ui1\<lparr>af_error := Some SignupFailed, af_loading := False\<rparr>, None))"

subsection \<open>Lemmas\<close>

text \<open>A content bookmarked with \<open>toggleBookmark\<close> heads the bookmarks page; the my page
  counts the two active enrolments the re-enrolment path of \<open>enrollCourse\<close> creates
  (\<open>Enrollment.enroll_guard_bypassed\<close>); the sign-in and sign-up pages leave their loading
  state exactly when they stay on the page with an error.\<close>

lemma find_key_distinct:
  "distinct (map h xs) \<Longrightarrow> x \<in> set xs \<Longrightarrow> find (\<lambda>y. h y = h x) xs = Some x"
  by (induction xs) (auto simp: image_iff)

lemma bookmark_toggle_listed:
  assumes c: "c \<in> set (contents db)" "distinct (map ct_id (contents db))"
    and none: "bookmark_rows uid BmContent (ct_id c) (bookmarks db) = []"
  shows "hd (bookmarked_contents uid (snd (toggle_bookmark (Some uid) (ct_id c) BmContent bid (\<lambda>_. False) db))) = c \<and>
         bookmarks_page (Some uid) (snd (toggle_bookmark (Some uid) (ct_id c) BmContent bid (\<lambda>_. False) db)) \<noteq> AuthPage NoBookmarks"
proof -
  have t: "snd (toggle_bookmark (Some uid) (ct_id c) BmContent bid (\<lambda>_. False) db) =
           db\<lparr>bookmarks := bookmarks db @ [new_bookmark bid uid BmContent (ct_id c)]\<rparr>"
    using none by (simp add: toggle_bookmark_def single_data_def)
  have f: "find (\<lambda>x. ct_id x = ct_id c) (contents db) = Some c" using find_key_distinct [OF c(2) c(1)] .
  show ?thesis using f
    by (simp add: t bookmarked_contents_def user_bookmarks_def bookmarks_page_def new_bookmark_def List.map_filter_def)
qed

lemma my_page_counts_double_enrollment:
  "my_page (Some (''u'', ''u@x'')) (snd (enroll_course (Some ''u'') ''c1'' ''n3'' (\<lambda>_. False) ex_trace_db)) =
   AuthPage \<lparr>mv_name = None, mv_email = ''u@x'', mv_enrolled = 2, mv_bookmarked = 0\<rparr>"
  by (simp add: my_page_def ex_trace_db_eq ex_course_def enroll_course_def enroll_check_def enroll_commit_def course_row_def
      set_course_count_def user_course_rows_def single_data_def empty_db_def)

lemma handle_user_signup_short:
  "length password < 6 \<Longrightarrow> handle_user_signup password ok ui = (ui\<lparr>af_loading := False, af_error := Some PasswordTooShort\<rparr>, None)"
  by (simp add: handle_user_signup_def)

lemma auth_pages_error_clears_loading:
  "snd (handle_user_login ok ui) = None \<Longrightarrow> \<not> af_loading (fst (handle_user_login ok ui)) \<and> af_error (fst (handle_user_login ok ui)) \<noteq> None"
  "snd (handle_user_signup pw ok ui) = None \<Longrightarrow> \<not> af_loading (fst (handle_user_signup pw ok ui)) \<and> af_error (fst (handle_user_signup pw ok ui)) \<noteq> None"
  by (auto simp: handle_user_login_def handle_user_signup_def Let_def split: if_splits)

text \<open>\<open>deleteContent\<close> removes the content row and leaves its bookmarks: a user whose only
  bookmark pointed at it gets a page with neither the empty state nor any item.\<close>

lemma deleted_bookmark_target_blank:
  assumes c: "c \<in> set (contents db)" "distinct (map ct_id (contents db))"
    and empty: "user_bookmarks uid BmContent db = []" "user_bookmarks uid BmCourse db = []"
    and adm: "require_admin adm db = Inr r"
    and del: "delete_content adm (ct_id c) False (snd (toggle_bookmark (Some uid) (ct_id c) BmContent bid (\<lambda>_. False) db)) = Inr db'"
  shows "bookmarks_page (Some uid) db' = AuthPage (BookmarkLists [] [])"
proof -
  have none: "bookmark_rows uid BmContent (ct_id c) (bookmarks db) = []"
    using empty(1) by (auto simp: bookmark_rows_def user_bookmarks_def bookmark_target_def filter_empty_conv)
  have t: "snd (toggle_bookmark (Some uid) (ct_id c) BmContent bid (\<lambda>_. False) db) =
           db\<lparr>bookmarks := bookmarks db @ [new_bookmark bid uid BmContent (ct_id c)]\<rparr>"
    using none by (simp add: toggle_bookmark_def single_data_def)
  have ra: "require_admin adm (db\<lparr>bookmarks := bookmarks db @ [new_bookmark bid uid BmContent (ct_id c)]\<rparr>) = Inr r"
    using adm require_admin_cong [of "db\<lparr>bookmarks := bookmarks db @ [new_bookmark bid uid BmContent (ct_id c)]\<rparr>" db adm] by simp
  have d: "db' = db\<lparr>bookmarks := bookmarks db @ [new_bookmark bid uid BmContent (ct_id c)],
                    contents := filter (\<lambda>x. ct_id x \<noteq> ct_id c) (contents db)\<rparr>"
    using del ra by (simp add: t delete_content_def)
  have fn: "find (\<lambda>x. ct_id x = ct_id c) (filter (\<lambda>x. ct_id x \<noteq> ct_id c) (contents db)) = None"
    by (simp add: find_None_iff)
  show ?thesis using empty fn
    by (simp add: d bookmarks_page_def bookmarked_contents_def bookmarked_courses_def user_bookmarks_def
                  new_bookmark_def List.map_filter_def)
qed

end
