(* ===== verification/ProfileSettings.thy ===== *)
theory ProfileSettings
  imports AdminSystem MyPages
begin

text \<open>
  The user's own profile columns: the server action \<open>updateProfile\<close>
  (\<open>src/app/actions/profile.ts\<close>) and the settings page
  (\<open>src/app/(main)/my/settings/page.tsx\<close>), which loads the row on mount and writes it
  from the client on save. The page does not call the action, which has no caller in
  \<open>src/\<close>. Both are modelled: the page as a record of its React state with one function per
  effect and handler, the action as a function of its form and the store. Each store call
  has a fault flag.
\<close>

subsection \<open>\<open>updateProfile\<close>\<close>

text \<open>\<open>.update(g).eq('id', uid)\<close> on the profiles table: every row with that id is rewritten by
  \<open>g\<close>, and no row matching is not an error.\<close>

definition set_profile_cols :: "uuid \<Rightarrow> (profile \<Rightarrow> profile) \<Rightarrow> db \<Rightarrow> db" where
  "set_profile_cols uid g db = db\<lparr>profiles := map (\<lambda>q. if pf_id q = uid then g q else q) (profiles db)\<rparr>"

record profile_form =
  pfm_name :: string
  pfm_target_job :: "string option"
  pfm_preparation_stage :: "string option"
  pfm_interests :: "string list option"

datatype profile_result = ProfileNeedLogin | ProfileUpdateFailed | ProfileUpdated

text \<open>Lines 6--36. \<open>interests: formData.interests || []\<close>: an omitted list writes the empty one
  (an empty array is truthy, so a given list is written as it is).\<close>

definition update_profile :: "uuid option \<Rightarrow> profile_form \<Rightarrow> bool \<Rightarrow> db \<Rightarrow> profile_result \<times> db" where
  "update_profile user fd fails db =
     (case user of
        None \<Rightarrow> (ProfileNeedLogin, db)
      | Some uid \<Rightarrow>
          if fails then (ProfileUpdateFailed, db)
          else (ProfileUpdated,
                set_profile_cols uid
                  (\<lambda>q. q\<lparr>pf_name := Some (pfm_name fd), pf_target_job := pfm_target_job fd,
                         pf_preparation_stage := pfm_preparation_stage fd,
                         pf_interests := (case pfm_interests fd of None \<Rightarrow> [] | Some xs \<Rightarrow> xs)\<rparr>) db))"

subsection \<open>The settings page\<close>

record settings_ui =
  st_name :: string
  st_target_job :: string
  st_stage :: string
  st_loading :: bool
  st_saved :: bool

definition init_settings :: settings_ui where
  "init_settings = \<lparr>st_name = [], st_target_job = [], st_stage = [], st_loading = False, st_saved = False\<rparr>"

text \<open>The mount effect, lines 16--35: the row by \<open>.single()\<close>; a missing user, a failed read or
  no single row leave the fields as they are; \<open>data.name || ''\<close> and the like.\<close>

definition settings_fetch :: "uuid option \<Rightarrow> bool \<Rightarrow> db \<Rightarrow> settings_ui \<Rightarrow> settings_ui" where
  "settings_fetch user fails db ui =
     (case user of
        None \<Rightarrow> ui
      | Some uid \<Rightarrow>
          (case (if fails then None else profile_row db uid) of
             None \<Rightarrow> ui
           | Some p \<Rightarrow> ui\<lparr>st_name := or_default (pf_name p) [],
                          st_target_job := or_default (pf_target_job p) [],
                          st_stage := or_default (pf_preparation_stage p) []\<rparr>))"

text \<open>\<open>handleSave\<close>, lines 37--59: the loading state is set before the user is read, and a
  missing user returns without clearing it; the update's error is not read, so the page
  reports the save either way.\<close>

definition settings_save :: "uuid option \<Rightarrow> bool \<Rightarrow> db \<Rightarrow> settings_ui \<Rightarrow> settings_ui \<times> db" where
  "settings_save user fails db ui =
     (let ui1 = ui\<lparr>st_loading := True, st_saved := False\<rparr> in
      case user of
        None \<Rightarrow> (ui1, db)
      | Some uid \<Rightarrow>
          (ui1\<lparr>st_loading := False, st_saved := True\<rparr>,
           if fails then db
           else set_profile_cols uid
                  (\<lambda>q. q\<lparr>pf_name := Some (st_name ui), pf_target_job := or_null (Some (st_target_job ui)),
                         pf_preparation_stage := or_null (Some (st_stage ui))\<rparr>) db))"

text \<open>The inputs (lines 77, 88 and 98), the two-second timer that clears the saved flag
  (line 58), and the submit button (lines 110--116): disabled while loading, labelled by
  the two flags.\<close>

datatype settings_event = TypeName string | TypeTargetJob string | PickStage string | SavedTimeout

fun settings_input :: "settings_ui \<Rightarrow> settings_event \<Rightarrow> settings_ui" where
  "settings_input ui (TypeName s) = ui\<lparr>st_name := s\<rparr>"
| "settings_input ui (TypeTargetJob s) = ui\<lparr>st_target_job := s\<rparr>"
| "settings_input ui (PickStage s) = ui\<lparr>st_stage := s\<rparr>"
| "settings_input ui SavedTimeout = ui\<lparr>st_saved := False\<rparr>"

datatype save_label = LabelSaving | LabelSaved | LabelSave

definition settings_button :: "settings_ui \<Rightarrow> bool \<times> save_label" where
  "settings_button ui =
     (st_loading ui, if st_loading ui then LabelSaving else if st_saved ui then LabelSaved else LabelSave)"

subsection \<open>The profile writers together\<close>

text \<open>Every writer of the profiles table: the admin-side operations of \<open>admin_step\<close>, the
  settings page's save and \<open>updateProfile\<close>, under any store faults.\<close>

inductive account_step :: "db \<Rightarrow> db \<Rightarrow> bool" where
  admin: "admin_step db db' \<Longrightarrow> account_step db db'"
| settings: "settings_save user fails db ui = (ui', db') \<Longrightarrow> account_step db db'"
| update: "update_profile user fd fails db = (r, db') \<Longrightarrow> account_step db db'"

definition ex_settings_ui :: settings_ui where
  "ex_settings_ui = init_settings\<lparr>st_name := ''Kim'', st_target_job := [], st_stage := ''job_seeking''\<rparr>"

subsection \<open>Lemmas\<close>

lemma profile_row_set_profile_cols:
  assumes "\<And>q. pf_id (g q) = pf_id q"
  shows "profile_row (set_profile_cols uid g db) v =
           (if v = uid then map_option g (profile_row db v) else profile_row db v)"
proof (cases "v = uid")
  case True
  then show ?thesis unfolding set_profile_cols_def using assms by (simp add: profile_row_map_same)
next
  case False
  then show ?thesis using assms
    by (simp add: set_profile_cols_def profile_row_def filter_map_update_other)
qed

lemma require_admin_set_profile_cols:
  assumes "\<And>q. pf_id (g q) = pf_id q" "\<And>q. pf_admin_role (g q) = pf_admin_role q"
  shows "isl (require_admin user (set_profile_cols uid g db)) = isl (require_admin user db)"
  using assms
  by (auto simp: require_admin_def profile_row_set_profile_cols split: option.splits)

lemma admin_inv_set_profile_cols:
  assumes "admin_inv db" "\<And>q. pf_id (g q) = pf_id q" "\<And>q. pf_admin_role (g q) = pf_admin_role q"
    "\<And>q. pf_is_admin (g q) = pf_is_admin q"
  shows "admin_inv (set_profile_cols uid g db)"
proof -
  have "map pf_id (map (\<lambda>q. if pf_id q = uid then g q else q) (profiles db)) = map pf_id (profiles db)"
    using assms(2) by (induction "profiles db") auto
  then show ?thesis using assms
    by (auto simp: admin_inv_def set_profile_cols_def admin_flags_ok_iff profile_ok_def simp del: map_map)
qed

text \<open>C39: the settings page's save and its load agree: after a fault-free save by a user whose
  profile row exists, the page loaded again shows the name, target job and preparation
  stage as they were typed, the empty ones included (\<open>|| null\<close> on save and \<open>|| ''\<close> on
  load undo each other).\<close>

theorem settings_save_roundtrip:
  assumes "profile_row db uid = Some p"
  shows "settings_fetch (Some uid) False (snd (settings_save (Some uid) False db ui)) ui' =
           ui'\<lparr>st_name := st_name ui, st_target_job := st_target_job ui, st_stage := st_stage ui\<rparr>"
  using assms by (simp add: settings_save_def settings_fetch_def profile_row_set_profile_cols)

lemma settings_save_failure_reported:
  "settings_save (Some uid) True db ui = (ui\<lparr>st_loading := False, st_saved := True\<rparr>, db) \<and>
   settings_button (fst (settings_save (Some uid) True db ui)) = (False, LabelSaved)"
  by (simp add: settings_save_def settings_button_def)

lemma settings_input_loading [simp]: "st_loading (settings_input ui e) = st_loading ui"
  by (cases e) simp_all

lemma settings_save_signed_out_stuck:
  "settings_button (foldl settings_input (fst (settings_save None fl db ui)) evs) = (True, LabelSaving) \<and>
   snd (settings_save None fl db ui) = db"
proof -
  have "st_loading (foldl settings_input ui' evs) = st_loading ui'" for ui'
    by (induction evs arbitrary: ui') simp_all
  then show ?thesis by (simp add: settings_save_def settings_button_def)
qed

lemma settings_save_keeps_admin:
  "isl (require_admin user (snd (settings_save u fl db ui))) = isl (require_admin user db) \<and>
   (admin_inv db \<longrightarrow> admin_inv (snd (settings_save u fl db ui)))"
  by (auto simp: settings_save_def Let_def require_admin_set_profile_cols intro!: admin_inv_set_profile_cols
           split: option.splits)

lemma update_profile_keeps_admin:
  "isl (require_admin user (snd (update_profile u fd fl db))) = isl (require_admin user db) \<and>
   (admin_inv db \<longrightarrow> admin_inv (snd (update_profile u fd fl db)))"
  by (auto simp: update_profile_def require_admin_set_profile_cols intro!: admin_inv_set_profile_cols
           split: option.splits)

lemma update_profile_resets_interests:
  assumes "profile_row db uid = Some p" "pfm_interests fd = None"
  shows "map_option pf_interests (profile_row (snd (update_profile (Some uid) fd False db)) uid) = Some []"
  using assms by (simp add: update_profile_def profile_row_set_profile_cols)

lemma settings_save_my_page_name:
  assumes "profile_row db uid = Some p"
  shows "map_auth_page mv_name (my_page (Some (uid, e)) (snd (settings_save (Some uid) False db ui))) =
           AuthPage (if st_name ui = [] then None else Some (st_name ui))"
  unfolding my_page_def profile_row_def [symmetric]
  using assms by (simp add: settings_save_def profile_row_set_profile_cols)

lemma account_inv_step: "account_step db db' \<Longrightarrow> admin_inv db \<Longrightarrow> admin_inv db'"
proof (induction rule: account_step.induct)
  case (admin db db')
  then show ?case by (rule admin_inv_step)
next
  case (settings user fails db ui ui' db')
  then show ?case using settings_save_keeps_admin [of _ user fails db ui] by simp
next
  case (update user fd fails db r db')
  then show ?case using update_profile_keeps_admin [of _ user fd fails db] by simp
qed

text \<open>C16: the admin invariant of \<open>AdminSystem\<close> holds across every writer of the profiles table:
  the admin-side operations together with the users' own profile writes (the settings
  page and \<open>updateProfile\<close>), under any store faults, keep overrides well formed, admin
  flags agreeing with roles and profile ids distinct.\<close>

theorem account_inv_reachable: "account_step\<^sup>*\<^sup>* db db' \<Longrightarrow> admin_inv db \<Longrightarrow> admin_inv db'"
  by (induction rule: rtranclp_induct) (auto intro: account_inv_step)

theorem account_inv_reachable_witness:
  "account_step\<^sup>*\<^sup>* ex_admin_db (snd (settings_save (Some ''u3'') False ex_admin_db ex_settings_ui)) \<and>
   admin_inv ex_admin_db \<and> admin_inv (snd (settings_save (Some ''u3'') False ex_admin_db ex_settings_ui))"
proof -
  have s: "account_step\<^sup>*\<^sup>* ex_admin_db (snd (settings_save (Some ''u3'') False ex_admin_db ex_settings_ui))"
    by (rule r_into_rtranclp, rule account_step.settings [where ui' = "fst (settings_save (Some ''u3'') False ex_admin_db ex_settings_ui)"]) simp
  show ?thesis using account_inv_reachable [OF s admin_inv_ex_admin_db] s admin_inv_ex_admin_db by blast
qed

theorem settings_save_roundtrip_witness:
  "profile_row ex_admin_db ''u3'' = Some (ex_profile ''u3'' (Some Pending)) \<and>
   settings_fetch (Some ''u3'') False (snd (settings_save (Some ''u3'') False ex_admin_db ex_settings_ui)) init_settings =
     init_settings\<lparr>st_name := ''Kim'', st_target_job := [], st_stage := ''job_seeking''\<rparr>"
proof -
  have r: "profile_row ex_admin_db ''u3'' = Some (ex_profile ''u3'' (Some Pending))" by (simp add: admin_eval)
  show ?thesis using settings_save_roundtrip [OF r, of ex_settings_ui init_settings] r
    by (simp add: ex_settings_ui_def init_settings_def)
qed

end
