(* ===== verification/AdminForms.thy ===== *)
theory AdminForms
  imports Catalogue Enrollment
begin

text \<open>
  The admin editors as the browser sees them. \<open>JobForm\<close>, \<open>ContentForm\<close>, \<open>CourseForm\<close>,
  \<open>BannerForm\<close> (\<open>src/components/admin/\<close>) and the \<open>ImageUploader\<close> they embed. A form is its named
  controls in document order, each with the value the browser holds for it, plus the
  React state behind its hidden inputs. Submitting collects every named control in
  document order, as \<open>FormData\<close> does. The browser first checks the controls'
  constraints (\<open>required\<close>, \<open>type="url"\<close>) and submits nothing when one fails. The
  rich editor is third-party: its hidden input carries the HTML it renders for its
  content, a parameter \<open>html\<close> of the forms.
\<close>

subsection \<open>Controls\<close>

text \<open>The kinds of named control the forms use, with their \<open>required\<close> attribute. A date or
  number input holds its sanitised value (\<open>''\<close> for what does not parse). A select holds one
  of its options.\<close>

datatype control =
    CText bool | CUrl bool | CDate bool | CNumber "(real \<times> real) option" | CSelect "string list" bool

type_synonym controls = "(string \<times> control) list"

text \<open>Value sanitisation of a number input: a typed text that is not a floating-point number
  (digits, a point, a sign, an exponent) becomes the empty value.\<close>

definition sanitize_number :: "string \<Rightarrow> string" where
  "sanitize_number v =
     (if set v \<subseteq> set ''0123456789.-+eE'' \<and> (case parse_float (Some v) of Some (JFinite _) \<Rightarrow> True | _ \<Rightarrow> False)
      then v else [])"

text \<open>An uncontrolled select shows the option equal to its \<open>defaultValue\<close>, or its first option
  when there is none.\<close>

definition select_value :: "string list \<Rightarrow> string \<Rightarrow> string" where
  "select_value opts dv = (if dv \<in> set opts then dv else hd opts)"

text \<open>Constraint validation on submit; \<open>url_ok\<close> is the browser's test of a valid URL.\<close>

fun control_ok :: "(string \<Rightarrow> bool) \<Rightarrow> control \<Rightarrow> string \<Rightarrow> bool" where
  "control_ok url_ok (CText r) v = (\<not> r \<or> v \<noteq> [])"
| "control_ok url_ok (CUrl r) v = (if v = [] then \<not> r else url_ok v)"
| "control_ok url_ok (CDate r) v = (\<not> r \<or> v \<noteq> [])"
| "control_ok url_ok (CNumber rng) v =
     (v = [] \<or> (case rng of None \<Rightarrow> True
                | Some (lo, hi) \<Rightarrow> (case parse_float (Some v) of Some (JFinite x) \<Rightarrow> lo \<le> x \<and> x \<le> hi | _ \<Rightarrow> False)))"
| "control_ok url_ok (CSelect opts r) v = (\<not> r \<or> v \<noteq> [])"

definition dom_valid :: "(string \<Rightarrow> bool) \<Rightarrow> controls \<Rightarrow> form \<Rightarrow> bool" where
  "dom_valid url_ok cs vals \<longleftrightarrow>
     list_all (\<lambda>(n, c). case map_of vals n of Some v \<Rightarrow> control_ok url_ok c v | None \<Rightarrow> False) cs"

text \<open>What the user does to the named controls: type into an input, or pick an option.\<close>

datatype dom_event = TypeIn string string | PickOption string nat

fun dom_step :: "controls \<Rightarrow> form \<Rightarrow> dom_event \<Rightarrow> form" where
  "dom_step cs vals (TypeIn n v) =
     (case map_of cs n of
        Some (CSelect _ _) \<Rightarrow> vals
      | Some (CNumber _) \<Rightarrow> AList.update n (sanitize_number v) vals
      | Some _ \<Rightarrow> AList.update n v vals
      | None \<Rightarrow> vals)"
| "dom_step cs vals (PickOption n i) =
     (case map_of cs n of
        Some (CSelect opts _) \<Rightarrow> if i < length opts then AList.update n (opts ! i) vals else vals
      | _ \<Rightarrow> vals)"

subsection \<open>\<open>ImageUploader\<close>\<close>

record uploader =
  iu_url :: string
  iu_uploading :: bool
  iu_drag :: bool

definition uploader_init :: "string option \<Rightarrow> uploader" where
  "uploader_init cur = \<lparr>iu_url = or_default cur [], iu_uploading = False, iu_drag = False\<rparr>"

record upload_file =
  uf_name :: string
  uf_type :: string
  uf_size :: nat

text \<open>\<open>file.name.split('.').pop()\<close>: the text after the last dot, the whole name when there is
  none.\<close>

definition file_ext :: "string \<Rightarrow> string" where
  "file_ext nm = last (js_split CHR ''.'' nm)"

text \<open>The storage path (line 46): the folder, a stamp of \<open>Date.now()\<close> and a random suffix, and
  the extension.\<close>

definition upload_path :: "string \<Rightarrow> string \<Rightarrow> string \<Rightarrow> string" where
  "upload_path folder stamp nm = folder @ ''/'' @ stamp @ ''.'' @ file_ext nm"

datatype upload_outcome = NotImage | TooLarge | UploadFailed | ImageSet string

text \<open>\<open>uploadFile\<close>, lines 29--73, run to its end: the two checks (an alert and no change),
  then the storage upload (\<open>fails\<close>); on success the hidden value becomes the file's public
  URL (\<open>public_url\<close>, the storage client's URL of a path), which \<open>onImageChange\<close> receives.\<close>

definition upload :: "(string \<Rightarrow> string) \<Rightarrow> string \<Rightarrow> string \<Rightarrow> bool \<Rightarrow> upload_file \<Rightarrow> uploader
    \<Rightarrow> uploader \<times> upload_outcome" where
  "upload public_url folder stamp fails f u =
     (if \<not> prefix ''image/'' (uf_type f) then (u, NotImage)
      else if 5 * 1024 * 1024 < uf_size f then (u, TooLarge)
      else if fails then (u\<lparr>iu_uploading := False\<rparr>, UploadFailed)
      else (let p = upload_path folder stamp (uf_name f)
            in (u\<lparr>iu_url := public_url p, iu_uploading := False\<rparr>, ImageSet (public_url p))))"

datatype uploader_event =
    PickFile "upload_file option" string bool
  | DropFile "upload_file option" string bool
  | DragOver
  | DragLeave
  | RemoveImage

text \<open>The handlers, lines 75--93 and the drop zone (lines 128--131): a picked or dropped file
  is uploaded with its stamp and outcome; the remove button clears the value.\<close>

fun uploader_step :: "(string \<Rightarrow> string) \<Rightarrow> string \<Rightarrow> uploader \<Rightarrow> uploader_event \<Rightarrow> uploader \<times> upload_outcome option" where
  "uploader_step pu folder u (PickFile f stamp fl) =
     (case f of None \<Rightarrow> (u, None) | Some x \<Rightarrow> map_prod id Some (upload pu folder stamp fl x u))"
| "uploader_step pu folder u (DropFile f stamp fl) =
     (let u1 = u\<lparr>iu_drag := False\<rparr> in
      case f of None \<Rightarrow> (u1, None) | Some x \<Rightarrow> map_prod id Some (upload pu folder stamp fl x u1))"
| "uploader_step pu folder u DragOver = (u\<lparr>iu_drag := True\<rparr>, None)"
| "uploader_step pu folder u DragLeave = (u\<lparr>iu_drag := False\<rparr>, None)"
| "uploader_step pu folder u RemoveImage = (u\<lparr>iu_url := []\<rparr>, Some (ImageSet []))"

subsection \<open>\<open>JobForm\<close>\<close>

text \<open>\<open>JOB_TYPES\<close> of \<open>src/lib/constants.ts\<close>, and the id of a stored type.\<close>

definition job_type_ids :: "string list" where
  "job_type_ids = [''newgrad'', ''intern'', ''experienced'']"

fun job_type_id :: "job_type \<Rightarrow> string" where
  "job_type_id Newgrad = ''newgrad''"
| "job_type_id Intern = ''intern''"
| "job_type_id Experienced = ''experienced''"

text \<open>The named controls of lines 43--121, in document order.\<close>

definition job_controls :: controls where
  "job_controls =
     [(''company_name'', CText True), (''job_type'', CSelect job_type_ids True), (''title'', CText True),
      (''location'', CText False), (''deadline'', CDate True), (''url'', CUrl False),
      (''source'', CText False), (''legacy_tags'', CText False)]"

record job_form =
  jf_tags :: "string list"
  jf_active :: bool
  jf_image :: uploader
  jf_dom :: form
  jf_html :: string

text \<open>The form as it opens (lines 19--21 and the \<open>defaultValue\<close>s): for a new job, or seeded
  from a stored one.\<close>

definition job_form_init :: "(string \<Rightarrow> string) \<Rightarrow> job_posting option \<Rightarrow> string list \<Rightarrow> job_form" where
  "job_form_init html j tids =
     \<lparr>jf_tags = tids,
      jf_active = (case j of Some x \<Rightarrow> j_is_active x | None \<Rightarrow> True),
      jf_image = uploader_init (Option.bind j j_thumbnail_url),
      jf_dom =
        (case j of
           None \<Rightarrow> [(''company_name'', []), (''job_type'', ''newgrad''), (''title'', []), (''location'', []),
                    (''deadline'', []), (''url'', []), (''source'', []), (''legacy_tags'', [])]
         | Some x \<Rightarrow>
             [(''company_name'', j_company_name x), (''job_type'', select_value job_type_ids (job_type_id (j_job_type x))),
              (''title'', j_title x), (''location'', or_default (j_location x) []), (''deadline'', j_deadline x),
              (''url'', or_default (j_url x) []), (''source'', or_default (j_source x) []),
              (''legacy_tags'', or_default (Some (js_join CHR '','' (j_tags x))) [])]),
      jf_html = html (case j of Some x \<Rightarrow> or_default (j_description x) [] | None \<Rightarrow> [])\<rparr>"

text \<open>The FormData of a submission: the two hidden inputs (lines 25--26), the uploader's
  (line 30), the named controls, the editor's (line 140).\<close>

definition job_form_data :: "job_form \<Rightarrow> form" where
  "job_form_data f =
     [(''tag_ids'', tag_ids_field (jf_tags f)), (''is_active'', js_string_of_bool (jf_active f)),
      (''thumbnail_url'', iu_url (jf_image f))] @ jf_dom f @ [(''description'', jf_html f)]"

definition job_form_submit :: "(string \<Rightarrow> bool) \<Rightarrow> job_form \<Rightarrow> form option" where
  "job_form_submit url_ok f = (if dom_valid url_ok job_controls (jf_dom f) then Some (job_form_data f) else None)"

datatype job_form_event =
    JobDom dom_event | JobActive bool | JobTags "string list" | JobEditor string
  | JobImage uploader_event

text \<open>The checkbox (line 128), \<open>TagSelector\<close>'s \<open>onChange\<close> (line 154), the editor's content and
  the uploader (folder \<open>jobs\<close>).\<close>

fun job_form_step :: "(string \<Rightarrow> string) \<Rightarrow> job_form \<Rightarrow> job_form_event \<Rightarrow> job_form" where
  "job_form_step pu f (JobDom e) = f\<lparr>jf_dom := dom_step job_controls (jf_dom f) e\<rparr>"
| "job_form_step pu f (JobActive b) = f\<lparr>jf_active := b\<rparr>"
| "job_form_step pu f (JobTags ts) = f\<lparr>jf_tags := ts\<rparr>"
| "job_form_step pu f (JobEditor h) = f\<lparr>jf_html := h\<rparr>"
| "job_form_step pu f (JobImage e) = f\<lparr>jf_image := fst (uploader_step pu ''jobs'' (jf_image f) e)\<rparr>"

subsection \<open>\<open>ContentForm\<close>\<close>

text \<open>\<open>CONTENT_CATEGORIES\<close> of \<open>src/lib/constants.ts\<close>, by id.\<close>

definition content_category_ids :: "string list" where
  "content_category_ids = [''success_story'', ''interview_questions'', ''resume_review'', ''industry_analysis'',
     ''trend_report'']"

definition content_controls :: controls where
  "content_controls =
     [(''title'', CText True), (''summary'', CText True), (''category'', CSelect content_category_ids True),
      (''legacy_tags'', CText False), (''author_name'', CText True), (''author_title'', CText False)]"

record content_form =
  cf_tags :: "string list"
  cf_featured :: bool
  cf_image :: uploader
  cf_dom :: form
  cf_html :: string

definition content_form_init :: "(string \<Rightarrow> string) \<Rightarrow> content option \<Rightarrow> string list \<Rightarrow> content_form" where
  "content_form_init html c tids =
     \<lparr>cf_tags = tids,
      cf_featured = (case c of Some x \<Rightarrow> ct_is_featured x | None \<Rightarrow> False),
      cf_image = uploader_init (Option.bind c ct_thumbnail_url),
      cf_dom =
        (case c of
           None \<Rightarrow> [(''title'', []), (''summary'', []), (''category'', select_value content_category_ids []),
                    (''legacy_tags'', []), (''author_name'', []), (''author_title'', [])]
         | Some x \<Rightarrow>
             [(''title'', ct_title x), (''summary'', ct_summary x),
              (''category'', select_value content_category_ids (ct_category x)),
              (''legacy_tags'', or_default (Some (js_join CHR '','' (ct_tags x))) []),
              (''author_name'', ct_author_name x), (''author_title'', or_default (ct_author_title x) [])]),
      cf_html = html (case c of Some x \<Rightarrow> ct_body x | None \<Rightarrow> [])\<rparr>"

definition content_form_data :: "content_form \<Rightarrow> form" where
  "content_form_data f =
     [(''tag_ids'', tag_ids_field (cf_tags f)), (''is_featured'', js_string_of_bool (cf_featured f)),
      (''thumbnail_url'', iu_url (cf_image f))] @ cf_dom f @ [(''body'', cf_html f)]"

definition content_form_submit :: "(string \<Rightarrow> bool) \<Rightarrow> content_form \<Rightarrow> form option" where
  "content_form_submit url_ok f =
     (if dom_valid url_ok content_controls (cf_dom f) then Some (content_form_data f) else None)"

datatype content_form_event =
    ContentDom dom_event | ContentFeatured bool | ContentTags "string list" | ContentEditor string
  | ContentImage uploader_event

fun content_form_step :: "(string \<Rightarrow> string) \<Rightarrow> content_form \<Rightarrow> content_form_event \<Rightarrow> content_form" where
  "content_form_step pu f (ContentDom e) = f\<lparr>cf_dom := dom_step content_controls (cf_dom f) e\<rparr>"
| "content_form_step pu f (ContentFeatured b) = f\<lparr>cf_featured := b\<rparr>"
| "content_form_step pu f (ContentTags ts) = f\<lparr>cf_tags := ts\<rparr>"
| "content_form_step pu f (ContentEditor h) = f\<lparr>cf_html := h\<rparr>"
| "content_form_step pu f (ContentImage e) = f\<lparr>cf_image := fst (uploader_step pu ''contents'' (cf_image f) e)\<rparr>"

subsection \<open>\<open>CourseForm\<close>\<close>

definition course_category_ids :: "string list" where
  "course_category_ids = [''resume'', ''interview'', ''coding'', ''portfolio'', ''skill'', ''attitude'']"

definition course_status_ids :: "string list" where
  "course_status_ids = [''recruiting'', ''closed'', ''ongoing'', ''finished'']"

fun course_status_id :: "course_status \<Rightarrow> string" where
  "course_status_id Recruiting = ''recruiting''"
| "course_status_id Closed = ''closed''"
| "course_status_id Ongoing = ''ongoing''"
| "course_status_id Finished = ''finished''"

text \<open>The named controls of lines 43--213 in document order, without the two editors'
  hidden inputs; the enrolment count, the rating and the review count are rendered only
  when a course is edited. The rating input has \<open>min="0" max="5"\<close>; its \<open>step\<close> is not
  modelled.\<close>

definition course_controls :: "bool \<Rightarrow> controls" where
  "course_controls editing =
     [(''title'', CText True), (''category'', CSelect course_category_ids True),
      (''status'', CSelect course_status_ids False), (''instructor_name'', CText True),
      (''instructor_title'', CText False), (''max_students'', CNumber None)] @
     (if editing then [(''current_students'', CNumber None)] else []) @
     [(''price'', CNumber None), (''duration_weeks'', CNumber None), (''start_date'', CDate True),
      (''end_date'', CDate True)] @
     (if editing then [(''rating'', CNumber (Some (0, 5))), (''review_count'', CNumber None)] else [])"

record course_form =
  co_editing :: bool
  co_tags :: "string list"
  co_live :: bool
  co_image :: uploader
  co_dom :: form
  co_desc :: string
  co_syllabus :: string

text \<open>The form as it opens. \<open>defaultValue={course?.max_students || 30}\<close> and the like: a
  stored \<open>0\<close> shows the default. \<open>num_str\<close> is JavaScript's \<open>String\<close> of a number, for the
  rating.\<close>

definition course_form_init ::
  "(string \<Rightarrow> string) \<Rightarrow> (real \<Rightarrow> string) \<Rightarrow> course option \<Rightarrow> string list \<Rightarrow> course_form" where
  "course_form_init html num_str c tids =
     \<lparr>co_editing = (c \<noteq> None),
      co_tags = tids,
      co_live = (case c of Some x \<Rightarrow> c_is_live x | None \<Rightarrow> False),
      co_image = uploader_init (Option.bind c c_thumbnail_url),
      co_dom =
        (case c of
           None \<Rightarrow> [(''title'', []), (''category'', select_value course_category_ids []),
                    (''status'', ''recruiting''), (''instructor_name'', []), (''instructor_title'', []),
                    (''max_students'', ''30''), (''price'', ''0''), (''duration_weeks'', ''4''),
                    (''start_date'', []), (''end_date'', [])]
         | Some x \<Rightarrow>
             [(''title'', c_title x), (''category'', select_value course_category_ids (c_category x)),
              (''status'', select_value course_status_ids (course_status_id (c_status x))),
              (''instructor_name'', c_instructor_name x),
              (''instructor_title'', or_default (c_instructor_title x) []),
              (''max_students'', js_string_of_int (if c_max_students x \<noteq> 0 then c_max_students x else 30)),
              (''current_students'', js_string_of_int (c_current_students x)),
              (''price'', js_string_of_int (c_price x)),
              (''duration_weeks'', js_string_of_int (if c_duration_weeks x \<noteq> 0 then c_duration_weeks x else 4)),
              (''start_date'', c_start_date x), (''end_date'', c_end_date x),
              (''rating'', num_str (c_rating x)), (''review_count'', js_string_of_int (c_review_count x))]),
      co_desc = html (case c of Some x \<Rightarrow> c_description x | None \<Rightarrow> []),
      co_syllabus = html (case c of Some x \<Rightarrow> editor_seed (c_syllabus x) | None \<Rightarrow> [])\<rparr>"

text \<open>The FormData of a submission: the hidden inputs (lines 25--26 and 32), the title, the
  category and the status, the description editor's input (line 86), the other controls,
  the curriculum editor's input (line 225).\<close>

definition course_form_data :: "course_form \<Rightarrow> form" where
  "course_form_data f =
     [(''tag_ids'', tag_ids_field (co_tags f)), (''is_live'', js_string_of_bool (co_live f)),
      (''thumbnail_url'', iu_url (co_image f))] @ take 3 (co_dom f) @ [(''description'', co_desc f)] @
     drop 3 (co_dom f) @ [(''syllabus'', co_syllabus f)]"

definition course_form_submit :: "(string \<Rightarrow> bool) \<Rightarrow> course_form \<Rightarrow> form option" where
  "course_form_submit url_ok f =
     (if dom_valid url_ok (course_controls (co_editing f)) (co_dom f) then Some (course_form_data f) else None)"

datatype course_form_event =
    CourseDom dom_event | CourseLive bool | CourseTags "string list" | CourseDescEditor string
  | CourseSyllabusEditor string | CourseImage uploader_event

fun course_form_step :: "(string \<Rightarrow> string) \<Rightarrow> course_form \<Rightarrow> course_form_event \<Rightarrow> course_form" where
  "course_form_step pu f (CourseDom e) = f\<lparr>co_dom := dom_step (course_controls (co_editing f)) (co_dom f) e\<rparr>"
| "course_form_step pu f (CourseLive b) = f\<lparr>co_live := b\<rparr>"
| "course_form_step pu f (CourseTags ts) = f\<lparr>co_tags := ts\<rparr>"
| "course_form_step pu f (CourseDescEditor h) = f\<lparr>co_desc := h\<rparr>"
| "course_form_step pu f (CourseSyllabusEditor h) = f\<lparr>co_syllabus := h\<rparr>"
| "course_form_step pu f (CourseImage e) = f\<lparr>co_image := fst (uploader_step pu ''courses'' (co_image f) e)\<rparr>"

subsection \<open>\<open>BannerForm\<close>\<close>

text \<open>The form's props (lines 8--15): the banner edited, if any, and the ids of the courses,
  contents and jobs its link selects offer.\<close>

record banner_props =
  bp_banner :: "hero_banner option"
  bp_courses :: "uuid list"
  bp_contents :: "uuid list"
  bp_jobs :: "uuid list"

definition link_type_ids :: "string list" where
  "link_type_ids = [''course'', ''content'', ''job'', ''custom'']"

fun link_type_id :: "link_type \<Rightarrow> string" where
  "link_type_id LinkCourse = ''course''"
| "link_type_id LinkContent = ''content''"
| "link_type_id LinkJob = ''job''"
| "link_type_id LinkCustom = ''custom''"

text \<open>The link control rendered for a link type (lines 244--311): a required select whose first
  option is the empty prompt, or a required URL input; and its \<open>defaultValue\<close>.\<close>

definition link_control :: "banner_props \<Rightarrow> string \<Rightarrow> string \<times> control" where
  "link_control bp lt =
     (if lt = ''course'' then (''course_id'', CSelect ([] # bp_courses bp) True)
      else if lt = ''content'' then (''content_id'', CSelect ([] # bp_contents bp) True)
      else if lt = ''job'' then (''job_id'', CSelect ([] # bp_jobs bp) True)
      else (''custom_url'', CUrl True))"

definition link_default :: "banner_props \<Rightarrow> string \<Rightarrow> string" where
  "link_default bp lt =
     (let b = bp_banner bp in
      if lt = ''course'' then select_value ([] # bp_courses bp) (or_default (Option.bind b hb_course_id) [])
      else if lt = ''content'' then select_value ([] # bp_contents bp) (or_default (Option.bind b hb_content_id) [])
      else if lt = ''job'' then select_value ([] # bp_jobs bp) (or_default (Option.bind b hb_job_id) [])
      else or_default (Option.bind b hb_custom_url) [])"

definition banner_controls :: "banner_props \<Rightarrow> string \<Rightarrow> controls" where
  "banner_controls bp lt =
     [(''title'', CText True), (''subtitle'', CText False), (''display_order'', CNumber None), link_control bp lt]"

record banner_form =
  bf_link_type :: string
  bf_active :: bool
  bf_bg :: string
  bf_text :: string
  bf_fx :: int
  bf_fy :: int
  bf_image :: string
  bf_dragging :: bool
  bf_start :: "real \<times> real \<times> int \<times> int"
  bf_uploader :: uploader
  bf_dom :: form

text \<open>The state as the form opens, lines 25--33 and the \<open>defaultValue\<close>s. The focal point
  uses \<open>??\<close>, so a stored \<open>0\<close> is kept.\<close>

definition banner_form_init :: "banner_props \<Rightarrow> banner_form" where
  "banner_form_init bp =
     (let b = bp_banner bp;
          lt = (case b of Some x \<Rightarrow> link_type_id (hb_link_type x) | None \<Rightarrow> ''course'')
      in \<lparr>bf_link_type = lt,
          bf_active = (case b of Some x \<Rightarrow> hb_is_active x | None \<Rightarrow> True),
          bf_bg = (case b of Some x \<Rightarrow> if hb_bg_color x \<noteq> [] then hb_bg_color x else ''#EBF2FF'' | None \<Rightarrow> ''#EBF2FF''),
          bf_text = (case b of Some x \<Rightarrow> if hb_text_color x \<noteq> [] then hb_text_color x else ''#ffffff'' | None \<Rightarrow> ''#ffffff''),
          bf_fx = (case b of Some x \<Rightarrow> hb_focal_x x | None \<Rightarrow> 50),
          bf_fy = (case b of Some x \<Rightarrow> hb_focal_y x | None \<Rightarrow> 50),
          bf_image = or_default (Option.bind b hb_image_url) [],
          bf_dragging = False,
          bf_start = (0, 0, 50, 50),
          bf_uploader = uploader_init (Option.bind b hb_image_url),
          bf_dom = [(''title'', case b of Some x \<Rightarrow> hb_title x | None \<Rightarrow> []),
                    (''subtitle'', or_default (Option.bind b hb_subtitle) []),
                    (''display_order'', js_string_of_int (case b of Some x \<Rightarrow> hb_display_order x | None \<Rightarrow> 0)),
                    (fst (link_control bp lt), link_default bp lt)]\<rparr>)"

text \<open>\<open>handleImageChange\<close>, lines 36--43: the preview takes the new URL, and the focal point
  returns to the centre only when the banner edited had no image.\<close>

definition banner_image_change :: "banner_props \<Rightarrow> string \<Rightarrow> banner_form \<Rightarrow> banner_form" where
  "banner_image_change bp url f =
     (let f1 = f\<lparr>bf_image := url\<rparr> in
      if url \<noteq> [] \<and> or_default (Option.bind (bp_banner bp) hb_image_url) [] = [] then f1\<lparr>bf_fx := 50, bf_fy := 50\<rparr>
      else f1)"

datatype banner_event =
    BannerDom dom_event | PickLinkType nat | BannerActive bool | TextColor string
  | PointerDown real real | PointerMove real real real real | PointerUp | ResetFocal
  | BannerImage uploader_event

text \<open>The handlers: the named inputs; the link type select (line 233), which unmounts the old
  link control and mounts the new one with its \<open>defaultValue\<close>; the checkbox; the two text
  colour inputs (lines 211 and 217); the preview's pointer handlers (lines 46--69), a move
  giving the pointer's position and the preview's width and height; \<open>resetFocal\<close>
  (lines 71--74); the uploader (folder \<open>banners\<close>), whose \<open>onImageChange\<close> is
  \<open>handleImageChange\<close>.\<close>

fun banner_form_step :: "banner_props \<Rightarrow> (string \<Rightarrow> string) \<Rightarrow> banner_form \<Rightarrow> banner_event \<Rightarrow> banner_form" where
  "banner_form_step bp pu f (BannerDom e) = f\<lparr>bf_dom := dom_step (banner_controls bp (bf_link_type f)) (bf_dom f) e\<rparr>"
| "banner_form_step bp pu f (PickLinkType i) =
     (if i < length link_type_ids then
        (let lt = link_type_ids ! i in
         f\<lparr>bf_link_type := lt, bf_dom := take 3 (bf_dom f) @ [(fst (link_control bp lt), link_default bp lt)]\<rparr>)
      else f)"
| "banner_form_step bp pu f (BannerActive b) = f\<lparr>bf_active := b\<rparr>"
| "banner_form_step bp pu f (TextColor c) = f\<lparr>bf_text := c\<rparr>"
| "banner_form_step bp pu f (PointerDown x y) = f\<lparr>bf_dragging := True, bf_start := (x, y, bf_fx f, bf_fy f)\<rparr>"
| "banner_form_step bp pu f (PointerMove x y w h) =
     (if bf_dragging f \<and> bf_image f \<noteq> [] then
        (case bf_start f of (sx, sy, fx, fy) \<Rightarrow> f\<lparr>bf_fx := drag_focal fx (x - sx) w, bf_fy := drag_focal fy (y - sy) h\<rparr>)
      else f)"
| "banner_form_step bp pu f PointerUp = f\<lparr>bf_dragging := False\<rparr>"
| "banner_form_step bp pu f ResetFocal = f\<lparr>bf_fx := 50, bf_fy := 50\<rparr>"
| "banner_form_step bp pu f (BannerImage e) =
     (case uploader_step pu ''banners'' (bf_uploader f) e of
        (u, Some (ImageSet url)) \<Rightarrow> banner_image_change bp url (f\<lparr>bf_uploader := u\<rparr>)
      | (u, _) \<Rightarrow> f\<lparr>bf_uploader := u\<rparr>)"

text \<open>The FormData of a submission: the five hidden inputs (lines 77--81), the uploader's, the
  title, subtitle and order, the link type select, the link control.\<close>

definition banner_form_data :: "banner_form \<Rightarrow> form" where
  "banner_form_data f =
     [(''is_active'', js_string_of_bool (bf_active f)), (''bg_color'', bf_bg f), (''text_color'', bf_text f),
      (''focal_x'', js_string_of_int (bf_fx f)), (''focal_y'', js_string_of_int (bf_fy f)),
      (''image_url'', iu_url (bf_uploader f))] @
     take 3 (bf_dom f) @ [(''link_type'', bf_link_type f)] @ drop 3 (bf_dom f)"

definition banner_form_submit :: "banner_props \<Rightarrow> (string \<Rightarrow> bool) \<Rightarrow> banner_form \<Rightarrow> form option" where
  "banner_form_submit bp url_ok f =
     (if dom_valid url_ok (banner_controls bp (bf_link_type f)) (bf_dom f) then Some (banner_form_data f) else None)"

subsection \<open>What the lemmas speak of\<close>

definition selects_ok :: "controls \<Rightarrow> form \<Rightarrow> bool" where
  "selects_ok cs vals \<longleftrightarrow>
     list_all (\<lambda>(n, c). case c of CSelect opts r \<Rightarrow> map_of vals n \<in> Some ` set opts | _ \<Rightarrow> True) cs"

definition dom_wf :: "controls \<Rightarrow> form \<Rightarrow> bool" where
  "dom_wf cs vals \<longleftrightarrow> distinct (map fst cs) \<and> map fst vals = map fst cs \<and> selects_ok cs vals"

definition job_clean :: "(string \<Rightarrow> string) \<Rightarrow> job_posting \<Rightarrow> bool" where
  "job_clean html j \<longleftrightarrow>
     j_location j \<noteq> Some [] \<and> j_url j \<noteq> Some [] \<and> j_thumbnail_url j \<noteq> Some [] \<and> j_source j \<noteq> Some [] \<and>
     (\<forall>t \<in> set (j_tags j). t \<noteq> [] \<and> CHR '','' \<notin> set t) \<and>
     (\<exists>d. j_description j = Some d \<and> d \<noteq> [] \<and> html d = d)"

definition banner_wf :: "banner_props \<Rightarrow> banner_form \<Rightarrow> bool" where
  "banner_wf bp f \<longleftrightarrow> bf_link_type f \<in> set link_type_ids \<and> dom_wf (banner_controls bp (bf_link_type f)) (bf_dom f)"

text \<open>Examples of the witnesses.\<close>

definition ex_form_db :: db where
  "ex_form_db = ex_en_db\<lparr>profiles := [ex_profile ''u2'' (Some Approved)]\<rparr>"

definition ex_form_job :: job_posting where
  "ex_form_job = \<lparr>j_id = ''j1'', j_company_name = ''kakao'', j_title = ''backend'', j_description = Some ''<p>d</p>'',
     j_job_type = Intern, j_location = None, j_deadline = ''2026-03-01'', j_url = None, j_thumbnail_url = None,
     j_tags = [''IT''], j_source = None, j_is_active = True\<rparr>"

definition ex_banner_props :: banner_props where
  "ex_banner_props = \<lparr>bp_banner = None, bp_courses = [''a''], bp_contents = [], bp_jobs = []\<rparr>"

definition ex_json_db :: db where
  "ex_json_db = ex_form_db\<lparr>courses := [(ex_course ''c1'' 4)\<lparr>c_max_students := 2, c_syllabus := SylJson ''[]''\<rparr>]\<rparr>"

subsection \<open>Lemmas\<close>


lemma map_of_cs_SomeD: "map_of cs n = Some c \<Longrightarrow> n \<in> set (map fst cs)"
  by (metis map_of_SomeD fst_conv image_eqI set_map)

lemma dom_wf_update:
  assumes wf: "dom_wf cs vals" and n: "map_of cs n = Some c"
    and ok: "\<And>opts r. c = CSelect opts r \<Longrightarrow> v \<in> set opts"
  shows "dom_wf cs (AList.update n v vals)"
proof -
  have nk: "n \<in> set (map fst vals)" using wf map_of_cs_SomeD [OF n] by (simp add: dom_wf_def)
  have d: "distinct (map fst cs)" using wf by (simp add: dom_wf_def)
  have "selects_ok cs (AList.update n v vals)"
    unfolding selects_ok_def list_all_iff
  proof (intro ballI, clarify)
    fix m c' assume m: "(m, c') \<in> set cs"
    show "case c' of CSelect opts r \<Rightarrow> map_of (AList.update n v vals) m \<in> Some ` set opts | _ \<Rightarrow> True"
    proof (cases "m = n")
      case True
      then have "c' = c" using m n d by (simp add: map_of_is_SomeI)
      with True ok show ?thesis by (cases c) (simp_all add: map_of_update_same)
    next
      case False
      have "case c' of CSelect opts r \<Rightarrow> map_of vals m \<in> Some ` set opts | _ \<Rightarrow> True"
        using wf m by (force simp: dom_wf_def selects_ok_def list_all_iff)
      then show ?thesis using False by (cases c') (simp_all add: map_of_update_other)
    qed
  qed
  then show ?thesis using wf nk by (simp add: dom_wf_def map_fst_update_present)
qed

lemma dom_wf_step: "dom_wf cs vals \<Longrightarrow> dom_wf cs (dom_step cs vals e)"
  by (cases e) (auto intro: dom_wf_update split: option.splits control.splits)

lemma dom_valid_get:
  assumes "dom_valid url_ok cs vals" "map_of cs n = Some c"
  shows "\<exists>v. map_of vals n = Some v \<and> control_ok url_ok c v"
  using assms by (force simp: dom_valid_def list_all_iff dest: map_of_SomeD split: option.splits)

lemma selects_ok_get:
  assumes "selects_ok cs vals" "map_of cs n = Some (CSelect opts r)"
  shows "\<exists>v. map_of vals n = Some v \<and> v \<in> set opts"
  using assms by (force simp: selects_ok_def list_all_iff dest: map_of_SomeD)

lemma job_form_step_dom:
  "dom_wf job_controls (jf_dom f) \<Longrightarrow> dom_wf job_controls (jf_dom (job_form_step pu f e))"
  by (cases e) (simp_all add: dom_wf_step)

lemma job_form_init_wf: "dom_wf job_controls (jf_dom (job_form_init html j tids))"
  by (cases j) (auto simp: dom_wf_def selects_ok_def job_controls_def job_form_init_def select_value_def
       job_type_ids_def)

lemma job_form_run_wf:
  "dom_wf job_controls (jf_dom (foldl (job_form_step pu) (job_form_init html j tids) evs))"
  by (rule foldl_invariant [where P = "\<lambda>f. dom_wf job_controls (jf_dom f)"])
     (simp_all add: job_form_init_wf job_form_step_dom)

lemma job_type_of_ids: "s \<in> set job_type_ids \<Longrightarrow> \<exists>t. job_type_of s = Some t"
  by (auto simp: job_type_ids_def job_type_of_def)

text \<open>C20: the job editor only submits what the job actions parse: from the form as it opens,
  after any sequence of typing, option picks, checkbox, tag, editor and image events,
  every submission the browser lets through is accepted by \<open>createJob\<close>/\<open>updateJob\<close>
  (its \<open>job_type\<close> is one of the union's values), and the row written has a non-empty
  company name, title and deadline.\<close>

theorem job_form_well_typed:
  assumes "job_form_submit url_ok (foldl (job_form_step pu) (job_form_init html j tids) evs) = Some fd"
  shows "\<exists>g. job_fields fd = Some g \<and>
           (\<forall>x. j_company_name (g x) \<noteq> [] \<and> j_title (g x) \<noteq> [] \<and> j_deadline (g x) \<noteq> [])"
proof -
  let ?f = "foldl (job_form_step pu) (job_form_init html j tids) evs"
  have wf: "dom_wf job_controls (jf_dom ?f)" by (rule job_form_run_wf)
  have v: "dom_valid url_ok job_controls (jf_dom ?f)" and fd: "fd = job_form_data ?f"
    using assms by (simp_all add: job_form_submit_def split: if_splits)
  have k: "map fst (jf_dom ?f) = map fst job_controls" using wf by (simp add: dom_wf_def)
  obtain cn where cn: "map_of (jf_dom ?f) ''company_name'' = Some cn" "cn \<noteq> []"
    using dom_valid_get [OF v, of "''company_name''"] by (auto simp: job_controls_def)
  obtain t where t: "map_of (jf_dom ?f) ''title'' = Some t" "t \<noteq> []"
    using dom_valid_get [OF v, of "''title''"] by (auto simp: job_controls_def)
  obtain dl where dl: "map_of (jf_dom ?f) ''deadline'' = Some dl" "dl \<noteq> []"
    using dom_valid_get [OF v, of "''deadline''"] by (auto simp: job_controls_def)
  obtain jt where jt: "map_of (jf_dom ?f) ''job_type'' = Some jt" "jt \<in> set job_type_ids"
    using selects_ok_get [of job_controls "jf_dom ?f" "''job_type''"] wf by (auto simp: dom_wf_def job_controls_def)
  obtain ty where ty: "job_type_of jt = Some ty" using job_type_of_ids [OF jt(2)] by blast
  have g: "\<And>n v. map_of (jf_dom ?f) n = Some v \<Longrightarrow> n \<notin> {''tag_ids'', ''is_active'', ''thumbnail_url''} \<Longrightarrow>
             form_get fd n = Some v"
    by (simp add: fd job_form_data_def form_get_def map_of_append)
  show ?thesis using g [OF cn(1)] g [OF t(1)] g [OF dl(1)] g [OF jt(1)] cn t dl ty
    by (simp add: job_fields_def)
qed


lemma job_type_of_id [simp]: "job_type_of (job_type_id t) = Some t"
  by (cases t) (simp_all add: job_type_of_def)

lemma select_job_type_id [simp]: "select_value job_type_ids (job_type_id t) = job_type_id t"
  by (cases t) (simp_all add: select_value_def job_type_ids_def)

text \<open>C21: opening a stored job in the editor and saving it unchanged writes back the same row,
  when the job is one the editor can represent: no optional column holds the empty
  string, its legacy tags are non-empty and free of commas, and its description is HTML
  that the editor reproduces.\<close>

theorem job_edit_unchanged:
  assumes c: "job_clean html j"
    and s: "job_form_submit url_ok (job_form_init html (Some j) tids) = Some fd"
  shows "\<exists>g. job_fields fd = Some g \<and> g j = j"
proof -
  obtain d where d: "j_description j = Some d" "d \<noteq> []" "html d = d" using c by (auto simp: job_clean_def)
  have fd: "fd = job_form_data (job_form_init html (Some j) tids)"
    using s by (simp add: job_form_submit_def split: if_splits)
  have tags: "csv_ids (Some (js_join CHR '','' (j_tags j))) = j_tags j"
    using c by (simp add: job_clean_def csv_ids_join)
  show ?thesis using c d tags
    by (simp add: fd job_form_data_def job_form_init_def job_fields_def form_get_def uploader_init_def
                  job_clean_def or_null_or_default)
qed

lemma job_edit_null_description:
  assumes "j_description j = None" "html [] = ''<p></p>''"
    and "job_form_submit url_ok (job_form_init html (Some j) tids) = Some fd" "job_fields fd = Some g"
  shows "j_description (g j) = Some ''<p></p>''"
proof -
  have fd: "fd = job_form_data (job_form_init html (Some j) tids)"
    using assms(3) by (simp add: job_form_submit_def split: if_splits)
  have "form_get fd ''description'' = Some ''<p></p>''"
    using assms(1,2) by (simp add: fd job_form_data_def job_form_init_def form_get_def or_default_def)
  then show ?thesis using assms(4) by (auto simp: job_fields_def or_null_def split: bind_splits)
qed


lemma enrollments_sync_tags [simp]: "enrollments (sync_tags k tids item new_ids fl db) = enrollments db"
  by (simp add: sync_tags_def Let_def)

lemma course_form_edit_current:
  "course_form_submit url_ok (course_form_init html num_str (Some c) tids) = Some fd \<Longrightarrow>
   form_get fd ''current_students'' = Some (js_string_of_int (c_current_students c))"
proof -
  assume "course_form_submit url_ok (course_form_init html num_str (Some c) tids) = Some fd"
  then have "fd = course_form_data (course_form_init html num_str (Some c) tids)"
    by (simp add: course_form_submit_def split: if_splits)
  then show ?thesis by (simp add: course_form_data_def course_form_init_def form_get_def)
qed

lemma update_course_Inr:
  assumes "update_course adm cid fd json_ok new_ids False tfl db = Inr db'"
  obtains g where "course_update_fields json_ok fd = Some g"
    "courses db' = map (\<lambda>x. if c_id x = cid then g x else x) (courses db)" "enrollments db' = enrollments db"
  using assms by (auto simp: update_course_def Let_def split: sum.splits option.splits)

lemma course_update_fields_current:
  "course_update_fields json_ok fd = Some g \<Longrightarrow>
   c_current_students (g x) = parse_int_or (form_get fd ''current_students'') 0 \<and> c_id (g x) = c_id x"
  by (auto simp: course_update_fields_def course_fields_def split: bind_splits)

lemma enroll_course_Enrolled:
  assumes "enroll_course (Some uid) cid nid (\<lambda>_. False) db = (Enrolled, db')" "course_row db cid = Some c"
  shows "c_current_students c < c_max_students c \<and>
    db' = set_course_count cid (c_current_students c + 1)
            (db\<lparr>enrollments := enrollments db @ [\<lparr>en_id = nid, en_user_id = uid, en_course_id = cid, en_status = Applied\<rparr>]\<rparr>)"
  using assms by (auto simp: enroll_course_def enroll_check_def enroll_commit_def Let_def not_le
                       split: sum.splits option.splits if_splits)

text \<open>C22: the course editor and enrolment interleave badly: \<open>updateCourse\<close> writes
  \<open>current_students\<close> from the value the form loaded, so an enrolment made while the admin
  edits is overwritten on save. From a store whose counters match the enrolments, the
  enrolment keeps them matched and the unchanged save breaks the match.\<close>

theorem course_edit_overwrites_enrolment:
  assumes inv: "enroll_inv db0" and c: "course_row db0 cid = Some c"
    and fresh: "nid \<notin> en_id ` set (enrollments db0)"
    and en: "enroll_course (Some uid) cid nid (\<lambda>_. False) db0 = (Enrolled, db1)"
    and s: "course_form_submit url_ok (course_form_init html num_str (Some c) tids) = Some fd"
    and up: "update_course adm cid fd json_ok new_ids False tfl db1 = Inr db2"
  shows "enroll_inv db1 \<and> \<not> enroll_inv db2"
proof -
  let ?e = "\<lparr>en_id = nid, en_user_id = uid, en_course_id = cid, en_status = Applied\<rparr>"
  have e: "c_current_students c < c_max_students c"
    "db1 = set_course_count cid (c_current_students c + 1) (db0\<lparr>enrollments := enrollments db0 @ [?e]\<rparr>)"
    using enroll_course_Enrolled [OF en c] by auto
  have inv1: "enroll_inv db1" using enroll_inv_enroll [OF inv c e(1) fresh] e(2) by simp
  have cnt: "int (length (course_active cid (enrollments db1))) = c_current_students c + 1"
    using enroll_inv_course_count [OF inv c] e(2)
    by (simp add: set_course_count_def course_active_snoc)
  obtain g where g: "course_update_fields json_ok fd = Some g"
    "courses db2 = map (\<lambda>x. if c_id x = cid then g x else x) (courses db1)" "enrollments db2 = enrollments db1"
    using up by (rule update_course_Inr)
  obtain c1 where c1: "course_row db1 cid = Some c1"
    using e(2) c by (simp add: course_row_set_course_count course_row_enrollments)
  have c1in: "c1 \<in> set (courses db1)" "c_id c1 = cid" using course_row_SomeD [OF c1] by auto
  have gc: "c_current_students (g c1) = c_current_students c" "c_id (g c1) = cid"
    using course_update_fields_current [OF g(1), of c1] course_form_edit_current [OF s] c1in by auto
  have "g c1 \<in> set (courses db2)" using g(2) c1in by force
  then show ?thesis using inv1 cnt gc g(3) by (auto simp: enroll_inv_def list_all_iff)
qed



lemma link_control_name:
  "lt \<in> set link_type_ids \<Longrightarrow> fst (link_control bp lt) \<notin> {''title'', ''subtitle'', ''display_order''}"
  by (auto simp: link_type_ids_def link_control_def)

lemma link_default_ok:
  "link_control bp lt = (n, CSelect opts r) \<Longrightarrow> link_default bp lt \<in> set opts"
  by (auto simp: link_control_def link_default_def select_value_def Let_def split: if_splits)

lemma banner_wf_link:
  assumes "lt \<in> set link_type_ids" "map fst d3 = [''title'', ''subtitle'', ''display_order'']"
    "bf_link_type f = lt" "bf_dom f = d3 @ [(fst (link_control bp lt), link_default bp lt)]"
  shows "banner_wf bp f"
proof -
  obtain n c where nc: "link_control bp lt = (n, c)" by (cases "link_control bp lt")
  have nn: "n \<notin> {''title'', ''subtitle'', ''display_order''}" using link_control_name [OF assms(1), of bp] nc by simp
  have "map_of d3 n = None" using assms(2) nn by (auto simp: map_of_eq_None_iff)
  have sel: "\<And>opts r. c = CSelect opts r \<Longrightarrow> link_default bp lt \<in> set opts"
    using link_default_ok nc by blast
  then show ?thesis using assms nn nc \<open>map_of d3 n = None\<close>
    by (cases c) (auto simp: banner_wf_def dom_wf_def banner_controls_def selects_ok_def map_of_append)
qed


lemma link_type_id_in [simp]: "link_type_id t \<in> set link_type_ids"
  by (cases t) (simp_all add: link_type_ids_def)

lemma banner_wf_init: "banner_wf bp (banner_form_init bp)"
proof -
  let ?lt = "case bp_banner bp of Some x \<Rightarrow> link_type_id (hb_link_type x) | None \<Rightarrow> ''course''"
  have lt: "?lt \<in> set link_type_ids" by (cases "bp_banner bp") (simp add: link_type_ids_def, simp)
  show ?thesis
    by (rule banner_wf_link [OF lt, of "take 3 (bf_dom (banner_form_init bp))"])
       (simp_all add: banner_form_init_def Let_def)
qed

lemma banner_wf_dom3:
  "banner_wf bp f \<Longrightarrow> map fst (take 3 (bf_dom f)) = [''title'', ''subtitle'', ''display_order'']"
proof -
  assume "banner_wf bp f"
  then have "map fst (bf_dom f) = map fst (banner_controls bp (bf_link_type f))"
    by (simp add: banner_wf_def dom_wf_def)
  then show ?thesis by (simp add: banner_controls_def flip: take_map)
qed

lemma banner_image_change_dom [simp]:
  "bf_dom (banner_image_change bp url f) = bf_dom f" "bf_link_type (banner_image_change bp url f) = bf_link_type f"
  by (simp_all add: banner_image_change_def Let_def)

lemma banner_wf_step: "banner_wf bp f \<Longrightarrow> banner_wf bp (banner_form_step bp pu f e)"
proof (cases e)
  case (BannerDom d)
  then show "banner_wf bp f \<Longrightarrow> ?thesis" by (simp add: banner_wf_def dom_wf_step)
next
  case (PickLinkType i)
  assume wf: "banner_wf bp f"
  show ?thesis
  proof (cases "i < length link_type_ids")
    case True
    have "banner_wf bp (f\<lparr>bf_link_type := link_type_ids ! i,
       bf_dom := take 3 (bf_dom f) @ [(fst (link_control bp (link_type_ids ! i)), link_default bp (link_type_ids ! i))]\<rparr>)"
      by (rule banner_wf_link [of "link_type_ids ! i" "take 3 (bf_dom f)"]) (simp_all add: True banner_wf_dom3 [OF wf])
    then show ?thesis using PickLinkType True by (simp add: Let_def)
  qed (use PickLinkType wf in simp)
next
  case (BannerImage u)
  then show "banner_wf bp f \<Longrightarrow> ?thesis"
    by (auto simp: banner_wf_def split: prod.splits option.splits upload_outcome.splits)
qed (auto simp: banner_wf_def split: prod.splits)

lemma banner_wf_run: "banner_wf bp (foldl (banner_form_step bp pu) (banner_form_init bp) evs)"
  by (rule foldl_invariant [where P = "banner_wf bp"]) (simp_all add: banner_wf_init banner_wf_step)


lemma banner_dom_shape:
  assumes "banner_wf bp f"
  obtains x1 x2 x3 x4 where
    "bf_dom f = [(''title'', x1), (''subtitle'', x2), (''display_order'', x3), (fst (link_control bp (bf_link_type f)), x4)]"
proof -
  have "map fst (bf_dom f) = [''title'', ''subtitle'', ''display_order'', fst (link_control bp (bf_link_type f))]"
    using assms by (simp add: banner_wf_def dom_wf_def banner_controls_def)
  then show ?thesis using that by (auto simp: map_eq_Cons_conv)
qed

lemma banner_link_value:
  assumes wf: "banner_wf bp f" and v: "dom_valid url_ok (banner_controls bp (bf_link_type f)) (bf_dom f)"
    and lc: "link_control bp (bf_link_type f) = (n, CSelect ([] # ids) True)"
  shows "\<exists>x. map_of (bf_dom f) n = Some x \<and> x \<in> set ids"
proof -
  have m: "map_of (banner_controls bp (bf_link_type f)) n = Some (CSelect ([] # ids) True)"
    using lc wf link_control_name [of "bf_link_type f" bp] by (auto simp: banner_wf_def banner_controls_def)
  have "\<exists>x. map_of (bf_dom f) n = Some x \<and> x \<in> set ([] # ids)"
    using selects_ok_get [OF _ m, of "bf_dom f"] wf by (simp add: banner_wf_def dom_wf_def)
  then obtain x where x: "map_of (bf_dom f) n = Some x" "x \<in> set ([] # ids)" by blast
  have "x \<noteq> []" using dom_valid_get [OF v m] x by auto
  then show ?thesis using x by auto
qed

lemma banner_submit_values:
  assumes wf: "banner_wf bp f" and s: "banner_form_submit bp url_ok f = Some fd"
  obtains x1 x4 where "form_get fd ''title'' = Some x1" "form_get fd ''link_type'' = Some (bf_link_type f)"
    "form_get fd (fst (link_control bp (bf_link_type f))) = Some x4"
    "\<And>n ids. link_control bp (bf_link_type f) = (n, CSelect ([] # ids) True) \<Longrightarrow> x4 \<in> set ids"
proof -
  let ?lt = "bf_link_type f"
  let ?n = "fst (link_control bp ?lt)"
  have v: "dom_valid url_ok (banner_controls bp ?lt) (bf_dom f)" and fd: "fd = banner_form_data f"
    using s by (simp_all add: banner_form_submit_def split: if_splits)
  obtain x1 x2 x3 x4 where d: "bf_dom f = [(''title'', x1), (''subtitle'', x2), (''display_order'', x3), (?n, x4)]"
    using banner_dom_shape [OF wf] by blast
  have lt: "?lt \<in> set link_type_ids" using wf by (simp add: banner_wf_def)
  have sel: "x4 \<in> set ids" if lc: "link_control bp ?lt = (n, CSelect ([] # ids) True)" for n ids
  proof -
    obtain x where x: "map_of (bf_dom f) n = Some x" "x \<in> set ids" using banner_link_value [OF wf v lc] by blast
    have "map_of (bf_dom f) n = Some x4" using d link_control_name [OF lt, of bp] lc by simp
    then show ?thesis using x by simp
  qed
  have nn: "?n \<noteq> ''title'' \<and> ?n \<noteq> ''link_type'' \<and> ?n \<noteq> ''subtitle'' \<and> ?n \<noteq> ''display_order'' \<and>
            ?n \<noteq> ''image_url'' \<and> ?n \<noteq> ''is_active'' \<and> ?n \<noteq> ''bg_color'' \<and> ?n \<noteq> ''text_color'' \<and>
            ?n \<noteq> ''focal_x'' \<and> ?n \<noteq> ''focal_y''"
    using lt by (auto simp: link_type_ids_def link_control_def)
  have "form_get fd ''title'' = Some x1" "form_get fd ''link_type'' = Some ?lt" "form_get fd ?n = Some x4"
    using nn by (simp_all add: fd d banner_form_data_def form_get_def)
  then show ?thesis using that sel by blast
qed

text \<open>What \<open>bannerFields\<close> makes of a submission of a well-formed banner form.\<close>

lemma banner_submit_links:
  assumes wf: "banner_wf bp f" and s: "banner_form_submit bp url_ok f = Some fd"
  shows "\<exists>g. banner_fields fd = Some g \<and>
           (\<forall>b. set_option (hb_course_id (g b)) \<subseteq> set (bp_courses bp) \<and>
                set_option (hb_content_id (g b)) \<subseteq> set (bp_contents bp) \<and>
                set_option (hb_job_id (g b)) \<subseteq> set (bp_jobs bp))"
proof -
  let ?lt = "bf_link_type f"
  obtain x1 x4 where get: "form_get fd ''title'' = Some x1" "form_get fd ''link_type'' = Some ?lt"
      "form_get fd (fst (link_control bp ?lt)) = Some x4"
    and sel: "\<And>n ids. link_control bp ?lt = (n, CSelect ([] # ids) True) \<Longrightarrow> x4 \<in> set ids"
    using banner_submit_values [OF wf s] by metis
  have lt: "?lt \<in> set link_type_ids" using wf by (simp add: banner_wf_def)
  obtain t where t: "link_type_of ?lt = Some t" using lt by (auto simp: link_type_ids_def link_type_of_def)
  have "?lt = ''course'' \<or> ?lt = ''content'' \<or> ?lt = ''job'' \<or> ?lt = ''custom''"
    using lt by (simp add: link_type_ids_def)
  then show ?thesis
  proof (elim disjE)
    assume c: "?lt = ''course''"
    then have "x4 \<in> set (bp_courses bp)" using sel by (simp add: link_control_def)
    then show ?thesis using get t c by (simp add: banner_fields_def link_control_def or_null_def)
  next
    assume c: "?lt = ''content''"
    then have "x4 \<in> set (bp_contents bp)" using sel by (simp add: link_control_def)
    then show ?thesis using get t c by (simp add: banner_fields_def link_control_def or_null_def)
  next
    assume c: "?lt = ''job''"
    then have "x4 \<in> set (bp_jobs bp)" using sel by (simp add: link_control_def)
    then show ?thesis using get t c by (simp add: banner_fields_def link_control_def or_null_def)
  next
    assume c: "?lt = ''custom''"
    then show ?thesis using get t by (simp add: banner_fields_def)
  qed
qed

text \<open>every banner the banner editor submits parses, and the course, content or job it
  links to is one the editor listed: the link select starts on the stored link or the
  empty prompt, switching the link type remounts it on its default, and the required
  prompt cannot be submitted.\<close>

theorem banner_form_links_listed:
  assumes "banner_form_submit bp url_ok (foldl (banner_form_step bp pu) (banner_form_init bp) evs) = Some fd"
  shows "\<exists>g. banner_fields fd = Some g \<and>
           (\<forall>b. set_option (hb_course_id (g b)) \<subseteq> set (bp_courses bp) \<and>
                set_option (hb_content_id (g b)) \<subseteq> set (bp_contents bp) \<and>
                set_option (hb_job_id (g b)) \<subseteq> set (bp_jobs bp))"
  using banner_submit_links [OF banner_wf_run assms] .


lemma banner_new_image_focal:
  assumes "uploader_step pu ''banners'' (bf_uploader f) e = (u, Some (ImageSet url))" "url \<noteq> []"
  shows "bf_fx (banner_form_step bp pu f (BannerImage e)) =
           (if or_default (Option.bind (bp_banner bp) hb_image_url) [] = [] then 50 else bf_fx f)"
  using assms by (simp add: banner_image_change_def Let_def)

lemma banner_image_optional:
  assumes "iu_url (bf_uploader f) = []" "banner_fields (banner_form_data f) = Some g"
  shows "hb_image_url (g b) = None"
  using assms by (auto simp: banner_fields_def banner_form_data_def form_get_def or_null_def split: bind_splits)

lemma upload_size_bound:
  "prefix ''image/'' (uf_type f) \<Longrightarrow>
   (snd (upload pu folder stamp fl f u) = TooLarge) = (5242880 < uf_size f)"
  by (simp add: upload_def Let_def)

lemma upload_rejected_keeps:
  "snd (upload pu folder stamp fl f u) \<in> {NotImage, TooLarge} \<Longrightarrow> fst (upload pu folder stamp fl f u) = u"
  by (auto simp: upload_def Let_def split: if_splits)

lemma file_ext_no_dot: "CHR ''.'' \<notin> set nm \<Longrightarrow> file_ext nm = nm"
proof -
  have "CHR ''.'' \<notin> set nm \<Longrightarrow> js_split CHR ''.'' nm = [nm]"
    by (induction nm) auto
  then show "CHR ''.'' \<notin> set nm \<Longrightarrow> file_ext nm = nm" by (simp add: file_ext_def)
qed

lemma content_edit_category_fallback:
  assumes "ct_category c \<notin> set content_category_ids"
    "content_form_submit url_ok (content_form_init html (Some c) tids) = Some fd" "content_fields fd = Some g"
  shows "ct_category (g c) = ''success_story''"
  using assms
  by (auto simp: content_form_submit_def content_form_data_def content_form_init_def content_fields_def form_get_def
                 select_value_def content_category_ids_def split: if_splits bind_splits)

lemma course_edit_zero_capacity:
  assumes "c_max_students c = 0"
    "course_form_submit url_ok (course_form_init html num_str (Some c) tids) = Some fd"
    "course_update_fields json_ok fd = Some g"
  shows "c_max_students (g c) = 30"
proof -
  have "fd = course_form_data (course_form_init html num_str (Some c) tids)"
    using assms(2) by (simp add: course_form_submit_def split: if_splits)
  then have "form_get fd ''max_students'' = Some (js_string_of_int 30)"
    using assms(1) by (simp add: course_form_data_def course_form_init_def form_get_def)
  then show ?thesis using assms(3)
    by (auto simp: course_update_fields_def course_fields_def split: bind_splits)
qed

text \<open>C19: a course whose curriculum is stored as JSON opens in the curriculum editor empty
  (\<open>CourseForm.tsx\<close> line 224 seeds it only with a string); when the form is saved unchanged, the
  course's curriculum becomes the empty editor's HTML: the JSON curriculum is lost.\<close>

theorem course_edit_erases_json_syllabus:
  assumes row: "course_row db cid = Some c" and json: "c_syllabus c = SylJson j"
    and markup: "take 1 (html []) = ''<''"
    and s: "course_form_submit url_ok (course_form_init html num_str (Some c) tids) = Some fd"
    and u: "update_course user cid fd json_ok new_ids False tfl db = Inr db'"
  shows "\<exists>c'. course_row db' cid = Some c' \<and> c_syllabus c' = SylText (html [])"
proof -
  have fd: "fd = course_form_data (course_form_init html num_str (Some c) tids)"
    using s by (simp add: course_form_submit_def split: if_splits)
  have h: "form_get fd ''syllabus'' = Some (html [])"
    using json by (simp add: fd course_form_data_def course_form_init_def form_get_def editor_seed_def)
  obtain g where g: "course_update_fields json_ok fd = Some g"
    and cs: "courses db' = map (\<lambda>x. if c_id x = cid then g x else x) (courses db)"
    using update_course_Inr [OF u] by blast
  have gx: "c_syllabus (g x) = syllabus_of json_ok (html []) \<and> c_id (g x) = c_id x" for x
    by (rule course_update_fields_syllabus [OF g h])
  have "course_row db' cid = map_option g (course_row db cid)"
    using gx by (simp add: course_row_def cs filter_map_update_key single_data_map)
  then show ?thesis using row gx markup by (simp add: syllabus_of_def)
qed

subsection \<open>Witnesses\<close>


theorem job_form_well_typed_witness:
  "job_form_submit (\<lambda>_. True) (foldl (job_form_step id) (job_form_init id None [])
      [JobDom (TypeIn ''company_name'' ''kakao''), JobDom (TypeIn ''title'' ''backend''),
       JobDom (TypeIn ''deadline'' ''2026-03-01'')]) \<noteq> None \<and>
   (\<exists>fd. job_form_submit (\<lambda>_. True) (foldl (job_form_step id) (job_form_init id None [])
      [JobDom (TypeIn ''company_name'' ''kakao''), JobDom (TypeIn ''title'' ''backend''),
       JobDom (TypeIn ''deadline'' ''2026-03-01'')]) = Some fd \<and>
     (\<exists>g. job_fields fd = Some g \<and> (\<forall>x. j_company_name (g x) \<noteq> [] \<and> j_title (g x) \<noteq> [] \<and> j_deadline (g x) \<noteq> [])))"
proof -
  let ?f = "foldl (job_form_step id) (job_form_init id None [])
      [JobDom (TypeIn ''company_name'' ''kakao''), JobDom (TypeIn ''title'' ''backend''),
       JobDom (TypeIn ''deadline'' ''2026-03-01'')]"
  have s: "job_form_submit (\<lambda>_. True) ?f = Some (job_form_data ?f)"
    by (simp add: job_form_submit_def job_form_init_def job_controls_def dom_valid_def)
  show ?thesis using job_form_well_typed [OF s] s by blast
qed

theorem job_edit_unchanged_witness:
  "job_clean id ex_form_job \<and>
   (\<exists>fd. job_form_submit (\<lambda>_. True) (job_form_init id (Some ex_form_job) []) = Some fd \<and>
     (\<exists>g. job_fields fd = Some g \<and> g ex_form_job = ex_form_job))"
proof -
  have c: "job_clean id ex_form_job" by (simp add: job_clean_def ex_form_job_def)
  have s: "job_form_submit (\<lambda>_. True) (job_form_init id (Some ex_form_job) []) =
             Some (job_form_data (job_form_init id (Some ex_form_job) []))"
    by (simp add: job_form_submit_def job_form_init_def job_controls_def dom_valid_def ex_form_job_def
                  select_value_def job_type_ids_def)
  show ?thesis using job_edit_unchanged [OF c s] c s by blast
qed

theorem banner_form_links_listed_witness:
  "(\<exists>fd. banner_form_submit ex_banner_props (\<lambda>_. True)
      (foldl (banner_form_step ex_banner_props id) (banner_form_init ex_banner_props)
        [BannerDom (TypeIn ''title'' ''spring''), BannerDom (PickOption ''course_id'' 1)]) = Some fd \<and>
    (\<exists>g. banner_fields fd = Some g \<and>
       (\<forall>b. set_option (hb_course_id (g b)) \<subseteq> set (bp_courses ex_banner_props) \<and>
            set_option (hb_content_id (g b)) \<subseteq> set (bp_contents ex_banner_props) \<and>
            set_option (hb_job_id (g b)) \<subseteq> set (bp_jobs ex_banner_props))))"
proof -
  let ?f = "foldl (banner_form_step ex_banner_props id) (banner_form_init ex_banner_props)
        [BannerDom (TypeIn ''title'' ''spring''), BannerDom (PickOption ''course_id'' 1)]"
  have s: "banner_form_submit ex_banner_props (\<lambda>_. True) ?f = Some (banner_form_data ?f)"
    by (simp add: banner_form_submit_def banner_form_init_def banner_controls_def dom_valid_def ex_banner_props_def
                  link_control_def link_default_def select_value_def)
  show ?thesis using banner_form_links_listed [OF s] s by blast
qed

theorem course_edit_overwrites_enrolment_witness:
  "enroll_inv ex_form_db \<and> course_row ex_form_db ''c1'' = Some ((ex_course ''c1'' 4)\<lparr>c_max_students := 2\<rparr>) \<and>
   (\<exists>db1 fd db2. enroll_course (Some ''u'') ''c1'' ''n1'' (\<lambda>_. False) ex_form_db = (Enrolled, db1) \<and>
     course_form_submit (\<lambda>_. True) (course_form_init id (\<lambda>_. ''4'') (Some ((ex_course ''c1'' 4)\<lparr>c_max_students := 2\<rparr>)) []) = Some fd \<and>
     update_course (Some ''u2'') ''c1'' fd (\<lambda>_. False) (\<lambda>_. ''l1'') False (False, False) db1 = Inr db2 \<and>
     enroll_inv db1 \<and> \<not> enroll_inv db2)"
proof -
  let ?c = "(ex_course ''c1'' 4)\<lparr>c_max_students := 2\<rparr>"
  let ?f = "course_form_init id (\<lambda>_. ''4'') (Some ?c) []"
  have inv: "enroll_inv ex_form_db" by (simp add: ex_form_db_def ex_en_db_def enroll_eval)
  have c: "course_row ex_form_db ''c1'' = Some ?c" by (simp add: ex_form_db_def ex_en_db_def enroll_eval)
  have fr: "''n1'' \<notin> en_id ` set (enrollments ex_form_db)" by (simp add: ex_form_db_def ex_en_db_def empty_db_def)
  obtain db1 where en: "enroll_course (Some ''u'') ''c1'' ''n1'' (\<lambda>_. False) ex_form_db = (Enrolled, db1)"
    by (simp add: ex_form_db_def ex_en_db_def enroll_eval enroll_course_def enroll_commit_def Let_def)
  have s: "course_form_submit (\<lambda>_. True) ?f = Some (course_form_data ?f)"
    by (simp add: course_form_submit_def course_form_init_def course_controls_def dom_valid_def ex_course_def
                  select_value_def course_category_ids_def parse_float_def js_space_def is_digit_in_def
                  digit_value_def digits_value_def exponent_part_def)
  have p1: "profiles db1 = profiles ex_form_db"
    using enroll_course_Enrolled [OF en c] by (simp add: set_course_count_def)
  have "require_admin (Some ''u2'') ex_form_db = Inr (ex_profile ''u2'' (Some Approved))"
    by (simp add: ex_form_db_def admin_eval)
  then have ra: "require_admin (Some ''u2'') db1 = Inr (ex_profile ''u2'' (Some Approved))"
    using require_admin_cong [OF p1, of "Some ''u2''"] by simp
  have "\<exists>g. course_update_fields (\<lambda>_. False) (course_form_data ?f) = Some g"
    by (simp add: course_update_fields_def course_fields_def course_form_data_def course_form_init_def form_get_def
                  ex_course_def select_value_def course_category_ids_def course_status_ids_def course_status_of_def
                  or_default_def parse_float_or_def
                  parse_float_def js_space_def is_digit_in_def digit_value_def digits_value_def exponent_part_def)
  then obtain db2 where up: "update_course (Some ''u2'') ''c1'' (course_form_data ?f) (\<lambda>_. False) (\<lambda>_. ''l1'') False (False, False) db1 = Inr db2"
    using ra by (auto simp: update_course_def Let_def)
  show ?thesis using course_edit_overwrites_enrolment [OF inv c fr en s up] inv c en s up by blast
qed

theorem course_edit_erases_json_syllabus_witness:
  "\<exists>fd db'. course_row ex_json_db ''c1'' = Some ((ex_course ''c1'' 4)\<lparr>c_max_students := 2, c_syllabus := SylJson ''[]''\<rparr>) \<and>
     c_syllabus ((ex_course ''c1'' 4)\<lparr>c_max_students := 2, c_syllabus := SylJson ''[]''\<rparr>) = SylJson ''[]'' \<and>
     take 1 ((\<lambda>_. ''<p></p>'') []) = ''<'' \<and>
     course_form_submit (\<lambda>_. True) (course_form_init (\<lambda>_. ''<p></p>'') (\<lambda>_. ''4'')
       (Some ((ex_course ''c1'' 4)\<lparr>c_max_students := 2, c_syllabus := SylJson ''[]''\<rparr>)) []) = Some fd \<and>
     update_course (Some ''u2'') ''c1'' fd (\<lambda>_. True) (\<lambda>_. ''l1'') False (False, False) ex_json_db = Inr db' \<and>
     (\<exists>c'. course_row db' ''c1'' = Some c' \<and> c_syllabus c' = SylText ''<p></p>'')"
proof -
  let ?c = "(ex_course ''c1'' 4)\<lparr>c_max_students := 2, c_syllabus := SylJson ''[]''\<rparr>"
  let ?f = "course_form_init (\<lambda>_. ''<p></p>'') (\<lambda>_. ''4'') (Some ?c) []"
  have row: "course_row ex_json_db ''c1'' = Some ?c"
    by (simp add: ex_json_db_def course_row_def single_data_def ex_course_def)
  have s: "course_form_submit (\<lambda>_. True) ?f = Some (course_form_data ?f)"
    by (simp add: course_form_submit_def course_form_init_def course_controls_def dom_valid_def ex_course_def
                  select_value_def course_category_ids_def parse_float_def js_space_def is_digit_in_def
                  digit_value_def digits_value_def exponent_part_def)
  have "require_admin (Some ''u2'') ex_json_db = Inr (ex_profile ''u2'' (Some Approved))"
    by (simp add: ex_json_db_def ex_form_db_def admin_eval)
  moreover have "\<exists>g. course_update_fields (\<lambda>_. True) (course_form_data ?f) = Some g"
    by (simp add: course_update_fields_def course_fields_def course_form_data_def course_form_init_def form_get_def
                  ex_course_def select_value_def course_category_ids_def course_status_ids_def course_status_of_def
                  or_default_def parse_float_or_def editor_seed_def
                  parse_float_def js_space_def is_digit_in_def digit_value_def digits_value_def exponent_part_def)
  ultimately obtain db' where u: "update_course (Some ''u2'') ''c1'' (course_form_data ?f) (\<lambda>_. True) (\<lambda>_. ''l1'') False
      (False, False) ex_json_db = Inr db'"
    by (auto simp: update_course_def Let_def)
  have m: "take 1 ((\<lambda>_. ''<p></p>'') []) = ''<''" by simp
  show ?thesis
    using course_edit_erases_json_syllabus [OF row _ m s u] row s u by auto
qed

end
