(* ===== verification/AdminPages.thy ===== *)
theory AdminPages
  imports AdminForms Browse Reactions
begin

text \<open>
  The admin catalogue pages under \<open>src/app/(admin)/admin/\<close>, which join the editors of
  \<open>AdminForms\<close> to the actions of \<open>Catalogue\<close>. An edit page (\<open>courses/[id]\<close>, \<open>contents/[id]\<close>,
  \<open>jobs/[id]\<close>, \<open>banners/[id]\<close>) reads its row with \<open>.single()\<close> and what the editor lists,
  in parallel, each read with a fault flag; without a row it is \<open>notFound()\<close>. Otherwise it
  opens the editor seeded with the row and binds the update action to the row's id, so a
  submission the browser lets through runs that action. A new page reads what the editor
  lists and binds the create action. A list page reads its table and renders one row per
  record, with the count and an empty notice.
\<close>

subsection \<open>Reads shared by the pages\<close>

text \<open>\<open>.from('content_tags').select('tag_id').eq('<kind>_id', id)\<close>: the ids of the tags linked
  to an item, in the order the store returns the links.\<close>

definition item_tag_ids :: "item_kind \<Rightarrow> uuid \<Rightarrow> db \<Rightarrow> uuid list" where
  "item_tag_ids k item db = map cg_tag_id (filter (\<lambda>r. tag_ref k r = Some item) (content_tags db))"

definition job_row :: "db \<Rightarrow> uuid \<Rightarrow> job_posting option" where
  "job_row db jid = single_data (filter (\<lambda>j. j_id j = jid) (job_postings db))"

definition banner_row :: "db \<Rightarrow> uuid \<Rightarrow> hero_banner option" where
  "banner_row db bid = single_data (filter (\<lambda>b. hb_id b = bid) (hero_banners db))"

subsection \<open>Edit pages\<close>

text \<open>\<open>EditCoursePage\<close> (\<open>courses/[id]/page.tsx\<close>, lines 9--49): the course, the tags
  (\<open>tagsRes.data || []\<close>) and the course's tag ids (\<open>(courseTagsRes.data || []).map(..)\<close>),
  the three fault flags in that order. The tags' \<open>order\<close> column is not among the model's
  columns: it places the selector's chips only.\<close>

definition edit_course_page ::
  "(string \<Rightarrow> string) \<Rightarrow> (real \<Rightarrow> string) \<Rightarrow> uuid \<Rightarrow> bool \<times> bool \<times> bool \<Rightarrow> db \<Rightarrow> (course_form \<times> tag list) option" where
  "edit_course_page html num_str cid fl db =
     (case (if fst fl then None else course_row db cid) of
        None \<Rightarrow> None
      | Some c \<Rightarrow> Some (course_form_init html num_str (Some c)
                          (data_or_empty (run_query (snd (snd fl)) (item_tag_ids KCourse cid db))),
                        data_or_empty (run_query (fst (snd fl)) (tags db))))"

text \<open>The form's \<open>action\<close> is \<open>updateCourse.bind(null, id)\<close> (lines 25 and 44): a submission
  the browser lets through runs the action on the store as it is then.\<close>

definition edit_course_save ::
  "(string \<Rightarrow> bool) \<Rightarrow> uuid option \<Rightarrow> uuid \<Rightarrow> (string \<Rightarrow> bool) \<Rightarrow> (nat \<Rightarrow> uuid) \<Rightarrow> bool \<Rightarrow> bool \<times> bool
     \<Rightarrow> course_form \<Rightarrow> db \<Rightarrow> (admin_error + db) option" where
  "edit_course_save url_ok user cid json_ok new_ids fails tfl f db =
     map_option (\<lambda>fd. update_course user cid fd json_ok new_ids fails tfl db) (course_form_submit url_ok f)"

text \<open>\<open>EditContentPage\<close> and \<open>EditJobPage\<close> (\<open>contents/[id]/page.tsx\<close> and \<open>jobs/[id]/page.tsx\<close>,
  lines 9--50) have the same shape.\<close>

definition edit_content_page ::
  "(string \<Rightarrow> string) \<Rightarrow> uuid \<Rightarrow> bool \<times> bool \<times> bool \<Rightarrow> db \<Rightarrow> (content_form \<times> tag list) option" where
  "edit_content_page html cid fl db =
     (case (if fst fl then None else content_row db cid) of
        None \<Rightarrow> None
      | Some c \<Rightarrow> Some (content_form_init html (Some c)
                          (data_or_empty (run_query (snd (snd fl)) (item_tag_ids KContent cid db))),
                        data_or_empty (run_query (fst (snd fl)) (tags db))))"

definition edit_content_save ::
  "(string \<Rightarrow> bool) \<Rightarrow> uuid option \<Rightarrow> uuid \<Rightarrow> (nat \<Rightarrow> uuid) \<Rightarrow> bool \<Rightarrow> bool \<times> bool
     \<Rightarrow> content_form \<Rightarrow> db \<Rightarrow> (admin_error + db) option" where
  "edit_content_save url_ok user cid new_ids fails tfl f db =
     map_option (\<lambda>fd. update_content user cid fd new_ids fails tfl db) (content_form_submit url_ok f)"

definition edit_job_page ::
  "(string \<Rightarrow> string) \<Rightarrow> uuid \<Rightarrow> bool \<times> bool \<times> bool \<Rightarrow> db \<Rightarrow> (job_form \<times> tag list) option" where
  "edit_job_page html jid fl db =
     (case (if fst fl then None else job_row db jid) of
        None \<Rightarrow> None
      | Some j \<Rightarrow> Some (job_form_init html (Some j)
                          (data_or_empty (run_query (snd (snd fl)) (item_tag_ids KJob jid db))),
                        data_or_empty (run_query (fst (snd fl)) (tags db))))"

definition edit_job_save ::
  "(string \<Rightarrow> bool) \<Rightarrow> uuid option \<Rightarrow> uuid \<Rightarrow> (nat \<Rightarrow> uuid) \<Rightarrow> bool \<Rightarrow> bool \<times> bool
     \<Rightarrow> job_form \<Rightarrow> db \<Rightarrow> (admin_error + db) option" where
  "edit_job_save url_ok user jid new_ids fails tfl f db =
     map_option (\<lambda>fd. update_job user jid fd new_ids fails tfl db) (job_form_submit url_ok f)"

text \<open>The banner pages list every course, content and job, newest first
  (\<open>.order('created_at', { ascending: false })\<close>, \<open>(coursesRes.data || [])\<close>), as the
  link selects' options.\<close>

definition banner_lists :: "bool \<times> bool \<times> bool \<Rightarrow> db \<Rightarrow> hero_banner option \<Rightarrow> banner_props" where
  "banner_lists fl db b =
     \<lparr>bp_banner = b,
      bp_courses = data_or_empty (run_query (fst fl) (map c_id (rev (courses db)))),
      bp_contents = data_or_empty (run_query (fst (snd fl)) (map ct_id (rev (contents db)))),
      bp_jobs = data_or_empty (run_query (snd (snd fl)) (map j_id (rev (job_postings db))))\<rparr>"

text \<open>\<open>EditBannerPage\<close> (\<open>banners/[id]/page.tsx\<close>, lines 9--48): the banner read and the
  three lists.\<close>

definition edit_banner_page :: "uuid \<Rightarrow> bool \<Rightarrow> bool \<times> bool \<times> bool \<Rightarrow> db \<Rightarrow> banner_props option" where
  "edit_banner_page bid bfl fl db =
     (case (if bfl then None else banner_row db bid) of
        None \<Rightarrow> None
      | Some b \<Rightarrow> Some (banner_lists fl db (Some b)))"

definition edit_banner_save ::
  "banner_props \<Rightarrow> (string \<Rightarrow> bool) \<Rightarrow> uuid option \<Rightarrow> uuid \<Rightarrow> bool \<Rightarrow> banner_form \<Rightarrow> db \<Rightarrow> (admin_error + db) option" where
  "edit_banner_save bp url_ok user bid fails f db =
     map_option (\<lambda>fd. update_hero_banner user bid fd fails db) (banner_form_submit bp url_ok f)"

subsection \<open>New pages\<close>

text \<open>\<open>NewCoursePage\<close>, \<open>NewContentPage\<close> and \<open>NewJobPage\<close> (\<open>*/new/page.tsx\<close>, lines 7--28):
  the tags (\<open>tags || []\<close>), an empty editor with no tag selected, and the create action.
  \<open>NewBannerPage\<close> (lines 7--34) reads the three lists.\<close>

definition new_course_save ::
  "(string \<Rightarrow> bool) \<Rightarrow> uuid option \<Rightarrow> (string \<Rightarrow> bool) \<Rightarrow> uuid \<Rightarrow> (nat \<Rightarrow> uuid) \<Rightarrow> bool \<Rightarrow> bool \<times> bool
     \<Rightarrow> course_form \<Rightarrow> db \<Rightarrow> (admin_error + db) option" where
  "new_course_save url_ok user json_ok nid new_ids fails tfl f db =
     map_option (\<lambda>fd. create_course user fd json_ok nid new_ids fails tfl db) (course_form_submit url_ok f)"

definition new_content_save ::
  "(string \<Rightarrow> bool) \<Rightarrow> uuid option \<Rightarrow> uuid \<Rightarrow> (nat \<Rightarrow> uuid) \<Rightarrow> bool \<Rightarrow> bool \<times> bool
     \<Rightarrow> content_form \<Rightarrow> db \<Rightarrow> (admin_error + db) option" where
  "new_content_save url_ok user nid new_ids fails tfl f db =
     map_option (\<lambda>fd. create_content user fd nid new_ids fails tfl db) (content_form_submit url_ok f)"

definition new_job_save ::
  "(string \<Rightarrow> bool) \<Rightarrow> uuid option \<Rightarrow> uuid \<Rightarrow> (nat \<Rightarrow> uuid) \<Rightarrow> bool \<Rightarrow> bool \<times> bool
     \<Rightarrow> job_form \<Rightarrow> db \<Rightarrow> (admin_error + db) option" where
  "new_job_save url_ok user nid new_ids fails tfl f db =
     map_option (\<lambda>fd. create_job user fd nid new_ids fails tfl db) (job_form_submit url_ok f)"

definition new_banner_save ::
  "banner_props \<Rightarrow> (string \<Rightarrow> bool) \<Rightarrow> uuid option \<Rightarrow> uuid \<Rightarrow> bool \<Rightarrow> banner_form \<Rightarrow> db \<Rightarrow> (admin_error + db) option" where
  "new_banner_save bp url_ok user nid fails f db =
     map_option (\<lambda>fd. create_hero_banner user fd nid fails db) (banner_form_submit bp url_ok f)"

subsection \<open>List pages\<close>

text \<open>A list page: \<open>{rows?.length ?? 0}\<close>, one table row per record, and the empty notice when
  \<open>!rows || rows.length === 0\<close>.\<close>

record 'r admin_list =
  al_count :: nat
  al_rows :: "'r list"
  al_empty :: bool

definition admin_list :: "('a \<Rightarrow> 'r) \<Rightarrow> 'a list option \<Rightarrow> 'r admin_list" where
  "admin_list row d =
     \<lparr>al_count = length (data_or_empty d), al_rows = map row (data_or_empty d), al_empty = (data_or_empty d = [])\<rparr>"

text \<open>\<open>cat?.name || course.category\<close>: the constant's entry when the stored value is one of its
  ids, the raw value otherwise (the constants' display names are not modelled).\<close>

datatype cat_label = CatConst string | CatRaw string

definition cat_label :: "string list \<Rightarrow> string \<Rightarrow> cat_label" where
  "cat_label ids c = (if c \<in> set ids then CatConst c else CatRaw c)"

datatype badge = BadgeGreen | BadgeBlue | BadgeRed | BadgeAmber | BadgeGray

record admin_course_row =
  acr_title :: string
  acr_live :: bool
  acr_category :: cat_label
  acr_instructor :: string
  acr_students :: "int \<times> int"
  acr_status :: course_status
  acr_badge :: badge
  acr_price :: price_label
  acr_href :: string

text \<open>\<open>AdminCoursesPage\<close> (\<open>courses/page.tsx\<close>, lines 6--103), newest first.\<close>

definition admin_course_row :: "course \<Rightarrow> admin_course_row" where
  "admin_course_row c =
     \<lparr>acr_title = c_title c, acr_live = c_is_live c, acr_category = cat_label course_category_ids (c_category c),
      acr_instructor = c_instructor_name c, acr_students = (c_current_students c, c_max_students c),
      acr_status = c_status c,
      acr_badge = (case c_status c of Recruiting \<Rightarrow> BadgeGreen | Ongoing \<Rightarrow> BadgeBlue | Closed \<Rightarrow> BadgeRed
                   | Finished \<Rightarrow> BadgeGray),
      acr_price = (if c_price c = 0 then PriceFree else PriceWon (c_price c)),
      acr_href = ''/admin/courses/'' @ c_id c\<rparr>"

definition admin_courses_page :: "bool \<Rightarrow> db \<Rightarrow> admin_course_row admin_list" where
  "admin_courses_page fails db = admin_list admin_course_row (run_query fails (rev (courses db)))"

record admin_content_row =
  anr_title :: string
  anr_category :: cat_label
  anr_author :: string
  anr_views :: int
  anr_likes :: int
  anr_featured :: bool
  anr_href :: string

text \<open>\<open>AdminContentsPage\<close> (\<open>contents/page.tsx\<close>, lines 6--89), newest first.\<close>

definition admin_content_row :: "content \<Rightarrow> admin_content_row" where
  "admin_content_row c =
     \<lparr>anr_title = ct_title c, anr_category = cat_label content_category_ids (ct_category c),
      anr_author = ct_author_name c, anr_views = ct_view_count c, anr_likes = ct_like_count c,
      anr_featured = ct_is_featured c, anr_href = ''/admin/contents/'' @ ct_id c\<rparr>"

definition admin_contents_page :: "bool \<Rightarrow> db \<Rightarrow> admin_content_row admin_list" where
  "admin_contents_page fails db = admin_list admin_content_row (run_query fails (rev (contents db)))"

text \<open>\<open>Math.ceil(a / b)\<close> for a positive divisor, and the milliseconds of a day.\<close>

definition js_ceil_div :: "int \<Rightarrow> int \<Rightarrow> int" where
  "js_ceil_div a b = - ((- a) div b)"

definition day_ms :: int where
  "day_ms = 1000 * 60 * 60 * 24"

text \<open>Line 46 of \<open>jobs/page.tsx\<close>: the days left, from \<open>new Date(job.deadline)\<close> (a date
  without a time is midnight UTC; \<open>date_day\<close> gives its day number) and \<open>Date.now()\<close> in
  milliseconds. Unlike \<open>JobCard\<close>, nothing is rounded to midnight first.\<close>

definition days_left :: "int \<Rightarrow> int \<Rightarrow> int" where
  "days_left now deadline_day = js_ceil_div (deadline_day * day_ms - now) day_ms"

datatype days_label = DaysLeft int | DaysClosed

record admin_job_row =
  ajr_company :: string
  ajr_title :: string
  ajr_type :: cat_label
  ajr_location :: string
  ajr_days :: days_label
  ajr_badge :: badge
  ajr_active :: bool
  ajr_href :: string

text \<open>\<open>AdminJobsPage\<close> (\<open>jobs/page.tsx\<close>, lines 6--96), newest first.\<close>

definition admin_job_row :: "(string \<Rightarrow> int) \<Rightarrow> int \<Rightarrow> job_posting \<Rightarrow> admin_job_row" where
  "admin_job_row date_day now j =
     (let d = days_left now (date_day (j_deadline j)) in
      \<lparr>ajr_company = j_company_name j, ajr_title = j_title j,
       ajr_type = cat_label job_type_ids (job_type_id (j_job_type j)),
       ajr_location = (case j_location j of Some l \<Rightarrow> if l \<noteq> [] then l else ''-'' | None \<Rightarrow> ''-''),
       ajr_days = (if 0 < d then DaysLeft d else DaysClosed),
       ajr_badge = (if d \<le> 3 then BadgeRed else if d \<le> 7 then BadgeAmber else BadgeGray),
       ajr_active = j_is_active j, ajr_href = ''/admin/jobs/'' @ j_id j\<rparr>)"

definition admin_jobs_page :: "(string \<Rightarrow> int) \<Rightarrow> int \<Rightarrow> bool \<Rightarrow> db \<Rightarrow> admin_job_row admin_list" where
  "admin_jobs_page date_day now fails db =
     admin_list (admin_job_row date_day now) (run_query fails (rev (job_postings db)))"

record admin_banner_row =
  abr_bg :: string
  abr_image :: "string option"
  abr_text_color :: string
  abr_title :: string
  abr_subtitle :: "string option"
  abr_order :: int
  abr_active :: bool
  abr_link :: link_type
  abr_href :: string

text \<open>\<open>AdminBannersPage\<close> (\<open>banners/page.tsx\<close>, lines 5--114), by display order: the preview's
  background (\<open>banner.bg_color || '#EBF2FF'\<close>), the image or the text preview in
  \<open>banner.text_color || '#1a1a1a'\<close>, the subtitle when truthy, the order, the active flag and
  the link type's label.\<close>

definition admin_banner_row :: "hero_banner \<Rightarrow> admin_banner_row" where
  "admin_banner_row b =
     \<lparr>abr_bg = (if hb_bg_color b \<noteq> [] then hb_bg_color b else ''#EBF2FF''),
      abr_image = (case hb_image_url b of Some u \<Rightarrow> if u \<noteq> [] then Some u else None | None \<Rightarrow> None),
      abr_text_color = (if hb_text_color b \<noteq> [] then hb_text_color b else ''#1a1a1a''),
      abr_title = hb_title b,
      abr_subtitle = (case hb_subtitle b of Some s \<Rightarrow> if s \<noteq> [] then Some s else None | None \<Rightarrow> None),
      abr_order = hb_display_order b, abr_active = hb_is_active b, abr_link = hb_link_type b,
      abr_href = ''/admin/banners/'' @ hb_id b\<rparr>"

definition admin_banners_page :: "bool \<Rightarrow> db \<Rightarrow> admin_banner_row admin_list" where
  "admin_banners_page fails db =
     admin_list admin_banner_row (run_query fails (order_by hb_display_order True (hero_banners db)))"

text \<open>Examples of the witnesses: the store of \<open>AdminForms\<close> with a tag linked to the course
  and one banner linking to it.\<close>

definition ex_page_banner :: hero_banner where
  "ex_page_banner = \<lparr>hb_id = ''b1'', hb_title = ''spring'', hb_subtitle = None, hb_image_url = None,
     hb_link_type = LinkCourse, hb_course_id = Some ''c1'', hb_content_id = None, hb_job_id = None,
     hb_custom_url = None, hb_bg_color = [], hb_text_color = [], hb_focal_x = 50, hb_focal_y = 50,
     hb_display_order = 1, hb_is_active = True\<rparr>"

definition ex_pages_db :: db where
  "ex_pages_db = ex_form_db\<lparr>tags := [\<lparr>tg_id = ''t1'', tg_name = ''IT''\<rparr>],
     content_tags := [tag_link KCourse ''c1'' ''l0'' ''t1''], hero_banners := [ex_page_banner]\<rparr>"

subsection \<open>Lemmas\<close>

text \<open>C26: The admin job list and the public job card disagree on the deadline day: reading the
  day in UTC, the list shows a posting as closed exactly when the card shows it as still
  open on its last day (D-Day, with the apply link).\<close>

theorem admin_job_closed_on_deadline_day:
  "(ajr_days (admin_job_row date_day now j) = DaysClosed \<and>
    \<not> jc_expired (job_card (now div day_ms) (date_day (j_deadline j)) j)) \<longleftrightarrow>
   date_day (j_deadline j) = now div day_ms"
proof -
  have "(now - d * day_ms) div day_ms = now div day_ms - d" for d by (simp add: day_ms_def)
  then have "days_left now d = d - now div day_ms" for d by (simp add: days_left_def js_ceil_div_def)
  then show ?thesis by (auto simp: admin_job_row_def job_card_def get_dday_def Let_def)
qed

lemma course_form_run_tags:
  "list_all (\<lambda>e. \<forall>ts. e \<noteq> CourseTags ts) evs \<Longrightarrow> co_tags (foldl (course_form_step pu) f evs) = co_tags f"
proof (induction evs arbitrary: f)
  case (Cons e evs)
  then show ?case by (cases e) simp_all
qed simp

lemma edit_course_saveD:
  assumes "edit_course_save url_ok user cid json_ok new_ids False tfl f db = Some (Inr db')"
  obtains g where "course_update_fields json_ok (course_form_data f) = Some g"
    "db' = sync_tags KCourse (csv_ids (Some (tag_ids_field (co_tags f)))) cid new_ids tfl
             (db\<lparr>courses := map (\<lambda>x. if c_id x = cid then g x else x) (courses db)\<rparr>)"
  using assms
  by (auto simp: edit_course_save_def course_form_submit_def update_course_def course_form_data_def form_get_def
           split: if_splits sum.splits option.splits)

text \<open>C23: Opening a course's edit page and saving it, after any edits other than the tag
  selector, keeps the course's tag links as they were, in order: the page seeds the
  hidden \<open>tag_ids\<close> input with the linked ids, the action splits it back and
  \<open>syncTags\<close> relinks exactly those tags. The tag ids are store ids (non-empty, without
  commas) of existing tags.\<close>

theorem edit_course_keeps_tags:
  assumes page: "edit_course_page html num_str cid (False, False, False) db = Some (f0, ts)"
    and ids: "list_all (\<lambda>t. t \<noteq> [] \<and> CHR '','' \<notin> set t \<and> t \<in> tg_id ` set (tags db)) (item_tag_ids KCourse cid db)"
    and evs: "list_all (\<lambda>e. \<forall>ts. e \<noteq> CourseTags ts) evs"
    and save: "edit_course_save url_ok user cid json_ok new_ids False (False, False)
                 (foldl (course_form_step pu) f0 evs) db = Some (Inr db')"
  shows "item_tag_ids KCourse cid db' = item_tag_ids KCourse cid db"
proof -
  let ?tids = "item_tag_ids KCourse cid db"
  obtain c where f0: "f0 = course_form_init html num_str (Some c) ?tids"
    using page by (auto simp: edit_course_page_def split: option.splits)
  have tags: "co_tags (foldl (course_form_step pu) f0 evs) = ?tids"
    using course_form_run_tags [OF evs] f0 by (simp add: course_form_init_def)
  obtain g where db': "db' = sync_tags KCourse ?tids cid new_ids (False, False)
                          (db\<lparr>courses := map (\<lambda>x. if c_id x = cid then g x else x) (courses db)\<rparr>)"
    using edit_course_saveD [OF save] tags ids tag_ids_roundtrip [of ?tids] by (auto simp: list_all_iff)
  have "list_all (\<lambda>t. t \<in> tg_id ` set (tags db)) ?tids" using ids by (simp add: list_all_iff)
  then show ?thesis
    using sync_tags_links_exact [of "db\<lparr>courses := map (\<lambda>x. if c_id x = cid then g x else x) (courses db)\<rparr>" ?tids KCourse cid new_ids]
    by (simp add: db' item_tag_ids_def)
qed

text \<open>C24: When the edit page's read of the course's tag links fails, the page opens the editor
  with no tag selected, and saving the course unchanged deletes all its tag links.\<close>

theorem edit_course_tag_read_failure_unlinks:
  assumes page: "edit_course_page html num_str cid (False, False, True) db = Some (f, ts)"
    and save: "edit_course_save url_ok user cid json_ok new_ids False (False, ins) f db = Some (Inr db')"
  shows "item_tag_ids KCourse cid db' = []"
proof -
  obtain c where f: "f = course_form_init html num_str (Some c) []"
    using page by (auto simp: edit_course_page_def split: option.splits)
  have csv: "csv_ids (Some (tag_ids_field (co_tags f))) = []"
    by (simp add: f course_form_init_def tag_ids_field_def csv_ids_def or_default_def)
  obtain g where "db' = sync_tags KCourse (csv_ids (Some (tag_ids_field (co_tags f)))) cid new_ids (False, ins)
                          (db\<lparr>courses := map (\<lambda>x. if c_id x = cid then g x else x) (courses db)\<rparr>)"
    using edit_course_saveD [OF save] by blast
  then show ?thesis using csv by (simp add: sync_tags_def item_tag_ids_def filter_empty_conv)
qed

lemma banner_fields_id: "banner_fields fd = Some g \<Longrightarrow> hb_id (g b) = hb_id b"
  by (auto simp: banner_fields_def split: Option.bind_splits)

text \<open>C25: A banner saved from its edit page links only to a course, content or job that
  existed when the page was loaded, whatever the admin did in the form.\<close>

theorem banner_edit_links_exist:
  assumes page: "edit_banner_page bid False fl db = Some bp"
    and save: "edit_banner_save bp url_ok user bid False
                 (foldl (banner_form_step bp pu) (banner_form_init bp) evs) db2 = Some (Inr db')"
  shows "\<forall>b\<in>set (hero_banners db'). hb_id b = bid \<longrightarrow>
           set_option (hb_course_id b) \<subseteq> c_id ` set (courses db) \<and>
           set_option (hb_content_id b) \<subseteq> ct_id ` set (contents db) \<and>
           set_option (hb_job_id b) \<subseteq> j_id ` set (job_postings db)"
proof -
  let ?f = "foldl (banner_form_step bp pu) (banner_form_init bp) evs"
  obtain fd where s: "banner_form_submit bp url_ok ?f = Some fd"
      and u: "update_hero_banner user bid fd False db2 = Inr db'"
    using save by (auto simp: edit_banner_save_def)
  obtain g where g: "banner_fields fd = Some g"
      and listed: "\<And>b. set_option (hb_course_id (g b)) \<subseteq> set (bp_courses bp) \<and>
                        set_option (hb_content_id (g b)) \<subseteq> set (bp_contents bp) \<and>
                        set_option (hb_job_id (g b)) \<subseteq> set (bp_jobs bp)"
    using banner_submit_links [OF banner_wf_run s] by blast
  have rows: "hero_banners db' = map (\<lambda>b. if hb_id b = bid then g b else b) (hero_banners db2)"
    using u g by (auto simp: update_hero_banner_def split: sum.splits if_splits)
  obtain b0 where "bp = banner_lists fl db (Some b0)"
    using page by (auto simp: edit_banner_page_def split: option.splits)
  then have ex: "set (bp_courses bp) \<subseteq> c_id ` set (courses db) \<and> set (bp_contents bp) \<subseteq> ct_id ` set (contents db) \<and>
                 set (bp_jobs bp) \<subseteq> j_id ` set (job_postings db)"
    by (auto simp: banner_lists_def run_query_def data_or_empty_def)
  show ?thesis
  proof (intro ballI impI)
    fix b assume "b \<in> set (hero_banners db')" "hb_id b = bid"
    then obtain b1 where "b = g b1" using rows banner_fields_id [OF g] by (auto split: if_splits)
    then show "set_option (hb_course_id b) \<subseteq> c_id ` set (courses db) \<and>
           set_option (hb_content_id b) \<subseteq> ct_id ` set (contents db) \<and>
           set_option (hb_job_id b) \<subseteq> j_id ` set (job_postings db)"
      using listed [of b1] ex by blast
  qed
qed

theorem banner_edit_links_exist_witness:
  "\<exists>bp db'. edit_banner_page ''b1'' False (False, False, False) ex_pages_db = Some bp \<and>
     edit_banner_save bp (\<lambda>_. True) (Some ''u2'') ''b1'' False
       (foldl (banner_form_step bp id) (banner_form_init bp) []) ex_pages_db = Some (Inr db') \<and>
     (\<forall>b\<in>set (hero_banners db'). hb_id b = ''b1'' \<longrightarrow>
        set_option (hb_course_id b) \<subseteq> c_id ` set (courses ex_pages_db) \<and>
        set_option (hb_content_id b) \<subseteq> ct_id ` set (contents ex_pages_db) \<and>
        set_option (hb_job_id b) \<subseteq> j_id ` set (job_postings ex_pages_db))"
proof -
  let ?bp = "banner_lists (False, False, False) ex_pages_db (Some ex_page_banner)"
  have p: "edit_banner_page ''b1'' False (False, False, False) ex_pages_db = Some ?bp"
    by (simp add: edit_banner_page_def banner_row_def ex_pages_db_def ex_page_banner_def single_data_def)
  have "\<exists>db'. edit_banner_save ?bp (\<lambda>_. True) (Some ''u2'') ''b1'' False (banner_form_init ?bp) ex_pages_db = Some (Inr db')"
    by (simp add: edit_banner_save_def banner_form_submit_def banner_form_init_def banner_controls_def dom_valid_def
                  banner_lists_def ex_pages_db_def ex_page_banner_def ex_form_db_def ex_en_db_def link_control_def
                  link_default_def select_value_def update_hero_banner_def admin_eval banner_fields_def
                  banner_form_data_def form_get_def link_type_of_def)
  then obtain db' where sv: "edit_banner_save ?bp (\<lambda>_. True) (Some ''u2'') ''b1'' False
       (foldl (banner_form_step ?bp id) (banner_form_init ?bp) []) ex_pages_db = Some (Inr db')" by auto
  show ?thesis using banner_edit_links_exist [OF p sv] p sv by blast
qed

lemma ex_pages_course_page:
  "edit_course_page id (\<lambda>_. ''4'') ''c1'' (False, False, tf) ex_pages_db =
     Some (course_form_init id (\<lambda>_. ''4'') (Some ((ex_course ''c1'' 4)\<lparr>c_max_students := 2\<rparr>))
             (if tf then [] else [''t1'']), tags ex_pages_db)"
  by (simp add: edit_course_page_def ex_pages_db_def ex_form_db_def ex_en_db_def course_row_def single_data_def
                item_tag_ids_def tag_link_def ex_course_def)

lemma ex_pages_course_save:
  "\<exists>db'. edit_course_save (\<lambda>_. True) (Some ''u2'') ''c1'' (\<lambda>_. False) (\<lambda>_. ''l9'') False tfl
     (course_form_init id (\<lambda>_. ''4'') (Some ((ex_course ''c1'' 4)\<lparr>c_max_students := 2\<rparr>)) tids\<lparr>co_live := lv\<rparr>)
     ex_pages_db = Some (Inr db')"
  by (simp add: edit_course_save_def course_form_submit_def course_form_init_def course_controls_def dom_valid_def
                ex_course_def select_value_def course_category_ids_def course_status_ids_def course_status_of_def
                parse_float_def js_space_def is_digit_in_def digit_value_def digits_value_def exponent_part_def
                update_course_def course_update_fields_def course_fields_def course_form_data_def form_get_def
                or_default_def parse_float_or_def ex_pages_db_def ex_form_db_def ex_en_db_def admin_eval Let_def)

theorem edit_course_keeps_tags_witness:
  "\<exists>f0 ts db'. edit_course_page id (\<lambda>_. ''4'') ''c1'' (False, False, False) ex_pages_db = Some (f0, ts) \<and>
     list_all (\<lambda>t. t \<noteq> [] \<and> CHR '','' \<notin> set t \<and> t \<in> tg_id ` set (tags ex_pages_db)) (item_tag_ids KCourse ''c1'' ex_pages_db) \<and>
     list_all (\<lambda>e. \<forall>ts. e \<noteq> CourseTags ts) [CourseLive True] \<and>
     edit_course_save (\<lambda>_. True) (Some ''u2'') ''c1'' (\<lambda>_. False) (\<lambda>_. ''l9'') False (False, False)
       (foldl (course_form_step id) f0 [CourseLive True]) ex_pages_db = Some (Inr db') \<and>
     item_tag_ids KCourse ''c1'' db' = [''t1'']"
proof -
  let ?f0 = "course_form_init id (\<lambda>_. ''4'') (Some ((ex_course ''c1'' 4)\<lparr>c_max_students := 2\<rparr>)) [''t1'']"
  have p: "edit_course_page id (\<lambda>_. ''4'') ''c1'' (False, False, False) ex_pages_db = Some (?f0, tags ex_pages_db)"
    using ex_pages_course_page [of False] by simp
  have ids: "list_all (\<lambda>t. t \<noteq> [] \<and> CHR '','' \<notin> set t \<and> t \<in> tg_id ` set (tags ex_pages_db))
               (item_tag_ids KCourse ''c1'' ex_pages_db)"
    by (simp add: ex_pages_db_def item_tag_ids_def tag_link_def)
  have evs: "list_all (\<lambda>e. \<forall>ts. e \<noteq> CourseTags ts) [CourseLive True]" by simp
  have run: "foldl (course_form_step id) ?f0 [CourseLive True] = ?f0\<lparr>co_live := True\<rparr>" by simp
  obtain db' where "edit_course_save (\<lambda>_. True) (Some ''u2'') ''c1'' (\<lambda>_. False) (\<lambda>_. ''l9'') False (False, False)
       (?f0\<lparr>co_live := True\<rparr>) ex_pages_db = Some (Inr db')"
    using ex_pages_course_save [where tfl = "(False, False)" and tids = "[''t1'']" and lv = True] by blast
  then have sv: "edit_course_save (\<lambda>_. True) (Some ''u2'') ''c1'' (\<lambda>_. False) (\<lambda>_. ''l9'') False (False, False)
       (foldl (course_form_step id) ?f0 [CourseLive True]) ex_pages_db = Some (Inr db')"
    by (simp only: run)
  have "item_tag_ids KCourse ''c1'' ex_pages_db = [''t1'']" by (simp add: ex_pages_db_def item_tag_ids_def tag_link_def)
  then show ?thesis using edit_course_keeps_tags [OF p ids evs sv] p ids evs sv by auto
qed

theorem edit_course_tag_read_failure_unlinks_witness:
  "\<exists>f ts db'. edit_course_page id (\<lambda>_. ''4'') ''c1'' (False, False, True) ex_pages_db = Some (f, ts) \<and>
     edit_course_save (\<lambda>_. True) (Some ''u2'') ''c1'' (\<lambda>_. False) (\<lambda>_. ''l9'') False (False, False) f ex_pages_db = Some (Inr db') \<and>
     item_tag_ids KCourse ''c1'' ex_pages_db = [''t1''] \<and> item_tag_ids KCourse ''c1'' db' = []"
proof -
  let ?f = "course_form_init id (\<lambda>_. ''4'') (Some ((ex_course ''c1'' 4)\<lparr>c_max_students := 2\<rparr>)) []"
  have p: "edit_course_page id (\<lambda>_. ''4'') ''c1'' (False, False, True) ex_pages_db = Some (?f, tags ex_pages_db)"
    using ex_pages_course_page [of True] by simp
  have f: "?f\<lparr>co_live := False\<rparr> = ?f" by (simp add: course_form_init_def ex_course_def)
  obtain db' where "edit_course_save (\<lambda>_. True) (Some ''u2'') ''c1'' (\<lambda>_. False) (\<lambda>_. ''l9'') False (False, False)
           (?f\<lparr>co_live := False\<rparr>) ex_pages_db = Some (Inr db')"
    using ex_pages_course_save [where tfl = "(False, False)" and tids = "[]" and lv = False] by blast
  then have sv: "edit_course_save (\<lambda>_. True) (Some ''u2'') ''c1'' (\<lambda>_. False) (\<lambda>_. ''l9'') False (False, False)
           ?f ex_pages_db = Some (Inr db')"
    by (simp only: f)
  have "item_tag_ids KCourse ''c1'' ex_pages_db = [''t1'']" by (simp add: ex_pages_db_def item_tag_ids_def tag_link_def)
  then show ?thesis using edit_course_tag_read_failure_unlinks [OF p sv] p sv by auto
qed

end
