(* ===== verification/ContentBody.thy ===== *)
theory ContentBody
  imports Forms Schema
begin

text \<open>
  The body of a content on its detail page (\<open>src/app/(main)/contents/[id]/page.tsx\<close>): a body
  starting with \<open><\<close> is HTML from the rich editor and is inserted as it is; any other body
  goes through \<open>renderBody\<close> (lines 14--46), a small Markdown-like renderer: paragraphs
  separated by a blank line, \<open>## \<close> headings, \<open>- \<close> lists, and \<open>**bold**\<close> inline
  (\<open>renderInlineFormatting\<close>, lines 48--60). The rendered document is a value of
  \<open>block\<close>; its React keys and classes are not modelled.
\<close>

subsection \<open>String built-ins\<close>

text \<open>\<open>body.split('\n\n')\<close>: the pieces between the non-overlapping blank lines, scanning from the
  left.\<close>

fun split_paragraphs :: "string \<Rightarrow> string \<Rightarrow> string list" where
  "split_paragraphs acc [] = [acc]"
| "split_paragraphs acc (CHR ''\<newline>'' # CHR ''\<newline>'' # s) = acc # split_paragraphs [] s"
| "split_paragraphs acc (c # s) = split_paragraphs (acc @ [c]) s"

text \<open>\<open>s.includes(pat)\<close> and \<open>s.replace(pat, rep)\<close> with a string pattern: the first occurrence
  only.\<close>

fun js_includes :: "string \<Rightarrow> string \<Rightarrow> bool" where
  "js_includes pat [] = (pat = [])"
| "js_includes pat (c # s) = (prefix pat (c # s) \<or> js_includes pat s)"

fun js_replace_first :: "string \<Rightarrow> string \<Rightarrow> string \<Rightarrow> string" where
  "js_replace_first pat rep [] = (if pat = [] then rep else [])"
| "js_replace_first pat rep (c # s) =
     (if prefix pat (c # s) then rep @ drop (length pat) (c # s) else c # js_replace_first pat rep s)"

subsection \<open>\<open>renderInlineFormatting\<close>\<close>

text \<open>The regular expression \<open>\*\*[^*]+\*\*\<close> matched at the start of a string: two stars, a
  non-empty run of other characters, two stars. \<open>[^*]+\<close> is greedy and the character after
  it is a star, so there is nothing to backtrack: the match is unique when it exists. It gives
  the run and the rest of the string.\<close>

definition bold_match :: "string \<Rightarrow> (string \<times> string) option" where
  "bold_match s =
     (if take 2 s = ''**'' then
        (let r = drop 2 s; w = takeWhile (\<lambda>c. c \<noteq> CHR ''*'') r; r' = dropWhile (\<lambda>c. c \<noteq> CHR ''*'') r
         in if w \<noteq> [] \<and> take 2 r' = ''**'' then Some (w, drop 2 r') else None)
      else None)"

text \<open>\<open>text.split(/(\*\*[^*]+\*\*)/)\<close> after ECMAScript's \<open>RegExp.prototype[@@split]\<close>: the
  regular expression is tried at each position from the left; the text before a match and
  the match itself (the capture group) are emitted, and the scan resumes after the match.
  \<open>acc\<close> is the text since the last match.\<close>

function bold_split :: "string \<Rightarrow> string \<Rightarrow> string list" where
  "bold_split acc [] = [acc]"
| "bold_split acc (c # s) =
     (case bold_match (c # s) of
        Some (w, r) \<Rightarrow> acc # (''**'' @ w @ ''**'') # bold_split [] r
      | None \<Rightarrow> bold_split (acc @ [c]) s)"
  by pat_completeness auto
termination
proof (relation "measure (\<lambda>(_, s). length s)", simp_all)
  fix c s x2 w r
  assume "bold_match (c # s) = Some x2" "(w, r) = x2"
  then have r: "r = drop 2 (dropWhile (\<lambda>c. c \<noteq> CHR ''*'') (drop 2 (c # s)))"
    by (auto simp: bold_match_def Let_def split: if_splits)
  have "length (dropWhile (\<lambda>c. c \<noteq> CHR ''*'') (drop 2 (c # s))) \<le> length (drop 2 (c # s))"
    by (rule length_dropWhile_le)
  then show "length r < Suc (length s)" by (simp add: r)
qed

datatype inline = Plain string | Bold string

text \<open>Each part: \<open>part.startsWith('**') && part.endsWith('**')\<close> gives \<open><strong>\<close> of
  \<open>part.slice(2, -2)\<close>, anything else a \<open><span>\<close> of the part.\<close>

definition render_part :: "string \<Rightarrow> inline" where
  "render_part p =
     (if prefix ''**'' p \<and> suffix ''**'' p then Bold (take (length p - 4) (drop 2 p)) else Plain p)"

definition render_inline :: "string \<Rightarrow> inline list" where
  "render_inline t = map render_part (bold_split [] t)"

subsection \<open>\<open>renderBody\<close>\<close>

datatype block = Heading string | Bullets "inline list list" | Para "inline list"

text \<open>A paragraph starting with \<open>## \<close> is a heading without that prefix. One that starts with
  \<open>- \<close> or contains a line starting with \<open>- \<close> is a list of its lines that start with
  \<open>- \<close>; its other lines are not rendered. Anything else is a paragraph.\<close>

definition render_block :: "string \<Rightarrow> block" where
  "render_block p =
     (if prefix ''## '' p then Heading (js_replace_first ''## '' [] p)
      else if js_includes ''\<newline>- '' p \<or> prefix ''- '' p then
        Bullets (map (\<lambda>l. render_inline (js_replace_first ''- '' [] l)) (filter (prefix ''- '') (js_split CHR ''\<newline>'' p)))
      else Para (render_inline p))"

definition render_body :: "string \<Rightarrow> block list" where
  "render_body body = map render_block (split_paragraphs [] body)"

datatype body_view = BodyHtml string | BodyBlocks "block list"

text \<open>Lines 172--181: \<open>content.body.startsWith('<')\<close> chooses the HTML or the renderer.\<close>

definition body_view :: "content \<Rightarrow> body_view" where
  "body_view c = (if prefix ''<'' (ct_body c) then BodyHtml (ct_body c) else BodyBlocks (render_body (ct_body c)))"

subsection \<open>Lemmas\<close>

lemma bold_match_SomeD:
  assumes "bold_match s = Some (w, r)"
  shows "s = ''**'' @ w @ ''**'' @ r \<and> w \<noteq> [] \<and> CHR ''*'' \<notin> set w"
proof -
  let ?r = "drop 2 s"
  have t: "take 2 s = ''**''" and w: "w = takeWhile (\<lambda>c. c \<noteq> CHR ''*'') ?r" and wn: "w \<noteq> []"
    and r2: "take 2 (dropWhile (\<lambda>c. c \<noteq> CHR ''*'') ?r) = ''**''"
    and r: "r = drop 2 (dropWhile (\<lambda>c. c \<noteq> CHR ''*'') ?r)"
    using assms by (auto simp: bold_match_def Let_def split: if_splits)
  have "s = ''**'' @ ?r" using t by (metis append_take_drop_id)
  also have "?r = w @ dropWhile (\<lambda>c. c \<noteq> CHR ''*'') ?r" by (simp add: w)
  also have "dropWhile (\<lambda>c. c \<noteq> CHR ''*'') ?r = ''**'' @ r" using r2 r by (metis append_take_drop_id)
  finally have "s = ''**'' @ w @ ''**'' @ r" by simp
  moreover have "CHR ''*'' \<notin> set w"
  proof
    assume "CHR ''*'' \<in> set w"
    then show False unfolding w by (blast dest: set_takeWhileD)
  qed
  ultimately show ?thesis using wn by blast
qed

lemma bold_match_plain:
  assumes "\<not> prefix ''**'' s"
  shows "bold_match s = None"
proof -
  have "take 2 s \<noteq> ''**''"
  proof
    assume "take 2 s = ''**''"
    then have "prefix ''**'' s" by (metis append_take_drop_id prefixI)
    with assms show False ..
  qed
  then show ?thesis by (simp add: bold_match_def)
qed

lemma bold_match_word:
  "w \<noteq> [] \<Longrightarrow> CHR ''*'' \<notin> set w \<Longrightarrow> bold_match (''**'' @ w @ ''**'' @ r) = Some (w, r)"
  by (simp add: bold_match_def Let_def takeWhile_append dropWhile_append)

text \<open>The split keeps every character: the parts put together are the text.\<close>

lemma bold_split_concat: "concat (bold_split acc s) = acc @ s"
proof (induction acc s rule: bold_split.induct)
  case (2 acc c s)
  then show ?case
    by (auto split: option.splits dest!: bold_match_SomeD)
qed simp

lemma bold_split_no_star: "CHR ''*'' \<notin> set s \<Longrightarrow> bold_split acc s = [acc @ s]"
proof (induction s arbitrary: acc)
  case (Cons c s)
  then show ?case by (simp add: bold_match_plain)
qed simp

lemma bold_split_plain_prefix:
  "CHR ''*'' \<notin> set a \<Longrightarrow> bold_split acc (a @ s) = bold_split (acc @ a) s"
proof (induction a arbitrary: acc)
  case (Cons c a)
  then show ?case by (simp add: bold_match_plain)
qed simp

lemma render_inline_bold:
  assumes "w \<noteq> []" "CHR ''*'' \<notin> set a \<union> set w \<union> set b"
  shows "render_inline (a @ ''**'' @ w @ ''**'' @ b) = [Plain a, Bold w, Plain b]"
proof -
  have "bold_split [] (a @ ''**'' @ w @ ''**'' @ b) = bold_split a (''**'' @ w @ ''**'' @ b)"
    using bold_split_plain_prefix [of a "[]"] assms by simp
  also have "\<dots> = [a, ''**'' @ w @ ''**'', b]"
    using assms bold_match_word [of w b, simplified] by (simp add: bold_split_no_star)
  finally have "bold_split [] (a @ ''**'' @ w @ ''**'' @ b) = [a, ''**'' @ w @ ''**'', b]" .
  moreover have "render_part a = Plain a" "render_part b = Plain b"
    using assms by (auto simp: render_part_def prefix_def)
  moreover have "render_part (''**'' @ w @ ''**'') = Bold w"
  proof -
    have "suffix ''**'' (''**'' @ w @ ''**'')" by (rule suffixI [of _ "''**'' @ w"]) simp
    then show ?thesis by (simp add: render_part_def)
  qed
  ultimately show ?thesis by (simp add: render_inline_def)
qed

lemma js_split_append:
  "c \<notin> set a \<Longrightarrow> js_split c (a @ c # r) = a # js_split c r"
  by (induction a) auto

lemma js_includes_prefix: "prefix pat s \<Longrightarrow> js_includes pat s"
  by (cases s) (auto simp: prefix_def)

lemma js_includes_append: "js_includes pat s \<Longrightarrow> js_includes pat (a @ s)"
  by (induction a) auto

text \<open>C34: A paragraph whose first line is ordinary text and whose next line is a list item is
  rendered as the list alone: \<open>renderBody\<close> keeps only the lines of a list paragraph that
  start with \<open>- \<close>, so the first line is not shown at all.\<close>

theorem render_block_drops_first_line:
  assumes "CHR ''\<newline>'' \<notin> set a" "\<not> prefix ''- '' a" "\<not> prefix ''#'' a" "prefix ''- '' r"
  shows "render_block (a @ ''\<newline>'' @ r) = render_block r"
proof -
  obtain zs where r: "r = ''- '' @ zs" using assms(4) by (auto simp: prefix_def)
  have nh: "\<not> prefix ''## '' (a @ ''\<newline>'' @ r)" using assms(3)
    by (cases a) (auto simp: prefix_def)
  have "js_includes ''\<newline>- '' (''\<newline>- '' @ zs)" by (rule js_includes_prefix) simp
  then have inc: "js_includes ''\<newline>- '' (a @ ''\<newline>'' @ r)"
    using js_includes_append [of _ _ a] by (simp add: r)
  have lines: "js_split CHR ''\<newline>'' (a @ ''\<newline>'' @ r) = a # js_split CHR ''\<newline>'' r"
    using js_split_append [OF assms(1)] by simp
  show ?thesis using nh inc lines assms(2)
    by (simp add: render_block_def r)
qed


theorem render_block_drops_first_line_witness:
  "CHR ''\<newline>'' \<notin> set ''Intro:'' \<and> \<not> prefix ''- '' ''Intro:'' \<and> \<not> prefix ''#'' ''Intro:'' \<and>
   prefix ''- '' ''- one'' \<and> render_block (''Intro:'' @ ''\<newline>'' @ ''- one'') = render_block ''- one'' \<and>
   render_block ''- one'' = Bullets [[Plain ''one'']]"
proof -
  have "render_block ''- one'' = Bullets [[Plain ''one'']]"
    by (simp add: render_block_def render_inline_def bold_match_def render_part_def)
  then show ?thesis using render_block_drops_first_line [of "''Intro:''" "''- one''"] by simp
qed

end
