(* ===== verification/Spec2Isabelle.thy ===== *)
theory Spec2Isabelle
  imports AdminSystem Catalogue Enrollment Reactions Chat Browse MyPages ProfileSettings AdminForms AdminPages ContentBody
begin

text \<open>
  \<^bold>\<open>A verification library for Jobjindam.\<close> Jobjindam is a Next.js application
  (sources under \<open>src/\<close>) on a hosted Postgres store reached through the Supabase client.
  Its parts are:
  \<^item> the home page with its curated sections;
  \<^item> the public catalogue of courses, contents and job postings, with listings, detail
    pages and a tag search;
  \<^item> course enrolment;
  \<^item> likes and bookmarks;
  \<^item> a chat with realtime delivery;
  \<^item> an admin area with curation, member management, catalogue editing and admin
    sign-in and sign-up.

  Server actions (\<open>src/app/actions/*.ts\<close>) and client components write to the store;
  pages read it. The store is the one shared state, and every part interacts through it.

  \<^bold>\<open>Shape of the model.\<close> A shallow embedding:
  \<^item> the store is a record of tables (\<open>Schema.db\<close>), each table a list of rows in the
    order the store returns them;
  \<^item> every action, handler or page is a HOL function of its inputs and the store,
    returning its result and the new store;
  \<^item> every store call that can fail has a fault flag (a \<open>bool\<close>, or a function from the
    action's calls to \<open>bool\<close>);
  \<^item> a failed read yields \<open>null\<close>, as the client does; a failed write whose error the code
    ignores leaves the store unchanged and the code goes on;
  \<^item> a thrown error is the left side of a sum (\<open>error + 'a\<close>).

  PostgREST calls become list operations:
  \<^item> \<open>.eq\<close>/\<open>.in\<close> are filters (\<open>Prelude.where_in\<close>);
  \<^item> \<open>.order\<close> is a stable sort (\<open>Prelude.order_by\<close>);
  \<^item> \<open>.single()\<close>/\<open>.maybeSingle()\<close> give the row when exactly one matches and \<open>null\<close>
    otherwise (\<open>Prelude.single_data\<close>);
  \<^item> an insert appends.

  JavaScript built-ins the code relies on are defined after the ECMAScript rules:
  \<open>parseInt\<close>, \<open>String(n)\<close>, \<open>parseFloat\<close>, \<open>Math.round\<close>, \<open>split\<close>/\<open>join\<close>, \<open>trim\<close>,
  \<open>%\<close> and \<open>FormData\<close> (\<open>Forms\<close>, \<open>Chat.js_trim\<close>, \<open>Browse.js_rem\<close>).
  Client components are records of their React state with one function per handler.
  Concurrency is modelled as interleavings: an action split into its read phase and its
  write phase, two clients' handlers applied in sequence to the same store, or a list of
  events reaching a hook.

  \<^bold>\<open>Theories and what they model.\<close>
  \<^item> \<open>Prelude\<close>: query helpers and shared lemmas on lists, options and maps.
    \<open>Schema\<close>: the rows of \<open>src/types/database.ts\<close>, with the chat tables.
  \<^item> \<open>Resolver\<close>: \<open>loadFeaturedSection\<close> and \<open>HomePage\<close> of \<open>src/app/(main)/page.tsx\<close>.
    Curated items come first, ordered by the override's display order; the fallback query
    fills up to the limit. The lemmas cover distinctness, ordering, length, orphan
    overrides, ties and the failure of each query. Over the sorted featured rows, the
    sort-key map gives an id the largest display order of its rows (C1--C8).
  \<^item> \<open>Forms\<close>: \<open>parseInt\<close>, \<open>String\<close>, \<open>parseFloat\<close>, \<open>Math.round\<close>, FormData, and their
    round trips.
  \<^item> \<open>Admin\<close>: the curation actions of \<open>src/app/actions/admin.ts\<close> and
    \<open>FeaturedManager\<close>; \<open>requireAdmin\<close> and \<open>requireSuperAdmin\<close>; the admin layout, the
    pending page and \<open>MemberManager\<close> (C9--C13).
  \<^item> \<open>Accounts\<close>: the admin login and sign-up pages (the profile upsert and the six-read
    wait) and the dashboard (C14--C15). The wait always ends, within six reads (C15).
    A lemma shows a latent bug: once the super-admin list is imported correctly, a failed
    profile read at login demotes an approved admin.
  \<^item> \<open>AdminSystem\<close>: every admin-side writer as one step relation \<open>admin_step\<close>, and
    the invariant it keeps: overrides well formed, admin flags agreeing with roles,
    profile ids distinct. The screens keep the invariant, and the server action does not.
  \<^item> \<open>Catalogue\<close>: the create, update and delete actions for courses, contents, jobs and
    banners, \<open>syncTags\<close>, and the forms' client logic (tag selector, curriculum editor,
    focal drag) (C17--C18).
  \<^item> \<open>AdminForms\<close>: the four admin editors (\<open>JobForm\<close>, \<open>ContentForm\<close>, \<open>CourseForm\<close>,
    \<open>BannerForm\<close>) and \<open>ImageUploader\<close> as the browser runs them. A form is its named
    controls (kind and \<open>required\<close> attribute), the values the browser holds for them, and
    the React state behind the hidden inputs. Each handler is an event of a step function.
    A submission is constraint validation followed by FormData in document order.
    \<open>dom_wf\<close> is the controls' typing (every select holds one of its options). Every
    event keeps it, so the job editor only submits what \<open>jobFields\<close> parses with the
    required columns filled (C20). An unchanged job round-trips (C21). Saving a course
    editor opened before an enrolment overwrites the enrolment count (C22). A curriculum
    stored as JSON opens in the editor empty and is erased by saving the form (C19).
  \<^item> \<open>AdminPages\<close>: the admin list, edit and new pages, which compose the editors with
    the actions: the edit page's reads, \<open>notFound\<close>, the editor seeded from the row, and
    the update action bound to the id. Saving a course from its edit page keeps its tag
    links (C23), unless the page's read of the links failed, which unlinks them all (C24).
    A banner saved from its edit page links only to rows that existed when the page was
    loaded (C25). On a posting's deadline day the admin job list shows it closed while the
    public card shows it open (C26).
  \<^item> \<open>Enrollment\<close>: \<open>enrollCourse\<close> and \<open>cancelEnrollment\<close>, the enrol button, the course
    page and my courses. The step relation \<open>enroll_step\<close> keeps the course counters equal
    to the active enrolments (C27). The re-enrolment path through \<open>maybeSingle\<close>, the
    interleaved enrolments and the failed counter update break it (C28--C30).
  \<^item> \<open>Reactions\<close>: \<open>toggleLike\<close>, \<open>toggleBookmark\<close>, \<open>LikeButton\<close>, \<open>BookmarkButton\<close> and
    the content page. \<open>like_step\<close> keeps like counts equal to likes (C31). The button
    refines the action on a fresh page (C32); stale pages break the count (C33).
  \<^item> \<open>ContentBody\<close>: the content page's body, HTML or \<open>renderBody\<close> with
    \<open>renderInlineFormatting\<close>, including ECMAScript's split on a regular expression with a
    capture group, which keeps every character. Bold works on a marked word. A list
    paragraph drops its lines that are not items, so an introductory line above a list
    disappears (C34).
  \<^item> \<open>Chat\<close>: \<open>useChat\<close> as a trace model, where the hook state is a fold over the
    events that reach it; \<open>sendMessage\<close>, \<open>ChatInput\<close>, \<open>ChatMessages\<close>,
    \<open>CreateChatButton\<close>, the room list and the room header. Two properties: the
    oldest-hundred window and the race between the fetch and realtime (C35--C36).
  \<^item> \<open>Browse\<close>: the hero carousel, the home page's layout (the carousel or the default
    hero, and each section's cards or empty notice), the session route guard, the tag
    search, the three listings and the cards. The home page mounts the carousel only on
    a non-empty list of at most five active banners, so it never crashes there; for a
    fixed list the carousel never leaves it. Autoplay shows every banner within as many
    timer ticks as there are banners (C37). A course tagged by \<open>syncTags\<close> is found by
    the search (C38); this property spans the admin catalogue and the public search.
  \<^item> \<open>MyPages\<close>: the signed-in user's pages \<open>my/page.tsx\<close> and \<open>my/bookmarks/page.tsx\<close>,
    and the user sign-in and sign-up pages under \<open>src/app/(auth)\<close>. Its lemmas are not
    claims:
    \<^item> a content bookmarked with \<open>toggleBookmark\<close> heads the bookmarks page;
    \<^item> the my page counts both enrolments of the re-enrolment path (C28);
    \<^item> after \<open>deleteContent\<close> a bookmark of the content leaves a page that is neither
      empty nor filled;
    \<^item> the auth pages leave their loading state exactly when they show an error.
  \<^item> \<open>ProfileSettings\<close>: \<open>updateProfile\<close> (\<open>src/app/actions/profile.ts\<close>) and the settings
    page (\<open>src/app/(main)/my/settings/page.tsx\<close>): its mount load, \<open>handleSave\<close>, the
    inputs, the saved timer and the button. \<open>account_step\<close> joins these profile writers
    to \<open>admin_step\<close>. Every reachable store keeps the admin invariant (C16). A save and
    the next load agree (C39). The lemmas show three bugs:
    \<^item> a signed-out save leaves the page loading;
    \<^item> a failed save is reported as saved;
    \<^item> \<open>updateProfile\<close> erases omitted interests.

  \<^bold>\<open>Bounds and fuel.\<close> The only loop that may not end is the sign-up page's wait for
  the profile row. The code bounds it at six reads, so \<open>Accounts.poll_profile\<close> is a
  \<open>function\<close> with the measure \<open>6 - i\<close> and needs no fuel. Every other operation is
  structural recursion or a fold. The carousel's timer is an event among the others. The
  liveness property counts the ticks explicitly: at most as many as there are banners.

  \<^bold>\<open>Assumptions on the store.\<close>
  \<^item> The NOT NULL columns the code reads are present.
  \<^item> \<open>content_tags.tag_id\<close> references \<open>tags\<close>: an insert naming a missing tag fails as a
    whole.
  \<^item> Sorts are stable, and an insert appends.
  \<^item> \<open>created_at\<close>/\<open>published_at\<close> are set at insert, so newest-first is the reverse of
    insertion order.
  \<^item> There is no unique constraint on enrolments, likes or bookmarks (the schema is not
    part of the repository).
  \<^item> A profile row inserted by an upsert has no target job, no preparation stage and no
    interests. An upsert on an existing id sets only the columns it names.

  \<^bold>\<open>Not modelled.\<close>
  \<^item> Pure rendering: layouts, \<open>Header\<close>, \<open>BottomNav\<close>, \<open>Carousel\<close>, \<open>CategoryGrid\<close>,
    styling, date formatting, the constants' display names, and \<open>ContentCard\<close>'s view-count
    label (\<open>toFixed\<close> on a binary float).
  \<^item> The internals of \<open>RichEditor\<close>, a wrapper around the third-party TipTap editor. The
    forms take the HTML it puts in its hidden input as a parameter \<open>html\<close> of the seed.
  \<^item> The browser's URL syntax check (a parameter \<open>url_ok\<close>), JavaScript's \<open>String\<close> of a
    fractional number (a parameter \<open>num_str\<close>), the storage client's public URL (a
    parameter) and the rating input's \<open>step\<close> constraint.
  \<^item> The store client's construction (\<open>src/app/lib/supabase.ts\<close>).
  \<^item> The developer script \<open>src/auto-dev.js\<close>, which calls an external API.
  \<^item> The session helpers \<open>lib/auth/session\<close>: they are not under \<open>src/\<close> and are
    modelled from their use (\<open>requireAuth\<close> redirects a signed-out user).
  \<^item> The calls to the authentication service. The sign-in and sign-up pages see only
    their outcome, a flag.
  \<^item> The course page's curriculum view, which would need the stored JSON's shape: the
    model keeps a JSON curriculum as its text.
\<close>

end
